(* ===== verification/Prelude.thy ===== *)
theory Prelude
  imports Main "HOL-Library.Word"
begin

text \<open>
  Shared vocabulary of the development: the machine integer types of the C++ source, the
  bit tests and shifts the source writes with \<open>&\<close>, \<open><<\<close> and \<open>>>\<close>, the result type of a
  function that may leave through \<open>longjmp\<close> or \<open>ABORT_F\<close>, and the generic lemmas on words
  the components share. Three collections carry the component proofs: \<open>bits\<close> holds the
  bit-level facts about masks, \<open>nums\<close> the bridges from words to natural numbers, \<open>frame\<close> what an
  operation leaves alone.
\<close>

unbundle bit_operations_syntax

named_theorems bits
named_theorems nums
named_theorems frame

subsection \<open>Machine integers\<close>

type_synonym u8 = "8 word"
type_synonym u16 = "16 word"
type_synonym u32 = "32 word"
type_synonym u64 = "64 word"

text \<open>C's \<open>x & m\<close> used as a condition.\<close>

definition tst :: "'a::len word \<Rightarrow> 'a word \<Rightarrow> bool" where
  "tst x m \<longleftrightarrow> x AND m \<noteq> 0"

text \<open>C's \<open>bool\<close> to integer conversion.\<close>

definition of_flag :: "bool \<Rightarrow> 'a::len word" where
  "of_flag b = (if b then 1 else 0)"

lemma of_flag_simps [simp]: "of_flag True = 1" "of_flag False = 0"
  by (simp_all add: of_flag_def)

text \<open>
  The results of a function of the interpreter: it returns a value and a state, or it leaves
  through \<open>longjmp(exc_env, 2)\<close> or a C++ exception with the state at that moment, or it stops
  the emulator with \<open>ABORT_F\<close>.
\<close>

datatype ('v, 's) outcome = Ret 'v 's | LongJmp 's | Throw string 's | Abort string

fun obind :: "('v, 's) outcome \<Rightarrow> ('v \<Rightarrow> 's \<Rightarrow> ('w, 's) outcome) \<Rightarrow> ('w, 's) outcome" where
  "obind (Ret v s) f = f v s"
| "obind (LongJmp s) f = LongJmp s"
| "obind (Throw m s) f = Throw m s"
| "obind (Abort m) f = Abort m"

lemma obind_eq_Ret:
  "obind m f = Ret w t \<longleftrightarrow> (\<exists>v s. m = Ret v s \<and> f v s = Ret w t)"
  by (cases m) auto

lemma obind_Ret_right [simp]: "obind m Ret = m"
  by (cases m) auto

lemma obind_assoc: "obind (obind m f) g = obind m (\<lambda>v s. obind (f v s) g)"
  by (cases m) auto

subsection \<open>Bits of words\<close>

lemma tst_pow2: "tst x (2 ^ n) \<longleftrightarrow> bit x n" for x :: "'a::len word"
proof -
  have "x AND 2 ^ n = (if bit x n then 2 ^ n else 0)"
    by (rule bit_word_eqI) (auto simp: bit_and_iff bit_exp_iff)
  moreover have "bit x n \<Longrightarrow> (2 ^ n :: 'a word) \<noteq> 0"
    by (metis bit_imp_le_length exp_eq_zero_iff leD)
  ultimately show ?thesis by (auto simp: tst_def)
qed

lemma tst_1 [simp]: "tst x 1 \<longleftrightarrow> odd x" for x :: "'a::len word"
  using tst_pow2 [of x 0] by (simp add: bit_0)

lemma bit_sign_u32: "sint x < 0 \<longleftrightarrow> bit x 31" for x :: u32
  by (simp add: sint_uint bit_last_iff [symmetric] bit_simps not_le flip: bit_uint_iff)

lemma u32_bit_ge: "32 \<le> n \<Longrightarrow> \<not> bit (x :: u32) n"
  by (auto dest: bit_imp_le_length)

lemma and_mask_unat [nums]: "unat (x AND mask n) = unat x mod 2 ^ n" for x :: "'a::len word"
  by (metis take_bit_eq_mask take_bit_eq_mod unsigned_take_bit_eq)

lemma unat_drop_bit [nums]: "unat (drop_bit n x) = unat x div 2 ^ n" for x :: "'a::len word"
  by (rule trans [OF unat_drop_bit_eq drop_bit_eq_div])

lemma unat_push_bit [nums]: "unat (push_bit n x) = (unat x * 2 ^ n) mod 2 ^ LENGTH('a)"
  for x :: "'a::len word"
  by (metis push_bit_eq_mult take_bit_eq_mod unsigned_push_bit_eq)

lemma unat_ucast_mod: "unat (ucast x :: 'b::len word) = unat x mod 2 ^ LENGTH('b)"
  for x :: "'a::len word"
  by (simp add: unsigned_ucast_eq take_bit_eq_mod)

lemma unat_u32_less: "unat (x :: u32) < 4294967296"
  using unsigned_less [of x] by simp

lemma unat_u64_less: "unat (x :: u64) < 18446744073709551616"
  using unsigned_less [of x] by simp

lemma unat_ucast_u32_u64 [nums]: "unat (ucast (x :: u32) :: u64) = unat x"
  using unat_u32_less [of x] by (simp add: unat_ucast_mod)

lemma unat_u64_hi: "unat (x :: u64) div 4294967296 < 4294967296"
  using unat_u64_less [of x] by (intro less_mult_imp_div_less) simp

text \<open>Bits past the width of a word are clear; equality of words bit by bit.\<close>

lemma u8_bit_ge [bits]: "8 \<le> n \<Longrightarrow> \<not> bit (x :: u8) n"
  by (auto dest: bit_imp_le_length)

lemma u16_bit_ge [bits]: "16 \<le> n \<Longrightarrow> \<not> bit (x :: u16) n"
  by (auto dest: bit_imp_le_length)

lemma u64_bit_ge [bits]: "64 \<le> n \<Longrightarrow> \<not> bit (x :: u64) n"
  by (auto dest: bit_imp_le_length)

declare u32_bit_ge [bits]

lemma all_less_32:
  "(\<forall>i<32. P i) \<longleftrightarrow>
     P (0::nat) \<and> P 1 \<and> P 2 \<and> P 3 \<and> P 4 \<and> P 5 \<and> P 6 \<and> P 7 \<and> P 8 \<and> P 9 \<and> P 10 \<and>
     P 11 \<and> P 12 \<and> P 13 \<and> P 14 \<and> P 15 \<and> P 16 \<and> P 17 \<and> P 18 \<and> P 19 \<and> P 20 \<and> P 21 \<and>
     P 22 \<and> P 23 \<and> P 24 \<and> P 25 \<and> P 26 \<and> P 27 \<and> P 28 \<and> P 29 \<and> P 30 \<and> P 31"
  by (simp add: eval_nat_numeral All_less_Suc) blast

lemma u32_eqI: "(\<forall>i<32. bit x i = bit y i) \<Longrightarrow> x = y" for x y :: u32
  by (rule bit_word_eqI) simp

end
