(* ===== verification/CoreUtils.thy ===== *)
theory CoreUtils
  imports Prelude
begin

text \<open>
  The arithmetic helpers of \<open>src/core\<close>: rotations and bit fields (\<open>bitops.h\<close>), the wide
  multiplications the time base is built on (\<open>mathutils.h\<close>), byte swapping
  (\<open>endianswap.h\<close>) and the byte-order aware memory accesses (\<open>memaccess.h\<close>).
\<close>

subsection \<open>bitops.h\<close>

definition ROTL_32 :: "u32 \<Rightarrow> nat \<Rightarrow> u32" where
  "ROTL_32 x n =
     (let n = n mod 32
      in if n \<noteq> 0 then push_bit n x OR drop_bit (32 - n) x else x)"

definition ROTR_32 :: "u32 \<Rightarrow> nat \<Rightarrow> u32" where
  "ROTR_32 x n =
     (let n = n mod 32
      in if n \<noteq> 0 then drop_bit n x OR push_bit (32 - n) x else x)"

definition field_mask :: "nat \<Rightarrow> 'a::len word" where
  "field_mask len = (if len = LENGTH('a) then - 1 else push_bit len 1 - 1)"

definition extract_bits :: "'a::len word \<Rightarrow> nat \<Rightarrow> nat \<Rightarrow> 'a word" where
  "extract_bits val pos len = drop_bit pos val AND field_mask len"

definition insert_bits :: "'a::len word \<Rightarrow> 'a word \<Rightarrow> nat \<Rightarrow> nat \<Rightarrow> 'a word" where
  "insert_bits old_val new_val pos len =
     (let m = push_bit pos (field_mask len)
      in (old_val AND NOT m) OR (push_bit pos new_val AND m))"

definition bit_changed :: "u64 \<Rightarrow> u64 \<Rightarrow> nat \<Rightarrow> bool" where
  "bit_changed old_val new_val bit_num = tst (old_val XOR new_val) (push_bit bit_num 1)"

definition bit_set :: "u64 \<Rightarrow> nat \<Rightarrow> bool" where
  "bit_set val bit_num = tst val (push_bit bit_num 1)"

definition clear_bit :: "'a::len word \<Rightarrow> nat \<Rightarrow> 'a word" where
  "clear_bit val bit_num = val AND NOT (push_bit bit_num 1)"

definition set_bit_at :: "'a::len word \<Rightarrow> nat \<Rightarrow> 'a word" where
  "set_bit_at val bit_num = val OR push_bit bit_num 1"

definition extract_with_wrap_around :: "u32 \<Rightarrow> nat \<Rightarrow> nat \<Rightarrow> u32" where
  "extract_with_wrap_around val pos sz =
     ucast (drop_bit ((8 - pos mod 4 - sz) * 8) (push_bit 32 (ucast val) OR ucast val :: u64))
     AND ucast (push_bit (sz * 8) 1 - 1 :: u64)"

subsection \<open>mathutils.h\<close>

text \<open>The overload with a 32-bit high and a 64-bit low part.\<close>

definition u32xu64_lo64 :: "u32 \<Rightarrow> u64 \<Rightarrow> u32 \<times> u64" where
  "u32xu64_lo64 a b =
     (let p0 = (b AND 0xffffffff) * ucast a;
          p1 = drop_bit 32 b * ucast a;
          lo = p0 + push_bit 32 p1;
          hi = ucast (drop_bit 32 p1 + of_flag (lo < p0))
      in (hi, lo))"

text \<open>The overload with a 64-bit high and a 32-bit low part.\<close>

definition u32xu64_lo32 :: "u32 \<Rightarrow> u64 \<Rightarrow> u64 \<times> u32" where
  "u32xu64_lo32 a b =
     (let p0 = (b AND 0xffffffff) * ucast a;
          p1 = drop_bit 32 b * ucast a;
          lo = ucast p0;
          hi = drop_bit 32 p0 + p1
      in (hi, lo))"

definition u64xu64 :: "u64 \<Rightarrow> u64 \<Rightarrow> u64 \<times> u64" where
  "u64xu64 a b =
     (let (p0h, p0l) = u32xu64_lo64 (ucast b) a;
          (p1h, p1l) = u32xu64_lo32 (ucast (drop_bit 32 b)) a;
          lo = p0l + push_bit 32 (ucast p1l);
          hi = ucast p0h + p1h + of_flag (lo < p0l)
      in (hi, lo))"

subsection \<open>endianswap.h\<close>

definition BYTESWAP_16 :: "u16 \<Rightarrow> u16" where
  "BYTESWAP_16 x = drop_bit 8 x OR push_bit 8 x"

definition BYTESWAP_32 :: "u32 \<Rightarrow> u32" where
  "BYTESWAP_32 x =
     push_bit 24 (x AND 0x000000FF) OR push_bit 8 (x AND 0x0000FF00)
     OR drop_bit 8 (x AND 0x00FF0000) OR drop_bit 24 (x AND 0xFF000000)"

definition BYTESWAP_64 :: "u64 \<Rightarrow> u64" where
  "BYTESWAP_64 x =
     push_bit 56 (x AND 0x00000000000000FF) OR push_bit 40 (x AND 0x000000000000FF00)
     OR push_bit 24 (x AND 0x0000000000FF0000) OR push_bit 8 (x AND 0x00000000FF000000)
     OR drop_bit 8 (x AND 0x000000FF00000000) OR drop_bit 24 (x AND 0x0000FF0000000000)
     OR drop_bit 40 (x AND 0x00FF000000000000) OR drop_bit 56 (x AND 0xFF00000000000000)"

subsection \<open>memaccess.h\<close>

text \<open>
  Host memory is a map from host addresses to bytes. The aligned accessors are a native
  access of a little-endian host followed by a byte swap.
\<close>

type_synonym hmem = "u64 \<Rightarrow> u8"

definition native_read16 :: "hmem \<Rightarrow> u64 \<Rightarrow> u16" where
  "native_read16 m a = ucast (m a) OR push_bit 8 (ucast (m (a + 1)))"

definition native_read32 :: "hmem \<Rightarrow> u64 \<Rightarrow> u32" where
  "native_read32 m a =
     ucast (m a) OR push_bit 8 (ucast (m (a + 1)))
     OR push_bit 16 (ucast (m (a + 2))) OR push_bit 24 (ucast (m (a + 3)))"

definition native_read64 :: "hmem \<Rightarrow> u64 \<Rightarrow> u64" where
  "native_read64 m a =
     ucast (m a) OR push_bit 8 (ucast (m (a + 1)))
     OR push_bit 16 (ucast (m (a + 2))) OR push_bit 24 (ucast (m (a + 3)))
     OR push_bit 32 (ucast (m (a + 4))) OR push_bit 40 (ucast (m (a + 5)))
     OR push_bit 48 (ucast (m (a + 6))) OR push_bit 56 (ucast (m (a + 7)))"

definition native_write16 :: "hmem \<Rightarrow> u64 \<Rightarrow> u16 \<Rightarrow> hmem" where
  "native_write16 m a v = m(a := ucast v, a + 1 := ucast (drop_bit 8 v))"

definition native_write32 :: "hmem \<Rightarrow> u64 \<Rightarrow> u32 \<Rightarrow> hmem" where
  "native_write32 m a v =
     m(a := ucast v, a + 1 := ucast (drop_bit 8 v),
       a + 2 := ucast (drop_bit 16 v), a + 3 := ucast (drop_bit 24 v))"

definition native_write64 :: "hmem \<Rightarrow> u64 \<Rightarrow> u64 \<Rightarrow> hmem" where
  "native_write64 m a v =
     m(a := ucast v, a + 1 := ucast (drop_bit 8 v),
       a + 2 := ucast (drop_bit 16 v), a + 3 := ucast (drop_bit 24 v),
       a + 4 := ucast (drop_bit 32 v), a + 5 := ucast (drop_bit 40 v),
       a + 6 := ucast (drop_bit 48 v), a + 7 := ucast (drop_bit 56 v))"

definition READ_WORD_BE_A :: "hmem \<Rightarrow> u64 \<Rightarrow> u16" where
  "READ_WORD_BE_A m a = BYTESWAP_16 (native_read16 m a)"

definition READ_DWORD_BE_A :: "hmem \<Rightarrow> u64 \<Rightarrow> u32" where
  "READ_DWORD_BE_A m a = BYTESWAP_32 (native_read32 m a)"

definition READ_QWORD_BE_A :: "hmem \<Rightarrow> u64 \<Rightarrow> u64" where
  "READ_QWORD_BE_A m a = BYTESWAP_64 (native_read64 m a)"

definition WRITE_WORD_BE_A :: "hmem \<Rightarrow> u64 \<Rightarrow> u16 \<Rightarrow> hmem" where
  "WRITE_WORD_BE_A m a v = native_write16 m a (BYTESWAP_16 v)"

definition WRITE_DWORD_BE_A :: "hmem \<Rightarrow> u64 \<Rightarrow> u32 \<Rightarrow> hmem" where
  "WRITE_DWORD_BE_A m a v = native_write32 m a (BYTESWAP_32 v)"

definition WRITE_QWORD_BE_A :: "hmem \<Rightarrow> u64 \<Rightarrow> u64 \<Rightarrow> hmem" where
  "WRITE_QWORD_BE_A m a v = native_write64 m a (BYTESWAP_64 v)"

definition READ_WORD_BE_U :: "hmem \<Rightarrow> u64 \<Rightarrow> u16" where
  "READ_WORD_BE_U m a = push_bit 8 (ucast (m a)) OR ucast (m (a + 1))"

definition READ_DWORD_BE_U :: "hmem \<Rightarrow> u64 \<Rightarrow> u32" where
  "READ_DWORD_BE_U m a =
     push_bit 24 (ucast (m a)) OR push_bit 16 (ucast (m (a + 1)))
     OR push_bit 8 (ucast (m (a + 2))) OR ucast (m (a + 3))"

definition READ_QWORD_BE_U :: "hmem \<Rightarrow> u64 \<Rightarrow> u64" where
  "READ_QWORD_BE_U m a =
     push_bit 56 (ucast (m a)) OR push_bit 48 (ucast (m (a + 1)))
     OR push_bit 40 (ucast (m (a + 2))) OR push_bit 32 (ucast (m (a + 3)))
     OR push_bit 24 (ucast (m (a + 4))) OR push_bit 16 (ucast (m (a + 5)))
     OR push_bit 8 (ucast (m (a + 6))) OR ucast (m (a + 7))"

definition WRITE_WORD_BE_U :: "hmem \<Rightarrow> u64 \<Rightarrow> u16 \<Rightarrow> hmem" where
  "WRITE_WORD_BE_U m a v = m(a := ucast (drop_bit 8 v), a + 1 := ucast v)"

definition WRITE_DWORD_BE_U :: "hmem \<Rightarrow> u64 \<Rightarrow> u32 \<Rightarrow> hmem" where
  "WRITE_DWORD_BE_U m a v =
     m(a := ucast (drop_bit 24 v), a + 1 := ucast (drop_bit 16 v),
       a + 2 := ucast (drop_bit 8 v), a + 3 := ucast v)"

definition WRITE_QWORD_BE_U :: "hmem \<Rightarrow> u64 \<Rightarrow> u64 \<Rightarrow> hmem" where
  "WRITE_QWORD_BE_U m a v =
     m(a := ucast (drop_bit 56 v), a + 1 := ucast (drop_bit 48 v),
       a + 2 := ucast (drop_bit 40 v), a + 3 := ucast (drop_bit 32 v),
       a + 4 := ucast (drop_bit 24 v), a + 5 := ucast (drop_bit 16 v),
       a + 6 := ucast (drop_bit 8 v), a + 7 := ucast v)"

subsection \<open>Rotations and bit fields\<close>

lemma bit_ROTL_32:
  "bit (ROTL_32 x n) i \<longleftrightarrow> i < 32 \<and> bit x ((i + 32 - n mod 32) mod 32)"
proof (cases "n mod 32 = 0")
  case True
  then show ?thesis
    by (cases "i < 32") (auto simp: ROTL_32_def Let_def bits)
next
  case False
  then have "bit (ROTL_32 x n) i \<longleftrightarrow>
     i < 32 \<and> (n mod 32 \<le> i \<and> bit x (i - n mod 32) \<or> bit x (32 - n mod 32 + i))"
    by (auto simp: ROTL_32_def Let_def bit_simps dest: bit_imp_le_length)
  moreover have "(i + 32 - n mod 32) mod 32 =
      (if n mod 32 \<le> i then i - n mod 32 else 32 - n mod 32 + i)" if "i < 32"
  proof (cases "n mod 32 \<le> i")
    case True
    then have "i + 32 - n mod 32 = (i - n mod 32) + 32" by simp
    with True that show ?thesis by (simp only: mod_add_self2) simp
  next
    case F: False
    then show ?thesis using False by simp
  qed
  moreover have "\<not> bit x (32 - n mod 32 + i)" if "n mod 32 \<le> i"
    using that by (auto dest!: bit_imp_le_length)
  ultimately show ?thesis by (cases "n mod 32 \<le> i") auto
qed

lemma ROTL_32_rotl: "ROTL_32 x n = word_rotl n x"
  by (rule bit_word_eqI) (auto simp: bit_ROTL_32 bit_word_rotl_iff)

lemma ROTR_32_ROTL_32: "ROTR_32 x n = ROTL_32 x (32 - n mod 32)"
  by (auto simp: ROTL_32_def ROTR_32_def Let_def ac_simps mod_if [of "32 - _"])

lemma word_rotr_mod32: "word_rotr (n mod 32) x = word_rotr n x" for x :: u32
  by (rule bit_word_eqI) (simp add: bit_word_rotr_iff mod_simps)

lemma ROTR_32_rotr: "ROTR_32 x n = word_rotr n x"
proof -
  have "ROTR_32 x n = word_rotl (32 - n mod 32) x"
    by (simp add: ROTR_32_ROTL_32 ROTL_32_rotl)
  also have "\<dots> = word_rotr n x"
  proof (cases "n mod 32 = 0")
    case True
    then have "word_rotr 32 x = word_rotr n x" by (metis word_rotr_mod32 mod_self)
    with True show ?thesis by (simp add: word_rotl_eq_word_rotr)
  qed (simp add: word_rotl_eq_word_rotr word_rotr_mod32)
  finally show ?thesis .
qed

lemma field_mask_mask: "len \<le> LENGTH('a) \<Longrightarrow> (field_mask len :: 'a::len word) = mask len"
  by (auto simp: field_mask_def mask_eq_exp_minus_1 push_bit_eq_mult)

lemma bit_extract_bits:
  "len \<le> LENGTH('a) \<Longrightarrow> bit (extract_bits (v :: 'a::len word) pos len) i \<longleftrightarrow> i < len \<and> bit v (pos + i)"
  by (auto simp: extract_bits_def field_mask_mask bit_simps dest: bit_imp_le_length)

lemma bit_insert_bits:
  assumes "pos + len \<le> LENGTH('a)"
  shows "bit (insert_bits (old :: 'a::len word) new pos len) i \<longleftrightarrow>
     (if pos \<le> i \<and> i < pos + len then bit new (i - pos) else bit old i)"
  using assms
  by (auto simp: insert_bits_def Let_def field_mask_mask bit_simps dest: bit_imp_le_length)

subsection \<open>Wide multiplication\<close>

lemma lo32_mask: "(0xffffffff :: u64) = mask 32"
  by (simp add: mask_eq_exp_minus_1)

lemma mul32_le: "(x::nat) < 2 ^ 32 \<Longrightarrow> x * unat (a :: u32) \<le> (2 ^ 32 - 1) * (2 ^ 32 - 1)"
  using unat_u32_less [of a] by (intro mult_mono) auto

lemma partial_products:
  fixes a :: u32 and b :: u64
  shows "unat ((b AND 0xffffffff) * ucast a) = (unat b mod 2 ^ 32) * unat a"
    and "unat (drop_bit 32 b * ucast a) = (unat b div 2 ^ 32) * unat a"
  using mul32_le [of "unat b mod 2 ^ 32" a] mul32_le [of "unat b div 2 ^ 32" a]
    unat_u64_hi [of b]
  by (simp_all add: lo32_mask nums unat_word_ariths)

lemma unat_add_u64: "unat x + unat y < 2 ^ 64 \<Longrightarrow> unat (x + y :: u64) = unat x + unat y"
  by (simp add: unat_word_ariths)

lemma recombine_div: "(p0::nat) div M * M + p1 * M + p0 mod M = p0 + p1 * M"
  by (metis add.commute add.assoc div_mult_mod_eq)

lemma shift_div_mod: "(p::nat) div M * (M * M) + p mod M * M = p * M"
  by (metis div_mult_mod_eq distrib_right mult.assoc)

lemma carry_out_u64: "(if x + y < x then 1 else 0) = (unat x + unat y) div 2 ^ 64" for x y :: u64
proof (cases "unat x + unat y < 2 ^ 64")
  case True
  then show ?thesis by (simp add: word_less_nat_alt unat_word_ariths)
next
  case False
  then have "unat (x + y) = unat x + unat y - 2 ^ 64"
    using unat_u64_less [of x] unat_u64_less [of y] by (simp add: unat_word_ariths le_mod_geq)
  then have "x + y < x"
    using False unat_u64_less [of y] by (simp add: word_less_nat_alt)
  moreover have "(unat x + unat y) div 2 ^ 64 = 1"
    using False unat_u64_less [of x] unat_u64_less [of y] by (simp add: le_div_geq)
  ultimately show ?thesis by simp
qed

lemma u32xu64_lo32_product:
  assumes "u32xu64_lo32 a b = (hi, lo)"
  shows "unat hi * 2 ^ 32 + unat lo = unat a * unat b"
proof -
  define p0 p1 where p: "p0 = (b AND 0xffffffff) * ucast a" "p1 = drop_bit 32 b * (ucast a :: u64)"
  have h: "hi = drop_bit 32 p0 + p1" "lo = ucast p0"
    using assms by (auto simp: u32xu64_lo32_def Let_def p)
  have up: "unat p0 = (unat b mod 2 ^ 32) * unat a" "unat p1 = (unat b div 2 ^ 32) * unat a"
    unfolding p by (rule partial_products)+
  have "unat p0 div 2 ^ 32 < 2 ^ 32" using unat_u64_hi [of p0] by simp
  moreover have "unat p1 \<le> (2 ^ 32 - 1) * (2 ^ 32 - 1)"
    using unat_u64_hi [of b] mul32_le [of "unat b div 2 ^ 32" a] by (simp add: up)
  ultimately have "unat (drop_bit 32 p0) + unat p1 < 2 ^ 64" by (simp add: unat_drop_bit)
  then have "unat hi = unat p0 div 2 ^ 32 + unat p1"
    using unat_add_u64 [of "drop_bit 32 p0" p1] by (simp add: h unat_drop_bit)
  moreover have "unat lo = unat p0 mod 2 ^ 32" by (simp add: h unat_ucast_mod)
  ultimately have "unat hi * 2 ^ 32 + unat lo = unat p0 + unat p1 * 2 ^ 32"
    by (simp only: recombine_div distrib_right)
  also have "\<dots> = unat a * (unat b mod 2 ^ 32 + unat b div 2 ^ 32 * 2 ^ 32)"
    by (simp only: up distrib_left ac_simps)
  finally show ?thesis by simp
qed

lemma u32xu64_lo64_product:
  assumes "u32xu64_lo64 a b = (hi, lo)"
  shows "unat hi * 2 ^ 64 + unat lo = unat a * unat b"
proof -
  define p0 p1 where p: "p0 = (b AND 0xffffffff) * ucast a" "p1 = drop_bit 32 b * (ucast a :: u64)"
  define q where "q = push_bit 32 p1"
  have h: "hi = ucast (drop_bit 32 p1 + of_flag (lo < p0))" "lo = p0 + q"
    using assms by (auto simp: u32xu64_lo64_def Let_def p q_def)
  have up: "unat p0 = (unat b mod 2 ^ 32) * unat a" "unat p1 = (unat b div 2 ^ 32) * unat a"
    unfolding p by (rule partial_products)+
  have q: "unat q = (unat p1 mod 2 ^ 32) * 2 ^ 32"
    using mod_mult_mult2 [of "unat p1" "2 ^ 32" "2 ^ 32"]
    by (simp add: q_def unat_push_bit del: mod_mult_mult2)
  have "unat p1 \<le> (2 ^ 32 - 1) * (2 ^ 32 - 1)"
    using unat_u64_hi [of b] mul32_le [of "unat b div 2 ^ 32" a] by (simp add: up)
  then have "unat p1 div 2 ^ 32 \<le> ((2 ^ 32 - 1) * (2 ^ 32 - 1)) div 2 ^ 32" by (rule div_le_mono)
  then have "unat p1 div 2 ^ 32 < 2 ^ 32 - 1" by simp
  then have "unat hi = unat p1 div 2 ^ 32 + (if lo < p0 then 1 else 0)"
    by (simp add: h nums unat_ucast_mod unat_word_ariths)
  also have "(if lo < p0 then 1 else 0) = (unat p0 + unat q) div 2 ^ 64"
    unfolding h by (rule carry_out_u64)
  finally have "unat hi * 2 ^ 64 + unat lo = unat p1 div 2 ^ 32 * 2 ^ 64 + (unat p0 + unat q)"
    by (simp add: h unat_word_ariths distrib_right)
  also have "\<dots> = unat p0 + unat p1 * 2 ^ 32"
    using shift_div_mod [of "unat p1" "2 ^ 32"] by (simp add: q)
  also have "\<dots> = unat a * (unat b mod 2 ^ 32 + unat b div 2 ^ 32 * 2 ^ 32)"
    by (simp only: up distrib_left ac_simps)
  finally show ?thesis by simp
qed

text \<open>
  \<open>_u64xu64\<close> multiplies two 64-bit numbers without loss: the pair of words it returns,
  read as high and low half of a 128-bit number, is the product of the arguments.
\<close>

theorem u64xu64_product:
  assumes "u64xu64 a b = (hi, lo)"
  shows "unat hi * 2 ^ 64 + unat lo = unat a * unat b"
proof -
  obtain p0h p0l where p0: "u32xu64_lo64 (ucast b) a = (p0h, p0l)" by fastforce
  obtain p1h p1l where p1: "u32xu64_lo32 (ucast (drop_bit 32 b)) a = (p1h, p1l)" by fastforce
  have h: "lo = p0l + push_bit 32 (ucast p1l)" "hi = ucast p0h + p1h + of_flag (lo < p0l)"
    using assms by (auto simp: u64xu64_def Let_def p0 p1)
  have q: "unat (push_bit 32 (ucast p1l :: u64)) = unat p1l * 2 ^ 32"
    using unat_u32_less [of p1l] by (simp add: nums)
  define H where "H = unat p0h + unat p1h + (unat p0l + unat p1l * 2 ^ 32) div 2 ^ 64"
  have "H * 2 ^ 64 + unat lo =
      (unat p0h * 2 ^ 64 + unat p0l) + (unat p1h * 2 ^ 32 + unat p1l) * 2 ^ 32"
    by (simp add: H_def h unat_word_ariths q distrib_right)
  also have "\<dots> = unat (ucast b :: u32) * unat a +
      (unat (ucast (drop_bit 32 b) :: u32) * unat a) * 2 ^ 32"
    by (simp only: u32xu64_lo64_product [OF p0] u32xu64_lo32_product [OF p1])
  also have "\<dots> = (unat b mod 2 ^ 32) * unat a + (unat b div 2 ^ 32 * unat a) * 2 ^ 32"
    using unat_u64_hi [of b] by (simp add: nums unat_ucast_mod)
  also have "\<dots> = unat a * (unat b mod 2 ^ 32 + unat b div 2 ^ 32 * 2 ^ 32)"
    by (simp only: distrib_left ac_simps)
  finally have HB: "H * 2 ^ 64 + unat lo = unat a * unat b"
    by (simp only: mod_mult_div_eq mod_div_mult_eq)
  have "unat a * unat b < 2 ^ 64 * 2 ^ 64"
    by (rule mult_strict_mono) (use unat_u64_less [of a] unat_u64_less [of b] in auto)
  then have "H < 2 ^ 64" using HB by simp
  moreover have "of_flag (lo < p0l) = (of_nat ((unat p0l + unat p1l * 2 ^ 32) div 2 ^ 64) :: u64)"
    using carry_out_u64 [of p0l "push_bit 32 (ucast p1l)"]
    by (cases "lo < p0l") (simp_all add: h(1) q flip: One_nat_def)
  then have "unat hi = H mod 2 ^ 64"
    by (simp add: h(2) H_def unat_word_ariths nums unsigned_of_nat take_bit_eq_mod mod_simps)
  ultimately show ?thesis using HB by simp
qed

theorem u64xu64_product_witness:
  "unat (0xFFFFFFFFFFFFFFFE :: u64) * 2 ^ 64 + unat (1 :: u64) =
     unat (0xFFFFFFFFFFFFFFFF :: u64) * unat (0xFFFFFFFFFFFFFFFF :: u64)"
  by (rule u64xu64_product) code_simp

subsection \<open>Byte order\<close>

lemma BYTESWAP_16_involution: "BYTESWAP_16 (BYTESWAP_16 x) = x"
proof (rule bit_word_eqI)
  fix n assume "n < LENGTH(16)"
  then show "bit (BYTESWAP_16 (BYTESWAP_16 x)) n = bit x n"
    by (cases "n < 8") (auto simp: BYTESWAP_16_def bit_simps bits)
qed

lemma BYTESWAP_32_involution: "BYTESWAP_32 (BYTESWAP_32 x) = x"
  by (rule u32_eqI) (unfold all_less_32, simp add: BYTESWAP_32_def bit_simps)

lemma native_read32_write32: "native_read32 (native_write32 m a v) a = v"
  by (rule u32_eqI)
    (unfold all_less_32, simp add: native_read32_def native_write32_def bit_simps bits)

lemma READ_DWORD_BE_A_U: "READ_DWORD_BE_A m a = READ_DWORD_BE_U m a"
  by (rule u32_eqI) (unfold all_less_32,
    simp add: READ_DWORD_BE_A_def READ_DWORD_BE_U_def native_read32_def BYTESWAP_32_def bit_simps bits)

end
