(* ===== verification/TimerManager.thy ===== *)
theory TimerManager
  imports CoreUtils "HOL-Library.Multiset"
begin

text \<open>
  The timer facility of \<open>src/core/timermanager.cpp\<close> and \<open>timermanager.h\<close>. A \<open>TimerInfo\<close> object
  is identified by its address (a number: the comparator breaks ties by address), the manager
  keeps the objects it was given and the container of the priority queue. \<open>get_time_now\<close> is
  the argument \<open>now\<close>. A callback is a parameter \<open>run\<close>: it may change the manager (add and
  cancel timers) and the environment \<open>'e\<close> in any way. \<open>notify_timer_changes\<close> sets \<open>notified\<close>
  (the registered callback sets the interpreter's \<open>exec_timer\<close>).
\<close>

type_synonym tid = nat

record 'cb TimerInfo =
  timeout_ns :: u64
  interval_ns :: u64
  active :: bool
  cb :: "'cb"

record 'cb TimerManager =
  infos :: "tid \<Rightarrow> 'cb TimerInfo"
  timer_queue :: "tid list"
  cb_active :: bool
  notified :: bool

subsection \<open>The priority queue\<close>

text \<open>\<open>MyGtComparator\<close>: \<open>l\<close> sorts after \<open>r\<close>.\<close>

definition timer_gt :: "'cb TimerManager \<Rightarrow> tid \<Rightarrow> tid \<Rightarrow> bool" where
  "timer_gt m l r \<longleftrightarrow>
     timeout_ns (infos m l) > timeout_ns (infos m r) \<or>
     (timeout_ns (infos m l) = timeout_ns (infos m r) \<and> l > r)"

fun pq_top :: "('a \<Rightarrow> 'a \<Rightarrow> bool) \<Rightarrow> 'a list \<Rightarrow> 'a option" where
  "pq_top gt [] = None"
| "pq_top gt (x # xs) =
     (case pq_top gt xs of None \<Rightarrow> Some x | Some y \<Rightarrow> Some (if gt x y then y else x))"

definition pq_push :: "tid \<Rightarrow> 'cb TimerManager \<Rightarrow> 'cb TimerManager" where
  "pq_push i m = m\<lparr>timer_queue := i # timer_queue m\<rparr>"

definition remove_by_id :: "tid \<Rightarrow> 'cb TimerManager \<Rightarrow> bool \<times> 'cb TimerManager" where
  "remove_by_id i m =
     (if i \<in> set (timer_queue m) then (True, m\<lparr>timer_queue := remove1 i (timer_queue m)\<rparr>)
      else (False, m))"

definition pq_pop :: "'cb TimerManager \<Rightarrow> (tid \<times> 'cb TimerManager) option" where
  "pq_pop m =
     (case pq_top (timer_gt m) (timer_queue m) of
        None \<Rightarrow> None
      | Some i \<Rightarrow> Some (i, m\<lparr>timer_queue := remove1 i (timer_queue m)\<rparr>))"

definition notify_timer_changes :: "'cb TimerManager \<Rightarrow> 'cb TimerManager" where
  "notify_timer_changes m = m\<lparr>notified := True\<rparr>"

subsection \<open>Operations\<close>

definition add_absolute_timer ::
    "tid \<Rightarrow> u64 \<Rightarrow> u64 \<Rightarrow> 'cb \<Rightarrow> 'cb TimerManager \<Rightarrow> 'cb TimerManager" where
  "add_absolute_timer ti timeout interval c m =
     (let m1 = m\<lparr>infos := (infos m)(ti := \<lparr>timeout_ns = timeout, interval_ns = interval,
                                         active = True, cb = c\<rparr>)\<rparr>;
          m2 = pq_push ti m1
      in if cb_active m2 then m2 else notify_timer_changes m2)"

definition add_oneshot_timer ::
    "u64 \<Rightarrow> tid \<Rightarrow> u64 \<Rightarrow> 'cb \<Rightarrow> 'cb TimerManager \<Rightarrow> 'cb TimerManager" where
  "add_oneshot_timer now ti timeout c m = add_absolute_timer ti (now + timeout) 0 c m"

definition add_immediate_timer :: "tid \<Rightarrow> 'cb \<Rightarrow> 'cb TimerManager \<Rightarrow> 'cb TimerManager" where
  "add_immediate_timer ti c m = add_absolute_timer ti 0 0 c m"

definition add_cyclic_timer_delay ::
    "u64 \<Rightarrow> tid \<Rightarrow> u64 \<Rightarrow> u64 \<Rightarrow> 'cb \<Rightarrow> 'cb TimerManager \<Rightarrow> 'cb TimerManager" where
  "add_cyclic_timer_delay now ti interval delay c m =
     add_absolute_timer ti (now + delay) interval c m"

definition add_cyclic_timer ::
    "u64 \<Rightarrow> tid \<Rightarrow> u64 \<Rightarrow> 'cb \<Rightarrow> 'cb TimerManager \<Rightarrow> 'cb TimerManager" where
  "add_cyclic_timer now ti interval c m = add_cyclic_timer_delay now ti interval interval c m"

definition cancel_timer :: "tid \<Rightarrow> 'cb TimerManager \<Rightarrow> 'cb TimerManager" where
  "cancel_timer ti m =
     (let m1 = snd (remove_by_id ti m);
          m2 = m1\<lparr>infos := (infos m1)(ti := (infos m1 ti)\<lparr>active := False\<rparr>)\<rparr>
      in if cb_active m2 then m2 else notify_timer_changes m2)"

definition rearm_timeout :: "u64 \<Rightarrow> u64 \<Rightarrow> u64 \<Rightarrow> u64" where
  "rearm_timeout time_now timeout interval =
     (let new = timeout + interval
      in if new \<le> time_now
         then new + ((time_now - new) div interval + 1) * interval
         else new)"

text \<open>The part of the loop body of \<open>process_timers\<close> before the callback is invoked.\<close>

definition retire_timer :: "u64 \<Rightarrow> tid \<Rightarrow> 'cb TimerManager \<Rightarrow> 'cb TimerManager" where
  "retire_timer time_now cur m =
     (let m1 = snd (remove_by_id cur m); t = infos m1 cur
      in if interval_ns t \<noteq> 0
         then pq_push cur (m1\<lparr>infos := (infos m1)(cur :=
                t\<lparr>timeout_ns := rearm_timeout time_now (timeout_ns t) (interval_ns t)\<rparr>)\<rparr>)
         else m1\<lparr>infos := (infos m1)(cur := t\<lparr>active := False\<rparr>)\<rparr>)"

definition invoke_timer ::
    "('cb \<Rightarrow> u64 \<Rightarrow> u64 \<Rightarrow> 'cb TimerManager \<times> 'e \<Rightarrow> 'cb TimerManager \<times> 'e) \<Rightarrow>
     u64 \<Rightarrow> tid \<Rightarrow> 'cb TimerManager \<times> 'e \<Rightarrow> 'cb TimerManager \<times> 'e" where
  "invoke_timer run time_now cur = (\<lambda>(m, e).
     let t = infos m cur;
         m1 = (retire_timer time_now cur m)\<lparr>cb_active := True\<rparr>;
         (m2, e2) = run (cb t) time_now (timeout_ns t) (m1, e)
     in (m2\<lparr>cb_active := False\<rparr>, e2))"

partial_function (option) process_loop ::
    "('cb \<Rightarrow> u64 \<Rightarrow> u64 \<Rightarrow> 'cb TimerManager \<times> 'e \<Rightarrow> 'cb TimerManager \<times> 'e) \<Rightarrow>
     u64 \<Rightarrow> tid \<Rightarrow> 'cb TimerManager \<times> 'e \<Rightarrow> (u64 \<times> 'cb TimerManager \<times> 'e) option" where
  "process_loop run time_now cur s =
     (if timeout_ns (infos (fst s) cur) \<le> time_now
      then let s' = invoke_timer run time_now cur s
           in case pq_top (timer_gt (fst s')) (timer_queue (fst s')) of
                None \<Rightarrow> Some (0, s')
              | Some next \<Rightarrow> process_loop run time_now next s'
      else Some (timeout_ns (infos (fst s) cur), s))"

definition process_timers ::
    "('cb \<Rightarrow> u64 \<Rightarrow> u64 \<Rightarrow> 'cb TimerManager \<times> 'e \<Rightarrow> 'cb TimerManager \<times> 'e) \<Rightarrow>
     u64 \<Rightarrow> 'cb TimerManager \<times> 'e \<Rightarrow> (u64 \<times> 'cb TimerManager \<times> 'e) option" where
  "process_timers run time_now s =
     (case pq_top (timer_gt (fst s)) (timer_queue (fst s)) of
        None \<Rightarrow> Some (0, s)
      | Some cur \<Rightarrow> process_loop run time_now cur s)"

lemma pq_top_mem: "pq_top gt q = Some x \<Longrightarrow> x \<in> set q"
  by (induction q arbitrary: x) (auto split: option.splits if_splits)

lemma pq_pop_length: "pq_pop m = Some (i, m') \<Longrightarrow> length (timer_queue m') < length (timer_queue m)"
  by (auto simp: pq_pop_def length_remove1 dest!: pq_top_mem split: option.splits)
    (metis diff_less length_pos_if_in_set zero_less_one One_nat_def)

text \<open>\<open>cancel_all_timers\<close>: pop until the queue is empty.\<close>

function cancel_all_timers :: "'cb TimerManager \<Rightarrow> 'cb TimerManager" where
  "cancel_all_timers m =
     (case pq_pop m of
        None \<Rightarrow> m
      | Some (i, m') \<Rightarrow>
          cancel_all_timers (m'\<lparr>infos := (infos m')(i := (infos m' i)\<lparr>active := False\<rparr>)\<rparr>))"
  by pat_completeness auto
termination
  by (relation "measure (\<lambda>m. length (timer_queue m))") (auto dest: pq_pop_length)

declare cancel_all_timers.simps [simp del]

subsection \<open>The queue returns the next deadline\<close>

locale min_queue =
  fixes gt :: "'a \<Rightarrow> 'a \<Rightarrow> bool" and top :: "'a list \<Rightarrow> 'a option"
  assumes top_None_iff: "top q = None \<longleftrightarrow> q = []"
    and top_mem: "top q = Some x \<Longrightarrow> x \<in> set q"
    and top_least: "top q = Some x \<Longrightarrow> y \<in> set q \<Longrightarrow> \<not> gt x y"
begin

lemma top_bound:
  assumes "top q = Some x" "\<And>a b. key b < (key a :: 'k::linorder) \<Longrightarrow> gt a b" "y \<in> set q"
  shows "key x \<le> key y"
  using assms top_least not_le by blast

lemma top_Some: "q \<noteq> [] \<Longrightarrow> \<exists>x. top q = Some x"
  using top_None_iff by auto

end

lemma timer_gt_trans: "timer_gt m a b \<Longrightarrow> timer_gt m b c \<Longrightarrow> timer_gt m a c"
  by (auto simp: timer_gt_def)

lemma timer_gt_total: "\<not> timer_gt m a b \<Longrightarrow> timer_gt m b a \<or> a = b"
  by (auto simp: timer_gt_def)

lemma timer_gt_irrefl: "\<not> timer_gt m a a"
  by (auto simp: timer_gt_def)

lemma pq_top_None: "pq_top gt q = None \<longleftrightarrow> q = []"
  by (cases q) (auto split: option.splits)

lemma pq_top_least: "pq_top (timer_gt m) q = Some x \<Longrightarrow> y \<in> set q \<Longrightarrow> \<not> timer_gt m x y"
proof (induction q arbitrary: x)
  case Nil
  then show ?case by simp
next
  case (Cons z q)
  then show ?case
    by (cases "pq_top (timer_gt m) q")
      (auto simp: pq_top_None timer_gt_irrefl split: if_splits
        dest: timer_gt_trans timer_gt_total)
qed

interpretation tq: min_queue "timer_gt m" "pq_top (timer_gt m)" for m
  by unfold_locales (auto simp: pq_top_None pq_top_mem pq_top_least)

subsection \<open>Active timers are the queued ones\<close>

definition tm_inv :: "'cb TimerManager \<Rightarrow> bool" where
  "tm_inv m \<longleftrightarrow> distinct (timer_queue m) \<and>
     (\<forall>i. active (infos m i) \<longleftrightarrow> i \<in> set (timer_queue m))"

lemmas tm_defs = Let_def pq_push_def remove_by_id_def notify_timer_changes_def

lemma add_absolute_timer_inv:
  "tm_inv m \<Longrightarrow> \<not> active (infos m ti) \<Longrightarrow> tm_inv (add_absolute_timer ti t iv c m)"
  by (auto simp: tm_inv_def add_absolute_timer_def tm_defs)

lemma cancel_timer_inv: "tm_inv m \<Longrightarrow> tm_inv (cancel_timer ti m)"
  by (auto simp: tm_inv_def cancel_timer_def tm_defs)

lemma retire_timer_inv:
  "tm_inv m \<Longrightarrow> cur \<in> set (timer_queue m) \<Longrightarrow> tm_inv (retire_timer now cur m)"
  by (auto simp: tm_inv_def retire_timer_def tm_defs)

lemma cancel_all_timers_inv:
  "tm_inv m \<Longrightarrow> tm_inv (cancel_all_timers m) \<and> timer_queue (cancel_all_timers m) = []"
proof (induction m rule: cancel_all_timers.induct)
  case (1 m)
  show ?case
  proof (cases "pq_pop m")
    case None
    then have "timer_queue m = []" by (auto simp: pq_pop_def pq_top_None split: option.splits)
    with None "1.prems" show ?thesis by (simp add: cancel_all_timers.simps [of m])
  next
    case (Some p)
    obtain i m' where p: "p = (i, m')" by (cases p)
    let ?m = "m'\<lparr>infos := (infos m')(i := (infos m' i)\<lparr>active := False\<rparr>)\<rparr>"
    have "tm_inv ?m"
      using Some p "1.prems" by (auto simp: tm_inv_def pq_pop_def split: option.splits)
    from "1.IH" [OF Some p [symmetric] this] Some p show ?thesis
      by (simp add: cancel_all_timers.simps [of m])
  qed
qed

subsection \<open>Re-arming keeps the phase and passes the current time\<close>

lemma rearm_timeout_nat:
  assumes "timeout \<le> now" "interval \<noteq> 0" "unat now + unat interval < 2 ^ 64"
  shows "unat (rearm_timeout now timeout interval) =
     (let n = unat timeout + unat interval
      in if n \<le> unat now then n + ((unat now - n) div unat interval + 1) * unat interval else n)"
    (is "_ = ?r")
proof -
  define t i n where "t = unat timeout" and "i = unat interval" and "n = unat now"
  have i0: "0 < i" using assms(2) by (simp add: i_def unat_gt_0)
  have tn: "t \<le> n" using assms(1) by (simp add: t_def n_def word_le_nat_alt)
  have bnd: "n + i < 2 ^ 64" using assms(3) by (simp add: n_def i_def)
  have new: "unat (timeout + interval) = t + i"
    using bnd tn by (simp add: unat_word_ariths t_def i_def n_def)
  show ?thesis
  proof (cases "t + i \<le> n")
    case False
    then show ?thesis using new by (simp add: rearm_timeout_def Let_def word_le_nat_alt t_def i_def n_def)
  next
    case True
    have le: "timeout + interval \<le> now" using True new by (simp add: word_le_nat_alt n_def)
    define k where "k = (n - (t + i)) div i + 1"
    have ki: "k * i \<le> n - (t + i) + i"
      unfolding k_def by (simp add: distrib_right)
    then have tot: "t + i + k * i \<le> n + i" using True by linarith
    have "unat (now - (timeout + interval)) = n - (t + i)"
      using le new by (simp add: unat_sub n_def)
    then have "unat ((now - (timeout + interval)) div interval) = (n - (t + i)) div i"
      by (simp add: unat_div i_def)
    moreover have "k < 2 ^ 64" using ki bnd i0 by (metis (no_types) Nat.add_0_right One_nat_def Suc_leI add_leD2 le_add1 le_less_trans le_trans mult.right_neutral mult_le_mono2 nat_le_iff_add tot)
    ultimately have "unat ((now - (timeout + interval)) div interval + 1) = k"
      by (simp add: unat_word_ariths k_def)
    then have "unat (((now - (timeout + interval)) div interval + 1) * interval) = k * i"
      using tot bnd by (simp add: unat_word_ariths i_def)
    then have "unat (timeout + interval + ((now - (timeout + interval)) div interval + 1) * interval)
        = t + i + k * i"
      using new tot bnd by (subst unat_word_ariths) simp
    then show ?thesis using le True
      by (simp add: rearm_timeout_def Let_def t_def i_def n_def k_def)
  qed
qed

lemma skip_bounds:
  fixes t i n :: nat
  assumes "0 < i" "t \<le> n"
  shows "n < t + ((n - t) div i + 1) * i" "t + ((n - t) div i + 1) * i \<le> n + i"
proof -
  define q r where "q = (n - t) div i * i" and "r = (n - t) mod i"
  have "q + r = n - t" unfolding q_def r_def by (rule div_mult_mod_eq)
  moreover have "r < i" using assms(1) by (simp add: r_def)
  ultimately have "n < t + q + i" "t + q + i \<le> n + i" using assms(2) by linarith+
  then show "n < t + ((n - t) div i + 1) * i" "t + ((n - t) div i + 1) * i \<le> n + i"
    by (simp_all add: q_def distrib_right)
qed

lemma phase_mod: "((t::nat) + i + (k + 1) * i) mod i = t mod i"
proof -
  have "t + i + (k + 1) * i = t + (k + 2) * i" by (simp add: distrib_right)
  then show ?thesis by (simp only: mod_mult_self1)
qed

lemma rearm_timeout_bounds:
  assumes "timeout \<le> now" "interval \<noteq> 0" "unat now + unat interval < 2 ^ 64"
  shows "now < rearm_timeout now timeout interval"
    and "unat (rearm_timeout now timeout interval) \<le> unat now + unat interval"
    and "unat (rearm_timeout now timeout interval) mod unat interval = unat timeout mod unat interval"
proof -
  have i0: "0 < unat interval" using assms(2) by (simp add: unat_gt_0)
  have tn: "unat timeout \<le> unat now" using assms(1) by (simp add: word_le_nat_alt)
  note eq = rearm_timeout_nat [OF assms]
  show "now < rearm_timeout now timeout interval"
    and "unat (rearm_timeout now timeout interval) \<le> unat now + unat interval"
    using skip_bounds [OF i0, of "unat timeout + unat interval" "unat now"] tn
    by (auto simp: word_less_nat_alt eq Let_def)
  show "unat (rearm_timeout now timeout interval) mod unat interval = unat timeout mod unat interval"
    using phase_mod [of "unat timeout" "unat interval"] by (auto simp only: eq Let_def mod_add_self2 split: if_split)
qed

subsection \<open>Processing expired timers\<close>

definition expired :: "u64 \<Rightarrow> 'cb TimerManager \<Rightarrow> tid list" where
  "expired now m = filter (\<lambda>i. timeout_ns (infos m i) \<le> now) (timer_queue m)"

text \<open>No interval carries a deadline past the end of 64-bit time.\<close>

definition no_wrap :: "u64 \<Rightarrow> 'cb TimerManager \<Rightarrow> bool" where
  "no_wrap now m \<longleftrightarrow> (\<forall>i\<in>set (timer_queue m). unat now + unat (interval_ns (infos m i)) < 2 ^ 64)"

lemma expired_Nil_iff_top:
  assumes "pq_top (timer_gt m) (timer_queue m) = Some cur" "\<not> timeout_ns (infos m cur) \<le> now"
  shows "expired now m = []"
proof -
  have "timeout_ns (infos m cur) \<le> timeout_ns (infos m i)" if "i \<in> set (timer_queue m)" for i
    using tq.top_bound [OF assms(1) _ that, of "\<lambda>i. timeout_ns (infos m i)"]
    by (auto simp: timer_gt_def)
  with assms(2) show ?thesis by (fastforce simp: expired_def filter_empty_conv)
qed

lemma filter_remove1_length:
  "x \<in> set xs \<Longrightarrow> P x \<Longrightarrow> length (filter P (remove1 x xs)) < length (filter P xs)"
  by (induction xs) auto

lemma length_filter_le_filter:
  "(\<And>x. x \<in> set xs \<Longrightarrow> P x \<Longrightarrow> Q x) \<Longrightarrow> length (filter P xs) \<le> length (filter Q xs)"
  by (induction xs) (auto simp: le_SucI)

lemma retire_timer_expired:
  assumes "cur \<in> set (timer_queue m)" "timeout_ns (infos m cur) \<le> now" "no_wrap now m"
  shows "length (expired now (retire_timer now cur m)) < length (expired now m)"
    and "no_wrap now (retire_timer now cur m)"
proof -
  let ?t = "infos m cur"
  have nw: "unat now + unat (interval_ns ?t) < 2 ^ 64"
    using assms(1,3) by (simp add: no_wrap_def)
  let ?P = "\<lambda>i. timeout_ns (infos m i) \<le> now"
  have dec: "length (filter ?P (remove1 cur (timer_queue m))) < length (expired now m)"
    using assms(1,2) by (auto simp: expired_def intro: filter_remove1_length)
  show "length (expired now (retire_timer now cur m)) < length (expired now m)"
  proof (cases "interval_ns ?t = 0")
    case True
    have "filter (\<lambda>i. timeout_ns (infos (retire_timer now cur m) i) \<le> now) (remove1 cur (timer_queue m))
        = filter ?P (remove1 cur (timer_queue m))"
      by (rule filter_cong) (auto simp: retire_timer_def tm_defs assms(1) True)
    with dec True assms(1) show ?thesis
      by (auto simp: expired_def retire_timer_def tm_defs)
  next
    case False
    then have gt: "now < rearm_timeout now (timeout_ns ?t) (interval_ns ?t)"
      using rearm_timeout_bounds(1) [OF assms(2) False nw] by simp
    have "length (expired now (retire_timer now cur m)) \<le> length (filter ?P (remove1 cur (timer_queue m)))"
      using False gt assms(1)
      by (auto simp: expired_def retire_timer_def tm_defs not_le intro!: length_filter_le_filter)
    with dec show ?thesis by simp
  qed
  show "no_wrap now (retire_timer now cur m)"
    using assms by (auto simp: no_wrap_def retire_timer_def tm_defs dest: set_remove1_subset [THEN subsetD])
qed

definition tame :: "u64 \<Rightarrow> ('cb \<Rightarrow> u64 \<Rightarrow> u64 \<Rightarrow> 'cb TimerManager \<times> 'e \<Rightarrow> 'cb TimerManager \<times> 'e) \<Rightarrow> bool" where
  "tame now run \<longleftrightarrow> (\<forall>c t m e m' e'. run c now t (m, e) = (m', e') \<longrightarrow> no_wrap now m \<longrightarrow>
     no_wrap now m' \<and> length (expired now m') \<le> length (expired now m))"

lemma invoke_timer_expired:
  assumes "cur \<in> set (timer_queue m)" "timeout_ns (infos m cur) \<le> now" "no_wrap now m"
    and "tame now run" "invoke_timer run now cur (m, e) = (m', e')"
  shows "length (expired now m') < length (expired now m) \<and> no_wrap now m'"
proof -
  let ?r = "(retire_timer now cur m)\<lparr>cb_active := True\<rparr>"
  obtain m2 where run: "run (cb (infos m cur)) now (timeout_ns (infos m cur)) (?r, e) = (m2, e')"
    and m': "m' = m2\<lparr>cb_active := False\<rparr>"
    using assms(5) by (auto simp: invoke_timer_def Let_def split: prod.splits)
  have eq: "expired now (n\<lparr>cb_active := b\<rparr>) = expired now n" "no_wrap now (n\<lparr>cb_active := b\<rparr>) = no_wrap now n"
    for n :: "'a TimerManager" and b by (simp_all add: expired_def no_wrap_def)
  show ?thesis
  proof -
    have "no_wrap now ?r" using retire_timer_expired(2) [OF assms(1-3)] by (simp only: eq)
    with assms(4) run have "no_wrap now m2" "length (expired now m2) \<le> length (expired now ?r)"
      unfolding tame_def by blast+
    with retire_timer_expired(1) [OF assms(1-3)] show ?thesis by (simp add: m' eq)
  qed
qed

lemma process_loop_returns:
  assumes "tame now run" "no_wrap now (fst s)"
    and "pq_top (timer_gt (fst s)) (timer_queue (fst s)) = Some cur"
  shows "\<exists>r s'. process_loop run now cur s = Some (r, s') \<and> expired now (fst s') = [] \<and>
     (case pq_top (timer_gt (fst s')) (timer_queue (fst s')) of
        None \<Rightarrow> r = 0 | Some i \<Rightarrow> r = timeout_ns (infos (fst s') i))"
  using assms(2,3)
proof (induction "length (expired now (fst s))" arbitrary: s cur rule: less_induct)
  case less
  obtain m e where s: "s = (m, e)" by (cases s)
  show ?case
  proof (cases "timeout_ns (infos m cur) \<le> now")
    case False
    with less.prems s show ?thesis
      by (auto simp: process_loop.simps [of run now cur "(m, e)"] expired_Nil_iff_top)
  next
    case True
    obtain m' e' where inv: "invoke_timer run now cur (m, e) = (m', e')" by fastforce
    have "cur \<in> set (timer_queue m)" using less.prems(2) s by (auto dest: tq.top_mem)
    from invoke_timer_expired [OF this True _ assms(1) inv] less.prems(1) s
    have dec: "length (expired now m') < length (expired now m)" and nw: "no_wrap now m'" by auto
    show ?thesis
    proof (cases "pq_top (timer_gt m') (timer_queue m')")
      case None
      then have "timer_queue m' = []" by (simp add: pq_top_None)
      with None inv True s show ?thesis
        by (auto simp: process_loop.simps [of run now cur "(m, e)"] expired_def)
    next
      case (Some i)
      with less.hyps [of "(m', e')" i] dec nw s inv True show ?thesis
        by (simp add: process_loop.simps [of run now cur "(m, e)"])
    qed
  qed
qed

subsection \<open>The order of the callbacks\<close>

text \<open>Callbacks that only record that they were called.\<close>

definition log_run :: "'cb \<Rightarrow> u64 \<Rightarrow> u64 \<Rightarrow> 'cb TimerManager \<times> ('cb \<times> u64) list \<Rightarrow>
    'cb TimerManager \<times> ('cb \<times> u64) list" where
  "log_run c now t = (\<lambda>(m, l). (m, l @ [(c, t)]))"

definition due :: "'cb TimerManager \<Rightarrow> tid \<Rightarrow> 'cb \<times> u64" where
  "due m i = (cb (infos m i), timeout_ns (infos m i))"

lemma log_run_tame: "tame now log_run"
  by (auto simp: tame_def log_run_def)

lemma retire_timer_due:
  assumes "tm_inv m" "cur \<in> set (timer_queue m)" "timeout_ns (infos m cur) \<le> now" "no_wrap now m"
  shows "image_mset (due (retire_timer now cur m)) (mset (expired now (retire_timer now cur m)))
     + {#due m cur#} = image_mset (due m) (mset (expired now m))"
proof -
  let ?m = "retire_timer now cur m" and ?q = "remove1 cur (timer_queue m)"
  have ne: "cur \<notin> set ?q" using assms(1) by (simp add: tm_inv_def)
  have same: "infos ?m i = infos m i" if "i \<in> set ?q" for i
    using that ne by (auto simp: retire_timer_def tm_defs)
  have "unat now + unat (interval_ns (infos m cur)) < 2 ^ 64"
    using assms(2,4) by (simp add: no_wrap_def)
  from rearm_timeout_bounds(1) [OF assms(3) _ this]
  have "mset (expired now ?m) = mset (filter (\<lambda>i. timeout_ns (infos ?m i) \<le> now) ?q)"
    using assms(2) by (auto simp: expired_def retire_timer_def tm_defs not_le)
  also have "filter (\<lambda>i. timeout_ns (infos ?m i) \<le> now) ?q = filter (\<lambda>i. timeout_ns (infos m i) \<le> now) ?q"
    using same by (intro filter_cong) auto
  finally have ex: "mset (expired now ?m) = filter_mset (\<lambda>i. timeout_ns (infos m i) \<le> now) (mset ?q)"
    by simp
  have "set_mset (mset (expired now ?m)) \<subseteq> set_mset (mset ?q)"
    unfolding ex by (rule set_mset_mono) (rule multiset_filter_subset)
  then have "image_mset (due ?m) (mset (expired now ?m)) = image_mset (due m) (mset (expired now ?m))"
    using same unfolding set_mset_mset by (intro image_mset_cong) (auto simp: due_def)
  moreover have "mset (timer_queue m) = add_mset cur (mset ?q)"
    using assms(2) by simp
  then have "mset (expired now m) = add_mset cur (mset (expired now ?m))"
    unfolding ex using assms(3) by (simp only: expired_def mset_filter filter_mset_add_mset if_True)
  ultimately show ?thesis by simp
qed

text \<open>What is left of a timer after its deadline has been dealt with.\<close>

definition settled :: "u64 \<Rightarrow> 'cb TimerManager \<Rightarrow> tid \<Rightarrow> 'cb TimerInfo" where
  "settled now m i =
     (let t = infos m i
      in if i \<in> set (timer_queue m) \<and> timeout_ns t \<le> now
         then if interval_ns t \<noteq> 0 then t\<lparr>timeout_ns := rearm_timeout now (timeout_ns t) (interval_ns t)\<rparr> else t\<lparr>active := False\<rparr>
         else t)"

lemma settled_retire:
  assumes "tm_inv m" "cur \<in> set (timer_queue m)" "timeout_ns (infos m cur) \<le> now" "no_wrap now m"
  shows "settled now ((retire_timer now cur m)\<lparr>cb_active := c\<rparr>) = settled now m"
proof
  fix i
  have q: "cur \<notin> set (remove1 cur (timer_queue m))" "i \<noteq> cur \<Longrightarrow> i \<in> set (remove1 cur (timer_queue m)) \<longleftrightarrow> i \<in> set (timer_queue m)"
    using assms(1) by (auto simp: tm_inv_def)
  have "now < rearm_timeout now (timeout_ns (infos m cur)) (interval_ns (infos m cur))" if "interval_ns (infos m cur) \<noteq> 0"
    using rearm_timeout_bounds(1)[OF assms(3) that] assms(2,4) by (simp add: no_wrap_def)
  then show "settled now ((retire_timer now cur m)\<lparr>cb_active := c\<rparr>) i = settled now m i"
    using assms(2,3) q by (cases "i = cur") (auto simp: settled_def retire_timer_def tm_defs)
qed

lemma process_loop_log:
  assumes "no_wrap now m" "tm_inv m" "pq_top (timer_gt m) (timer_queue m) = Some cur"
  shows "\<exists>r m' L. process_loop log_run now cur (m, l) = Some (r, m', l @ L) \<and> tm_inv m' \<and> infos m' = settled now m \<and>
     sorted (map snd L) \<and> mset L = image_mset (due m) (mset (expired now m))"
  using assms
proof (induction "length (expired now m)" arbitrary: m cur l rule: less_induct)
  case less
  note eq = process_loop.simps [of log_run now cur "(m, l)"]
  show ?case
  proof (cases "timeout_ns (infos m cur) \<le> now")
    case False
    have "expired now m = []" using less.prems(3) False by (rule expired_Nil_iff_top)
    moreover from this have "infos m = settled now m" by (auto simp: expired_def filter_empty_conv settled_def fun_eq_iff Let_def)
    ultimately show ?thesis using False less.prems(2)
      by (intro exI [of _ "timeout_ns (infos m cur)"] exI [of _ m] exI [of _ "[]"]) (simp add: eq)
  next
    case True
    let ?m1 = "retire_timer now cur m" and ?d = "due m cur"
    let ?m = "?m1\<lparr>cb_active := False\<rparr>"
    have mem: "cur \<in> set (timer_queue m)" using less.prems(3) by (rule tq.top_mem)
    have inv: "invoke_timer log_run now cur (m, l) = (?m, l @ [?d])"
      by (simp add: invoke_timer_def log_run_def Let_def due_def)
    have frame: "expired now ?m = expired now ?m1" "no_wrap now ?m = no_wrap now ?m1"
      "tm_inv ?m = tm_inv ?m1" "due ?m = due ?m1"
      by (auto simp: expired_def no_wrap_def tm_inv_def due_def fun_eq_iff)
    note ex = retire_timer_expired [OF mem True less.prems(1)]
    note st = settled_retire [OF less.prems(2) mem True less.prems(1), of False]
    have inv1: "tm_inv ?m" using retire_timer_inv [OF less.prems(2) mem] by (simp add: frame)
    note du = retire_timer_due [OF less.prems(2) mem True less.prems(1)]
    have low: "snd ?d \<le> snd x" if "x \<in># image_mset (due m) (mset (expired now m))" for x
    proof -
      from that obtain i where "x = due m i" "i \<in> set (timer_queue m)" by (auto simp: expired_def)
      then show ?thesis
        using tq.top_bound [OF less.prems(3), of "\<lambda>i. timeout_ns (infos m i)" i]
        by (auto simp: due_def timer_gt_def)
    qed
    have sub: "x \<in># image_mset (due m) (mset (expired now m))"
      if "x \<in># image_mset (due ?m1) (mset (expired now ?m1))" for x
      using that by (simp flip: du)
    show ?thesis
    proof (cases "pq_top (timer_gt ?m) (timer_queue ?m)")
      case None
      then have "expired now ?m1 = []" by (simp add: pq_top_None expired_def)
      with du have "mset [?d] = image_mset (due m) (mset (expired now m))" by simp
      moreover have "infos ?m = settled now m"
        unfolding st[symmetric] using None by (auto simp: pq_top_None settled_def fun_eq_iff Let_def)
      ultimately show ?thesis using None inv True inv1
        by (intro exI [of _ 0] exI [of _ ?m] exI [of _ "[?d]"]) (simp add: eq)
    next
      case (Some i)
      have "no_wrap now ?m" "tm_inv ?m" "length (expired now ?m) < length (expired now m)"
        using ex retire_timer_inv [OF less.prems(2) mem] by (simp_all add: frame)
      from less.hyps [OF this(3,1,2) Some, of "l @ [?d]"] obtain r m' L where
        L: "process_loop log_run now i (?m, l @ [?d]) = Some (r, m', l @ ?d # L)"
           "sorted (map snd L)" "mset L = image_mset (due ?m1) (mset (expired now ?m1))" "tm_inv m'" "infos m' = settled now m"
        by (auto simp: frame st)
      have "\<forall>x\<in>set L. snd ?d \<le> snd x"
        using low sub L(3) by (metis set_mset_mset)
      with L du Some inv True show ?thesis
        by (intro exI [of _ r] exI [of _ m'] exI [of _ "?d # L"]) (simp add: eq)
    qed
  qed
qed

text \<open>
  C20: With callbacks that leave the timers alone (\<open>log_run\<close> only notes the call), \<open>process_timers\<close> calls exactly
  the callbacks of the timers whose deadline has passed, each once and with its own deadline, in the order of their deadlines. Afterwards the cyclic ones
  among them are armed for the first deadline after the current time that keeps their phase, the one-shot ones
  are inactive, every other timer is as it was, and the queue holds exactly the active timers.
\<close>

theorem process_timers_in_order:
  assumes "tm_inv m" "no_wrap now m"
  shows "\<exists>r m' L. process_timers log_run now (m, []) = Some (r, m', L) \<and>
     sorted (map snd L) \<and>
     mset L = image_mset (\<lambda>i. (cb (infos m i), timeout_ns (infos m i)))
                (filter_mset (\<lambda>i. timeout_ns (infos m i) \<le> now) (mset (timer_queue m))) \<and>
     distinct (timer_queue m') \<and> set (timer_queue m') = {i. active (infos m' i)} \<and>
     (\<forall>i. if active (infos m i) \<and> timeout_ns (infos m i) \<le> now
          then if interval_ns (infos m i) = 0 then infos m' i = (infos m i)\<lparr>active := False\<rparr>
            else \<exists>t. infos m' i = (infos m i)\<lparr>timeout_ns := t\<rparr> \<and> now < t \<and> unat t \<le> unat now + unat (interval_ns (infos m i)) \<and>
              unat t mod unat (interval_ns (infos m i)) = unat (timeout_ns (infos m i)) mod unat (interval_ns (infos m i))
          else infos m' i = infos m i)"
proof -
  have "\<exists>r m' L. process_timers log_run now (m, []) = Some (r, m', L) \<and> tm_inv m' \<and> infos m' = settled now m \<and>
     sorted (map snd L) \<and> mset L = image_mset (due m) (mset (expired now m))"
  proof (cases "pq_top (timer_gt m) (timer_queue m)")
    case None
    then show ?thesis using assms by (auto simp: process_timers_def pq_top_None settled_def fun_eq_iff expired_def Let_def)
  next
    case (Some cur)
    from process_loop_log [OF assms(2,1) Some, of "[]"] Some show ?thesis by (simp add: process_timers_def)
  qed
  then obtain r m' L where p: "process_timers log_run now (m, []) = Some (r, m', L)" "tm_inv m'" "infos m' = settled now m"
    "sorted (map snd L)" "mset L = image_mset (due m) (mset (expired now m))" by blast
  have "if active (infos m i) \<and> timeout_ns (infos m i) \<le> now
          then if interval_ns (infos m i) = 0 then infos m' i = (infos m i)\<lparr>active := False\<rparr>
            else \<exists>t. infos m' i = (infos m i)\<lparr>timeout_ns := t\<rparr> \<and> now < t \<and> unat t \<le> unat now + unat (interval_ns (infos m i)) \<and>
              unat t mod unat (interval_ns (infos m i)) = unat (timeout_ns (infos m i)) mod unat (interval_ns (infos m i))
          else infos m' i = infos m i" for i
  proof -
    have q: "active (infos m i) \<longleftrightarrow> i \<in> set (timer_queue m)" using assms(1) by (simp add: tm_inv_def)
    have nw: "unat now + unat (interval_ns (infos m i)) < 2 ^ 64" if "i \<in> set (timer_queue m)"
      using assms(2) that by (simp add: no_wrap_def)
    show ?thesis
      unfolding p(3) settled_def Let_def q using rearm_timeout_bounds[of "timeout_ns (infos m i)" now "interval_ns (infos m i)"] nw by auto
  qed
  moreover have "distinct (timer_queue m')" "set (timer_queue m') = {i. active (infos m' i)}"
    using p(2) by (auto simp: tm_inv_def)
  ultimately show ?thesis using p(1,4,5) unfolding due_def [abs_def] expired_def mset_filter by blast
qed

definition demo_tm :: "nat TimerManager" where
  "demo_tm = add_absolute_timer 1 100 0 11 (add_absolute_timer 2 50 30 22
     \<lparr>infos = (\<lambda>_. \<lparr>timeout_ns = 0, interval_ns = 0, active = False, cb = 0\<rparr>),
      timer_queue = [], cb_active = False, notified = False\<rparr>)"

theorem process_timers_in_order_witness:
  "\<exists>r m' L. process_timers log_run 120 (demo_tm, []) = Some (r, m', L) \<and>
     sorted (map snd L) \<and> mset L = {#(11, 100), (22, 50)#} \<and> \<not> active (infos m' 1) \<and> active (infos m' 2) \<and> 120 < timeout_ns (infos m' 2)"
proof -
  have "tm_inv demo_tm"
    unfolding demo_tm_def by (intro add_absolute_timer_inv)
      (auto simp: tm_inv_def add_absolute_timer_def tm_defs)
  moreover have "no_wrap 120 demo_tm"
    by (auto simp: no_wrap_def demo_tm_def add_absolute_timer_def tm_defs)
  moreover have d: "infos demo_tm 1 = \<lparr>timeout_ns = 100, interval_ns = 0, active = True, cb = 11\<rparr>"
    "infos demo_tm 2 = \<lparr>timeout_ns = 50, interval_ns = 30, active = True, cb = 22\<rparr>" "timer_queue demo_tm = [1, 2]"
    by (simp_all add: demo_tm_def add_absolute_timer_def tm_defs)
  ultimately obtain r m' L where p: "process_timers log_run 120 (demo_tm, []) = Some (r, m', L)" "sorted (map snd L)"
    "mset L = image_mset (\<lambda>i. (cb (infos demo_tm i), timeout_ns (infos demo_tm i)))
       (filter_mset (\<lambda>i. timeout_ns (infos demo_tm i) \<le> 120) (mset (timer_queue demo_tm)))"
    and all: "\<forall>i. if active (infos demo_tm i) \<and> timeout_ns (infos demo_tm i) \<le> 120
       then if interval_ns (infos demo_tm i) = 0 then infos m' i = (infos demo_tm i)\<lparr>active := False\<rparr>
         else \<exists>t. infos m' i = (infos demo_tm i)\<lparr>timeout_ns := t\<rparr> \<and> 120 < t \<and> unat t \<le> unat (120 :: u64) + unat (interval_ns (infos demo_tm i)) \<and>
           unat t mod unat (interval_ns (infos demo_tm i)) = unat (timeout_ns (infos demo_tm i)) mod unat (interval_ns (infos demo_tm i))
       else infos m' i = infos demo_tm i"
    using process_timers_in_order [of demo_tm 120] by blast
  from p(3) have "mset L = {#(11, 100), (22, 50)#}" by (simp add: d del: One_nat_def)
  moreover from all[rule_format, of 1] all[rule_format, of 2]
  have "\<not> active (infos m' 1) \<and> active (infos m' 2) \<and> 120 < timeout_ns (infos m' 2)" by (auto simp: d simp del: One_nat_def)
  ultimately show ?thesis using p(1,2) by blast
qed

text \<open>
  C21: whatever the callbacks do, as long as none of them leaves an expired timer behind
  that was not there before, \<open>process_timers\<close> returns, no expired timer is left in the queue,
  and the value it returns is the next deadline (or 0 for an empty queue).
\<close>

theorem process_timers_returns:
  assumes "tame now run" "no_wrap now m"
  shows "\<exists>r s'. process_timers run now (m, e) = Some (r, s') \<and> expired now (fst s') = [] \<and>
     (case pq_top (timer_gt (fst s')) (timer_queue (fst s')) of
        None \<Rightarrow> r = 0 | Some i \<Rightarrow> r = timeout_ns (infos (fst s') i))"
proof (cases "pq_top (timer_gt m) (timer_queue m)")
  case None
  then show ?thesis by (simp add: process_timers_def pq_top_None expired_def)
next
  case (Some cur)
  with process_loop_returns [OF assms(1), of "(m, e)" cur] assms(2) show ?thesis
    by (simp add: process_timers_def)
qed

theorem process_timers_returns_witness:
  "\<exists>r s'. process_timers log_run 120 (demo_tm, []) = Some (r, s') \<and> expired 120 (fst s') = [] \<and>
     (case pq_top (timer_gt (fst s')) (timer_queue (fst s')) of
        None \<Rightarrow> r = 0 | Some i \<Rightarrow> r = timeout_ns (infos (fst s') i))"
  by (rule process_timers_returns [OF log_run_tame])
    (auto simp: no_wrap_def demo_tm_def add_absolute_timer_def tm_defs)

end
