(* ===== verification/MemCtrl.thy ===== *)
theory MemCtrl
  imports CoreUtils
begin

text \<open>
  The physical address map of \<open>src/devices/memctrl/memctrlbase.cpp\<close>. An
  \<open>AddressMapEntry\<close> object is identified by \<open>eid\<close> (its address), host pointers are 64-bit
  numbers into a host memory, devices are numbered. What \<open>new\<close> returns is an argument of the
  operations that allocate. Log output is not modelled.
\<close>

type_synonym dev = nat

record AddressMapEntry =
  eid :: nat
  rstart :: u32
  rend :: u32
  mirror :: u32
  rtype :: u32
  devobj :: "dev option"
  mem_ptr :: u64

abbreviation (input) "RT_NONE \<equiv> (0 :: u32)"
abbreviation (input) "RT_ROM \<equiv> (1 :: u32)"
abbreviation (input) "RT_RAM \<equiv> (2 :: u32)"
abbreviation (input) "RT_MMIO \<equiv> (4 :: u32)"
abbreviation (input) "RT_MIRROR \<equiv> (8 :: u32)"

record MemCtrl =
  address_map :: "AddressMapEntry list"
  mem_regions :: "u64 list"
  host_mem :: hmem

subsection \<open>Searching\<close>

definition match_mem_entry :: "AddressMapEntry \<Rightarrow> u32 \<Rightarrow> u32 \<Rightarrow> dev option \<Rightarrow> bool" where
  "match_mem_entry entry s e dev_instance \<longleftrightarrow>
     s = rstart entry \<and> e = rend entry \<and> (dev_instance = None \<or> dev_instance = devobj entry)"

definition find_range :: "'a MemCtrl_scheme \<Rightarrow> u32 \<Rightarrow> AddressMapEntry option" where
  "find_range m addr = find (\<lambda>e. addr \<ge> rstart e \<and> addr \<le> rend e) (address_map m)"

definition find_range_exact ::
    "'a MemCtrl_scheme \<Rightarrow> u32 \<Rightarrow> u32 \<Rightarrow> dev option \<Rightarrow> AddressMapEntry option" where
  "find_range_exact m addr sz dev_instance =
     (if sz \<noteq> 0 then find (\<lambda>e. match_mem_entry e addr (addr + sz - 1) dev_instance) (address_map m)
      else None)"

definition find_range_contains :: "'a MemCtrl_scheme \<Rightarrow> u32 \<Rightarrow> u32 \<Rightarrow> AddressMapEntry option" where
  "find_range_contains m addr sz =
     (if sz \<noteq> 0 then find (\<lambda>e. addr \<ge> rstart e \<and> addr + sz - 1 \<le> rend e) (address_map m)
      else None)"

definition find_range_overlaps :: "'a MemCtrl_scheme \<Rightarrow> u32 \<Rightarrow> u32 \<Rightarrow> AddressMapEntry option" where
  "find_range_overlaps m addr sz =
     (if sz \<noteq> 0 then find (\<lambda>e. addr + sz - 1 \<ge> rstart e \<and> addr \<le> rend e) (address_map m)
      else None)"

text \<open>The loop of \<open>is_range_free\<close> keeps going after a hit (it logs every one).\<close>

fun range_free_loop :: "u32 \<Rightarrow> u32 \<Rightarrow> AddressMapEntry list \<Rightarrow> bool \<Rightarrow> bool" where
  "range_free_loop addr e [] result = result"
| "range_free_loop addr e (x # xs) result =
     range_free_loop addr e xs
       (if addr = rstart x \<and> e = rend x then False
        else if addr \<ge> rstart x \<and> e \<le> rend x then False
        else if e \<ge> rstart x \<and> addr \<le> rend x then False
        else result)"

definition is_range_free :: "'a MemCtrl_scheme \<Rightarrow> u32 \<Rightarrow> u32 \<Rightarrow> bool" where
  "is_range_free m addr sz =
     (if sz \<noteq> 0 then range_free_loop addr (addr + sz - 1) (address_map m) True else True)"

definition find_rom_region :: "'a MemCtrl_scheme \<Rightarrow> AddressMapEntry option" where
  "find_rom_region m = find (\<lambda>e. rtype e = RT_ROM) (address_map m)"

definition get_region_hostmem_ptr :: "'a MemCtrl_scheme \<Rightarrow> u32 \<Rightarrow> u64 option" where
  "get_region_hostmem_ptr m addr =
     (case find_range m addr of
        None \<Rightarrow> None
      | Some e \<Rightarrow>
          if rtype e = RT_MMIO then None
          else if rtype e = RT_MIRROR then Some (ucast (addr - mirror e) + mem_ptr e)
          else Some (ucast (addr - rstart e) + mem_ptr e))"

subsection \<open>Changing the map\<close>

text \<open>
  \<open>std::upper_bound\<close> by the start address: the halving search of the standard library,
  from \<open>first\<close> over \<open>count\<close> elements.
\<close>

function upper_bound :: "u32 \<Rightarrow> AddressMapEntry list \<Rightarrow> nat \<Rightarrow> nat \<Rightarrow> nat" where
  "upper_bound key xs first count =
     (if count = 0 then first
      else let step = count div 2; it = first + step
           in if key < rstart (xs ! it) then upper_bound key xs first step
              else upper_bound key xs (it + 1) (count - (step + 1)))"
  by pat_completeness auto
termination
  by (relation "measure (\<lambda>(key, xs, first, count). count)") auto

declare upper_bound.simps [simp del]

definition insert_sorted :: "AddressMapEntry \<Rightarrow> AddressMapEntry list \<Rightarrow> AddressMapEntry list" where
  "insert_sorted entry xs =
     (let i = upper_bound (rstart entry) xs 0 (length xs) in take i xs @ entry # drop i xs)"

definition zero_fill :: "hmem \<Rightarrow> u64 \<Rightarrow> u32 \<Rightarrow> hmem" where
  "zero_fill h p sz = (\<lambda>a. if a - p < ucast sz then 0 else h a)"

text \<open>
  \<open>fresh\<close> is the address \<open>new uint8_t[size]()\<close> returns, \<open>oid\<close> the identity of the new entry.
\<close>

definition add_mem_region ::
    "nat \<Rightarrow> u64 \<Rightarrow> u32 \<Rightarrow> u32 \<Rightarrow> u32 \<Rightarrow> u32 \<Rightarrow> u64 \<Rightarrow> 'a MemCtrl_scheme \<Rightarrow>
     AddressMapEntry option \<times> 'a MemCtrl_scheme" where
  "add_mem_region oid fresh start_addr sz dest_addr typ ptr m =
     (if \<not> is_range_free m start_addr sz then (None, m)
      else
        let (p, m1) = (if ptr \<noteq> 0 then (ptr, m)
              else (fresh, m\<lparr>mem_regions := mem_regions m @ [fresh],
                              host_mem := zero_fill (host_mem m) fresh sz\<rparr>));
            entry = \<lparr>eid = oid, rstart = start_addr, rend = start_addr + sz - 1,
                     mirror = dest_addr, rtype = typ, devobj = None, mem_ptr = p\<rparr>
        in (Some entry, m1\<lparr>address_map := insert_sorted entry (address_map m1)\<rparr>))"

definition add_rom_region where
  "add_rom_region oid fresh start_addr sz = add_mem_region oid fresh start_addr sz 0 RT_ROM 0"

definition add_ram_region where
  "add_ram_region oid fresh start_addr sz = add_mem_region oid fresh start_addr sz 0 RT_RAM 0"

definition add_ram_region_ptr where
  "add_ram_region_ptr oid fresh start_addr sz p = add_mem_region oid fresh start_addr sz 0 RT_RAM p"

definition add_mem_mirror_common ::
    "nat \<Rightarrow> u32 \<Rightarrow> u32 \<Rightarrow> u32 \<Rightarrow> u32 \<Rightarrow> 'a MemCtrl_scheme \<Rightarrow>
     AddressMapEntry option \<times> 'a MemCtrl_scheme" where
  "add_mem_mirror_common oid start_addr dest_addr offs sz m =
     (case find_range m dest_addr of
        None \<Rightarrow> (None, m)
      | Some ref \<Rightarrow>
          let sz = (if sz = 0 then rend ref - rstart ref + 1 else sz)
          in if rstart ref + offs + sz - 1 > rend ref then (None, m)
             else
               let entry = \<lparr>eid = oid, rstart = start_addr, rend = start_addr + sz - 1,
                            mirror = dest_addr, rtype = rtype ref OR RT_MIRROR, devobj = None,
                            mem_ptr = mem_ptr ref + ucast offs\<rparr>
               in (Some entry, m\<lparr>address_map := address_map m @ [entry]\<rparr>))"

definition add_mem_mirror where
  "add_mem_mirror oid start_addr dest_addr = add_mem_mirror_common oid start_addr dest_addr 0 0"

definition add_mem_mirror_partial where
  "add_mem_mirror_partial oid start_addr dest_addr offs sz =
     add_mem_mirror_common oid start_addr dest_addr offs sz"

definition copy_bytes :: "hmem \<Rightarrow> u64 \<Rightarrow> u8 list \<Rightarrow> nat \<Rightarrow> hmem" where
  "copy_bytes h p data n = (\<lambda>a. if unat (a - p) < n then data ! unat (a - p) else h a)"

definition set_data ::
    "u32 \<Rightarrow> u8 list \<Rightarrow> u32 \<Rightarrow> 'a MemCtrl_scheme \<Rightarrow> AddressMapEntry option \<times> 'a MemCtrl_scheme" where
  "set_data load_addr data sz m =
     (case find_range m load_addr of
        None \<Rightarrow> (None, m)
      | Some ref \<Rightarrow>
          let load_offset = load_addr - rstart ref;
              cpy_size = min (rend ref - rstart ref + 1) sz
          in (Some ref, m\<lparr>host_mem :=
                copy_bytes (host_mem m) (mem_ptr ref + ucast load_offset) data (unat cpy_size)\<rparr>))"

definition add_mmio_region ::
    "nat \<Rightarrow> u32 \<Rightarrow> u32 \<Rightarrow> dev option \<Rightarrow> 'a MemCtrl_scheme \<Rightarrow>
     AddressMapEntry option \<times> 'a MemCtrl_scheme" where
  "add_mmio_region oid start_addr sz dev_instance m =
     (if \<not> is_range_free m start_addr sz then (None, m)
      else
        let entry = \<lparr>eid = oid, rstart = start_addr, rend = start_addr + sz - 1,
                     mirror = 0, rtype = RT_MMIO, devobj = dev_instance, mem_ptr = 0\<rparr>
        in (Some entry, m\<lparr>address_map := address_map m @ [entry]\<rparr>))"

definition remove_mmio_region ::
    "u32 \<Rightarrow> u32 \<Rightarrow> dev option \<Rightarrow> 'a MemCtrl_scheme \<Rightarrow> bool \<times> 'a MemCtrl_scheme" where
  "remove_mmio_region start_addr sz dev_instance m =
     (let e = start_addr + sz - 1;
          hit = (\<lambda>x. match_mem_entry x start_addr e dev_instance)
      in (0 < length (filter hit (address_map m)),
          m\<lparr>address_map := filter (\<lambda>x. \<not> hit x) (address_map m)\<rparr>))"

definition remove_region ::
    "AddressMapEntry \<Rightarrow> 'a MemCtrl_scheme \<Rightarrow> AddressMapEntry option \<times> 'a MemCtrl_scheme" where
  "remove_region entry m =
     (let hit = (\<lambda>x. eid x = eid entry);
          found = length (filter hit (address_map m));
          m1 = m\<lparr>address_map := filter (\<lambda>x. \<not> hit x) (address_map m)\<rparr>
      in (if found = 0 then None else Some entry, m1))"

subsection \<open>Overlap\<close>

definition covers :: "AddressMapEntry \<Rightarrow> u32 \<Rightarrow> bool" where
  "covers e a \<longleftrightarrow> rstart e \<le> a \<and> a \<le> rend e"

definition apart :: "AddressMapEntry \<Rightarrow> AddressMapEntry \<Rightarrow> bool" where
  "apart x y \<longleftrightarrow> rend x < rstart y \<or> rend y < rstart x"

text \<open>Entries are non-empty ranges, and no two of them cover a common address.\<close>

definition map_inv :: "'a MemCtrl_scheme \<Rightarrow> bool" where
  "map_inv m \<longleftrightarrow>
     (\<forall>x\<in>set (address_map m). rstart x \<le> rend x) \<and> sorted_wrt apart (address_map m)"

lemma apart_iff:
  assumes "rstart x \<le> rend x" "rstart y \<le> rend y"
  shows "apart x y \<longleftrightarrow> (\<forall>a. \<not> (covers x a \<and> covers y a))"
proof
  assume "\<forall>a. \<not> (covers x a \<and> covers y a)"
  then have "\<not> (covers x (max (rstart x) (rstart y)) \<and> covers y (max (rstart x) (rstart y)))"
    by blast
  with assms show "apart x y"
    by (auto simp: apart_def covers_def max_def split: if_splits)
qed (use order.strict_trans1 order.strict_trans2 in \<open>fastforce simp: apart_def covers_def\<close>)

lemma apart_sym: "apart x y \<longleftrightarrow> apart y x"
  by (auto simp: apart_def)

lemma sorted_wrt_insert_between:
  assumes "\<And>x y. P x y \<longleftrightarrow> P y x" "sorted_wrt P (xs @ ys)" "\<forall>x\<in>set (xs @ ys). P e x"
  shows "sorted_wrt P (xs @ e # ys)"
  using assms by (auto simp: sorted_wrt_append)

lemma sorted_wrt_filter_keeps: "sorted_wrt P xs \<Longrightarrow> sorted_wrt P (filter Q xs)"
  by (induction xs) auto

lemma range_free_loop_iff:
  assumes "addr \<le> e" "\<forall>x\<in>set xs. rstart x \<le> rend x"
  shows "range_free_loop addr e xs r \<longleftrightarrow> r \<and> (\<forall>x\<in>set xs. e < rstart x \<or> rend x < addr)"
  using assms(2) by (induction xs arbitrary: r) (use assms(1) in auto)

lemma is_range_free_apart:
  assumes "map_inv m" "sz \<noteq> 0" "s \<le> s + sz - 1" "rstart e = s" "rend e = s + sz - 1"
  shows "is_range_free m s sz \<longleftrightarrow> (\<forall>x\<in>set (address_map m). apart e x)"
  using assms by (simp add: is_range_free_def range_free_loop_iff map_inv_def apart_def)

lemma find_unique:
  "sorted_wrt (\<lambda>x y. \<not> (P x \<and> P y)) xs \<Longrightarrow> x \<in> set xs \<Longrightarrow> P x \<Longrightarrow> find P xs = Some x"
  by (induction xs) auto

lemma find_range_covers: "find_range m a = find (\<lambda>e. covers e a) (address_map m)"
  by (simp add: find_range_def covers_def conj_commute)

lemma find_range_Some_iff:
  assumes "map_inv m"
  shows "find_range m a = Some e \<longleftrightarrow> e \<in> set (address_map m) \<and> covers e a"
proof -
  have "sorted_wrt (\<lambda>x y. \<not> (covers x a \<and> covers y a)) (address_map m)"
  proof (rule sorted_wrt_mono_rel)
    show "sorted_wrt apart (address_map m)"
      using assms by (simp add: map_inv_def)
    show "\<not> (covers x a \<and> covers y a)"
      if "x \<in> set (address_map m)" "y \<in> set (address_map m)" "apart x y" for x y
      using assms that apart_iff[of x y] by (simp add: map_inv_def)
  qed
  then show ?thesis
    unfolding find_range_covers using find_unique[of "\<lambda>e. covers e a"]
    by (auto simp: find_Some_iff in_set_conv_nth)
qed

lemma find_range_None_iff: "find_range m a = None \<longleftrightarrow> (\<forall>e\<in>set (address_map m). \<not> covers e a)"
  by (auto simp: find_range_covers find_None_iff)

text \<open>Two maps with the same entries answer every lookup alike.\<close>

lemma find_range_same_set:
  assumes "map_inv m" "map_inv m'" "set (address_map m') = insert e (set (address_map m))"
  shows "find_range m' a = (if covers e a then Some e else find_range m a)"
proof (cases "covers e a")
  case True
  then show ?thesis using find_range_Some_iff[OF assms(2), of a e] assms(3) by simp
next
  case False
  then have "find_range m' a = Some y \<longleftrightarrow> find_range m a = Some y" for y
    unfolding find_range_Some_iff[OF assms(2)] find_range_Some_iff[OF assms(1)] assms(3) by blast
  with False show ?thesis by (metis not_None_eq)
qed

subsection \<open>The search for the insertion point\<close>

lemma upper_bound_range: "first \<le> upper_bound key xs first count \<and> upper_bound key xs first count \<le> first + count"
proof (induction key xs first count rule: upper_bound.induct)
  case (1 key xs first count)
  then show ?case
    by (subst (1 2) upper_bound.simps) (fastforce simp: Let_def)
qed

lemma upper_bound_le_length: "upper_bound key xs 0 (length xs) \<le> length xs"
  using upper_bound_range[of 0 key xs "length xs"] by simp

lemma set_insert_sorted: "set (insert_sorted e xs) = insert e (set xs)"
  by (metis Un_insert_right append_take_drop_id insert_sorted_def list.simps(15) set_append)

lemma upper_bound_correct:
  assumes "sorted (map rstart xs)" "first + count \<le> length xs"
  shows "(\<forall>i. first \<le> i \<and> i < upper_bound key xs first count \<longrightarrow> rstart (xs ! i) \<le> key) \<and>
         (\<forall>i. upper_bound key xs first count \<le> i \<and> i < first + count \<longrightarrow> key < rstart (xs ! i))"
  using assms
proof (induction key xs first count rule: upper_bound.induct)
  case (1 key xs first count)
  have mono: "rstart (xs ! i) \<le> rstart (xs ! j)" if "i \<le> j" "j < length xs" for i j
    using "1.prems"(1) that by (auto simp: sorted_iff_nth_mono)
  show ?case
  proof (cases "count = 0")
    case True
    then show ?thesis by (auto simp: upper_bound.simps)
  next
    case False
    define it where "it = first + count div 2"
    have it: "first \<le> it" "it < first + count" "it < length xs"
      using False "1.prems"(2) by (auto simp: it_def)
    show ?thesis
    proof (cases "key < rstart (xs ! it)")
      case True
      then have IH: "upper_bound key xs first count = upper_bound key xs first (count div 2)"
        using False by (subst upper_bound.simps) (simp add: it_def Let_def)
      have "(\<forall>i. first \<le> i \<and> i < upper_bound key xs first (count div 2) \<longrightarrow> rstart (xs ! i) \<le> key) \<and>
         (\<forall>i. upper_bound key xs first (count div 2) \<le> i \<and> i < first + count div 2 \<longrightarrow> key < rstart (xs ! i))"
        using "1.IH"(1)[OF False refl refl] True it "1.prems" by (simp add: it_def)
      moreover have "key < rstart (xs ! i)" if "it \<le> i" "i < first + count" for i
        using mono[of it i] that True "1.prems"(2) by auto
      ultimately show ?thesis unfolding IH it_def by (meson not_le_imp_less)
    next
      case False': False
      then have IH: "upper_bound key xs first count = upper_bound key xs (it + 1) (count - (count div 2 + 1))"
        using False by (subst upper_bound.simps) (simp add: it_def Let_def)
      have c: "it + 1 + (count - (count div 2 + 1)) = first + count"
        using False it_def by linarith
      have "(\<forall>i. it + 1 \<le> i \<and> i < upper_bound key xs (it + 1) (count - (count div 2 + 1)) \<longrightarrow> rstart (xs ! i) \<le> key) \<and>
         (\<forall>i. upper_bound key xs (it + 1) (count - (count div 2 + 1)) \<le> i \<and> i < it + 1 + (count - (count div 2 + 1)) \<longrightarrow> key < rstart (xs ! i))"
        using "1.IH"(2)[OF False refl refl] False' it "1.prems" c by (simp add: it_def)
      moreover have "rstart (xs ! i) \<le> key" if "i \<le> it" for i
        using mono[of i it] that False' it by auto
      ultimately show ?thesis unfolding IH c
        by (metis Suc_eq_plus1 not_less_eq_eq)
    qed
  qed
qed


lemma insert_sorted_sorted:
  assumes "sorted (map rstart xs)"
  shows "sorted (map rstart (insert_sorted e xs))"
proof -
  define i where "i = upper_bound (rstart e) xs 0 (length xs)"
  have "\<forall>x\<in>set (take i xs). rstart x \<le> rstart e"
    using upper_bound_correct[OF assms, of 0 "length xs" "rstart e"]
    by (auto simp: in_set_conv_nth i_def)
  moreover have "\<forall>x\<in>set (drop i xs). rstart e \<le> rstart x"
  proof
    fix x assume "x \<in> set (drop i xs)"
    then obtain j where "i + j < length xs" "x = xs ! (i + j)"
      by (fastforce simp: in_set_conv_nth less_diff_conv add.commute)
    then show "rstart e \<le> rstart x"
      using upper_bound_correct[OF assms, of 0 "length xs" "rstart e"] by (simp add: i_def less_imp_le)
  qed
  moreover have "sorted (map rstart (take i xs))" "sorted (map rstart (drop i xs))"
    using assms by (simp_all add: sorted_wrt_take sorted_wrt_drop flip: take_map drop_map)
  ultimately show ?thesis
    by (force simp: insert_sorted_def i_def[symmetric] sorted_append dest: order_trans)
qed

lemma insert_sorted_apart:
  assumes "sorted_wrt apart xs" "\<forall>x\<in>set xs. apart e x"
  shows "sorted_wrt apart (insert_sorted e xs)"
  unfolding insert_sorted_def Let_def
  by (rule sorted_wrt_insert_between) (use assms apart_sym in auto)

subsection \<open>The address space as an interface\<close>

text \<open>
  What a machine that builds its memory map relies on: a successful addition answers exactly the
  addresses of the new range and leaves the others alone, a refused one changes nothing.
\<close>

locale address_space =
  fixes inv :: "'s \<Rightarrow> bool"
    and lookup :: "'s \<Rightarrow> u32 \<Rightarrow> 'e option"
    and add :: "'c \<Rightarrow> u32 \<Rightarrow> u32 \<Rightarrow> 's \<Rightarrow> 'e option \<times> 's"
  assumes add_inv: "\<lbrakk>inv s; sz \<noteq> 0; a \<le> a + sz - 1\<rbrakk> \<Longrightarrow> inv (snd (add c a sz s))"
    and add_lookup: "\<lbrakk>inv s; sz \<noteq> 0; a \<le> a + sz - 1; add c a sz s = (Some e, s')\<rbrakk> \<Longrightarrow>
          lookup s' x = (if a \<le> x \<and> x \<le> a + sz - 1 then Some e else lookup s x)"
    and add_refused: "add c a sz s = (None, s') \<Longrightarrow> s' = s"
    and add_taken: "\<lbrakk>inv s; sz \<noteq> 0; a \<le> a + sz - 1; a \<le> x; x \<le> a + sz - 1; lookup s x \<noteq> None\<rbrakk> \<Longrightarrow>
          fst (add c a sz s) = None"
begin

fun add_all :: "('c \<times> u32 \<times> u32) list \<Rightarrow> 's \<Rightarrow> 's" where
  "add_all [] s = s"
| "add_all ((c, a, sz) # rs) s = add_all rs (snd (add c a sz s))"

definition proper :: "('c \<times> u32 \<times> u32) list \<Rightarrow> bool" where
  "proper rs \<longleftrightarrow> (\<forall>(c, a, sz)\<in>set rs. sz \<noteq> 0 \<and> a \<le> a + sz - 1)"

lemma add_keeps_lookup:
  assumes "inv s" "sz \<noteq> 0" "a \<le> a + sz - 1" "lookup s x = Some e"
  shows "lookup (snd (add c a sz s)) x = Some e"
proof (cases "fst (add c a sz s)")
  case None
  then show ?thesis using add_refused assms(4) by (metis prod.collapse)
next
  case (Some e')
  then have "\<not> (a \<le> x \<and> x \<le> a + sz - 1)"
    using add_taken[OF assms(1-3)] assms(4) by fastforce
  then show ?thesis
    using add_lookup[OF assms(1-3), of c e' "snd (add c a sz s)" x] Some assms(4)
    by (simp only: prod_eq_iff fst_conv snd_conv if_False simp_thms)
qed

lemma add_all_stable:
  "\<lbrakk>inv s; proper rs; lookup s x = Some e\<rbrakk> \<Longrightarrow> inv (add_all rs s) \<and> lookup (add_all rs s) x = Some e"
  by (induction rs s rule: add_all.induct) (auto simp: proper_def add_inv add_keeps_lookup)

end

text \<open>What \<open>add_mem_region\<close> puts in the map, whichever buffer it uses.\<close>

lemma add_mem_region_cases:
  "add_mem_region oid fresh s sz d t p m = (r, m') \<Longrightarrow>
     (\<not> is_range_free m s sz \<and> r = None \<and> m' = m) \<or>
     (\<exists>e. is_range_free m s sz \<and> r = Some e \<and> rstart e = s \<and> rend e = s + sz - 1 \<and>
          address_map m' = insert_sorted e (address_map m))"
  by (auto simp: add_mem_region_def Let_def split: if_splits)

lemma add_mmio_region_cases:
  "add_mmio_region oid s sz d m = (r, m') \<Longrightarrow>
     (\<not> is_range_free m s sz \<and> r = None \<and> m' = m) \<or>
     (\<exists>e. is_range_free m s sz \<and> r = Some e \<and> rstart e = s \<and> rend e = s + sz - 1 \<and>
          address_map m' = address_map m @ [e])"
  by (auto simp: add_mmio_region_def Let_def split: if_splits)

lemma map_inv_insert:
  assumes "map_inv m" "sz \<noteq> 0" "s \<le> s + sz - 1" "is_range_free m s sz"
    "rstart e = s" "rend e = s + sz - 1"
    "address_map m' = insert_sorted e (address_map m) \<or> address_map m' = address_map m @ [e]"
  shows "map_inv m'" "set (address_map m') = insert e (set (address_map m))"
proof -
  have "\<forall>x\<in>set (address_map m). apart e x"
    using is_range_free_apart[OF assms(1-3,5,6)] assms(4) by simp
  then show "map_inv m'"
    using assms apart_sym
    by (auto simp: map_inv_def set_insert_sorted insert_sorted_apart sorted_wrt_append)
  show "set (address_map m') = insert e (set (address_map m))"
    using assms(7) by (auto simp: set_insert_sorted)
qed

lemma lookup_insert:
  assumes "map_inv m" "sz \<noteq> 0" "s \<le> s + sz - 1" "is_range_free m s sz"
    "rstart e = s" "rend e = s + sz - 1"
    "address_map m' = insert_sorted e (address_map m) \<or> address_map m' = address_map m @ [e]"
  shows "find_range m' x = (if s \<le> x \<and> x \<le> s + sz - 1 then Some e else find_range m x)"
  using find_range_same_set[OF assms(1) map_inv_insert[OF assms], of x] assms(5,6)
  by (simp add: covers_def)

lemma range_taken_not_free:
  assumes "map_inv m" "sz \<noteq> 0" "a \<le> a + sz - 1" "a \<le> x" "x \<le> a + sz - 1" "find_range m x \<noteq> None"
  shows "\<not> is_range_free m a sz"
  using assms by (auto simp: find_range_None_iff covers_def is_range_free_def range_free_loop_iff map_inv_def
      intro!: bexI dest: order_trans leD)

interpretation mem: address_space map_inv find_range
  "\<lambda>(oid, fresh, d, t, p) s sz. add_mem_region oid fresh s sz d t p"
proof (unfold_locales, goal_cases)
  case (1 m sz a c)
  obtain oid fresh d t p where c: "c = (oid, fresh, d, t, p)" by (cases c)
  show ?case
    using add_mem_region_cases[of oid fresh a sz d t p m, OF surjective_pairing] map_inv_insert(1)[OF 1] 1
    unfolding c prod.case by metis
next
  case (2 m sz a c e m' x)
  obtain oid fresh d t p where c: "c = (oid, fresh, d, t, p)" by (cases c)
  show ?case
    using add_mem_region_cases[OF 2(4)[unfolded c prod.case]] lookup_insert[OF 2(1-3)]
    by (metis option.distinct(1) option.inject)
next
  case (3 c a sz m m')
  then show ?case by (cases c) (auto dest!: add_mem_region_cases)
next
  case (4 m sz a x c)
  then show ?case
    using range_taken_not_free[OF 4] by (cases c) (simp add: add_mem_region_def)
qed

interpretation mmio: address_space map_inv find_range
  "\<lambda>(oid, d) s sz. add_mmio_region oid s sz d"
proof (unfold_locales, goal_cases)
  case (1 m sz a c)
  obtain oid d where c: "c = (oid, d)" by (cases c)
  show ?case
    using add_mmio_region_cases[of oid a sz d m, OF surjective_pairing] map_inv_insert(1)[OF 1] 1
    unfolding c prod.case by metis
next
  case (2 m sz a c e m' x)
  obtain oid d where c: "c = (oid, d)" by (cases c)
  show ?case
    using add_mmio_region_cases[OF 2(4)[unfolded c prod.case]] lookup_insert[OF 2(1-3)]
    by (metis option.distinct(1) option.inject)
next
  case (3 c a sz m m')
  then show ?case by (cases c) (auto dest!: add_mmio_region_cases)
next
  case (4 m sz a x c)
  then show ?case
    using range_taken_not_free[OF 4] by (cases c) (simp add: add_mmio_region_def)
qed


lemma range_free_iff:
  assumes "map_inv m" "sz \<noteq> 0" "s \<le> s + sz - 1"
  shows "is_range_free m s sz \<longleftrightarrow> \<not> (\<exists>x. s \<le> x \<and> x \<le> s + sz - 1 \<and> find_range m x \<noteq> None)"
proof (cases "is_range_free m s sz")
  case False
  then obtain x where x: "x \<in> set (address_map m)" "\<not> (s + sz - 1 < rstart x \<or> rend x < s)"
    using assms by (auto simp: is_range_free_def range_free_loop_iff map_inv_def)
  then have "rstart x \<le> rend x"
    using assms(1) by (simp add: map_inv_def)
  with x assms(3) have "covers x (max s (rstart x))" "max s (rstart x) \<le> s + sz - 1"
    by (auto simp: covers_def)
  with x(1) have "\<exists>y. s \<le> y \<and> y \<le> s + sz - 1 \<and> find_range m y \<noteq> None"
    by (intro exI[of _ "max s (rstart x)"]) (auto simp: find_range_None_iff)
  with False show ?thesis by blast
next
  case True
  then show ?thesis using range_taken_not_free[OF assms] by blast
qed

subsection \<open>Properties\<close>

text \<open>
  C1: Adding a memory region to a map of disjoint entries. Either the range is refused, exactly
  when one of its addresses is already mapped, and nothing changes; or the map stays disjoint,
  the new entry answers for every address of the range, and every other address is answered as
  before.
\<close>

theorem add_mem_region_lookup:
  assumes "map_inv m" "sz \<noteq> 0" "s \<le> s + sz - 1"
    and "add_mem_region oid fresh s sz d t p m = (r, m')"
  shows "map_inv m' \<and>
    (case r of
       None \<Rightarrow> m' = m \<and> (\<exists>x. s \<le> x \<and> x \<le> s + sz - 1 \<and> find_range m x \<noteq> None)
     | Some e \<Rightarrow> rtype e = t \<and> rstart e = s \<and> rend e = s + sz - 1 \<and>
         mem_ptr e = (if p \<noteq> 0 then p else fresh) \<and>
         (\<forall>x. find_range m' x = (if s \<le> x \<and> x \<le> s + sz - 1 then Some e else find_range m x)))"
proof (cases r)
  case None
  then have "m' = m" "\<not> is_range_free m s sz"
    using add_mem_region_cases[OF assms(4)] by auto
  then show ?thesis using None range_free_iff[OF assms(1-3)] assms(1) by auto
next
  case (Some e)
  have "map_inv m'"
    using mem.add_inv[OF assms(1-3), of "(oid, fresh, d, t, p)"] assms(4) by simp
  moreover have "find_range m' x = (if s \<le> x \<and> x \<le> s + sz - 1 then Some e else find_range m x)" for x
    using mem.add_lookup[OF assms(1-3), of "(oid, fresh, d, t, p)" e m' x] assms(4) Some by simp
  moreover have "rtype e = t \<and> rstart e = s \<and> rend e = s + sz - 1 \<and> mem_ptr e = (if p \<noteq> 0 then p else fresh)"
    using assms(4) Some by (auto simp: add_mem_region_def Let_def split: if_splits)
  ultimately show ?thesis using Some by simp
qed

definition empty_ctrl :: MemCtrl where
  "empty_ctrl = \<lparr>address_map = [], mem_regions = [], host_mem = (\<lambda>_. 0)\<rparr>"

lemma map_inv_empty_ctrl: "map_inv empty_ctrl"
  by (simp add: map_inv_def empty_ctrl_def)

theorem add_mem_region_lookup_witness:
  "\<exists>e. find_range (snd (add_mem_region 1 0x1000 0 0x100 0 RT_RAM 0 empty_ctrl)) 0x80 = Some e \<and>
       rtype e = RT_RAM"
proof -
  obtain e m' where e: "add_mem_region 1 0x1000 0 0x100 0 RT_RAM 0 empty_ctrl = (Some e, m')"
    by (simp add: add_mem_region_def is_range_free_def empty_ctrl_def Let_def)
  show ?thesis
    unfolding e using add_mem_region_lookup[OF map_inv_empty_ctrl _ _ e] by simp
qed

text \<open>Requests to add a memory region or a device, and what they mean for the map from addresses to entries.\<close>

type_synonym add_request = "((nat \<times> u64 \<times> u32 \<times> u32 \<times> u64) + (nat \<times> dev option)) \<times> u32 \<times> u32"

fun build_map :: "add_request \<Rightarrow> 'a MemCtrl_scheme \<Rightarrow> 'a MemCtrl_scheme" where
  "build_map (Inl (oid, fresh, d, t, p), s, sz) m = snd (add_mem_region oid fresh s sz d t p m)"
| "build_map (Inr (oid, d), s, sz) m = snd (add_mmio_region oid s sz d m)"

fun request_entry :: "add_request \<Rightarrow> AddressMapEntry" where
  "request_entry (Inl (oid, fresh, d, t, p), s, sz) =
     \<lparr>eid = oid, rstart = s, rend = s + sz - 1, mirror = d, rtype = t, devobj = None, mem_ptr = (if p \<noteq> 0 then p else fresh)\<rparr>"
| "request_entry (Inr (oid, d), s, sz) =
     \<lparr>eid = oid, rstart = s, rend = s + sz - 1, mirror = 0, rtype = RT_MMIO, devobj = d, mem_ptr = 0\<rparr>"

text \<open>The abstract map: a request is granted when its range is free of earlier ones.\<close>

fun grant :: "add_request \<Rightarrow> (u32 \<Rightarrow> AddressMapEntry option) \<Rightarrow> u32 \<Rightarrow> AddressMapEntry option" where
  "grant (c, s, sz) f =
     (if \<exists>x. s \<le> x \<and> x \<le> s + sz - 1 \<and> f x \<noteq> None then f
      else (\<lambda>x. if s \<le> x \<and> x \<le> s + sz - 1 then Some (request_entry (c, s, sz)) else f x))"

lemma build_map_step:
  assumes "map_inv m" "sz \<noteq> 0" "s \<le> s + sz - 1"
  shows "map_inv (build_map (c, s, sz) m) \<and> find_range (build_map (c, s, sz) m) = grant (c, s, sz) (find_range m)"
proof (cases c)
  case (Inl a)
  obtain oid fresh d t p where a: "a = (oid, fresh, d, t, p)" by (cases a)
  obtain r m' where add: "add_mem_region oid fresh s sz d t p m = (r, m')" by fastforce
  have "r = (if is_range_free m s sz then Some (request_entry (c, s, sz)) else None)"
    using add Inl a by (auto simp: add_mem_region_def Let_def split: if_splits)
  then show ?thesis
    using mem.add_inv[OF assms, of a] mem.add_lookup[OF assms, of a "request_entry (c, s, sz)" m'] add Inl a range_free_iff[OF assms]
      mem.add_refused[of a s sz m m']
    by (cases "is_range_free m s sz") (auto simp: fun_eq_iff simp del: request_entry.simps)
next
  case (Inr a)
  obtain oid d where a: "a = (oid, d)" by (cases a)
  obtain r m' where add: "add_mmio_region oid s sz d m = (r, m')" by fastforce
  have "r = (if is_range_free m s sz then Some (request_entry (c, s, sz)) else None)"
    using add Inr a by (auto simp: add_mmio_region_def Let_def split: if_splits)
  then show ?thesis
    using mmio.add_inv[OF assms, of a] mmio.add_lookup[OF assms, of a "request_entry (c, s, sz)" m'] add Inr a range_free_iff[OF assms]
      mmio.add_refused[of a s sz m m']
    by (cases "is_range_free m s sz") (auto simp: fun_eq_iff simp del: request_entry.simps)
qed

text \<open>
  C30: Building the map of a machine. Whatever memory and MMIO regions are added, in any number and order, the map stays
  disjoint and looks up addresses as the abstract map does: an addition to a free range answers for exactly
  its addresses, with its kind, device and memory, an addition that overlaps an earlier region is refused, and nothing
  added later shadows what is there.
\<close>

theorem build_map_refines:
  assumes "map_inv m" "\<forall>(c, s, sz)\<in>set rs. sz \<noteq> 0 \<and> s \<le> s + sz - 1"
  shows "map_inv (fold build_map rs m) \<and> find_range (fold build_map rs m) = fold grant rs (find_range m)"
  using assms
proof (induction rs arbitrary: m)
  case (Cons r rs)
  obtain c s sz where r: "r = (c, s, sz)" by (cases r)
  have "map_inv (build_map r m) \<and> find_range (build_map r m) = grant r (find_range m)"
    using build_map_step[OF Cons.prems(1), of sz s c] Cons.prems(2) r by auto
  then show ?case using Cons.IH[of "build_map r m"] Cons.prems(2) by simp
qed simp

definition demo_entry :: AddressMapEntry where
  "demo_entry = \<lparr>eid = 1, rstart = 0, rend = 0xFF, mirror = 0, rtype = RT_RAM, devobj = None, mem_ptr = 0x1000\<rparr>"

definition demo_ctrl :: MemCtrl where
  "demo_ctrl = \<lparr>address_map = [demo_entry], mem_regions = [0x1000], host_mem = (\<lambda>_. 0)\<rparr>"

text \<open>A device over the end of the memory is refused, a ROM beside it is granted.\<close>

theorem build_map_refines_witness:
  "let m = fold build_map [(Inr (2, Some 7), 0x80, 0x100), (Inl (3, 0x9000, 0, RT_ROM, 0), 0x200, 0x10)] demo_ctrl
   in find_range m 0x90 = Some demo_entry \<and> find_range m 0x120 = None \<and> map_option mem_ptr (find_range m 0x20F) = Some 0x9000"
proof -
  let ?rs = "[(Inr (2, Some 7), 0x80, 0x100), (Inl (3, 0x9000, 0, RT_ROM, 0), 0x200, 0x10)]" and ?f = "find_range demo_ctrl"
  have f: "?f x = (if x \<le> 0xFF then Some demo_entry else None)" for x
    by (simp add: find_range_def demo_ctrl_def demo_entry_def)
  have a: "grant (Inr (2, Some 7), 0x80, 0x100) ?f = ?f" by (auto simp: f intro!: exI[of _ "0x80"])
  have b: "grant (Inl (3, 0x9000, 0, RT_ROM, 0), 0x200, 0x10) ?f =
      (\<lambda>x. if 0x200 \<le> x \<and> x \<le> 0x20F then Some (request_entry (Inl (3, 0x9000, 0, RT_ROM, 0), 0x200, 0x10)) else ?f x)"
  proof -
    have "\<not> (\<exists>x. 0x200 \<le> x \<and> x \<le> 0x20F \<and> ?f x \<noteq> None)" by (auto simp: f dest: order_trans)
    then show ?thesis by (auto simp del: request_entry.simps)
  qed
  have "map_inv demo_ctrl" by (simp add: map_inv_def demo_ctrl_def demo_entry_def)
  then have "find_range (fold build_map ?rs demo_ctrl) = fold grant ?rs ?f"
    using build_map_refines[of demo_ctrl ?rs] by simp
  then show ?thesis unfolding Let_def by (simp add: a b f del: grant.simps fold_simps(2) flip: fold_simps)
qed

text \<open>
  Removing an MMIO region right after it was added gives back the map as it was, and
  \<open>remove_mmio_region\<close> reports success.
\<close>

lemma match_entry_covers:
  "match_mem_entry x s e d \<Longrightarrow> s \<le> e \<Longrightarrow> covers x s"
  by (simp add: match_mem_entry_def covers_def)

theorem remove_after_add_mmio:
  assumes "map_inv m" "sz \<noteq> 0" "s \<le> s + sz - 1"
    and "add_mmio_region oid s sz d m = (Some e, m')"
  shows "remove_mmio_region s sz d m' = (True, m)"
proof -
  have "\<not> match_mem_entry x s (s + sz - 1) d" if "x \<in> set (address_map m)" for x
    using match_entry_covers[of x s "s + sz - 1" d] range_taken_not_free[OF assms(1-3), of s]
      find_range_None_iff[of m s] that assms(3,4)
    by (auto simp: add_mmio_region_def split: if_splits)
  then have "filter (\<lambda>x. \<not> match_mem_entry x s (s + sz - 1) d) (address_map m) = address_map m"
    by (simp add: filter_id_conv)
  then show ?thesis
    using assms(4)
    by (auto simp: add_mmio_region_def remove_mmio_region_def match_mem_entry_def Let_def split: if_splits)
qed

theorem remove_after_add_mmio_witness:
  "remove_mmio_region 0x1000 0x100 (Some 7) (snd (add_mmio_region 2 0x1000 0x100 (Some 7) demo_ctrl)) =
     (True, demo_ctrl)"
proof -
  have m: "map_inv demo_ctrl"
    by (simp add: map_inv_def demo_ctrl_def demo_entry_def)
  obtain e m' where e: "add_mmio_region 2 0x1000 0x100 (Some 7) demo_ctrl = (Some e, m')"
    by (simp add: add_mmio_region_def is_range_free_def demo_ctrl_def demo_entry_def Let_def)
  show ?thesis
    using remove_after_add_mmio[OF m _ _ e] by (simp add: e)
qed

text \<open>
  \<open>set_data\<close> bounds the copy by the size of the region and not by what is left of it after the
  load offset: a load of a full region's worth of bytes into the middle of a region writes past
  the region's end, over memory that is not its own.
\<close>

theorem set_data_overruns:
  "\<exists>(m :: MemCtrl) ref data a.
     find_range m 0x80 = Some ref \<and> mem_ptr ref + ucast (rend ref - rstart ref) < a \<and>
     host_mem (snd (set_data 0x80 data 0x100 m)) a \<noteq> host_mem m a"
  by (rule exI[of _ demo_ctrl], rule exI[of _ demo_entry], rule exI[of _ "replicate 0x100 1"], rule exI[of _ "0x1170"])
     (simp add: set_data_def demo_ctrl_def demo_entry_def find_range_def copy_bytes_def)

end
