(* ===== verification/PpcState.thy ===== *)
theory PpcState
  imports TimerManager MemCtrl
begin

text \<open>
  The state of the emulated processor, from \<open>src/cpu/ppc/ppcemu.h\<close> and the globals of
  \<open>src/cpu/ppc/ppcexec.cpp\<close>, and the operand fields of an instruction word
  (\<open>src/cpu/ppc/ppcdechelpers.h\<close>). The C++ globals are grouped in a chain of records, each a
  suffix of the next: the architected registers (\<open>SetPRS\<close>), the execution control variables
  (\<open>cpu\<close>), the virtual time and time base variables (\<open>timebase\<close>). An operation is defined on the
  shortest prefix of the chain it touches and is polymorphic in the rest.

  Floating point registers hold their 64-bit integer view.
\<close>

subsection \<open>Enumerations\<close>

abbreviation (input) "SPR_MQ \<equiv> (0 :: nat)"
abbreviation (input) "SPR_XER \<equiv> (1 :: nat)"
abbreviation (input) "SPR_RTCU_U \<equiv> (4 :: nat)"
abbreviation (input) "SPR_RTCL_U \<equiv> (5 :: nat)"
abbreviation (input) "SPR_DEC_U \<equiv> (6 :: nat)"
abbreviation (input) "SPR_LR \<equiv> (8 :: nat)"
abbreviation (input) "SPR_CTR \<equiv> (9 :: nat)"
abbreviation (input) "SPR_DSISR \<equiv> (18 :: nat)"
abbreviation (input) "SPR_DAR \<equiv> (19 :: nat)"
abbreviation (input) "SPR_RTCU_S \<equiv> (20 :: nat)"
abbreviation (input) "SPR_RTCL_S \<equiv> (21 :: nat)"
abbreviation (input) "SPR_DEC_S \<equiv> (22 :: nat)"
abbreviation (input) "SPR_SDR1 \<equiv> (25 :: nat)"
abbreviation (input) "SPR_SRR0 \<equiv> (26 :: nat)"
abbreviation (input) "SPR_SRR1 \<equiv> (27 :: nat)"
abbreviation (input) "SPR_TBL_U \<equiv> (268 :: nat)"
abbreviation (input) "SPR_TBU_U \<equiv> (269 :: nat)"
abbreviation (input) "SPR_EAR \<equiv> (282 :: nat)"
abbreviation (input) "SPR_TBL_S \<equiv> (284 :: nat)"
abbreviation (input) "SPR_TBU_S \<equiv> (285 :: nat)"
abbreviation (input) "SPR_PVR \<equiv> (287 :: nat)"
abbreviation (input) "SPR_DMISS \<equiv> (976 :: nat)"
abbreviation (input) "SPR_DCMP \<equiv> (977 :: nat)"
abbreviation (input) "SPR_HASH1 \<equiv> (978 :: nat)"
abbreviation (input) "SPR_HASH2 \<equiv> (979 :: nat)"
abbreviation (input) "SPR_IMISS \<equiv> (980 :: nat)"
abbreviation (input) "SPR_ICMP \<equiv> (981 :: nat)"
abbreviation (input) "SPR_RPA \<equiv> (982 :: nat)"
abbreviation (input) "SPR_HID0 \<equiv> (1008 :: nat)"
abbreviation (input) "SPR_HID1 \<equiv> (1009 :: nat)"
abbreviation (input) "SPR_THRM1 \<equiv> (1020 :: nat)"
abbreviation (input) "SPR_THRM2 \<equiv> (1021 :: nat)"
abbreviation (input) "SPR_THRM3 \<equiv> (1022 :: nat)"

abbreviation (input) "MPC601 \<equiv> (0x00010001 :: u32)"
abbreviation (input) "MPC603 \<equiv> (0x00030001 :: u32)"
abbreviation (input) "MPC604 \<equiv> (0x00040001 :: u32)"
abbreviation (input) "MPC603E \<equiv> (0x00060101 :: u32)"
abbreviation (input) "MPC603EV \<equiv> (0x00070101 :: u32)"
abbreviation (input) "MPC750 \<equiv> (0x00080200 :: u32)"
abbreviation (input) "MPC604E \<equiv> (0x00090202 :: u32)"
abbreviation (input) "MPC970MP \<equiv> (0x00440100 :: u32)"

abbreviation (input) "EXEF_BRANCH \<equiv> (1 :: u32)"
abbreviation (input) "EXEF_EXCEPTION \<equiv> (2 :: u32)"
abbreviation (input) "EXEF_RFI \<equiv> (4 :: u32)"
abbreviation (input) "EXEF_OPC_DECODER \<equiv> (8 :: u32)"
abbreviation (input) "EXEF_SLEEP \<equiv> (0x10 :: u32)"

abbreviation (input) "CR_SO \<equiv> (0x10000000 :: u32)"
abbreviation (input) "CR_EQ \<equiv> (0x20000000 :: u32)"
abbreviation (input) "CR_GT \<equiv> (0x40000000 :: u32)"
abbreviation (input) "CR_LT \<equiv> (0x80000000 :: u32)"

abbreviation (input) "MSR_LE \<equiv> (0x1 :: u32)"
abbreviation (input) "MSR_RI \<equiv> (0x2 :: u32)"
abbreviation (input) "MSR_DR \<equiv> (0x10 :: u32)"
abbreviation (input) "MSR_IR \<equiv> (0x20 :: u32)"
abbreviation (input) "MSR_IP \<equiv> (0x40 :: u32)"
abbreviation (input) "MSR_ME \<equiv> (0x1000 :: u32)"
abbreviation (input) "MSR_FP \<equiv> (0x2000 :: u32)"
abbreviation (input) "MSR_PR \<equiv> (0x4000 :: u32)"
abbreviation (input) "MSR_EE \<equiv> (0x8000 :: u32)"
abbreviation (input) "MSR_ILE \<equiv> (0x10000 :: u32)"
abbreviation (input) "MSR_TGPR \<equiv> (0x20000 :: u32)"
abbreviation (input) "MSR_POW \<equiv> (0x40000 :: u32)"

abbreviation (input) "XER_CA \<equiv> (0x20000000 :: u32)"
abbreviation (input) "XER_OV \<equiv> (0x40000000 :: u32)"
abbreviation (input) "XER_SO \<equiv> (0x80000000 :: u32)"

abbreviation (input) "CAUSE_FPU_OFF \<equiv> (0x00100000 :: u32)"
abbreviation (input) "CAUSE_ILLEGAL_OP \<equiv> (0x00080000 :: u32)"
abbreviation (input) "CAUSE_NOT_ALLOWED \<equiv> (0x00040000 :: u32)"
abbreviation (input) "CAUSE_TRAP \<equiv> (0x00020000 :: u32)"

datatype Except_Type =
  EXC_SYSTEM_RESET | EXC_MACHINE_CHECK | EXC_DSI | EXC_ISI | EXC_EXT_INT | EXC_ALIGNMENT
| EXC_PROGRAM | EXC_NO_FPU | EXC_DECR | EXC_SYSCALL | EXC_TRACE | EXC_FP_ASSIST
| EXC_PERF_MON_INT | EXC_ITLB_MISS | EXC_DTLB_LOAD_MISS | EXC_DTLB_STORE_MISS
| EXC_INST_ADDR_BP | EXC_SYS_MGMT_INT | EXC_THRM_MGMT_INT

primrec exc_code :: "Except_Type \<Rightarrow> u32" where
  "exc_code EXC_SYSTEM_RESET = 0x01"
| "exc_code EXC_MACHINE_CHECK = 0x02"
| "exc_code EXC_DSI = 0x03"
| "exc_code EXC_ISI = 0x04"
| "exc_code EXC_EXT_INT = 0x05"
| "exc_code EXC_ALIGNMENT = 0x06"
| "exc_code EXC_PROGRAM = 0x07"
| "exc_code EXC_NO_FPU = 0x08"
| "exc_code EXC_DECR = 0x09"
| "exc_code EXC_SYSCALL = 0x0C"
| "exc_code EXC_TRACE = 0x0D"
| "exc_code EXC_FP_ASSIST = 0x0E"
| "exc_code EXC_PERF_MON_INT = 0x0F"
| "exc_code EXC_ITLB_MISS = 0x10"
| "exc_code EXC_DTLB_LOAD_MISS = 0x11"
| "exc_code EXC_DTLB_STORE_MISS = 0x12"
| "exc_code EXC_INST_ADDR_BP = 0x13"
| "exc_code EXC_SYS_MGMT_INT = 0x14"
| "exc_code EXC_THRM_MGMT_INT = 0x17"

datatype Po_Cause =
  po_none | po_starting_up | po_quit | po_quitting | po_shut_down | po_shutting_down
| po_restart | po_restarting | po_disassemble_on | po_disassemble_off | po_enter_debugger
| po_entered_debugger | po_signal_interrupt | po_benchmark_exception | po_endian_switch

datatype PPCPowMode = Pow_None | Pow_Unconditional | Pow_HID0

text \<open>Which of the two dispatch tables \<open>ppc_opcode_grabber\<close> points to.\<close>

datatype Grabber = OpcodeGrabber | OpcodeGrabberNoFPU

subsection \<open>Records\<close>

record SetPRS =
  gpr :: "nat \<Rightarrow> u32"
  fpr :: "nat \<Rightarrow> u64"
  pc :: u32
  cr :: u32
  fpscr :: u32
  tbr :: "nat \<Rightarrow> u32"
  spr :: "nat \<Rightarrow> u32"
  msr :: u32
  sr :: "nat \<Rightarrow> u32"
  reserve :: bool

record cpu = SetPRS +
  ppc_next_instruction_address :: u32
  exec_flags :: u32
  exec_timer :: bool
  int_pin :: bool
  dec_exception_pending :: bool
  thrm_exception_pending :: bool
  is_601 :: bool
  is_603 :: bool
  include_601 :: bool
  ppc_pow_mode :: PPCPowMode
  ppc_pow_hid0_mask :: u32
  ppc_shadow_gprs :: "nat \<Rightarrow> u32"
  ppc_opcode_grabber :: Grabber
  power_on :: bool
  power_off_reason :: Po_Cause

text \<open>\<open>memset(&ppc_state, 0, sizeof(ppc_state))\<close>.\<close>

definition zero_prs :: SetPRS where
  "zero_prs = \<lparr>gpr = (\<lambda>_. 0), fpr = (\<lambda>_. 0), pc = 0, cr = 0, fpscr = 0, tbr = (\<lambda>_. 0),
     spr = (\<lambda>_. 0), msr = 0, sr = (\<lambda>_. 0), reserve = False\<rparr>"

subsection \<open>Register access\<close>

definition put_gpr :: "nat \<Rightarrow> u32 \<Rightarrow> 'a SetPRS_scheme \<Rightarrow> 'a SetPRS_scheme" where
  "put_gpr r v s = s\<lparr>gpr := (gpr s)(r := v)\<rparr>"

definition put_spr :: "nat \<Rightarrow> u32 \<Rightarrow> 'a SetPRS_scheme \<Rightarrow> 'a SetPRS_scheme" where
  "put_spr r v s = s\<lparr>spr := (spr s)(r := v)\<rparr>"

lemma put_gpr_sel [simp]:
  "gpr (put_gpr r v s) = (gpr s)(r := v)" "fpr (put_gpr r v s) = fpr s" "pc (put_gpr r v s) = pc s"
  "cr (put_gpr r v s) = cr s" "fpscr (put_gpr r v s) = fpscr s" "tbr (put_gpr r v s) = tbr s"
  "spr (put_gpr r v s) = spr s" "msr (put_gpr r v s) = msr s" "sr (put_gpr r v s) = sr s"
  "reserve (put_gpr r v s) = reserve s" "SetPRS.more (put_gpr r v s) = SetPRS.more s"
  by (simp_all add: put_gpr_def)

lemma put_spr_sel [simp]:
  "gpr (put_spr r v s) = gpr s" "fpr (put_spr r v s) = fpr s" "pc (put_spr r v s) = pc s"
  "cr (put_spr r v s) = cr s" "fpscr (put_spr r v s) = fpscr s" "tbr (put_spr r v s) = tbr s"
  "spr (put_spr r v s) = (spr s)(r := v)" "msr (put_spr r v s) = msr s" "sr (put_spr r v s) = sr s"
  "reserve (put_spr r v s) = reserve s" "SetPRS.more (put_spr r v s) = SetPRS.more s"
  by (simp_all add: put_spr_def)

subsection \<open>Operand fields\<close>

text \<open>\<open>rS\<close> and \<open>rD\<close> are the same field; \<open>rot_sh\<close> shares the bits of \<open>rB\<close>.\<close>

definition reg_d :: "u32 \<Rightarrow> nat" where "reg_d opcode = unat (drop_bit 21 opcode AND 0x1F)"
definition reg_a :: "u32 \<Rightarrow> nat" where "reg_a opcode = unat (drop_bit 16 opcode AND 0x1F)"
definition reg_b :: "u32 \<Rightarrow> nat" where "reg_b opcode = unat (drop_bit 11 opcode AND 0x1F)"
abbreviation (input) "reg_s \<equiv> reg_d"

definition simm :: "u32 \<Rightarrow> u32" where "simm opcode = scast (ucast opcode :: u16)"
definition uimm :: "u32 \<Rightarrow> u32" where "uimm opcode = ucast (ucast opcode :: u16)"
definition crf_d :: "u32 \<Rightarrow> nat" where "crf_d opcode = unat (drop_bit 21 opcode AND 0x1C)"
definition rot_mb :: "u32 \<Rightarrow> nat" where "rot_mb opcode = unat (drop_bit 6 opcode AND 0x1F)"
definition rot_me :: "u32 \<Rightarrow> nat" where "rot_me opcode = unat (drop_bit 1 opcode AND 0x1F)"

lemma field5_less_32: "unat (x AND 0x1F :: u32) < 32"
proof -
  have "x AND 0x1F \<le> 0x1F" by (rule word_and_le1)
  then have "unat (x AND 0x1F) \<le> unat (0x1F :: u32)" by (simp only: word_le_nat_alt)
  then show ?thesis by simp
qed

lemma reg_less_32 [simp]:
  "reg_d x < 32" "reg_a x < 32" "reg_b x < 32" "rot_mb x < 32" "rot_me x < 32"
  by (simp_all add: reg_d_def reg_a_def reg_b_def rot_mb_def rot_me_def field5_less_32)

end
