(* ===== verification/PpcInteger.thy ===== *)
theory PpcInteger
  imports PpcState "HOL-Library.Signed_Division"
begin

text \<open>
  Integer arithmetic, logic, shifts and rotates, compares and condition register operations of
  \<open>src/cpu/ppc/ppcopcodes.cpp\<close>. C++ template parameters (\<open>RC\<close>, \<open>OV\<close>, \<open>CARRY\<close>, \<open>SHFT\<close>) are
  boolean arguments; a 64-bit intermediate is a \<^typ>\<open>u64\<close>, a signed reading is \<open>sint\<close>, a signed
  right shift is \<open>signed_drop_bit\<close>.
\<close>

subsection \<open>Flags\<close>

definition ppc_changecrf0 :: "u32 \<Rightarrow> 'a SetPRS_scheme \<Rightarrow> 'a SetPRS_scheme" where
  "ppc_changecrf0 set_result s =
     s\<lparr>cr := (cr s AND 0x0FFFFFFF)
        OR (if set_result = 0 then CR_EQ else if sint set_result < 0 then CR_LT else CR_GT)
        OR drop_bit 3 (spr s SPR_XER AND XER_SO)\<rparr>"

definition ppc_carry :: "u64 \<Rightarrow> 'a SetPRS_scheme \<Rightarrow> 'a SetPRS_scheme" where
  "ppc_carry ppc_result_l s =
     put_spr SPR_XER ((spr s SPR_XER AND NOT XER_CA) OR
       (ucast (drop_bit 3 ppc_result_l) AND XER_CA)) s"

definition ppc_setsoov :: "u32 \<Rightarrow> u32 \<Rightarrow> u32 \<Rightarrow> 'a SetPRS_scheme \<Rightarrow> 'a SetPRS_scheme" where
  "ppc_setsoov a b d s =
     put_spr SPR_XER ((spr s SPR_XER AND NOT XER_OV) OR
       (if sint ((a XOR b) AND (a XOR d)) < 0 then XER_SO OR XER_OV else 0)) s"

text \<open>\<open>ppc_state.spr[SPR::XER] |= XER::SO | XER::OV\<close> and \<open>&= ~XER::OV\<close>.\<close>

definition xer_set_ov :: "bool \<Rightarrow> 'a SetPRS_scheme \<Rightarrow> 'a SetPRS_scheme" where
  "xer_set_ov c s = put_spr SPR_XER
     (if c then spr s SPR_XER OR (XER_SO OR XER_OV) else spr s SPR_XER AND NOT XER_OV) s"

definition xer_ca :: "'a SetPRS_scheme \<Rightarrow> bool" where
  "xer_ca s = tst (spr s SPR_XER) XER_CA"

subsection \<open>Addition and subtraction\<close>

definition ppc_addi :: "bool \<Rightarrow> u32 \<Rightarrow> 'a SetPRS_scheme \<Rightarrow> 'a SetPRS_scheme" where
  "ppc_addi shift opcode s =
     (let i = (if shift then push_bit 16 (simm opcode) else simm opcode)
      in put_gpr (reg_d opcode) (if reg_a opcode = 0 then i else gpr s (reg_a opcode) + i) s)"

definition ppc_addic :: "bool \<Rightarrow> u32 \<Rightarrow> 'a SetPRS_scheme \<Rightarrow> 'a SetPRS_scheme" where
  "ppc_addic rec opcode s =
     (let l = ucast (gpr s (reg_a opcode)) + (ucast (simm opcode) :: u64);
          d = ucast l;
          s = ppc_carry l s;
          s = (if rec then ppc_changecrf0 d s else s)
      in put_gpr (reg_d opcode) d s)"

definition ppc_add :: "bool \<Rightarrow> bool \<Rightarrow> bool \<Rightarrow> u32 \<Rightarrow> 'a SetPRS_scheme \<Rightarrow> 'a SetPRS_scheme" where
  "ppc_add carry rec ov opcode s =
     (let a = gpr s (reg_a opcode); b = gpr s (reg_b opcode);
          l = ucast a + (ucast b :: u64);
          d = ucast l;
          s = (if carry then ppc_carry l s else s);
          s = (if ov then ppc_setsoov a (NOT b) d s else s);
          s = (if rec then ppc_changecrf0 d s else s)
      in put_gpr (reg_d opcode) d s)"

definition ppc_adde :: "bool \<Rightarrow> bool \<Rightarrow> u32 \<Rightarrow> 'a SetPRS_scheme \<Rightarrow> 'a SetPRS_scheme" where
  "ppc_adde rec ov opcode s =
     (let a = gpr s (reg_a opcode); b = gpr s (reg_b opcode);
          l = ucast a + (ucast b :: u64) + of_flag (xer_ca s);
          d = ucast l;
          s = ppc_carry l s;
          s = (if ov then ppc_setsoov a (NOT b) d s else s);
          s = (if rec then ppc_changecrf0 d s else s)
      in put_gpr (reg_d opcode) d s)"

definition ppc_addme :: "bool \<Rightarrow> bool \<Rightarrow> u32 \<Rightarrow> 'a SetPRS_scheme \<Rightarrow> 'a SetPRS_scheme" where
  "ppc_addme rec ov opcode s =
     (let a = gpr s (reg_a opcode);
          l = ucast a + of_flag (xer_ca s) + (0xFFFFFFFF :: u64);
          d = ucast l;
          s = ppc_carry l s;
          s = (if ov then ppc_setsoov a 0 d s else s);
          s = (if rec then ppc_changecrf0 d s else s)
      in put_gpr (reg_d opcode) d s)"

definition ppc_addze :: "bool \<Rightarrow> bool \<Rightarrow> u32 \<Rightarrow> 'a SetPRS_scheme \<Rightarrow> 'a SetPRS_scheme" where
  "ppc_addze rec ov opcode s =
     (let a = gpr s (reg_a opcode);
          l = ucast a + (of_flag (xer_ca s) :: u64);
          d = ucast l;
          s = ppc_carry l s;
          s = (if ov then ppc_setsoov a 0xFFFFFFFF d s else s);
          s = (if rec then ppc_changecrf0 d s else s)
      in put_gpr (reg_d opcode) d s)"

definition ppc_subfic :: "u32 \<Rightarrow> 'a SetPRS_scheme \<Rightarrow> 'a SetPRS_scheme" where
  "ppc_subfic opcode s =
     (let a = gpr s (reg_a opcode);
          l = ucast (NOT a) + (ucast (simm opcode) :: u64) + 1;
          d = ucast l;
          s = ppc_carry l s
      in put_gpr (reg_d opcode) d s)"

definition ppc_subf :: "bool \<Rightarrow> bool \<Rightarrow> bool \<Rightarrow> u32 \<Rightarrow> 'a SetPRS_scheme \<Rightarrow> 'a SetPRS_scheme" where
  "ppc_subf carry rec ov opcode s =
     (let a = gpr s (reg_a opcode); b = gpr s (reg_b opcode);
          l = ucast (NOT a) + (ucast b :: u64) + 1;
          d = ucast l;
          s = (if carry then ppc_carry l s else s);
          s = (if ov then ppc_setsoov b a d s else s);
          s = (if rec then ppc_changecrf0 d s else s)
      in put_gpr (reg_d opcode) d s)"

definition ppc_subfe :: "bool \<Rightarrow> bool \<Rightarrow> u32 \<Rightarrow> 'a SetPRS_scheme \<Rightarrow> 'a SetPRS_scheme" where
  "ppc_subfe rec ov opcode s =
     (let a = gpr s (reg_a opcode); b = gpr s (reg_b opcode);
          l = ucast (NOT a) + (ucast b :: u64) + of_flag (xer_ca s);
          d = ucast l;
          s = ppc_carry l s;
          s = (if ov then ppc_setsoov b a d s else s);
          s = (if rec then ppc_changecrf0 d s else s)
      in put_gpr (reg_d opcode) d s)"

definition ppc_subfme :: "bool \<Rightarrow> bool \<Rightarrow> u32 \<Rightarrow> 'a SetPRS_scheme \<Rightarrow> 'a SetPRS_scheme" where
  "ppc_subfme rec ov opcode s =
     (let a = gpr s (reg_a opcode);
          l = ucast (NOT a) + of_flag (xer_ca s) + (0xFFFFFFFF :: u64);
          d = ucast l;
          s = ppc_carry l s;
          s = (if ov then xer_set_ov (d = a \<and> sint d > 0) s else s);
          s = (if rec then ppc_changecrf0 d s else s)
      in put_gpr (reg_d opcode) d s)"

definition ppc_subfze :: "bool \<Rightarrow> bool \<Rightarrow> u32 \<Rightarrow> 'a SetPRS_scheme \<Rightarrow> 'a SetPRS_scheme" where
  "ppc_subfze rec ov opcode s =
     (let a = gpr s (reg_a opcode);
          l = ucast (NOT a) + (of_flag (xer_ca s) :: u64);
          d = ucast l;
          s = ppc_carry l s;
          s = (if ov then xer_set_ov (d \<noteq> 0 \<and> d = a) s else s);
          s = (if rec then ppc_changecrf0 d s else s)
      in put_gpr (reg_d opcode) d s)"

subsection \<open>Logic\<close>

definition ppc_andirc :: "bool \<Rightarrow> u32 \<Rightarrow> 'a SetPRS_scheme \<Rightarrow> 'a SetPRS_scheme" where
  "ppc_andirc shift opcode s =
     (let a = gpr s (reg_s opcode) AND (if shift then push_bit 16 (uimm opcode) else uimm opcode);
          s = ppc_changecrf0 a s
      in put_gpr (reg_a opcode) a s)"

definition ppc_ori :: "bool \<Rightarrow> u32 \<Rightarrow> 'a SetPRS_scheme \<Rightarrow> 'a SetPRS_scheme" where
  "ppc_ori shift opcode s =
     put_gpr (reg_a opcode)
       (gpr s (reg_s opcode) OR (if shift then push_bit 16 (uimm opcode) else uimm opcode)) s"

definition ppc_xori :: "bool \<Rightarrow> u32 \<Rightarrow> 'a SetPRS_scheme \<Rightarrow> 'a SetPRS_scheme" where
  "ppc_xori shift opcode s =
     put_gpr (reg_a opcode)
       (gpr s (reg_s opcode) XOR (if shift then push_bit 16 (uimm opcode) else uimm opcode)) s"

datatype logical_fun = ppc_and | ppc_andc | ppc_eqv | ppc_nand | ppc_nor | ppc_or | ppc_orc | ppc_xor

primrec logical_value :: "logical_fun \<Rightarrow> u32 \<Rightarrow> u32 \<Rightarrow> u32" where
  "logical_value ppc_and d b = d AND b"
| "logical_value ppc_andc d b = d AND NOT b"
| "logical_value ppc_eqv d b = NOT (d XOR b)"
| "logical_value ppc_nand d b = NOT (d AND b)"
| "logical_value ppc_nor d b = NOT (d OR b)"
| "logical_value ppc_or d b = d OR b"
| "logical_value ppc_orc d b = d OR NOT b"
| "logical_value ppc_xor d b = d XOR b"

definition ppc_logical :: "logical_fun \<Rightarrow> bool \<Rightarrow> u32 \<Rightarrow> 'a SetPRS_scheme \<Rightarrow> 'a SetPRS_scheme" where
  "ppc_logical logical_op rec opcode s =
     (let a = logical_value logical_op (gpr s (reg_s opcode)) (gpr s (reg_b opcode));
          s = (if rec then ppc_changecrf0 a s else s)
      in put_gpr (reg_a opcode) a s)"

definition ppc_neg :: "bool \<Rightarrow> bool \<Rightarrow> u32 \<Rightarrow> 'a SetPRS_scheme \<Rightarrow> 'a SetPRS_scheme" where
  "ppc_neg rec ov opcode s =
     (let a = gpr s (reg_a opcode);
          d = NOT a + 1;
          s = (if ov then xer_set_ov (a = 0x80000000) s else s);
          s = (if rec then ppc_changecrf0 d s else s)
      in put_gpr (reg_d opcode) d s)"

text \<open>
  The counting loop of \<open>ppc_cntlzw\<close> (the branch taken when neither builtin is a macro), on the
  number \<open>n\<close> of bits the mask has left to travel.
\<close>

fun cntlzw_loop :: "u32 \<Rightarrow> u32 \<Rightarrow> u32 \<Rightarrow> nat \<Rightarrow> u32" where
  "cntlzw_loop bit_check msk lead 0 = lead"
| "cntlzw_loop bit_check msk lead (Suc n) =
     (if msk = 0 then lead
      else if tst bit_check msk then lead
      else cntlzw_loop bit_check (drop_bit 1 msk) (lead + 1) n)"

definition ppc_cntlzw :: "bool \<Rightarrow> u32 \<Rightarrow> 'a SetPRS_scheme \<Rightarrow> 'a SetPRS_scheme" where
  "ppc_cntlzw rec opcode s =
     (let a = cntlzw_loop (gpr s (reg_s opcode)) 0x80000000 0 33;
          s = (if rec then ppc_changecrf0 a s else s)
      in put_gpr (reg_a opcode) a s)"

subsection \<open>Multiplication and division\<close>

definition ppc_mulhwu :: "bool \<Rightarrow> u32 \<Rightarrow> 'a SetPRS_scheme \<Rightarrow> 'a SetPRS_scheme" where
  "ppc_mulhwu rec opcode s =
     (let product = ucast (gpr s (reg_a opcode)) * (ucast (gpr s (reg_b opcode)) :: u64);
          d = ucast (drop_bit 32 product);
          s = (if rec then ppc_changecrf0 d s else s)
      in put_gpr (reg_d opcode) d s)"

definition ppc_mulhw :: "bool \<Rightarrow> u32 \<Rightarrow> 'a SetPRS_scheme \<Rightarrow> 'a SetPRS_scheme" where
  "ppc_mulhw rec opcode s =
     (let product = scast (gpr s (reg_a opcode)) * (scast (gpr s (reg_b opcode)) :: u64);
          d = ucast (signed_drop_bit 32 product);
          s = (if rec then ppc_changecrf0 d s else s)
      in put_gpr (reg_d opcode) d s)"

definition ppc_mullw :: "bool \<Rightarrow> bool \<Rightarrow> u32 \<Rightarrow> 'a SetPRS_scheme \<Rightarrow> 'a SetPRS_scheme" where
  "ppc_mullw rec ov opcode s =
     (let product = scast (gpr s (reg_a opcode)) * (scast (gpr s (reg_b opcode)) :: u64);
          s = (if ov then xer_set_ov (product \<noteq> scast (ucast product :: u32)) s else s);
          d = ucast product;
          s = (if rec then ppc_changecrf0 d s else s)
      in put_gpr (reg_d opcode) d s)"

definition ppc_mulli :: "u32 \<Rightarrow> 'a SetPRS_scheme \<Rightarrow> 'a SetPRS_scheme" where
  "ppc_mulli opcode s =
     put_gpr (reg_d opcode) (ucast (scast (gpr s (reg_a opcode)) * (scast (simm opcode) :: u64))) s"

definition ppc_divw :: "bool \<Rightarrow> bool \<Rightarrow> u32 \<Rightarrow> 'a cpu_scheme \<Rightarrow> 'a cpu_scheme" where
  "ppc_divw rec ov opcode s =
     (let a = gpr s (reg_a opcode); b = gpr s (reg_b opcode);
          (d, ovf) =
            (if b = 0 then (if is_601 s then (if sint a < 0 then 1 else - 1) else 0, True)
             else if a = 0x80000000 \<and> b = 0xFFFFFFFF then (if is_601 s then 0x80000000 else 0, True)
             else (word_of_int (sint a sdiv sint b), False));
          s = (if ov then xer_set_ov ovf s else s);
          s = (if rec then ppc_changecrf0 d s else s)
      in put_gpr (reg_d opcode) d s)"

definition ppc_divwu :: "bool \<Rightarrow> bool \<Rightarrow> u32 \<Rightarrow> 'a cpu_scheme \<Rightarrow> 'a cpu_scheme" where
  "ppc_divwu rec ov opcode s =
     (let a = gpr s (reg_a opcode); b = gpr s (reg_b opcode);
          d = (if b = 0 then (if is_601 s then - 1 else 0) else a div b);
          s = (if ov then xer_set_ov (b = 0) s else s);
          s = (if b = 0 \<and> rec then s\<lparr>cr := cr s OR 0x20000000\<rparr> else s);
          s = (if rec then ppc_changecrf0 d s else s)
      in put_gpr (reg_d opcode) d s)"

subsection \<open>Shifts and rotates\<close>

definition ppc_shift :: "bool \<Rightarrow> bool \<Rightarrow> u32 \<Rightarrow> 'a SetPRS_scheme \<Rightarrow> 'a SetPRS_scheme" where
  "ppc_shift isleft rec opcode s =
     (let d = gpr s (reg_s opcode); b = gpr s (reg_b opcode);
          n = unat (b AND 0x1F);
          a = (if tst b 0x20 then 0 else if isleft then push_bit n d else drop_bit n d);
          s = (if rec then ppc_changecrf0 a s else s)
      in put_gpr (reg_a opcode) a s)"

definition xer_or_ca :: "bool \<Rightarrow> 'a SetPRS_scheme \<Rightarrow> 'a SetPRS_scheme" where
  "xer_or_ca c s = (if c then put_spr SPR_XER (spr s SPR_XER OR XER_CA) s else s)"

definition ppc_sraw :: "bool \<Rightarrow> u32 \<Rightarrow> 'a SetPRS_scheme \<Rightarrow> 'a SetPRS_scheme" where
  "ppc_sraw rec opcode s =
     (let d = gpr s (reg_s opcode); b = gpr s (reg_b opcode);
          s = put_spr SPR_XER (spr s SPR_XER AND NOT XER_CA) s;
          (a, s) =
            (if tst b 0x20 then
               let a = signed_drop_bit 31 d in (a, xer_or_ca (a \<noteq> 0) s)
             else
               let shift = unat (b AND 0x1F)
               in (signed_drop_bit shift d,
                   xer_or_ca (sint d < 0 \<and> tst d (push_bit shift 1 - 1)) s));
          s = (if rec then ppc_changecrf0 a s else s)
      in put_gpr (reg_a opcode) a s)"

definition ppc_srawi :: "bool \<Rightarrow> u32 \<Rightarrow> 'a SetPRS_scheme \<Rightarrow> 'a SetPRS_scheme" where
  "ppc_srawi rec opcode s =
     (let d = gpr s (reg_s opcode); rot_sh = reg_b opcode;
          s = put_spr SPR_XER (spr s SPR_XER AND NOT XER_CA) s;
          s = xer_or_ca (sint d < 0 \<and> tst d (push_bit rot_sh 1 - 1)) s;
          a = signed_drop_bit rot_sh d;
          s = (if rec then ppc_changecrf0 a s else s)
      in put_gpr (reg_a opcode) a s)"

definition rot_mask :: "nat \<Rightarrow> nat \<Rightarrow> u32" where
  "rot_mask mb me =
     (let m1 = drop_bit mb 0xFFFFFFFF; m2 = push_bit (31 - me) 0xFFFFFFFF
      in if mb \<le> me then m2 AND m1 else m1 OR m2)"

definition ppc_rlwimi :: "u32 \<Rightarrow> 'a SetPRS_scheme \<Rightarrow> 'a SetPRS_scheme" where
  "ppc_rlwimi opcode s =
     (let msk = rot_mask (rot_mb opcode) (rot_me opcode);
          r = ROTL_32 (gpr s (reg_s opcode)) (reg_b opcode);
          a = (gpr s (reg_a opcode) AND NOT msk) OR (r AND msk);
          s = (if tst opcode 1 then ppc_changecrf0 a s else s)
      in put_gpr (reg_a opcode) a s)"

definition ppc_rlwinm :: "u32 \<Rightarrow> 'a SetPRS_scheme \<Rightarrow> 'a SetPRS_scheme" where
  "ppc_rlwinm opcode s =
     (let msk = rot_mask (rot_mb opcode) (rot_me opcode);
          r = ROTL_32 (gpr s (reg_s opcode)) (reg_b opcode);
          a = r AND msk;
          s = (if tst opcode 1 then ppc_changecrf0 a s else s)
      in put_gpr (reg_a opcode) a s)"

definition ppc_rlwnm :: "u32 \<Rightarrow> 'a SetPRS_scheme \<Rightarrow> 'a SetPRS_scheme" where
  "ppc_rlwnm opcode s =
     (let msk = rot_mask (rot_mb opcode) (rot_me opcode);
          r = ROTL_32 (gpr s (reg_s opcode)) (unat (gpr s (reg_b opcode)));
          a = r AND msk;
          s = (if tst opcode 1 then ppc_changecrf0 a s else s)
      in put_gpr (reg_a opcode) a s)"

subsection \<open>Condition register\<close>

definition ppc_mfcr :: "u32 \<Rightarrow> 'a SetPRS_scheme \<Rightarrow> 'a SetPRS_scheme" where
  "ppc_mfcr opcode s = put_gpr (reg_d opcode) (cr s) s"

definition crm_mask :: "u32 \<Rightarrow> u32" where
  "crm_mask crm =
     (if crm = 0xFF then 0xFFFFFFFF
      else (if tst crm 0x80 then 0xF0000000 else 0)
        OR (if tst crm 0x40 then 0x0F000000 else 0)
        OR (if tst crm 0x20 then 0x00F00000 else 0)
        OR (if tst crm 0x10 then 0x000F0000 else 0)
        OR (if tst crm 0x08 then 0x0000F000 else 0)
        OR (if tst crm 0x04 then 0x00000F00 else 0)
        OR (if tst crm 0x02 then 0x000000F0 else 0)
        OR (if tst crm 0x01 then 0x0000000F else 0))"

definition ppc_mtcrf :: "u32 \<Rightarrow> 'a SetPRS_scheme \<Rightarrow> 'a SetPRS_scheme" where
  "ppc_mtcrf opcode s =
     (let cr_mask = crm_mask (drop_bit 12 opcode AND 0xFF)
      in s\<lparr>cr := (cr s AND NOT cr_mask) OR (gpr s (reg_s opcode) AND cr_mask)\<rparr>)"

definition ppc_mcrxr :: "u32 \<Rightarrow> 'a SetPRS_scheme \<Rightarrow> 'a SetPRS_scheme" where
  "ppc_mcrxr opcode s =
     (let s = s\<lparr>cr := (cr s AND NOT (drop_bit (crf_d opcode) 0xF0000000)) OR
                     drop_bit (crf_d opcode) (spr s SPR_XER AND 0xF0000000)\<rparr>
      in put_spr SPR_XER (spr s SPR_XER AND 0x0FFFFFFF) s)"

text \<open>\<open>ppc_exts\<close> for \<open>int8_t\<close> and \<open>int16_t\<close>.\<close>

definition ppc_extsb :: "bool \<Rightarrow> u32 \<Rightarrow> 'a SetPRS_scheme \<Rightarrow> 'a SetPRS_scheme" where
  "ppc_extsb rec opcode s =
     (let a = scast (ucast (gpr s (reg_s opcode)) :: u8);
          s = (if rec then ppc_changecrf0 a s else s)
      in put_gpr (reg_a opcode) a s)"

definition ppc_extsh :: "bool \<Rightarrow> u32 \<Rightarrow> 'a SetPRS_scheme \<Rightarrow> 'a SetPRS_scheme" where
  "ppc_extsh rec opcode s =
     (let a = scast (ucast (gpr s (reg_s opcode)) :: u16);
          s = (if rec then ppc_changecrf0 a s else s)
      in put_gpr (reg_a opcode) a s)"

text \<open>The last line of the four compares.\<close>

definition put_crf :: "nat \<Rightarrow> u32 \<Rightarrow> 'a SetPRS_scheme \<Rightarrow> 'a SetPRS_scheme" where
  "put_crf crf cmp_c s =
     s\<lparr>cr := (cr s AND NOT (drop_bit crf 0xF0000000)) OR
            drop_bit crf (cmp_c + drop_bit 3 (spr s SPR_XER AND XER_SO))\<rparr>"

definition ppc_cmp :: "u32 \<Rightarrow> 'a SetPRS_scheme \<Rightarrow> 'a SetPRS_scheme" where
  "ppc_cmp opcode s =
     (let a = gpr s (reg_a opcode); b = gpr s (reg_b opcode)
      in put_crf (crf_d opcode)
           (if sint a = sint b then 0x20000000 else if sint a > sint b then 0x40000000 else 0x80000000) s)"

definition ppc_cmpi :: "u32 \<Rightarrow> 'a SetPRS_scheme \<Rightarrow> 'a SetPRS_scheme" where
  "ppc_cmpi opcode s =
     (let a = gpr s (reg_a opcode); i = simm opcode
      in put_crf (crf_d opcode)
           (if sint a = sint i then 0x20000000 else if sint a > sint i then 0x40000000 else 0x80000000) s)"

definition ppc_cmpl :: "u32 \<Rightarrow> 'a SetPRS_scheme \<Rightarrow> 'a SetPRS_scheme" where
  "ppc_cmpl opcode s =
     (let a = gpr s (reg_a opcode); b = gpr s (reg_b opcode)
      in put_crf (crf_d opcode)
           (if a = b then 0x20000000 else if a > b then 0x40000000 else 0x80000000) s)"

definition ppc_cmpli :: "u32 \<Rightarrow> 'a SetPRS_scheme \<Rightarrow> 'a SetPRS_scheme" where
  "ppc_cmpli opcode s =
     (let a = gpr s (reg_a opcode); i = uimm opcode
      in put_crf (crf_d opcode)
           (if a = i then 0x20000000 else if a > i then 0x40000000 else 0x80000000) s)"

definition crf_s :: "u32 \<Rightarrow> nat" where "crf_s opcode = unat (drop_bit 16 opcode AND 0x1C)"

definition ppc_mcrf :: "u32 \<Rightarrow> 'a SetPRS_scheme \<Rightarrow> 'a SetPRS_scheme" where
  "ppc_mcrf opcode s =
     (let grab_s = drop_bit (28 - crf_s opcode) (cr s) AND 0xF
      in s\<lparr>cr := (cr s AND NOT (drop_bit (crf_d opcode) 0xF0000000)) OR
                push_bit (28 - crf_d opcode) grab_s\<rparr>)"

definition put_cr_bit :: "nat \<Rightarrow> bool \<Rightarrow> 'a SetPRS_scheme \<Rightarrow> 'a SetPRS_scheme" where
  "put_cr_bit d v s =
     s\<lparr>cr := if v then cr s OR drop_bit d 0x80000000 else cr s AND NOT (drop_bit d 0x80000000)\<rparr>"

definition ppc_crand :: "u32 \<Rightarrow> 'a SetPRS_scheme \<Rightarrow> 'a SetPRS_scheme" where
  "ppc_crand opcode s =
     (let ir = ucast (drop_bit (31 - reg_a opcode) (cr s) AND drop_bit (31 - reg_b opcode) (cr s)) :: u8
      in put_cr_bit (reg_d opcode) (tst ir 1) s)"

definition ppc_crandc :: "u32 \<Rightarrow> 'a SetPRS_scheme \<Rightarrow> 'a SetPRS_scheme" where
  "ppc_crandc opcode s =
     put_cr_bit (reg_d opcode)
       (tst (cr s) (drop_bit (reg_a opcode) 0x80000000) \<and>
        \<not> tst (cr s) (drop_bit (reg_b opcode) 0x80000000)) s"

definition ppc_creqv :: "u32 \<Rightarrow> 'a SetPRS_scheme \<Rightarrow> 'a SetPRS_scheme" where
  "ppc_creqv opcode s =
     (let ir = ucast (drop_bit (31 - reg_a opcode) (cr s) XOR drop_bit (31 - reg_b opcode) (cr s)) :: u8
      in put_cr_bit (reg_d opcode) (\<not> tst ir 1) s)"

definition ppc_crnand :: "u32 \<Rightarrow> 'a SetPRS_scheme \<Rightarrow> 'a SetPRS_scheme" where
  "ppc_crnand opcode s =
     (let ir = ucast (drop_bit (31 - reg_a opcode) (cr s) AND drop_bit (31 - reg_b opcode) (cr s)) :: u8
      in put_cr_bit (reg_d opcode) (\<not> tst ir 1) s)"

definition ppc_crnor :: "u32 \<Rightarrow> 'a SetPRS_scheme \<Rightarrow> 'a SetPRS_scheme" where
  "ppc_crnor opcode s =
     (let ir = ucast (drop_bit (31 - reg_a opcode) (cr s) OR drop_bit (31 - reg_b opcode) (cr s)) :: u8
      in put_cr_bit (reg_d opcode) (\<not> tst ir 1) s)"

definition ppc_cror :: "u32 \<Rightarrow> 'a SetPRS_scheme \<Rightarrow> 'a SetPRS_scheme" where
  "ppc_cror opcode s =
     (let ir = ucast (drop_bit (31 - reg_a opcode) (cr s) OR drop_bit (31 - reg_b opcode) (cr s)) :: u8
      in put_cr_bit (reg_d opcode) (tst ir 1) s)"

definition ppc_crorc :: "u32 \<Rightarrow> 'a SetPRS_scheme \<Rightarrow> 'a SetPRS_scheme" where
  "ppc_crorc opcode s =
     put_cr_bit (reg_d opcode)
       (tst (cr s) (drop_bit (reg_a opcode) 0x80000000) \<or>
        \<not> tst (cr s) (drop_bit (reg_b opcode) 0x80000000)) s"

definition ppc_crxor :: "u32 \<Rightarrow> 'a SetPRS_scheme \<Rightarrow> 'a SetPRS_scheme" where
  "ppc_crxor opcode s =
     (let ir = ucast (drop_bit (31 - reg_a opcode) (cr s) XOR drop_bit (31 - reg_b opcode) (cr s)) :: u8
      in put_cr_bit (reg_d opcode) (tst ir 1) s)"

subsection \<open>Signed values and flags\<close>

lemma sint_word_of_int_u32:
  "sint (word_of_int k :: u32) = (k + 2147483648) mod 4294967296 - 2147483648"
  using int_word_sint[where 'a=32, of k] by simp

lemma sint_u32_bounds: "- 2147483648 \<le> sint (x :: u32)" "sint (x :: u32) < 2147483648"
  using sint_ge[of x] sint_lt[of x] by simp_all

text \<open>A signed result does not fit in 32 bits.\<close>

definition ov_s32 :: "int \<Rightarrow> bool" where
  "ov_s32 k \<longleftrightarrow> k < - (2 ^ 31) \<or> 2 ^ 31 \<le> k"

lemma sint_wrap_cases:
  assumes "- 4294967296 \<le> k" "k < 4294967296"
  shows "sint (word_of_int k :: u32) =
     (if k < - 2147483648 then k + 4294967296 else if 2147483648 \<le> k then k - 4294967296 else k)"
proof -
  have "(k + 2147483648) mod 4294967296 =
     (if k < - 2147483648 then k + 2147483648 + 4294967296
      else if 2147483648 \<le> k then k + 2147483648 - 4294967296 else k + 2147483648)"
    using assms mod_pos_pos_trivial[of "k + 2147483648" 4294967296]
      mod_pos_pos_trivial[of "k + 2147483648 - 4294967296" 4294967296]
      mod_pos_pos_trivial[of "k + 2147483648 + 4294967296" 4294967296]
      mod_add_self2[of "k + 2147483648" 4294967296] minus_mod_self2[of "k + 2147483648" 4294967296]
    by (auto split: if_splits)
  then show ?thesis unfolding sint_word_of_int_u32 by simp
qed

lemma sum_word: "x + y + of_flag c = (word_of_int (sint x + sint y + of_bool c) :: u32)"
  by (simp add: of_flag_def)

lemma setsoov_exact:
  "sint ((x XOR NOT y) AND (x XOR (x + y + of_flag c))) < 0 \<longleftrightarrow>
     ov_s32 (sint x + sint y + of_bool c)" for x y :: u32
proof -
  let ?k = "sint x + sint y + of_bool c"
  have "sint (x + y + of_flag c) =
     (if ?k < - 2147483648 then ?k + 4294967296 else if 2147483648 \<le> ?k then ?k - 4294967296 else ?k)"
    unfolding sum_word
    by (rule sint_wrap_cases) (use sint_u32_bounds[of x] sint_u32_bounds[of y] in auto)
  moreover have "sint ((x XOR NOT y) AND (x XOR (x + y + of_flag c))) < 0 \<longleftrightarrow>
     (sint x < 0) = (sint y < 0) \<and> (sint x < 0) \<noteq> (sint (x + y + of_flag c) < 0)"
    unfolding bit_sign_u32 by (simp add: bit_simps)
  ultimately show ?thesis
    using sint_u32_bounds[of x] sint_u32_bounds[of y]
    by (auto simp: ov_s32_def of_bool_def)
qed

lemma odd_div_top: "n < 2 * m \<Longrightarrow> odd (n div m) \<longleftrightarrow> m \<le> n" for n m :: nat
proof (cases "m \<le> n")
  case True
  assume "n < 2 * m"
  with True have "n div m = 1" by (intro div_nat_eqI) auto
  with True show ?thesis by simp
qed simp

lemma sum_u64:
  fixes x y :: u32 and c :: bool
  defines "l \<equiv> ucast x + (ucast y :: u64) + of_flag c"
  shows "unat l = unat x + unat y + of_bool c"
    and "ucast l = x + y + of_flag c"
    and "bit l 32 \<longleftrightarrow> 4294967296 \<le> unat x + unat y + of_bool c"
proof -
  have xy: "unat x + unat y + of_bool c < 8589934592"
    using unat_u32_less[of x] unat_u32_less[of y] by (simp add: of_bool_def)
  then show u: "unat l = unat x + unat y + of_bool c"
    by (simp add: l_def unat_word_ariths unat_ucast_u32_u64 of_flag_def)
  show "ucast l = x + y + of_flag c"
    by (rule word_unat_eq_iff[THEN iffD2])
       (simp add: u unat_ucast_mod unat_word_ariths mod_simps of_flag_def)
  have "bit l 32 \<longleftrightarrow> bit (unat l) 32"
    by (simp add: bit_unsigned_iff)
  also have "\<dots> \<longleftrightarrow> odd (unat l div 4294967296)"
    by (simp only: bit_iff_odd) simp
  also have "\<dots> \<longleftrightarrow> 4294967296 \<le> unat l"
    using xy unfolding u by (intro odd_div_top) simp
  finally show "bit l 32 \<longleftrightarrow> 4294967296 \<le> unat x + unat y + of_bool c" using u by simp
qed


lemma changecrf0_sel [simp]:
  "gpr (ppc_changecrf0 v s) = gpr s" "spr (ppc_changecrf0 v s) = spr s" "msr (ppc_changecrf0 v s) = msr s"
  "pc (ppc_changecrf0 v s) = pc s"
  by (simp_all add: ppc_changecrf0_def)

definition xer :: "'a SetPRS_scheme \<Rightarrow> u32" where
  "xer s = spr s SPR_XER"

lemma xer_sel [simp]:
  "xer (put_gpr r v s) = xer s" "xer (ppc_changecrf0 v s) = xer s"
  "xer (put_spr r v s) = (if r = SPR_XER then v else xer s)" "xer (s\<lparr>cr := c\<rparr>) = xer s"
  by (simp_all add: xer_def)

lemma xer_finish [simp]:
  "xer (put_gpr r d (if rec then ppc_changecrf0 v s else s)) = xer s"
  "gpr (put_gpr r d (if rec then ppc_changecrf0 v s else s)) = (gpr s)(r := d)"
  by simp_all

lemma bit_ppc_carry:
  "bit (xer (ppc_carry l s)) n \<longleftrightarrow> (if n = 29 then bit l 32 else bit (xer s) n)"
proof (cases "n < 32")
  case True
  have "\<forall>i<32. bit (xer (ppc_carry l s)) i = (if i = 29 then bit l 32 else bit (xer s) i)"
    unfolding all_less_32 by (simp add: ppc_carry_def xer_def bit_simps)
  then show ?thesis using True by blast
qed (simp add: bits)

lemma bit_ppc_setsoov:
  "bit (xer (ppc_setsoov a b d s)) n \<longleftrightarrow>
     (let v = sint ((a XOR b) AND (a XOR d)) < 0
      in if n = 30 then v else if n = 31 then bit (xer s) 31 \<or> v else bit (xer s) n)"
proof (cases "n < 32")
  case True
  have "\<forall>i<32. bit (xer (ppc_setsoov a b d s)) i = (let v = sint ((a XOR b) AND (a XOR d)) < 0
      in if i = 30 then v else if i = 31 then bit (xer s) 31 \<or> v else bit (xer s) i)"
    unfolding all_less_32 by (simp add: ppc_setsoov_def xer_def bit_simps Let_def)
  then show ?thesis using True by blast
qed (simp add: bits Let_def)

lemma bit_xer_set_ov:
  "bit (xer (xer_set_ov c s)) n \<longleftrightarrow>
     (if n = 30 then c else if n = 31 then bit (xer s) 31 \<or> c else bit (xer s) n)"
proof (cases "n < 32")
  case True
  have "\<forall>i<32. bit (xer (xer_set_ov c s)) i =
     (if i = 30 then c else if i = 31 then bit (xer s) 31 \<or> c else bit (xer s) i)"
    unfolding all_less_32 by (simp add: xer_set_ov_def xer_def bit_simps)
  then show ?thesis using True by blast
qed (simp add: bits)

lemma xer_ca_bit: "xer_ca s \<longleftrightarrow> bit (xer s) 29"
  using tst_pow2[of "xer s" 29] by (simp add: xer_ca_def xer_def)

lemma gpr_flags [simp]:
  "gpr (ppc_carry l s) = gpr s" "gpr (ppc_setsoov a b d s) = gpr s" "gpr (xer_set_ov c s) = gpr s"
  by (simp_all add: ppc_carry_def ppc_setsoov_def xer_set_ov_def)

subsection \<open>Sums with carry\<close>

text \<open>
  The instructions that add two words and a carry-in share one contract: \<open>x\<close>, \<open>y\<close> and \<open>cin\<close> say
  what they add.
\<close>

locale carry_sum =
  fixes run :: "bool \<Rightarrow> u32 \<Rightarrow> 'a SetPRS_scheme \<Rightarrow> 'a SetPRS_scheme"
    and x y :: "u32 \<Rightarrow> 'a SetPRS_scheme \<Rightarrow> u32"
    and cin :: "'a SetPRS_scheme \<Rightarrow> bool"
  assumes run_eq: "run rec opcode s =
    (let l = ucast (x opcode s) + (ucast (y opcode s) :: u64) + of_flag (cin s);
         d = ucast l;
         t = ppc_setsoov (x opcode s) (NOT (y opcode s)) d (ppc_carry l s)
     in put_gpr (reg_d opcode) d (if rec then ppc_changecrf0 d t else t))"
begin

lemma value_exact:
  "gpr (run rec opcode s) (reg_d opcode) =
     word_of_int (sint (x opcode s) + sint (y opcode s) + of_bool (cin s))"
  unfolding run_eq Let_def sum_u64(2) sum_word by simp

lemma carry_exact:
  "xer_ca (run rec opcode s) \<longleftrightarrow> 2 ^ 32 \<le> unat (x opcode s) + unat (y opcode s) + of_bool (cin s)"
  unfolding xer_ca_bit run_eq Let_def xer_finish bit_ppc_setsoov bit_ppc_carry
  using sum_u64(3)[of "x opcode s" "y opcode s" "cin s"] by simp

lemma overflow_exact:
  "bit (xer (run rec opcode s)) 30 \<longleftrightarrow> ov_s32 (sint (x opcode s) + sint (y opcode s) + of_bool (cin s))"
  unfolding run_eq Let_def xer_finish bit_ppc_setsoov sum_u64(2) setsoov_exact by simp

lemma summary_sticky:
  "bit (xer (run rec opcode s)) 31 \<longleftrightarrow>
     bit (xer s) 31 \<or> ov_s32 (sint (x opcode s) + sint (y opcode s) + of_bool (cin s))"
  unfolding run_eq Let_def xer_finish bit_ppc_setsoov bit_ppc_carry sum_u64(2) setsoov_exact by simp

lemmas exact = value_exact carry_exact overflow_exact summary_sticky

end

lemma u32_minus_1: "(0xFFFFFFFF :: u32) = - 1" "(ucast (- 1 :: u32) :: u64) = 0xFFFFFFFF"
proof -
  show e: "(0xFFFFFFFF :: u32) = - 1" by simp
  show "(ucast (- 1 :: u32) :: u64) = 0xFFFFFFFF" unfolding e[symmetric] by simp
qed

interpretation adde: carry_sum "\<lambda>rec. ppc_adde rec True"
  "\<lambda>opcode s. gpr s (reg_a opcode)" "\<lambda>opcode s. gpr s (reg_b opcode)" xer_ca
  by unfold_locales (simp add: ppc_adde_def Let_def)

interpretation addc: carry_sum "\<lambda>rec. ppc_add True rec True"
  "\<lambda>opcode s. gpr s (reg_a opcode)" "\<lambda>opcode s. gpr s (reg_b opcode)" "\<lambda>_. False"
  by unfold_locales (simp add: ppc_add_def Let_def)

interpretation addme: carry_sum "\<lambda>rec. ppc_addme rec True"
  "\<lambda>opcode s. gpr s (reg_a opcode)" "\<lambda>_ _. - 1" xer_ca
  by unfold_locales (simp only: ppc_addme_def Let_def u32_minus_1 add_ac bit.compl_one if_True)

interpretation addze: carry_sum "\<lambda>rec. ppc_addze rec True"
  "\<lambda>opcode s. gpr s (reg_a opcode)" "\<lambda>_ _. 0" xer_ca
  by unfold_locales (simp add: ppc_addze_def Let_def u32_minus_1)

interpretation subfe: carry_sum "\<lambda>rec. ppc_subfe rec True"
  "\<lambda>opcode s. gpr s (reg_b opcode)" "\<lambda>opcode s. NOT (gpr s (reg_a opcode))" xer_ca
  by unfold_locales (simp add: ppc_subfe_def Let_def add_ac)

interpretation subfc: carry_sum "\<lambda>rec. ppc_subf True rec True"
  "\<lambda>opcode s. gpr s (reg_b opcode)" "\<lambda>opcode s. NOT (gpr s (reg_a opcode))" "\<lambda>_. True"
  by unfold_locales (simp add: ppc_subf_def Let_def add_ac)

lemma sint_NOT_u32: "sint (NOT x) = - sint x - 1" for x :: u32
proof -
  have "NOT x = word_of_int (- sint x - 1)"
    by (simp add: not_eq_complement)
  then show ?thesis
    using sint_wrap_cases[of "- sint x - 1"] sint_u32_bounds[of x] by simp
qed

lemma sint_eq_iff_u32: "x = y \<longleftrightarrow> sint x = sint y" for x y :: u32
  by (auto dest: arg_cong[where f = "word_of_int :: int \<Rightarrow> u32"])

lemma subfme_test:
  fixes a :: u32 and c :: bool
  defines "k \<equiv> sint (NOT a) + sint (- 1 :: u32) + of_bool c"
  shows "(word_of_int k = a \<and> 0 < sint (word_of_int k :: u32)) \<longleftrightarrow> ov_s32 k"
proof -
  have k: "k = (if c then - sint a - 1 else - sint a - 2)"
    by (simp add: k_def sint_NOT_u32)
  have "sint (word_of_int k :: u32) =
     (if k < - 2147483648 then k + 4294967296 else if 2147483648 \<le> k then k - 4294967296 else k)"
    by (rule sint_wrap_cases) (use sint_u32_bounds[of a] k in auto)
  then show ?thesis
    unfolding sint_eq_iff_u32 using sint_u32_bounds[of a] k
    by (auto simp: ov_s32_def split: if_splits)
qed

lemma subfze_test:
  fixes a :: u32 and c :: bool
  defines "k \<equiv> sint (NOT a) + sint (0 :: u32) + of_bool c"
  shows "(word_of_int k \<noteq> (0 :: u32) \<and> word_of_int k = a) \<longleftrightarrow> ov_s32 k"
proof -
  have k: "k = (if c then - sint a else - sint a - 1)"
    by (simp add: k_def sint_NOT_u32)
  have "sint (word_of_int k :: u32) =
     (if k < - 2147483648 then k + 4294967296 else if 2147483648 \<le> k then k - 4294967296 else k)"
    by (rule sint_wrap_cases) (use sint_u32_bounds[of a] k in auto)
  then show ?thesis
    unfolding sint_eq_iff_u32 using sint_u32_bounds[of a] k
    by (auto simp: ov_s32_def split: if_splits)
qed

lemma subfme_sum:
  "ppc_subfme rec ov opcode s =
     (let a = gpr s (reg_a opcode); l = ucast (NOT a) + (ucast (- 1 :: u32) :: u64) + of_flag (xer_ca s);
          d = word_of_int (sint (NOT a) + sint (- 1 :: u32) + of_bool (xer_ca s));
          t = ppc_carry l s; t = (if ov then xer_set_ov (d = a \<and> sint d > 0) t else t)
      in put_gpr (reg_d opcode) d (if rec then ppc_changecrf0 d t else t))"
proof -
  have "ucast (NOT (gpr s (reg_a opcode))) + of_flag (xer_ca s) + (0xFFFFFFFF :: u64) =
     ucast (NOT (gpr s (reg_a opcode))) + (ucast (- 1 :: u32) :: u64) + of_flag (xer_ca s)"
    by (simp only: u32_minus_1 add_ac)
  then show ?thesis
    unfolding ppc_subfme_def Let_def by (simp only: sum_u64(2) sum_word)
qed

lemma subfze_sum:
  "ppc_subfze rec ov opcode s =
     (let a = gpr s (reg_a opcode); l = ucast (NOT a) + (ucast (0 :: u32) :: u64) + of_flag (xer_ca s);
          d = word_of_int (sint (NOT a) + sint (0 :: u32) + of_bool (xer_ca s));
          t = ppc_carry l s; t = (if ov then xer_set_ov (d \<noteq> 0 \<and> d = a) t else t)
      in put_gpr (reg_d opcode) d (if rec then ppc_changecrf0 d t else t))"
proof -
  have "ucast (NOT (gpr s (reg_a opcode))) + (of_flag (xer_ca s) :: u64) =
     ucast (NOT (gpr s (reg_a opcode))) + (ucast (0 :: u32) :: u64) + of_flag (xer_ca s)"
    by simp
  then show ?thesis
    unfolding ppc_subfze_def Let_def by (simp only: sum_u64(2) sum_word)
qed

lemma unat_NOT_u32: "unat (NOT x) = 4294967295 - unat x" for x :: u32
proof -
  have "NOT x = - 1 - x" by (simp add: not_eq_complement)
  moreover have "unat (- 1 :: u32) = 4294967295"
    by (simp flip: u32_minus_1(1))
  ultimately show ?thesis using unat_sub[of x "- 1"] by simp
qed

text \<open>
  C17: \<open>adde\<close> computes the sum with the incoming carry modulo \<open>2 ^ 32\<close>; \<open>XER[CA]\<close> is the carry out
  of the unsigned sum, \<open>XER[OV]\<close> says that the signed sum does not fit, \<open>XER[SO]\<close> remembers it.
\<close>

theorem adde_exact:
  "let a = gpr s (reg_a opcode); b = gpr s (reg_b opcode); k = sint a + sint b + of_bool (xer_ca s);
       s' = ppc_adde rec True opcode s
   in gpr s' (reg_d opcode) = word_of_int k \<and>
      (xer_ca s' \<longleftrightarrow> 2 ^ 32 \<le> unat a + unat b + of_bool (xer_ca s)) \<and>
      (bit (xer s') 30 \<longleftrightarrow> ov_s32 k) \<and> (bit (xer s') 31 \<longleftrightarrow> bit (xer s) 31 \<or> ov_s32 k)"
  unfolding Let_def by (intro conjI adde.exact)

text \<open>
  C18: \<open>subfe\<close> computes \<open>rB - rA - 1 + CA\<close>; \<open>XER[CA]\<close> is set exactly when there is no borrow and
  \<open>XER[OV]\<close> exactly when the signed difference does not fit.
\<close>

theorem subfe_exact:
  "let a = gpr s (reg_a opcode); b = gpr s (reg_b opcode); k = sint b - sint a - 1 + of_bool (xer_ca s);
       s' = ppc_subfe rec True opcode s
   in gpr s' (reg_d opcode) = word_of_int k \<and>
      (xer_ca s' \<longleftrightarrow> unat a < unat b + of_bool (xer_ca s)) \<and>
      (bit (xer s') 30 \<longleftrightarrow> ov_s32 k) \<and> (bit (xer s') 31 \<longleftrightarrow> bit (xer s) 31 \<or> ov_s32 k)"
proof -
  have e1: "sint b + sint (NOT a) + c = sint b - sint a - 1 + c" for a b :: u32 and c
    by (simp add: sint_NOT_u32)
  have e2: "2 ^ 32 \<le> unat b + unat (NOT a) + c \<longleftrightarrow> unat a < unat b + c" for a b :: u32 and c
    using unat_u32_less[of a] by (auto simp: unat_NOT_u32)
  show ?thesis
    using subfe.exact[of rec opcode s] unfolding Let_def e1 e2 by blast
qed

text \<open>
  The shortcut tests of \<open>subfme\<close> and \<open>subfze\<close> (\<open>d == a && d > 0\<close>, \<open>d && d == a\<close>) set
  \<open>XER[OV]\<close> exactly when the signed result does not fit.
\<close>

theorem subfme_subfze_overflow_exact:
  "let na = - sint (gpr s (reg_a opcode)) - 1; c = of_bool (xer_ca s);
       m = ppc_subfme rec True opcode s; z = ppc_subfze rec True opcode s
   in gpr m (reg_d opcode) = word_of_int (na - 1 + c) \<and> (bit (xer m) 30 \<longleftrightarrow> ov_s32 (na - 1 + c)) \<and>
      gpr z (reg_d opcode) = word_of_int (na + c) \<and> (bit (xer z) 30 \<longleftrightarrow> ov_s32 (na + c))"
proof -
  have e: "- sint a - 1 - 1 + c = sint (NOT a) + sint (- 1 :: u32) + c"
    "- sint a - 1 + c = sint (NOT a) + sint (0 :: u32) + c" for a :: u32 and c
    by (simp_all add: sint_NOT_u32)
  show ?thesis
    unfolding Let_def e subfme_sum subfze_sum xer_finish if_True bit_xer_set_ov subfme_test subfze_test
    by simp
qed

end
