(* ===== verification/SoftTlb.thy ===== *)
theory SoftTlb
  imports PpcInteger
begin

text \<open>
  The software TLBs of \<open>src/cpu/ppc/ppcmmu.cpp\<close> (lines 602--877, 1032--1083, 1183--1219 and the
  scheduling of their invalidation) and the context synchronization list of
  \<open>src/cpu/ppc/ppcopcodes.cpp\<close>.

  A slot of one of the twelve TLB arrays is named by its type, level, mode and index; a
  \<open>TLBEntry *\<close> is such a name, so that the tracking lists alias the arrays as in the source. The
  two variants of the anonymous union of \<open>TLBEntry\<close> are kept as separate fields: each is read
  only under the page flag that is set together with it. A context synchronization action is the
  TLB type whose \<open>tlb_invalidate_tracked_entries\<close> instance was registered; no other action is.
\<close>

subsection \<open>State\<close>

datatype TLBType = ITLB | DTLB

datatype slot = Slot (slot_type: TLBType) (slot_level: nat) (slot_mode: nat) (slot_index: nat)

abbreviation (input) "TLB_SIZE \<equiv> (4096 :: nat)"
abbreviation (input) "TLB2_WAYS \<equiv> (4 :: nat)"
abbreviation (input) "TLB_INVALID_TAG \<equiv> (0xFFFFFFFF :: u32)"

abbreviation (input) "PAGE_MEM \<equiv> (0x01 :: u16)"
abbreviation (input) "PAGE_IO \<equiv> (0x02 :: u16)"
abbreviation (input) "PAGE_NOPHYS \<equiv> (0x04 :: u16)"
abbreviation (input) "TLBE_FROM_BAT \<equiv> (0x08 :: u16)"
abbreviation (input) "TLBE_FROM_PAT \<equiv> (0x10 :: u16)"
abbreviation (input) "PAGE_WRITABLE \<equiv> (0x20 :: u16)"
abbreviation (input) "PTE_SET_C \<equiv> (0x40 :: u16)"
abbreviation (input) "TLBE_CTX_TRACKED \<equiv> (0x80 :: u16)"
abbreviation (input) "TLBE_FROM_TRANSLATION \<equiv> (0x18 :: u16)"

record TLBEntry =
  tag :: u32
  flags :: u16
  lru_bits :: u16
  host_va_offs_r :: u64
  host_va_offs_w :: u64
  rgn_desc :: "AddressMapEntry option"
  dev_base_va :: u64
  phys_tag :: u32

record PPC_BAT_entry =
  valid :: bool
  access :: u8
  prot :: u8
  phys_hi :: u32
  hi_mask :: u32
  bepi :: u32

record Tlb603Entry =
  valid603 :: bool
  vsid :: u32
  ea_tag :: u32
  pte_lo :: u32

record mmu = cpu +
  tlb :: "slot \<Rightarrow> TLBEntry"
  gTrackedIEntries :: "slot list"
  gTrackedDEntries :: "slot list"
  gPendingIInvalidationSources :: u16
  gPendingDInvalidationSources :: u16
  gCtxSyncCallbacks :: "TLBType list"
  pCurITLB1 :: nat
  pCurITLB2 :: nat
  pCurDTLB1 :: nat
  pCurDTLB2 :: nat
  CurITLBMode :: u8
  CurDTLBMode :: u8
  ibat_array :: "nat \<Rightarrow> PPC_BAT_entry"
  dbat_array :: "nat \<Rightarrow> PPC_BAT_entry"
  tlb603 :: "TLBType \<Rightarrow> nat \<Rightarrow> nat \<Rightarrow> Tlb603Entry"
  tlb603_lru :: "TLBType \<Rightarrow> nat \<Rightarrow> nat"
  last_ptab_area :: AddressMapEntry
  mmu_exception_handler_dbg :: bool
  mem_ctrl_instance :: MemCtrl
  dummy_page :: u64

text \<open>The fake entry for accesses to unmapped memory; it lives outside the arrays.\<close>

definition UnmappedMem :: TLBEntry where
  "UnmappedMem = \<lparr>tag = TLB_INVALID_TAG, flags = PAGE_NOPHYS, lru_bits = 0, host_va_offs_r = 0,
     host_va_offs_w = 0, rgn_desc = None, dev_base_va = 0, phys_tag = 0\<rparr>"

subsection \<open>Tracking and invalidation\<close>

fun tracked :: "TLBType \<Rightarrow> 'a mmu_scheme \<Rightarrow> slot list" where
  "tracked ITLB s = gTrackedIEntries s"
| "tracked DTLB s = gTrackedDEntries s"

fun put_tracked :: "TLBType \<Rightarrow> slot list \<Rightarrow> 'a mmu_scheme \<Rightarrow> 'a mmu_scheme" where
  "put_tracked ITLB xs s = s\<lparr>gTrackedIEntries := xs\<rparr>"
| "put_tracked DTLB xs s = s\<lparr>gTrackedDEntries := xs\<rparr>"

fun pending :: "TLBType \<Rightarrow> 'a mmu_scheme \<Rightarrow> u16" where
  "pending ITLB s = gPendingIInvalidationSources s"
| "pending DTLB s = gPendingDInvalidationSources s"

fun put_pending :: "TLBType \<Rightarrow> u16 \<Rightarrow> 'a mmu_scheme \<Rightarrow> 'a mmu_scheme" where
  "put_pending ITLB v s = s\<lparr>gPendingIInvalidationSources := v\<rparr>"
| "put_pending DTLB v s = s\<lparr>gPendingDInvalidationSources := v\<rparr>"

definition track_translated_entry :: "TLBType \<Rightarrow> slot \<Rightarrow> 'a mmu_scheme \<Rightarrow> 'a mmu_scheme" where
  "track_translated_entry tlb_type p s =
     (let e = tlb s p
      in if \<not> tst (flags e) TLBE_FROM_TRANSLATION \<or> tst (flags e) TLBE_CTX_TRACKED then s
         else let s = s\<lparr>tlb := (tlb s)(p := e\<lparr>flags := flags e OR TLBE_CTX_TRACKED\<rparr>)\<rparr>
              in put_tracked tlb_type (tracked tlb_type s @ [p]) s)"

text \<open>
  The compaction loop over the vector of tracked entries: \<open>i\<close> is the read position, \<open>k\<close> the value
  of \<open>retained_count\<close>; retained pointers are written back into the same vector.
\<close>

function invalidate_loop ::
    "u16 \<Rightarrow> nat \<Rightarrow> nat \<Rightarrow> slot list \<Rightarrow> (slot \<Rightarrow> TLBEntry) \<Rightarrow> slot list \<times> (slot \<Rightarrow> TLBEntry)" where
  "invalidate_loop sources i k v t =
     (if length v \<le> i then (take k v, t)
      else
        let p = v ! i; e = t p; source = flags e AND TLBE_FROM_TRANSLATION
        in if tst source sources then
             invalidate_loop sources (Suc i) k v
               (t(p := e\<lparr>tag := TLB_INVALID_TAG, flags := flags e AND NOT TLBE_CTX_TRACKED\<rparr>))
           else if source \<noteq> 0 then
             invalidate_loop sources (Suc i) (Suc k) (v[k := p]) t
           else
             invalidate_loop sources (Suc i) k v
               (t(p := e\<lparr>flags := flags e AND NOT TLBE_CTX_TRACKED\<rparr>)))"
  by pat_completeness auto
termination
  by (relation "measure (\<lambda>(sources, i, k, v, t). length v - i)") auto

declare invalidate_loop.simps [simp del]

definition tlb_invalidate_tracked :: "TLBType \<Rightarrow> u16 \<Rightarrow> 'a mmu_scheme \<Rightarrow> 'a mmu_scheme" where
  "tlb_invalidate_tracked tlb_type sources s =
     (let (v, t) = invalidate_loop sources 0 0 (tracked tlb_type s) (tlb s)
      in put_tracked tlb_type v (s\<lparr>tlb := t\<rparr>))"

definition tlb_invalidate_tracked_entries :: "TLBType \<Rightarrow> 'a mmu_scheme \<Rightarrow> 'a mmu_scheme" where
  "tlb_invalidate_tracked_entries tlb_type s =
     (if pending tlb_type s = 0 then s
      else put_pending tlb_type 0 (tlb_invalidate_tracked tlb_type (pending tlb_type s) s))"

definition add_ctx_sync_action :: "TLBType \<Rightarrow> 'a mmu_scheme \<Rightarrow> 'a mmu_scheme" where
  "add_ctx_sync_action act s = s\<lparr>gCtxSyncCallbacks := gCtxSyncCallbacks s @ [act]\<rparr>"

definition schedule_tlb_invalidation :: "TLBType \<Rightarrow> u16 \<Rightarrow> 'a mmu_scheme \<Rightarrow> 'a mmu_scheme" where
  "schedule_tlb_invalidation tlb_type sources s =
     (let s = (if pending tlb_type s = 0 then add_ctx_sync_action tlb_type s else s)
      in put_pending tlb_type (pending tlb_type s OR sources) s)"

definition mmu_pat_ctx_changed :: "'a mmu_scheme \<Rightarrow> 'a mmu_scheme" where
  "mmu_pat_ctx_changed s =
     schedule_tlb_invalidation DTLB TLBE_FROM_PAT (schedule_tlb_invalidation ITLB TLBE_FROM_PAT s)"

lemma tracked_sel [simp]:
  "gCtxSyncCallbacks (put_tracked ty xs s) = gCtxSyncCallbacks s"
  "gCtxSyncCallbacks (put_pending ty v s) = gCtxSyncCallbacks s"
  "tlb (put_tracked ty xs s) = tlb s" "tlb (put_pending ty v s) = tlb s"
  "pending ty' (put_tracked ty xs s) = pending ty' s"
  "tracked ty' (put_pending ty v s) = tracked ty' s"
  "tracked ty' (put_tracked ty xs s) = (if ty' = ty then xs else tracked ty' s)"
  "pending ty' (put_pending ty v s) = (if ty' = ty then v else pending ty' s)"
  "tracked ty (s\<lparr>tlb := t\<rparr>) = tracked ty s" "pending ty (s\<lparr>tlb := t\<rparr>) = pending ty s"
  "tracked ty (s\<lparr>gCtxSyncCallbacks := c\<rparr>) = tracked ty s"
  "pending ty (s\<lparr>gCtxSyncCallbacks := c\<rparr>) = pending ty s"
  by (cases ty; cases ty'; simp)+

lemma callbacks_invalidate [simp]:
  "gCtxSyncCallbacks (tlb_invalidate_tracked_entries ty s) = gCtxSyncCallbacks s"
  by (simp add: tlb_invalidate_tracked_entries_def tlb_invalidate_tracked_def split: prod.splits)

text \<open>\<open>do_ctx_sync\<close>: call the last action, then drop it, until none is left.\<close>

function do_ctx_sync :: "'a mmu_scheme \<Rightarrow> 'a mmu_scheme" where
  "do_ctx_sync s =
     (if gCtxSyncCallbacks s = [] then s
      else let s = tlb_invalidate_tracked_entries (last (gCtxSyncCallbacks s)) s
           in do_ctx_sync (s\<lparr>gCtxSyncCallbacks := butlast (gCtxSyncCallbacks s)\<rparr>))"
  by pat_completeness auto
termination
  by (relation "measure (\<lambda>s. length (gCtxSyncCallbacks s))") auto

declare do_ctx_sync.simps [simp del]

definition promote_tlb_entry :: "TLBType \<Rightarrow> slot \<Rightarrow> slot \<Rightarrow> 'a mmu_scheme \<Rightarrow> 'a mmu_scheme" where
  "promote_tlb_entry tlb_type p1 p2 s =
     (let trk = flags (tlb s p1) AND TLBE_CTX_TRACKED;
          e = tlb s p2;
          e = e\<lparr>flags := (flags e AND NOT TLBE_CTX_TRACKED) OR trk\<rparr>
      in track_translated_entry tlb_type p1 (s\<lparr>tlb := (tlb s)(p1 := e)\<rparr>))"

subsection \<open>Mode switch and replacement\<close>

definition mode_arrays :: "u8 \<Rightarrow> nat" where
  "mode_arrays mmu_mode = (if mmu_mode = 2 then 2 else if mmu_mode = 3 then 3 else 1)"

definition mmu_change_mode :: "'a mmu_scheme \<Rightarrow> 'a mmu_scheme" where
  "mmu_change_mode s =
     (let m = push_bit 1 (of_flag (tst (msr s) MSR_IR)) OR of_flag (tst (msr s) MSR_PR);
          s = (if CurITLBMode s \<noteq> m then
                 s\<lparr>pCurITLB1 := mode_arrays m, pCurITLB2 := mode_arrays m,
                   CurITLBMode := if m = 1 then 0 else m\<rparr>
               else s);
          m = push_bit 1 (of_flag (tst (msr s) MSR_DR)) OR of_flag (tst (msr s) MSR_PR)
      in if CurDTLBMode s \<noteq> m then
           s\<lparr>pCurDTLB1 := mode_arrays m, pCurDTLB2 := mode_arrays m,
             CurDTLBMode := if m = 1 then 0 else m\<rparr>
         else s)"

fun cur1 :: "TLBType \<Rightarrow> 'a mmu_scheme \<Rightarrow> nat" where
  "cur1 ITLB s = pCurITLB1 s"
| "cur1 DTLB s = pCurDTLB1 s"

fun cur2 :: "TLBType \<Rightarrow> 'a mmu_scheme \<Rightarrow> nat" where
  "cur2 ITLB s = pCurITLB2 s"
| "cur2 DTLB s = pCurDTLB2 s"

definition tlb_index :: "u32 \<Rightarrow> nat" where
  "tlb_index va = unat (drop_bit 12 va AND 0xFFF)"

text \<open>The four ways of a set start at \<open>set2\<close>; \<open>way\<close> gives one of them.\<close>

definition set2 :: "TLBType \<Rightarrow> u32 \<Rightarrow> 'a mmu_scheme \<Rightarrow> slot" where
  "set2 tlb_type va s = Slot tlb_type 2 (cur2 tlb_type s) (tlb_index va * TLB2_WAYS)"

fun way :: "slot \<Rightarrow> nat \<Rightarrow> slot" where
  "way (Slot ty l m i) w = Slot ty l m (i + w)"

definition put_lru :: "(nat \<Rightarrow> u16 \<Rightarrow> u16) \<Rightarrow> slot \<Rightarrow> 'a mmu_scheme \<Rightarrow> 'a mmu_scheme" where
  "put_lru f b s = s\<lparr>tlb := fold (\<lambda>w t. t(way b w := (t (way b w))\<lparr>lru_bits := f w (lru_bits (t (way b w)))\<rparr>))
     [0, 1, 2, 3] (tlb s)\<rparr>"

definition tlb2_touch_way :: "nat \<Rightarrow> slot \<Rightarrow> 'a mmu_scheme \<Rightarrow> 'a mmu_scheme" where
  "tlb2_touch_way w b s =
     (if w < 2 then
        put_lru (\<lambda>i l. if i = 0 then (if w = 0 then 3 else 2)
                       else if i = 1 then (if w = 1 then 3 else 2)
                       else l AND 1) b s
      else
        put_lru (\<lambda>i l. if i = 2 then (if w = 2 then 3 else 2)
                       else if i = 3 then (if w = 3 then 3 else 2)
                       else l AND 1) b s)"

definition tlb2_target_entry :: "TLBType \<Rightarrow> u32 \<Rightarrow> 'a mmu_scheme \<Rightarrow> slot \<times> 'a mmu_scheme" where
  "tlb2_target_entry tlb_type va s =
     (let b = set2 tlb_type va s; e = (\<lambda>w. tlb s (way b w));
          w = (if tag (e 0) = TLB_INVALID_TAG then 0
               else if tag (e 1) = TLB_INVALID_TAG then 1
               else if tag (e 2) = TLB_INVALID_TAG then 2
               else if tag (e 3) = TLB_INVALID_TAG then 3
               else if lru_bits (e 0) = 0 then 0
               else if lru_bits (e 1) = 0 then 1
               else if lru_bits (e 2) = 0 then 2
               else 3)
      in (way b w, tlb2_touch_way w b s))"

definition lookup_secondary_tlb :: "TLBType \<Rightarrow> u32 \<Rightarrow> u32 \<Rightarrow> 'a mmu_scheme \<Rightarrow> slot option \<times> 'a mmu_scheme" where
  "lookup_secondary_tlb tlb_type va tg s =
     (let b = set2 tlb_type va s; e = (\<lambda>w. tlb s (way b w));
          hit = (\<lambda>w. (Some (way b w), tlb2_touch_way w b s))
      in if tag (e 0) = tg then hit 0
         else if tag (e 1) = tg then hit 1
         else if tag (e 2) = tg then hit 2
         else if tag (e 3) = tg then hit 3
         else (None, s))"

text \<open>\<open>lookup_tlb\<close> returns the primary slot, the matched slot and whether the primary one matched.\<close>

definition lookup_tlb ::
    "TLBType \<Rightarrow> u32 \<Rightarrow> u32 \<Rightarrow> 'a mmu_scheme \<Rightarrow> (slot \<times> slot option \<times> bool) \<times> 'a mmu_scheme" where
  "lookup_tlb tlb_type va tg s =
     (let p = Slot tlb_type 1 (cur1 tlb_type s) (tlb_index va)
      in if tag (tlb s p) = tg then ((p, Some p, True), s)
         else let (m, s) = lookup_secondary_tlb tlb_type va tg s in ((p, m, False), s))"

subsection \<open>Flushing\<close>

definition tlb_flush_all_pat :: "'a mmu_scheme \<Rightarrow> 'a mmu_scheme" where
  "tlb_flush_all_pat s =
     tlb_invalidate_tracked DTLB TLBE_FROM_PAT (tlb_invalidate_tracked ITLB TLBE_FROM_PAT s)"

definition flush_slot :: "u32 \<Rightarrow> slot \<Rightarrow> (slot \<Rightarrow> TLBEntry) \<Rightarrow> (slot \<Rightarrow> TLBEntry)" where
  "flush_slot tg p t =
     (if tag (t p) = tg \<and> tst (flags (t p)) TLBE_FROM_PAT
      then t(p := (t p)\<lparr>tag := TLB_INVALID_TAG\<rparr>) else t)"

definition tlb_flush_pat_page :: "TLBType \<Rightarrow> u32 \<Rightarrow> 'a mmu_scheme \<Rightarrow> 'a mmu_scheme" where
  "tlb_flush_pat_page tlb_type ea s =
     (let tg = ea AND 0xFFFFF000; idx = tlb_index ea;
          ps = [Slot tlb_type 1 2 idx, Slot tlb_type 1 3 idx] @
               map (\<lambda>w. Slot tlb_type 2 2 (idx * TLB2_WAYS + w)) [0, 1, 2, 3] @
               map (\<lambda>w. Slot tlb_type 2 3 (idx * TLB2_WAYS + w)) [0, 1, 2, 3]
      in s\<lparr>tlb := fold (flush_slot tg) ps (tlb s)\<rparr>)"

subsection \<open>The compaction loop\<close>

text \<open>What the loop does to one tracked entry, and which pointers it keeps.\<close>

definition invalidated :: "u16 \<Rightarrow> TLBEntry \<Rightarrow> TLBEntry" where
  "invalidated sources e =
     (if tst (flags e AND TLBE_FROM_TRANSLATION) sources
      then e\<lparr>tag := TLB_INVALID_TAG, flags := flags e AND NOT TLBE_CTX_TRACKED\<rparr>
      else if tst (flags e) TLBE_FROM_TRANSLATION then e
      else e\<lparr>flags := flags e AND NOT TLBE_CTX_TRACKED\<rparr>)"

definition retained :: "u16 \<Rightarrow> TLBEntry \<Rightarrow> bool" where
  "retained sources e \<longleftrightarrow>
     \<not> tst (flags e AND TLBE_FROM_TRANSLATION) sources \<and> tst (flags e) TLBE_FROM_TRANSLATION"

lemma map_over_step:
  assumes "p \<notin> set xs"
  shows "(\<lambda>q. if q \<in> set xs then f ((t(p := f (t p))) q) else (t(p := f (t p))) q) =
         (\<lambda>q. if q \<in> set (p # xs) then f (t q) else t q)"
    and "filter (\<lambda>q. P ((t(p := e)) q)) xs = filter (\<lambda>q. P (t q)) xs"
proof -
  show "filter (\<lambda>q. P ((t(p := e)) q)) xs = filter (\<lambda>q. P (t q)) xs"
    using assms by (intro filter_cong) auto
qed (use assms in auto)

lemma invalidate_loop_spec:
  assumes "k \<le> i" "distinct (drop i v)"
  shows "invalidate_loop sources i k v t =
     (take k v @ filter (\<lambda>p. retained sources (t p)) (drop i v),
      \<lambda>p. if p \<in> set (drop i v) then invalidated sources (t p) else t p)"
  using assms
proof (induction sources i k v t rule: invalidate_loop.induct)
  case (1 sources i k v t)
  show ?case
  proof (cases "length v \<le> i")
    case True
    then show ?thesis by (simp add: invalidate_loop.simps)
  next
    case False
    define p where "p = v ! i"
    have d: "drop i v = p # drop (Suc i) v" and np: "p \<notin> set (drop (Suc i) v)" and dd: "distinct (drop (Suc i) v)"
      using False "1.prems"(2) by (auto simp: p_def Cons_nth_drop_Suc[symmetric])
    consider (inv) "tst (flags (t p) AND 0x18) sources"
      | (keep) "\<not> tst (flags (t p) AND 0x18) sources" "flags (t p) AND 0x18 \<noteq> 0"
      | (none) "\<not> tst (flags (t p) AND 0x18) sources" "flags (t p) AND 0x18 = 0" by blast
    then show ?thesis
    proof cases
      case inv
      then have "invalidate_loop sources i k v t =
          invalidate_loop sources (Suc i) k v (t(p := invalidated sources (t p)))"
        using False by (subst invalidate_loop.simps) (simp add: p_def Let_def invalidated_def)
      also have "\<dots> = (take k v @ filter (\<lambda>p. retained sources (t p)) (drop (Suc i) v),
          \<lambda>q. if q \<in> set (drop i v) then invalidated sources (t q) else t q)"
      proof -
        have e: "(t p)\<lparr>tag := TLB_INVALID_TAG, flags := flags (t p) AND NOT TLBE_CTX_TRACKED\<rparr> = invalidated sources (t p)"
          using inv by (simp add: invalidated_def)
        show ?thesis
          unfolding "1.IH"(1)[OF False p_def refl refl inv le_SucI[OF "1.prems"(1)] dd, unfolded e]
          by (simp only: map_over_step[OF np] d)
      qed
      finally show ?thesis using inv by (simp add: d retained_def)
    next
      case keep
      then have "invalidate_loop sources i k v t = invalidate_loop sources (Suc i) (Suc k) (v[k := p]) t"
        using False by (subst invalidate_loop.simps) (simp add: p_def Let_def)
      moreover have "take (Suc k) (v[k := p]) = take k v @ [p]"
        using "1.prems"(1) False by (simp add: take_Suc_conv_app_nth)
      moreover have "drop (Suc i) (v[k := p]) = drop (Suc i) v"
        using "1.prems"(1) by (simp add: drop_update_cancel)
      ultimately show ?thesis
        using "1.IH"(2)[OF False p_def refl refl keep] "1.prems"(1) dd np keep
        by (auto simp: d retained_def invalidated_def tst_def)
    next
      case none
      then have "invalidate_loop sources i k v t =
          invalidate_loop sources (Suc i) k v (t(p := invalidated sources (t p)))"
        using False by (subst invalidate_loop.simps) (simp add: p_def Let_def invalidated_def tst_def)
      also have "\<dots> = (take k v @ filter (\<lambda>p. retained sources (t p)) (drop (Suc i) v),
          \<lambda>q. if q \<in> set (drop i v) then invalidated sources (t q) else t q)"
      proof -
        have e: "(t p)\<lparr>flags := flags (t p) AND NOT TLBE_CTX_TRACKED\<rparr> = invalidated sources (t p)"
          using none by (simp add: invalidated_def tst_def)
        have nn: "\<not> flags (t p) AND TLBE_FROM_TRANSLATION \<noteq> 0"
          using none by simp
        show ?thesis
          unfolding "1.IH"(3)[OF False p_def refl refl none(1) nn le_SucI[OF "1.prems"(1)] dd, unfolded e]
          by (simp only: map_over_step[OF np] d)
      qed
      finally show ?thesis using none by (simp add: d retained_def tst_def)
    qed
  qed
qed

lemma tlb_invalidate_tracked_eq:
  assumes "distinct (tracked ty s)"
  shows "tlb_invalidate_tracked ty sources s =
     put_tracked ty (filter (\<lambda>p. retained sources (tlb s p)) (tracked ty s))
       (s\<lparr>tlb := \<lambda>p. if p \<in> set (tracked ty s) then invalidated sources (tlb s p) else tlb s p\<rparr>)"
  using assms by (simp add: tlb_invalidate_tracked_def invalidate_loop_spec)


subsection \<open>Every translated entry is tracked\<close>

definition slot_ok :: "'a mmu_scheme \<Rightarrow> slot \<Rightarrow> bool" where
  "slot_ok s p \<longleftrightarrow>
     (tst (flags (tlb s p)) TLBE_CTX_TRACKED \<longleftrightarrow> p \<in> set (tracked (slot_type p) s)) \<and>
     (tag (tlb s p) \<noteq> TLB_INVALID_TAG \<and> tst (flags (tlb s p)) TLBE_FROM_TRANSLATION \<longrightarrow>
        p \<in> set (tracked (slot_type p) s))"

definition tlb_inv :: "'a mmu_scheme \<Rightarrow> bool" where
  "tlb_inv s \<longleftrightarrow>
     (\<forall>ty. distinct (tracked ty s) \<and> (\<forall>p\<in>set (tracked ty s). slot_type p = ty) \<and>
        pending ty s AND NOT TLBE_FROM_TRANSLATION = 0 \<and>
        (pending ty s \<noteq> 0 \<longrightarrow> ty \<in> set (gCtxSyncCallbacks s))) \<and>
     (\<forall>p. slot_ok s p)"

lemma u16_eqI: "(\<forall>i<16. bit x i = bit y i) \<Longrightarrow> x = y" for x y :: u16
  by (rule bit_word_eqI) simp

lemma flag_bits:
  "tst (f AND NOT 0x80) 0x80 \<longleftrightarrow> False" "tst (f OR 0x80) 0x80 \<longleftrightarrow> True"
  "tst (f AND NOT 0x80) 0x18 \<longleftrightarrow> tst f 0x18" "tst (f OR 0x80) 0x18 \<longleftrightarrow> tst f 0x18" for f :: u16
proof -
  have b: "tst g 0x80 \<longleftrightarrow> bit g 7" for g :: u16
    using tst_pow2[of g 7] by simp
  show "tst (f AND NOT 0x80) 0x18 \<longleftrightarrow> tst f 0x18" "tst (f OR 0x80) 0x18 \<longleftrightarrow> tst f 0x18"
    by (simp_all add: tst_def and.assoc bit.conj_disj_distrib2)
  show "tst (f AND NOT 0x80) 0x80 \<longleftrightarrow> False" "tst (f OR 0x80) 0x80 \<longleftrightarrow> True"
    unfolding b by (simp_all add: bit_simps)
qed


lemmas flag_bits_norm [simp] = flag_bits [simplified]

lemma tracked_update [simp]:
  "tracked ty (put_tracked ty' xs (s\<lparr>tlb := t\<rparr>)) = (if ty = ty' then xs else tracked ty s)"
  by simp

lemma invalidated_simps:
  "tst (flags (invalidated sources e)) TLBE_CTX_TRACKED \<longleftrightarrow> retained sources e \<and> tst (flags e) TLBE_CTX_TRACKED"
  "tst (flags (invalidated sources e)) TLBE_FROM_TRANSLATION \<longleftrightarrow> tst (flags e) TLBE_FROM_TRANSLATION"
  "tag (invalidated sources e) =
     (if tst (flags e AND TLBE_FROM_TRANSLATION) sources then TLB_INVALID_TAG else tag e)"
  by (auto simp: invalidated_def retained_def)

lemma tlb_inv_invalidate:
  assumes "tlb_inv s"
  shows "tlb_inv (put_pending ty 0 (tlb_invalidate_tracked ty sources s))"
    and "tlb_inv (tlb_invalidate_tracked ty sources s)"
proof -
  have dist: "distinct (tracked ty s)" and ty: "\<And>p ty. p \<in> set (tracked ty s) \<Longrightarrow> slot_type p = ty"
    using assms by (auto simp: tlb_inv_def)
  have ok: "slot_ok s p" for p using assms by (simp add: tlb_inv_def)
  have slots: "slot_ok (tlb_invalidate_tracked ty sources s) p" for p
    using ok[of p] ty[of p]
    unfolding slot_ok_def tlb_invalidate_tracked_eq[OF dist]
    by (auto simp: invalidated_simps retained_def)
  have lists: "distinct (tracked ty' (tlb_invalidate_tracked ty sources s)) \<and>
      (\<forall>p\<in>set (tracked ty' (tlb_invalidate_tracked ty sources s)). slot_type p = ty')" for ty'
    using assms by (auto simp: tlb_inv_def tlb_invalidate_tracked_eq[OF dist])
  have "pending ty' (tlb_invalidate_tracked ty sources s) = pending ty' s"
    "gCtxSyncCallbacks (tlb_invalidate_tracked ty sources s) = gCtxSyncCallbacks s" for ty'
    by (simp_all add: tlb_invalidate_tracked_eq[OF dist])
  with assms slots lists show "tlb_inv (tlb_invalidate_tracked ty sources s)"
    by (simp add: tlb_inv_def)
  then show "tlb_inv (put_pending ty 0 (tlb_invalidate_tracked ty sources s))"
    by (simp add: tlb_inv_def slot_ok_def)
qed

lemma tlb_inv_invalidate_entries: "tlb_inv s \<Longrightarrow> tlb_inv (tlb_invalidate_tracked_entries ty s)"
  by (simp add: tlb_invalidate_tracked_entries_def tlb_inv_invalidate)

text \<open>No valid entry of type \<open>ty\<close> comes from one of the sources.\<close>

definition flushed :: "TLBType \<Rightarrow> u16 \<Rightarrow> 'a mmu_scheme \<Rightarrow> bool" where
  "flushed ty sources s \<longleftrightarrow>
     (\<forall>p. slot_type p = ty \<and> tst (flags (tlb s p) AND TLBE_FROM_TRANSLATION) sources \<longrightarrow>
        tag (tlb s p) = TLB_INVALID_TAG)"

lemma tst_and_nonzero: "tst (a AND b) c \<Longrightarrow> tst a b" for a b c :: u16
  by (auto simp: tst_def)

lemma invalidate_flushed:
  assumes "tlb_inv s"
  shows "flushed ty sources (tlb_invalidate_tracked ty sources s)"
    and "flushed ty' src s \<Longrightarrow> flushed ty' src (tlb_invalidate_tracked ty sources s)"
proof -
  have dist: "distinct (tracked ty s)" using assms by (simp add: tlb_inv_def)
  have src: "flags (invalidated sources e) AND TLBE_FROM_TRANSLATION = flags e AND TLBE_FROM_TRANSLATION" for e
    by (auto simp: invalidated_def and.assoc)
  have ok: "slot_ok s p" for p using assms by (simp add: tlb_inv_def)
  show "flushed ty sources (tlb_invalidate_tracked ty sources s)"
    unfolding flushed_def tlb_invalidate_tracked_eq[OF dist]
    using ok tst_and_nonzero unfolding slot_ok_def by (auto simp: src invalidated_simps)
  show "flushed ty' src s \<Longrightarrow> flushed ty' src (tlb_invalidate_tracked ty sources s)"
    unfolding flushed_def tlb_invalidate_tracked_eq[OF dist] by (auto simp: src invalidated_simps)
qed


lemma pop_callback_inv:
  assumes "tlb_inv s" "gCtxSyncCallbacks s \<noteq> []"
  shows "tlb_inv (let t = tlb_invalidate_tracked_entries (last (gCtxSyncCallbacks s)) s
                  in t\<lparr>gCtxSyncCallbacks := butlast (gCtxSyncCallbacks t)\<rparr>)"
proof -
  let ?ty = "last (gCtxSyncCallbacks s)"
  let ?t = "tlb_invalidate_tracked_entries ?ty s"
  have inv: "tlb_inv ?t" by (rule tlb_inv_invalidate_entries[OF assms(1)])
  have "pending ?ty ?t = 0"
    by (simp add: tlb_invalidate_tracked_entries_def)
  moreover have "ty \<in> set (butlast (gCtxSyncCallbacks s))"
    if "ty \<in> set (gCtxSyncCallbacks s)" "ty \<noteq> ?ty" for ty
    using that assms(2) by (metis append_butlast_last_id in_set_conv_decomp set_ConsD set_append Un_iff empty_iff list.set(1))
  ultimately show ?thesis
    using inv by (auto simp: tlb_inv_def slot_ok_def Let_def)
qed

lemma do_ctx_sync_inv:
  "tlb_inv s \<Longrightarrow> tlb_inv (do_ctx_sync s) \<and> gCtxSyncCallbacks (do_ctx_sync s) = []"
proof (induction s rule: do_ctx_sync.induct)
  case (1 s)
  then show ?case
    using pop_callback_inv[of s] by (subst (1 2) do_ctx_sync.simps) (simp add: Let_def)
qed

lemma do_ctx_sync_flushed:
  "tlb_inv s \<Longrightarrow> flushed ty src s \<Longrightarrow> flushed ty src (do_ctx_sync s)"
proof (induction s rule: do_ctx_sync.induct)
  case (1 s)
  show ?case
  proof (cases "gCtxSyncCallbacks s = []")
    case True
    then show ?thesis using "1.prems" by (subst do_ctx_sync.simps) simp
  next
    case False
    let ?t = "tlb_invalidate_tracked_entries (last (gCtxSyncCallbacks s)) s"
    have "flushed ty src ?t"
      using "1.prems" invalidate_flushed(2)[OF "1.prems"(1)]
      by (auto simp: tlb_invalidate_tracked_entries_def flushed_def)
    then have "flushed ty src (?t\<lparr>gCtxSyncCallbacks := butlast (gCtxSyncCallbacks ?t)\<rparr>)"
      by (simp add: flushed_def)
    then show ?thesis
      using "1.IH"[OF False refl] pop_callback_inv[OF "1.prems"(1) False] False
      by (subst do_ctx_sync.simps) (simp add: Let_def)
  qed
qed

lemma do_ctx_sync_flushes:
  "tlb_inv s \<Longrightarrow> flushed ty (pending ty s) (do_ctx_sync s)"
proof (induction s rule: do_ctx_sync.induct)
  case (1 s)
  show ?case
  proof (cases "gCtxSyncCallbacks s = []")
    case True
    then have "pending ty s = 0" using "1.prems" by (auto simp: tlb_inv_def)
    then show ?thesis by (simp add: flushed_def tst_def)
  next
    case False
    let ?ty = "last (gCtxSyncCallbacks s)"
    let ?t = "tlb_invalidate_tracked_entries ?ty s"
    let ?u = "?t\<lparr>gCtxSyncCallbacks := butlast (gCtxSyncCallbacks ?t)\<rparr>"
    have u: "tlb_inv ?u" using pop_callback_inv[OF "1.prems" False] by (simp add: Let_def)
    have sync: "do_ctx_sync s = do_ctx_sync ?u"
      using False by (subst do_ctx_sync.simps) (simp add: Let_def)
    show ?thesis
    proof (cases "ty = ?ty")
      case True
      have "flushed ty (pending ty s) ?u"
        using invalidate_flushed(1)[OF "1.prems", of ty "pending ty s"] True
        by (auto simp: tlb_invalidate_tracked_entries_def flushed_def tst_def)
      then show ?thesis using do_ctx_sync_flushed[OF u] sync by simp
    next
      case ty: False
      have "pending ty ?u = pending ty s"
        using ty "1.prems" by (auto simp: tlb_invalidate_tracked_entries_def tlb_invalidate_tracked_eq tlb_inv_def)
      then show ?thesis using "1.IH"[OF False refl] u sync by simp
    qed
  qed
qed

subsection \<open>Scheduling as an interface\<close>

text \<open>
  What the register writes that change the translation context rely on: they only note which
  sources are stale, and the next context synchronization drops every entry made from them.
\<close>

locale translation_context =
  fixes inv :: "'s \<Rightarrow> bool"
    and pend :: "TLBType \<Rightarrow> 's \<Rightarrow> u16"
    and sched :: "TLBType \<Rightarrow> u16 \<Rightarrow> 's \<Rightarrow> 's"
    and sync :: "'s \<Rightarrow> 's"
    and clean :: "TLBType \<Rightarrow> u16 \<Rightarrow> 's \<Rightarrow> bool"
  assumes sched_inv: "\<lbrakk>inv s; src AND NOT TLBE_FROM_TRANSLATION = 0; src \<noteq> 0\<rbrakk> \<Longrightarrow> inv (sched ty src s)"
    and sched_pend: "pend ty' (sched ty src s) = (if ty' = ty then pend ty s OR src else pend ty' s)"
    and sync_inv: "inv s \<Longrightarrow> inv (sync s)"
    and sync_clean: "inv s \<Longrightarrow> clean ty (pend ty s) (sync s)"
    and clean_mono: "\<lbrakk>clean ty (src OR src') s\<rbrakk> \<Longrightarrow> clean ty src s"
begin

lemma changes_inv:
  "\<lbrakk>inv s; \<forall>(ty, src)\<in>set cs. src AND NOT TLBE_FROM_TRANSLATION = 0 \<and> src \<noteq> 0\<rbrakk> \<Longrightarrow>
     inv (fold (\<lambda>(ty, src). sched ty src) cs s)"
  by (induction cs arbitrary: s) (auto simp: sched_inv)

lemma changes_pend:
  "(ty, src) \<in> set cs \<Longrightarrow> \<exists>r. pend ty (fold (\<lambda>(ty, src). sched ty src) cs s) = src OR r"
proof (induction cs arbitrary: s rule: rev_induct)
  case (snoc c cs)
  obtain ty' src' where c: "c = (ty', src')" by (cases c)
  show ?case
  proof (cases "(ty, src) = c")
    case True
    then show ?thesis by (auto simp: c sched_pend or.commute intro: exI[of _ "pend ty _"])
  next
    case False
    then obtain r where "pend ty (fold (\<lambda>(ty, src). sched ty src) cs s) = src OR r"
      using snoc by auto
    then show ?thesis by (auto simp: c sched_pend or.assoc)
  qed
qed simp

lemma changes_then_sync:
  assumes "inv s" "\<forall>(ty, src)\<in>set cs. src AND NOT TLBE_FROM_TRANSLATION = 0 \<and> src \<noteq> 0"
    and "(ty, src) \<in> set cs"
  shows "clean ty src (sync (fold (\<lambda>(ty, src). sched ty src) cs s))"
proof -
  obtain r where "pend ty (fold (\<lambda>(ty, src). sched ty src) cs s) = src OR r"
    using changes_pend[OF assms(3)] by blast
  then show ?thesis
    using sync_clean[OF changes_inv[OF assms(1,2)], of ty] clean_mono by simp
qed

end

lemma schedule_inv:
  assumes "tlb_inv s" "src AND NOT TLBE_FROM_TRANSLATION = 0" "src \<noteq> 0"
  shows "tlb_inv (schedule_tlb_invalidation ty src s)"
  using assms
  by (auto simp: tlb_inv_def schedule_tlb_invalidation_def add_ctx_sync_action_def slot_ok_def Let_def
      bit.conj_disj_distrib2)

interpretation soft_tlb: translation_context tlb_inv pending schedule_tlb_invalidation do_ctx_sync flushed
proof (unfold_locales, goal_cases)
  case (1 s src ty)
  then show ?case by (rule schedule_inv)
next
  case (2 ty' ty src s)
  then show ?case by (simp add: schedule_tlb_invalidation_def add_ctx_sync_action_def Let_def)
next
  case (3 s)
  then show ?case by (simp add: do_ctx_sync_inv)
next
  case (4 s ty)
  then show ?case by (rule do_ctx_sync_flushes)
next
  case (5 ty src src' s)
  then show ?case by (auto simp: flushed_def tst_def bit.conj_disj_distrib or_eq_0_iff)
qed


subsection \<open>The operations that fill and flush entries keep the invariant\<close>

lemma tlb_inv_fill:
  assumes "tlb_inv s" "tst (flags e) TLBE_CTX_TRACKED = tst (flags (tlb s p)) TLBE_CTX_TRACKED"
    and ty: "ty = slot_type p"
  shows "tlb_inv (track_translated_entry ty p (s\<lparr>tlb := (tlb s)(p := e)\<rparr>))"
proof -
  have p: "tst (flags (tlb s p)) TLBE_CTX_TRACKED \<longleftrightarrow> p \<in> set (tracked ty s)"
    using assms(1) ty by (simp add: tlb_inv_def slot_ok_def)
  show ?thesis
  proof (cases "tst (flags e) TLBE_FROM_TRANSLATION \<and> \<not> tst (flags e) TLBE_CTX_TRACKED")
    case True
    then have new: "p \<notin> set (tracked ty s)" using p assms(2) by simp
    have "track_translated_entry ty p (s\<lparr>tlb := (tlb s)(p := e)\<rparr>) =
      put_tracked ty (tracked ty s @ [p]) (s\<lparr>tlb := (tlb s)(p := e\<lparr>flags := flags e OR TLBE_CTX_TRACKED\<rparr>)\<rparr>)"
      using True by (simp add: track_translated_entry_def Let_def)
    moreover have "slot_ok (put_tracked ty (tracked ty s @ [p])
        (s\<lparr>tlb := (tlb s)(p := e\<lparr>flags := flags e OR TLBE_CTX_TRACKED\<rparr>)\<rparr>)) q" for q
    proof (cases "q = p")
      case False
      have "slot_ok s q" using assms(1) by (simp add: tlb_inv_def)
      with False show ?thesis by (auto simp: slot_ok_def)
    qed (simp add: slot_ok_def ty)
    ultimately show ?thesis
      using assms(1) new ty by (simp add: tlb_inv_def)
  next
    case False
    then have "track_translated_entry ty p (s\<lparr>tlb := (tlb s)(p := e)\<rparr>) = s\<lparr>tlb := (tlb s)(p := e)\<rparr>"
      by (auto simp: track_translated_entry_def Let_def)
    moreover have "slot_ok (s\<lparr>tlb := (tlb s)(p := e)\<rparr>) q" for q
    proof (cases "q = p")
      case False
      have "slot_ok s q" using assms(1) by (simp add: tlb_inv_def)
      with False show ?thesis by (simp add: slot_ok_def)
    qed (use False p assms(2) ty in \<open>auto simp: slot_ok_def\<close>)
    ultimately show ?thesis
      using assms(1) by (simp add: tlb_inv_def)
  qed
qed

lemma promote_inv: "tlb_inv s \<Longrightarrow> ty = slot_type p1 \<Longrightarrow> tlb_inv (promote_tlb_entry ty p1 p2 s)"
proof -
  assume "tlb_inv s" "ty = slot_type p1"
  moreover have "tst ((f AND NOT TLBE_CTX_TRACKED) OR (g AND TLBE_CTX_TRACKED)) TLBE_CTX_TRACKED \<longleftrightarrow> tst g TLBE_CTX_TRACKED"
    for f g :: u16
    by (simp add: tst_def bit.conj_disj_distrib2 and.assoc)
  ultimately show ?thesis
    unfolding promote_tlb_entry_def Let_def by (intro tlb_inv_fill) simp_all
qed

lemma tlb_inv_weaken:
  assumes "tlb_inv s" "\<And>p. flags (t p) = flags (tlb s p) \<and> (tag (t p) = tag (tlb s p) \<or> tag (t p) = TLB_INVALID_TAG)"
  shows "tlb_inv (s\<lparr>tlb := t\<rparr>)"
  using assms unfolding tlb_inv_def slot_ok_def by (auto, metis+)

lemma put_lru_entry:
  "flags (tlb (put_lru f b s) p) = flags (tlb s p)" "tag (tlb (put_lru f b s) p) = tag (tlb s p)"
  by (auto simp: put_lru_def)

lemma put_lru_inv: "tlb_inv s \<Longrightarrow> tlb_inv (put_lru f b s)"
proof -
  assume "tlb_inv s"
  then have "tlb_inv (s\<lparr>tlb := tlb (put_lru f b s)\<rparr>)"
    by (rule tlb_inv_weaken) (simp add: put_lru_entry)
  then show ?thesis by (simp add: put_lru_def)
qed

lemma touch_inv: "tlb_inv s \<Longrightarrow> tlb_inv (tlb2_touch_way w b s)"
  by (simp add: tlb2_touch_way_def put_lru_inv)

lemma target_inv: "tlb_inv s \<Longrightarrow> tlb_inv (snd (tlb2_target_entry ty va s))"
  by (simp add: tlb2_target_entry_def Let_def touch_inv)

lemma lookup_tlb_inv: "tlb_inv s \<Longrightarrow> tlb_inv (snd (lookup_tlb ty va tg s))"
  by (auto simp: lookup_tlb_def lookup_secondary_tlb_def Let_def touch_inv split: prod.splits)

lemma flush_slots_entry:
  "flags (fold (flush_slot tg) ps t p) = flags (t p) \<and>
   (tag (fold (flush_slot tg) ps t p) = tag (t p) \<or> tag (fold (flush_slot tg) ps t p) = TLB_INVALID_TAG)"
proof (induction ps arbitrary: t)
  case (Cons q ps)
  have "flags (flush_slot tg q t p) = flags (t p) \<and>
    (tag (flush_slot tg q t p) = tag (t p) \<or> tag (flush_slot tg q t p) = TLB_INVALID_TAG)"
    by (auto simp: flush_slot_def)
  then show ?case using Cons.IH[of "flush_slot tg q t"] by auto
qed simp

lemma flush_pat_page_inv: "tlb_inv s \<Longrightarrow> tlb_inv (tlb_flush_pat_page ty ea s)"
  unfolding tlb_flush_pat_page_def Let_def by (rule tlb_inv_weaken) (simp_all only: flush_slots_entry simp_thms)

lemma flush_all_pat_inv:
  assumes "tlb_inv s"
  shows "tlb_inv (tlb_flush_all_pat s)" "flushed ty TLBE_FROM_PAT (tlb_flush_all_pat s)"
proof -
  let ?i = "tlb_invalidate_tracked ITLB TLBE_FROM_PAT s"
  have i: "tlb_inv ?i" by (rule tlb_inv_invalidate(2)[OF assms])
  then show "tlb_inv (tlb_flush_all_pat s)"
    unfolding tlb_flush_all_pat_def by (rule tlb_inv_invalidate(2))
  show "flushed ty TLBE_FROM_PAT (tlb_flush_all_pat s)"
    unfolding tlb_flush_all_pat_def
    by (cases ty) (use invalidate_flushed(2)[OF i invalidate_flushed(1)[OF assms]] invalidate_flushed(1)[OF i] in auto)
qed

subsection \<open>Replacement\<close>

text \<open>The bits of a set: bit 1 marks the pair used last, bit 0 the way used last in its pair.\<close>

definition lru_ok :: "(nat \<Rightarrow> u16) \<Rightarrow> bool" where
  "lru_ok l \<longleftrightarrow>
     (\<forall>w<4. l w = 0 \<or> l w = 1 \<or> l w = 2 \<or> l w = 3) \<and>
     \<not> (odd (l 0) \<and> odd (l 1)) \<and> \<not> (odd (l 2) \<and> odd (l 3)) \<and>
     (l 0 \<le> 1 \<and> l 1 \<le> 1 \<or> l 2 \<le> 1 \<and> l 3 \<le> 1)"

definition set_lru :: "slot \<Rightarrow> 'a mmu_scheme \<Rightarrow> nat \<Rightarrow> u16" where
  "set_lru b s w = lru_bits (tlb s (way b w))"

lemma way_inj: "way b i = way b j \<longleftrightarrow> i = j"
  by (cases b) simp

lemma all_less_4: "(\<forall>w<4. P w) \<longleftrightarrow> P (0::nat) \<and> P 1 \<and> P 2 \<and> P 3"
  by (simp add: eval_nat_numeral All_less_Suc) blast

lemma set_lru_put: "w < 4 \<Longrightarrow> set_lru b (put_lru f b s) w = f w (set_lru b s w)"
proof -
  have "\<forall>w<4. set_lru b (put_lru f b s) w = f w (set_lru b s w)"
    unfolding all_less_4 by (simp add: set_lru_def put_lru_def way_inj)
  then show "w < 4 \<Longrightarrow> ?thesis" by blast
qed

lemma and_1_u16: "l AND 1 = (if odd l then 1 else 0)" for l :: u16
  by (simp add: and_one_eq mod_2_eq_odd)

lemma touch_lru:
  assumes "lru_ok (set_lru b s)" "w < 4"
  shows "lru_ok (set_lru b (tlb2_touch_way w b s))" "set_lru b (tlb2_touch_way w b s) w = 3"
proof -
  have o: "\<not> (odd (set_lru b s 0) \<and> odd (set_lru b s 1))" "\<not> (odd (set_lru b s 2) \<and> odd (set_lru b s 3))"
    using assms(1) by (simp_all add: lru_ok_def)
  have "w = 0 \<or> w = 1 \<or> w = 2 \<or> w = 3" using assms(2) by auto
  then show "lru_ok (set_lru b (tlb2_touch_way w b s))" "set_lru b (tlb2_touch_way w b s) w = 3"
    using o by (elim disjE; simp add: lru_ok_def all_less_4 tlb2_touch_way_def set_lru_put and_1_u16)+
qed

lemma lru_zero:
  assumes "lru_ok l"
  shows "l 0 = 0 \<or> l 1 = 0 \<or> l 2 = 0 \<or> l 3 = 0"
proof -
  have le1: "x = 0 \<or> x = 1" if "x \<le> 1" for x :: u16
    using that by (metis antisym linorder_not_le word_less_1)
  from assms have "l 0 \<le> 1 \<and> l 1 \<le> 1 \<or> l 2 \<le> 1 \<and> l 3 \<le> 1"
    and "\<not> (odd (l 0) \<and> odd (l 1))" "\<not> (odd (l 2) \<and> odd (l 3))"
    by (simp_all add: lru_ok_def)
  then show ?thesis using le1[of "l 0"] le1[of "l 1"] le1[of "l 2"] le1[of "l 3"] by auto
qed

lemma target_lru:
  assumes "lru_ok (set_lru b s)" "b = set2 ty va s" "\<forall>w<4. tag (tlb s (way b w)) \<noteq> TLB_INVALID_TAG"
  shows "\<exists>w<4. fst (tlb2_target_entry ty va s) = way b w \<and> set_lru b s w = 0"
proof -
  let ?l = "set_lru b s"
  have "?l 0 = 0 \<or> ?l 1 = 0 \<or> ?l 2 = 0 \<or> ?l 3 = 0"
    by (rule lru_zero[OF assms(1)])
  moreover have "fst (tlb2_target_entry ty va s) =
     way b (if ?l 0 = 0 then 0 else if ?l 1 = 0 then 1 else if ?l 2 = 0 then 2 else 3)"
    using assms(2,3) unfolding all_less_4 by (simp add: tlb2_target_entry_def set_lru_def Let_def)
  ultimately show ?thesis
    by (intro exI[of _ "if ?l 0 = 0 then 0 else if ?l 1 = 0 then 1 else if ?l 2 = 0 then 2 else 3"]) auto
qed


subsection \<open>Properties\<close>

text \<open>The globals as the program starts.\<close>

definition static_mmu :: mmu where
  "static_mmu =
     \<lparr>gpr = (\<lambda>_. 0), fpr = (\<lambda>_. 0), pc = 0, cr = 0, fpscr = 0, tbr = (\<lambda>_. 0),
      spr = (\<lambda>_. 0), msr = 0, sr = (\<lambda>_. 0), reserve = False,
      ppc_next_instruction_address = 0, exec_flags = 0, exec_timer = False, int_pin = False,
      dec_exception_pending = False, thrm_exception_pending = False, is_601 = False,
      is_603 = False, include_601 = False, ppc_pow_mode = Pow_None, ppc_pow_hid0_mask = 0,
      ppc_shadow_gprs = (\<lambda>_. 0), ppc_opcode_grabber = OpcodeGrabberNoFPU, power_on = False,
      power_off_reason = po_enter_debugger,
      tlb = (\<lambda>_. \<lparr>tag = 0, flags = 0, lru_bits = 0, host_va_offs_r = 0, host_va_offs_w = 0,
                    rgn_desc = None, dev_base_va = 0, phys_tag = 0\<rparr>),
      gTrackedIEntries = [], gTrackedDEntries = [],
      gPendingIInvalidationSources = 0, gPendingDInvalidationSources = 0, gCtxSyncCallbacks = [],
      pCurITLB1 = 0, pCurITLB2 = 0, pCurDTLB1 = 0, pCurDTLB2 = 0,
      CurITLBMode = 0xFF, CurDTLBMode = 0xFF,
      ibat_array = (\<lambda>_. \<lparr>valid = False, access = 0, prot = 0, phys_hi = 0, hi_mask = 0, bepi = 0\<rparr>),
      dbat_array = (\<lambda>_. \<lparr>valid = False, access = 0, prot = 0, phys_hi = 0, hi_mask = 0, bepi = 0\<rparr>),
      tlb603 = (\<lambda>_ _ _. \<lparr>valid603 = False, vsid = 0, ea_tag = 0, pte_lo = 0\<rparr>),
      tlb603_lru = (\<lambda>_ _. 0),
      last_ptab_area = \<lparr>eid = 0, rstart = 0, rend = 0, mirror = 0, rtype = 0, devobj = None, mem_ptr = 0\<rparr>,
      mmu_exception_handler_dbg = False,
      mem_ctrl_instance = \<lparr>address_map = [], mem_regions = [], host_mem = (\<lambda>_. 0)\<rparr>,
      dummy_page = 0\<rparr>"

lemma static_mmu_inv: "tlb_inv static_mmu"
proof -
  have "tracked ty static_mmu = []" "pending ty static_mmu = 0" for ty
    by (cases ty; simp add: static_mmu_def)+
  then show ?thesis by (simp add: tlb_inv_def slot_ok_def) (simp add: static_mmu_def tst_def)
qed

text \<open>
  C16: Writes to registers that change the address translation only schedule an invalidation, but
  the next context synchronization makes up for it: after any sequence of scheduled
  invalidations, \<open>do_ctx_sync\<close> leaves no valid entry in either software TLB that was made from a
  stale source, no action and nothing pending, and every translated entry is still tracked.
\<close>

theorem context_changes_flushed:
  assumes "tlb_inv s" "\<forall>(ty, src)\<in>set cs. src AND NOT TLBE_FROM_TRANSLATION = 0 \<and> src \<noteq> 0"
  shows "let s' = do_ctx_sync (fold (\<lambda>(ty, src). schedule_tlb_invalidation ty src) cs s)
    in tlb_inv s' \<and> gCtxSyncCallbacks s' = [] \<and> (\<forall>ty. pending ty s' = 0) \<and>
       (\<forall>(ty, src)\<in>set cs. flushed ty src s')"
proof -
  let ?t = "fold (\<lambda>(ty, src). schedule_tlb_invalidation ty src) cs s"
  have inv: "tlb_inv (do_ctx_sync ?t)" and cb: "gCtxSyncCallbacks (do_ctx_sync ?t) = []"
    using do_ctx_sync_inv[OF soft_tlb.changes_inv[OF assms]] by simp_all
  from inv cb have "pending ty (do_ctx_sync ?t) = 0" for ty
    by (auto simp: tlb_inv_def)
  with inv cb show ?thesis
    using soft_tlb.changes_then_sync[OF assms] by (auto simp: Let_def)
qed

theorem context_changes_flushed_witness:
  "flushed DTLB TLBE_FROM_PAT
     (do_ctx_sync (fold (\<lambda>(ty, src). schedule_tlb_invalidation ty src)
        [(ITLB, TLBE_FROM_PAT), (DTLB, TLBE_FROM_PAT)] static_mmu))"
  using context_changes_flushed[OF static_mmu_inv, of "[(ITLB, TLBE_FROM_PAT), (DTLB, TLBE_FROM_PAT)]"]
  by (simp add: Let_def)

text \<open>
  \<open>tlb_flush_all_pat\<close> drops every page translation from both software TLBs at once and keeps
  the tracking invariant; entries from block translations keep their translation.
\<close>

theorem tlb_flush_all_pat_complete:
  assumes "tlb_inv s"
  shows "tlb_inv (tlb_flush_all_pat s) \<and> flushed ITLB TLBE_FROM_PAT (tlb_flush_all_pat s) \<and>
     flushed DTLB TLBE_FROM_PAT (tlb_flush_all_pat s) \<and>
     (\<forall>p. \<not> tst (flags (tlb s p)) TLBE_FROM_PAT \<longrightarrow>
        tag (tlb (tlb_flush_all_pat s) p) = tag (tlb s p) \<and>
        host_va_offs_r (tlb (tlb_flush_all_pat s) p) = host_va_offs_r (tlb s p))"
proof -
  let ?i = "tlb_invalidate_tracked ITLB TLBE_FROM_PAT s"
  have i: "tlb_inv ?i" by (rule tlb_inv_invalidate(2)[OF assms])
  have d: "distinct (tracked ITLB s)" "distinct (tracked DTLB ?i)"
    using assms i by (simp_all only: tlb_inv_def)
  have keep: "tst (flags e AND TLBE_FROM_TRANSLATION) TLBE_FROM_PAT \<longleftrightarrow> tst (flags e) TLBE_FROM_PAT" for e :: TLBEntry
    by (simp add: tst_def and.assoc)
  have e: "tag (invalidated TLBE_FROM_PAT e) = tag e \<and> host_va_offs_r (invalidated TLBE_FROM_PAT e) = host_va_offs_r e
      \<and> \<not> tst (flags (invalidated TLBE_FROM_PAT e)) TLBE_FROM_PAT"
    if "\<not> tst (flags e) TLBE_FROM_PAT" for e
    using that by (auto simp: invalidated_def keep tst_def and.assoc)
  have "tag (tlb (tlb_flush_all_pat s) p) = tag (tlb s p) \<and>
        host_va_offs_r (tlb (tlb_flush_all_pat s) p) = host_va_offs_r (tlb s p)"
    if "\<not> tst (flags (tlb s p)) TLBE_FROM_PAT" for p
    unfolding tlb_flush_all_pat_def tlb_invalidate_tracked_eq[OF d(2)]
    using that e[of "tlb s p"] e[of "tlb ?i p"] by (simp add: tlb_invalidate_tracked_eq[OF d(1)])
  then show ?thesis using flush_all_pat_inv[OF assms] by blast
qed

theorem tlb_flush_all_pat_complete_witness:
  "flushed DTLB TLBE_FROM_PAT (tlb_flush_all_pat static_mmu)"
  using tlb_flush_all_pat_complete[OF static_mmu_inv] by blast

text \<open>
  When all four ways of a set of the secondary TLB are in use, the way chosen for
  replacement lies outside the pair used last; it then counts as the one used last, and the
  replacement bits of the set stay consistent.
\<close>

theorem tlb2_replacement:
  assumes "lru_ok (set_lru b s)" "b = set2 ty va s" "\<forall>w<4. tag (tlb s (way b w)) \<noteq> TLB_INVALID_TAG"
  shows "\<exists>w<4. fst (tlb2_target_entry ty va s) = way b w \<and> set_lru b s w = 0 \<and>
     lru_ok (set_lru b (snd (tlb2_target_entry ty va s))) \<and>
     set_lru b (snd (tlb2_target_entry ty va s)) w = 3"
proof -
  obtain w where w: "w < 4" "fst (tlb2_target_entry ty va s) = way b w" "set_lru b s w = 0"
    using target_lru[OF assms] by blast
  then have "snd (tlb2_target_entry ty va s) = tlb2_touch_way w b s"
    using assms(2) by (auto simp: tlb2_target_entry_def Let_def way_inj)
  then show ?thesis using w touch_lru[OF assms(1) w(1)] by auto
qed

theorem tlb2_replacement_witness:
  "\<exists>w<4. fst (tlb2_target_entry DTLB 0x1000 static_mmu) = way (set2 DTLB 0x1000 static_mmu) w"
proof -
  have "lru_ok (set_lru (set2 DTLB 0x1000 static_mmu) static_mmu)"
    by (simp add: lru_ok_def set_lru_def static_mmu_def)
  from tlb2_replacement[OF this refl] show ?thesis
    by (auto simp: static_mmu_def)
qed

definition mode_ok :: "'a mmu_scheme \<Rightarrow> bool" where
  "mode_ok s \<longleftrightarrow>
     (CurITLBMode s = 0xFF \<or> CurITLBMode s \<noteq> 1 \<and> pCurITLB1 s = mode_arrays (CurITLBMode s) \<and>
        pCurITLB2 s = mode_arrays (CurITLBMode s)) \<and>
     (CurDTLBMode s = 0xFF \<or> CurDTLBMode s \<noteq> 1 \<and> pCurDTLB1 s = mode_arrays (CurDTLBMode s) \<and>
        pCurDTLB2 s = mode_arrays (CurDTLBMode s))"

definition msr_mode :: "u32 \<Rightarrow> u32 \<Rightarrow> u8" where
  "msr_mode m tr = push_bit 1 (of_flag (tst m tr)) OR of_flag (tst m MSR_PR)"

lemma msr_mode_cases:
  "msr_mode m tr = (if tst m tr then if tst m MSR_PR then 3 else 2 else if tst m MSR_PR then 1 else 0)"
  by (simp add: msr_mode_def)

lemma mmu_change_mode_eq:
  assumes "mode_ok s"
  defines "i \<equiv> msr_mode (msr s) MSR_IR" and "d \<equiv> msr_mode (msr s) MSR_DR"
  shows "mmu_change_mode s = s\<lparr>pCurITLB1 := mode_arrays i, pCurITLB2 := mode_arrays i,
     CurITLBMode := (if i = 1 then 0 else i), pCurDTLB1 := mode_arrays d, pCurDTLB2 := mode_arrays d,
     CurDTLBMode := (if d = 1 then 0 else d)\<rparr>"
proof -
  have ne: "i \<noteq> 0xFF" "d \<noteq> 0xFF" by (auto simp: i_def d_def msr_mode_cases)
  have "CurITLBMode s = i \<Longrightarrow> pCurITLB1 s = mode_arrays i \<and> pCurITLB2 s = mode_arrays i \<and> i \<noteq> 1"
    and "CurDTLBMode s = d \<Longrightarrow> pCurDTLB1 s = mode_arrays d \<and> pCurDTLB2 s = mode_arrays d \<and> d \<noteq> 1"
    using assms(1) ne by (auto simp: mode_ok_def)
  moreover have "mmu_change_mode s =
     (let s = (if CurITLBMode s \<noteq> i then s\<lparr>pCurITLB1 := mode_arrays i, pCurITLB2 := mode_arrays i,
                 CurITLBMode := if i = 1 then 0 else i\<rparr> else s)
      in if CurDTLBMode s \<noteq> d then s\<lparr>pCurDTLB1 := mode_arrays d, pCurDTLB2 := mode_arrays d,
                 CurDTLBMode := if d = 1 then 0 else d\<rparr> else s)"
    by (simp add: mmu_change_mode_def i_def d_def msr_mode_def Let_def)
  ultimately show ?thesis
    by (cases "CurITLBMode s = i"; cases "CurDTLBMode s = d") (simp_all add: Let_def)
qed

lemma mode_ok_change: "mode_ok s \<Longrightarrow> mode_ok (mmu_change_mode s)"
  by (simp add: mmu_change_mode_eq) (auto simp: mode_ok_def mode_arrays_def)

lemma mode_arrays_msr: "mode_arrays (msr_mode m tr) = (if \<not> tst m tr then 1 else if tst m MSR_PR then 3 else 2)"
  by (simp add: msr_mode_cases mode_arrays_def)

text \<open>
  \<open>mmu_change_mode\<close> selects the TLB arrays by \<open>MSR[IR]\<close>, \<open>MSR[DR]\<close> and \<open>MSR[PR]\<close> whatever was
  selected before, as long as the cached mode numbers describe the selection; user mode without
  translation shares the arrays of the real mode. A second call changes nothing.
\<close>

theorem mmu_change_mode_selects:
  assumes "mode_ok s"
  shows "let s' = mmu_change_mode s; pr = tst (msr s) MSR_PR;
             sel = (\<lambda>tr. if \<not> tr then 1 else if pr then 3 else 2)
    in cur1 ITLB s' = sel (tst (msr s) MSR_IR) \<and> cur2 ITLB s' = sel (tst (msr s) MSR_IR) \<and>
       cur1 DTLB s' = sel (tst (msr s) MSR_DR) \<and> cur2 DTLB s' = sel (tst (msr s) MSR_DR) \<and>
       mode_ok s' \<and> mmu_change_mode s' = s'"
proof -
  have "mmu_change_mode (mmu_change_mode s) = mmu_change_mode s"
    unfolding mmu_change_mode_eq[OF mode_ok_change[OF assms]] by (simp add: mmu_change_mode_eq[OF assms])
  then show ?thesis
    using mode_ok_change[OF assms] by (simp add: Let_def mmu_change_mode_eq[OF assms] mode_arrays_msr)
qed

theorem mmu_change_mode_selects_witness:
  "cur1 DTLB (mmu_change_mode static_mmu) = 1"
proof -
  have "mode_ok static_mmu" by (simp add: mode_ok_def static_mmu_def)
  from mmu_change_mode_selects[OF this] show ?thesis
    by (simp add: Let_def) (simp add: static_mmu_def tst_def)
qed

end
