(* ===== verification/PpcExceptions.thy ===== *)
theory PpcExceptions
  imports SoftTlb
begin

text \<open>
  Exceptions: \<open>src/cpu/ppc/ppcexceptions.cpp\<close> and the exception helpers of
  \<open>src/cpu/ppc/ppcexec.cpp\<close>. A handler that ends in \<open>longjmp(exc_env, 2)\<close> gives \<^const>\<open>LongJmp\<close>;
  external interrupts and the decrementer return to their caller. \<open>dbg_exception_handler\<close>, which
  throws, gives the description it throws.
\<close>

subsection \<open>Power and MSR changes\<close>

definition p_set_power_off_reason :: "Po_Cause \<Rightarrow> 'a cpu_scheme \<Rightarrow> 'a cpu_scheme" where
  "p_set_power_off_reason new_reason s =
     (if new_reason \<noteq> power_off_reason s then s\<lparr>power_off_reason := new_reason\<rparr> else s)"

definition p_power_off :: "Po_Cause \<Rightarrow> 'a cpu_scheme \<Rightarrow> 'a cpu_scheme" where
  "p_power_off new_reason s = p_set_power_off_reason new_reason (s\<lparr>power_on := False\<rparr>)"

text \<open>\<open>std::swap(ppc_state.gpr[i], ppc_shadow_gprs[i])\<close> for \<open>i\<close> below 4.\<close>

definition swap_tgpr :: "'a cpu_scheme \<Rightarrow> 'a cpu_scheme" where
  "swap_tgpr s =
     s\<lparr>gpr := (\<lambda>i. if i < 4 then ppc_shadow_gprs s i else gpr s i),
       ppc_shadow_gprs := (\<lambda>i. if i < 4 then gpr s i else ppc_shadow_gprs s i)\<rparr>"

definition ppc_msr_did_change :: "u32 \<Rightarrow> u32 \<Rightarrow> bool \<Rightarrow> 'a cpu_scheme \<Rightarrow> 'a cpu_scheme" where
  "ppc_msr_did_change old_msr_val new_msr_val set_nia s =
     (let s = s\<lparr>msr := new_msr_val\<rparr>;
          s = (if is_603 s \<and> tst (old_msr_val XOR new_msr_val) MSR_TGPR then swap_tgpr s else s)
      in if tst (old_msr_val XOR new_msr_val) MSR_FP then
           let s = s\<lparr>ppc_opcode_grabber := if tst new_msr_val MSR_FP then OpcodeGrabber else OpcodeGrabberNoFPU,
                     exec_flags := exec_flags s OR EXEF_OPC_DECODER\<rparr>
           in if set_nia then s\<lparr>ppc_next_instruction_address := pc s + 4\<rparr> else s
         else s)"

definition ppc_change_endian :: "bool \<Rightarrow> 'a cpu_scheme \<Rightarrow> 'a cpu_scheme" where
  "ppc_change_endian newLE s = (if newLE then p_power_off po_enter_debugger s else s)"

subsection \<open>The exception handler\<close>

definition pc_or_next :: "u32 \<Rightarrow> 'a cpu_scheme \<Rightarrow> u32" where
  "pc_or_next offs s =
     (if tst (exec_flags s) (NOT EXEF_OPC_DECODER) then ppc_next_instruction_address s
      else (pc s AND 0xFFFFFFFC) + offs)"

text \<open>The \<open>switch\<close> that saves the return address; \<open>None\<close> is its \<open>ABORT_F\<close>.\<close>

fun exc_srr0 :: "Except_Type \<Rightarrow> 'a cpu_scheme \<Rightarrow> u32 option" where
  "exc_srr0 EXC_SYSTEM_RESET s = Some (pc s AND 0xFFFFFFFC)"
| "exc_srr0 EXC_DSI s = Some (pc s AND 0xFFFFFFFC)"
| "exc_srr0 EXC_ALIGNMENT s = Some (pc s AND 0xFFFFFFFC)"
| "exc_srr0 EXC_PROGRAM s = Some (pc s AND 0xFFFFFFFC)"
| "exc_srr0 EXC_NO_FPU s = Some (pc s AND 0xFFFFFFFC)"
| "exc_srr0 EXC_DTLB_LOAD_MISS s = Some (pc s AND 0xFFFFFFFC)"
| "exc_srr0 EXC_DTLB_STORE_MISS s = Some (pc s AND 0xFFFFFFFC)"
| "exc_srr0 EXC_MACHINE_CHECK s = Some (pc s AND 0xFFFFFFFC)"
| "exc_srr0 EXC_ISI s = Some (pc_or_next 0 s)"
| "exc_srr0 EXC_ITLB_MISS s = Some (pc_or_next 0 s)"
| "exc_srr0 EXC_EXT_INT s = Some (pc_or_next 4 s)"
| "exc_srr0 EXC_DECR s = Some (pc_or_next 4 s)"
| "exc_srr0 EXC_THRM_MGMT_INT s = Some (pc_or_next 4 s)"
| "exc_srr0 EXC_SYSCALL s = Some ((pc s AND 0xFFFFFFFC) + 4)"
| "exc_srr0 EXC_TRACE s = Some ((pc s AND 0xFFFFFFFC) + 4)"
| "exc_srr0 _ s = None"

definition is_tlb_miss :: "Except_Type \<Rightarrow> bool" where
  "is_tlb_miss e \<longleftrightarrow> e = EXC_ITLB_MISS \<or> e = EXC_DTLB_LOAD_MISS \<or> e = EXC_DTLB_STORE_MISS"

text \<open>The MSR an exception starts with, and the processor state at the vector.\<close>

definition exc_msr :: "Except_Type \<Rightarrow> 'a cpu_scheme \<Rightarrow> u32" where
  "exc_msr exception_type s =
     (let m = msr s AND 0xFFFB1041;
          m = (if is_603 s then
                 (m AND NOT MSR_TGPR) OR (if is_tlb_miss exception_type then MSR_TGPR else 0)
               else m)
      in if \<not> is_601 s then (m AND NOT MSR_LE) OR of_flag (tst m MSR_ILE) else m)"

definition exc_enter :: "Except_Type \<Rightarrow> u32 \<Rightarrow> u32 \<Rightarrow> 'a cpu_scheme \<Rightarrow> 'a cpu_scheme" where
  "exc_enter exception_type srr1_bits srr0 s =
     (let s = put_spr SPR_SRR0 srr0 s;
          s = s\<lparr>ppc_next_instruction_address := push_bit 8 (exc_code exception_type)\<rparr>;
          s = put_spr SPR_SRR1 ((msr s AND 0x0000FF73) OR srr1_bits) s;
          old_msr_val = msr s;
          new_msr_val = exc_msr exception_type s;
          s = (if \<not> is_601 s then ppc_change_endian (tst new_msr_val MSR_LE) s else s);
          s = ppc_msr_did_change old_msr_val new_msr_val False s;
          s = (if tst (msr s) MSR_IP
               then s\<lparr>ppc_next_instruction_address := ppc_next_instruction_address s OR 0xFFF00000\<rparr>
               else s)
      in s\<lparr>exec_flags := EXEF_EXCEPTION\<rparr>)"

definition ppc_exception_handler ::
    "Except_Type \<Rightarrow> u32 \<Rightarrow> 'a mmu_scheme \<Rightarrow> (unit, 'a mmu_scheme) outcome" where
  "ppc_exception_handler exception_type srr1_bits s =
     (case exc_srr0 exception_type s of
        None \<Rightarrow> Abort ''Unknown exception occurred''
      | Some srr0 \<Rightarrow>
          let s = exc_enter exception_type srr1_bits srr0 s;
              s = (if exception_type \<noteq> EXC_MACHINE_CHECK \<and> exception_type \<noteq> EXC_SYSTEM_RESET
                   then do_ctx_sync s else s);
              s = mmu_change_mode s
          in if exception_type \<noteq> EXC_EXT_INT \<and> exception_type \<noteq> EXC_DECR then
               LongJmp (if \<not> power_on s \<and> power_off_reason s = po_endian_switch
                        then s\<lparr>power_on := True\<rparr> else s)
             else Ret () s)"

definition dbg_exception_handler :: "Except_Type \<Rightarrow> 'a SetPRS_scheme \<Rightarrow> string" where
  "dbg_exception_handler exception_type s =
     (case exception_type of
        EXC_SYSTEM_RESET \<Rightarrow> ''System reset exception occurred''
      | EXC_MACHINE_CHECK \<Rightarrow> ''Machine check exception occurred''
      | EXC_EXT_INT \<Rightarrow> ''External interrupt exception occurred''
      | EXC_ALIGNMENT \<Rightarrow> ''Alignment exception occurred''
      | EXC_PROGRAM \<Rightarrow> ''Program exception occurred''
      | EXC_NO_FPU \<Rightarrow> ''Floating-Point unavailable exception occurred''
      | EXC_DECR \<Rightarrow> ''Decrementer exception occurred''
      | EXC_SYSCALL \<Rightarrow> ''Syscall exception occurred''
      | EXC_TRACE \<Rightarrow> ''Trace exception occurred''
      | EXC_THRM_MGMT_INT \<Rightarrow> ''Thermal management interrupt exception occurred''
      | EXC_FP_ASSIST \<Rightarrow> ''Exception 0xE occurred''
      | EXC_PERF_MON_INT \<Rightarrow> ''Exception 0xF occurred''
      | EXC_INST_ADDR_BP \<Rightarrow> ''Exception 0x13 occurred''
      | EXC_SYS_MGMT_INT \<Rightarrow> ''Exception 0x14 occurred''
      | _ \<Rightarrow>
          if is_tlb_miss exception_type then ''603 TLB miss: address not in the TLB''
          else if tst (spr s SPR_DSISR) 0x40000000 then ''DSI/ISI exception: unmapped memory access''
          else if tst (spr s SPR_DSISR) 0x08000000 then ''DSI/ISI exception: access protection violation''
          else if tst (spr s SPR_DSISR) 0x00100000 then ''DSI exception: External access is disabled''
          else if exception_type = EXC_DSI then ''DSI exception'' else ''ISI exception'')"

subsection \<open>Raising exceptions\<close>

definition ppc_illegalop :: "u32 \<Rightarrow> 'a mmu_scheme \<Rightarrow> (unit, 'a mmu_scheme) outcome" where
  "ppc_illegalop opcode s = ppc_exception_handler EXC_PROGRAM CAUSE_ILLEGAL_OP s"

definition ppc_fpu_off :: "u32 \<Rightarrow> 'a mmu_scheme \<Rightarrow> (unit, 'a mmu_scheme) outcome" where
  "ppc_fpu_off opcode s = ppc_exception_handler EXC_NO_FPU CAUSE_FPU_OFF s"

definition ppc_assert_int :: "'a mmu_scheme \<Rightarrow> (unit, 'a mmu_scheme) outcome" where
  "ppc_assert_int s =
     (let s = s\<lparr>int_pin := True\<rparr>
      in if tst (msr s) MSR_EE then ppc_exception_handler EXC_EXT_INT 0 s else Ret () s)"

definition ppc_release_int :: "'a cpu_scheme \<Rightarrow> 'a cpu_scheme" where
  "ppc_release_int s = s\<lparr>int_pin := False\<rparr>"

definition dsisr_imm_ops :: "u32 list" where
  "dsisr_imm_ops =
     [0x80000000, 0x90000000, 0xa0000000, 0xa8000000, 0xb0000000, 0xb8000000, 0xc0000000,
      0xc8000000, 0xd0000000, 0xd8000000, 0x84000000, 0x94000000, 0xa4000000, 0xac000000,
      0xb4000000, 0xbc000000, 0xc4000000, 0xcc000000, 0xd4000000, 0xdc000000]"

definition dsisr_idx_ops :: "u32 list" where
  "dsisr_idx_ops =
     [0x7c000028, 0x7c0002aa, 0x7c00042a, 0x7c0004aa, 0x7c00052a, 0x7c0005aa, 0x7c0002ea,
      0x7c00012c, 0x7c00042c, 0x7c00052c, 0x7c00062c, 0x7c00072c, 0x7c00026c, 0x7c00036c,
      0x7c00002e, 0x7c00012e, 0x7c00022e, 0x7c0002ae, 0x7c00032e, 0x7c00042e, 0x7c0004ae,
      0x7c00052e, 0x7c0005ae, 0x7c00006e, 0x7c00016e, 0x7c00026e, 0x7c0002ee, 0x7c00036e,
      0x7c00046e, 0x7c0004ee, 0x7c00056e, 0x7c0005ee]"

definition alignment_dsisr :: "u32 \<Rightarrow> u32" where
  "alignment_dsisr opcode =
     (let dsisr =
            (if opcode AND 0xfc000000 \<in> set dsisr_imm_ops then
               (drop_bit 12 opcode AND 0x00004000) OR (drop_bit 17 opcode AND 0x00003c00)
             else if opcode AND 0xfc000000 = 0x7c000000 \<and>
                  (opcode AND 0xfc0007ff \<in> set dsisr_idx_ops \<or> opcode AND 0xffe007ff = 0x7c0007ec) then
               (push_bit 14 opcode AND 0x00018000) OR (push_bit 8 opcode AND 0x00004000) OR
               (push_bit 3 opcode AND 0x00003c00)
             else 0);
          dsisr = dsisr OR (drop_bit 16 opcode AND 0x000003e0)
      in if opcode AND 0xfc000000 = 0xb8000000 then dsisr
         else if opcode AND 0xfc0007ff = 0x7c0004aa then dsisr
         else if opcode AND 0xfc0007ff = 0x7c00042a then dsisr
         else dsisr OR (drop_bit 16 opcode AND 0x0000001f))"

definition ppc_alignment_exception :: "u32 \<Rightarrow> u32 \<Rightarrow> 'a mmu_scheme \<Rightarrow> (unit, 'a mmu_scheme) outcome" where
  "ppc_alignment_exception opcode ea s =
     ppc_exception_handler EXC_ALIGNMENT 0
       (put_spr SPR_DAR ea (put_spr SPR_DSISR (alignment_dsisr opcode) s))"

text \<open>The current MMU handler, by the pointer \<open>mmu_exception_handler\<close>.\<close>

definition mmu_exception_handler ::
    "Except_Type \<Rightarrow> u32 \<Rightarrow> 'a mmu_scheme \<Rightarrow> (unit, 'a mmu_scheme) outcome" where
  "mmu_exception_handler exc srr1_bits s =
     (if mmu_exception_handler_dbg s then Throw (dbg_exception_handler exc s) s
      else ppc_exception_handler exc srr1_bits s)"


subsection \<open>What context synchronization and mode switches leave alone\<close>

lemma invalidate_entries_frame:
  "\<exists>t a b c d. tlb_invalidate_tracked_entries ty s =
     s\<lparr>tlb := t, gTrackedIEntries := a, gTrackedDEntries := b, gPendingIInvalidationSources := c,
       gPendingDInvalidationSources := d\<rparr>"
proof (cases "pending ty s = 0")
  case True
  then have "tlb_invalidate_tracked_entries ty s =
     s\<lparr>tlb := tlb s, gTrackedIEntries := gTrackedIEntries s, gTrackedDEntries := gTrackedDEntries s,
       gPendingIInvalidationSources := gPendingIInvalidationSources s,
       gPendingDInvalidationSources := gPendingDInvalidationSources s\<rparr>"
    by (simp add: tlb_invalidate_tracked_entries_def)
  then show ?thesis by blast
next
  case False
  obtain v t where vt: "invalidate_loop (pending ty s) 0 0 (tracked ty s) (tlb s) = (v, t)"
    by (cases "invalidate_loop (pending ty s) 0 0 (tracked ty s) (tlb s)")
  have "tlb_invalidate_tracked_entries ty s = put_pending ty 0 (put_tracked ty v (s\<lparr>tlb := t\<rparr>))"
    using False vt by (simp add: tlb_invalidate_tracked_entries_def tlb_invalidate_tracked_def)
  also have "\<dots> =
     s\<lparr>tlb := t, gTrackedIEntries := if ty = ITLB then v else gTrackedIEntries s,
       gTrackedDEntries := if ty = ITLB then gTrackedDEntries s else v,
       gPendingIInvalidationSources := if ty = ITLB then 0 else gPendingIInvalidationSources s,
       gPendingDInvalidationSources := if ty = ITLB then gPendingDInvalidationSources s else 0\<rparr>"
    by (cases ty) simp_all
  finally show ?thesis by blast
qed

lemma do_ctx_sync_frame:
  "\<exists>t a b c d. do_ctx_sync s =
     s\<lparr>tlb := t, gTrackedIEntries := a, gTrackedDEntries := b, gPendingIInvalidationSources := c,
       gPendingDInvalidationSources := d, gCtxSyncCallbacks := []\<rparr>"
proof (induction s rule: do_ctx_sync.induct)
  case (1 s)
  show ?case
  proof (cases "gCtxSyncCallbacks s = []")
    case True
    then have "do_ctx_sync s = s\<lparr>tlb := tlb s, gTrackedIEntries := gTrackedIEntries s,
       gTrackedDEntries := gTrackedDEntries s,
       gPendingIInvalidationSources := gPendingIInvalidationSources s,
       gPendingDInvalidationSources := gPendingDInvalidationSources s, gCtxSyncCallbacks := []\<rparr>"
      by (subst do_ctx_sync.simps) simp
    then show ?thesis by blast
  next
    case False
    let ?t = "tlb_invalidate_tracked_entries (last (gCtxSyncCallbacks s)) s"
    have "do_ctx_sync s = do_ctx_sync (?t\<lparr>gCtxSyncCallbacks := butlast (gCtxSyncCallbacks ?t)\<rparr>)"
      using False by (subst do_ctx_sync.simps) (simp add: Let_def)
    moreover obtain t a b c d where "?t = s\<lparr>tlb := t, gTrackedIEntries := a, gTrackedDEntries := b,
       gPendingIInvalidationSources := c, gPendingDInvalidationSources := d\<rparr>"
      using invalidate_entries_frame by blast
    ultimately show ?thesis using "1.IH"[OF False refl] by auto
  qed
qed

lemma do_ctx_sync_sel [frame]:
  "gpr (do_ctx_sync s) = gpr s" "spr (do_ctx_sync s) = spr s" "msr (do_ctx_sync s) = msr s"
  "pc (do_ctx_sync s) = pc s" "cr (do_ctx_sync s) = cr s" "sr (do_ctx_sync s) = sr s"
  "ppc_next_instruction_address (do_ctx_sync s) = ppc_next_instruction_address s"
  "exec_flags (do_ctx_sync s) = exec_flags s" "int_pin (do_ctx_sync s) = int_pin s"
  "dec_exception_pending (do_ctx_sync s) = dec_exception_pending s"
  "thrm_exception_pending (do_ctx_sync s) = thrm_exception_pending s"
  "is_601 (do_ctx_sync s) = is_601 s" "is_603 (do_ctx_sync s) = is_603 s"
  "ppc_shadow_gprs (do_ctx_sync s) = ppc_shadow_gprs s"
  "ppc_opcode_grabber (do_ctx_sync s) = ppc_opcode_grabber s"
  "power_on (do_ctx_sync s) = power_on s" "power_off_reason (do_ctx_sync s) = power_off_reason s"
  "mmu.more (do_ctx_sync s) = mmu.more s"
  "mode_ok (do_ctx_sync s) = mode_ok s"
  using do_ctx_sync_frame[of s] by (auto simp: mode_ok_def)

lemma mmu_change_mode_sel [frame]:
  "gpr (mmu_change_mode s) = gpr s" "spr (mmu_change_mode s) = spr s" "msr (mmu_change_mode s) = msr s"
  "pc (mmu_change_mode s) = pc s" "cr (mmu_change_mode s) = cr s" "sr (mmu_change_mode s) = sr s"
  "ppc_next_instruction_address (mmu_change_mode s) = ppc_next_instruction_address s"
  "exec_flags (mmu_change_mode s) = exec_flags s" "int_pin (mmu_change_mode s) = int_pin s"
  "dec_exception_pending (mmu_change_mode s) = dec_exception_pending s"
  "thrm_exception_pending (mmu_change_mode s) = thrm_exception_pending s"
  "is_601 (mmu_change_mode s) = is_601 s" "is_603 (mmu_change_mode s) = is_603 s"
  "ppc_shadow_gprs (mmu_change_mode s) = ppc_shadow_gprs s"
  "ppc_opcode_grabber (mmu_change_mode s) = ppc_opcode_grabber s"
  "power_on (mmu_change_mode s) = power_on s" "power_off_reason (mmu_change_mode s) = power_off_reason s"
  "mmu.more (mmu_change_mode s) = mmu.more s"
  "tlb (mmu_change_mode s) = tlb s" "tracked ty (mmu_change_mode s) = tracked ty s"
  "pending ty (mmu_change_mode s) = pending ty s"
  "gCtxSyncCallbacks (mmu_change_mode s) = gCtxSyncCallbacks s"
  by (cases ty; simp add: mmu_change_mode_def Let_def)+

subsection \<open>Exception entry\<close>

lemma endian_sel [frame]:
  "gpr (ppc_change_endian b s) = gpr s" "spr (ppc_change_endian b s) = spr s"
  "msr (ppc_change_endian b s) = msr s" "pc (ppc_change_endian b s) = pc s" "cr (ppc_change_endian b s) = cr s"
  "ppc_next_instruction_address (ppc_change_endian b s) = ppc_next_instruction_address s"
  "exec_flags (ppc_change_endian b s) = exec_flags s" "is_603 (ppc_change_endian b s) = is_603 s"
  "is_601 (ppc_change_endian b s) = is_601 s" "ppc_shadow_gprs (ppc_change_endian b s) = ppc_shadow_gprs s"
  "ppc_opcode_grabber (ppc_change_endian b s) = ppc_opcode_grabber s"
  "int_pin (ppc_change_endian b s) = int_pin s"
  "dec_exception_pending (ppc_change_endian b s) = dec_exception_pending s"
  "thrm_exception_pending (ppc_change_endian b s) = thrm_exception_pending s"
  "cpu.more (ppc_change_endian b s) = cpu.more s"
  by (simp_all add: ppc_change_endian_def p_power_off_def p_set_power_off_reason_def)

lemma msr_change_sel [frame]:
  "spr (ppc_msr_did_change old new b s) = spr s" "msr (ppc_msr_did_change old new b s) = new"
  "pc (ppc_msr_did_change old new b s) = pc s" "cr (ppc_msr_did_change old new b s) = cr s"
  "ppc_next_instruction_address (ppc_msr_did_change old new False s) = ppc_next_instruction_address s"
  "is_603 (ppc_msr_did_change old new b s) = is_603 s" "is_601 (ppc_msr_did_change old new b s) = is_601 s"
  "int_pin (ppc_msr_did_change old new b s) = int_pin s"
  "dec_exception_pending (ppc_msr_did_change old new b s) = dec_exception_pending s"
  "thrm_exception_pending (ppc_msr_did_change old new b s) = thrm_exception_pending s"
  "power_on (ppc_msr_did_change old new b s) = power_on s"
  "power_off_reason (ppc_msr_did_change old new b s) = power_off_reason s"
  "cpu.more (ppc_msr_did_change old new b s) = cpu.more s"
  "ppc_opcode_grabber (ppc_msr_did_change old new b s) =
     (if tst (old XOR new) MSR_FP then if tst new MSR_FP then OpcodeGrabber else OpcodeGrabberNoFPU
      else ppc_opcode_grabber s)"
  "gpr (ppc_msr_did_change old new b s) =
     (if is_603 s \<and> tst (old XOR new) MSR_TGPR then (\<lambda>i. if i < 4 then ppc_shadow_gprs s i else gpr s i)
      else gpr s)"
  "ppc_shadow_gprs (ppc_msr_did_change old new b s) =
     (if is_603 s \<and> tst (old XOR new) MSR_TGPR then (\<lambda>i. if i < 4 then gpr s i else ppc_shadow_gprs s i)
      else ppc_shadow_gprs s)"
  by (auto simp: ppc_msr_did_change_def swap_tgpr_def Let_def)

text \<open>The states a function may leave in, whichever way it leaves.\<close>

fun final :: "('v, 's) outcome \<Rightarrow> 's option" where
  "final (Ret v s) = Some s"
| "final (LongJmp s) = Some s"
| "final (Throw m s) = Some s"
| "final (Abort m) = None"

fun returns :: "('v, 's) outcome \<Rightarrow> bool" where
  "returns (Ret v s) = True"
| "returns _ = False"

definition exc_vector :: "Except_Type \<Rightarrow> u32 \<Rightarrow> u32" where
  "exc_vector e m = push_bit 8 (exc_code e) OR (if tst m MSR_IP then 0xFFF00000 else 0)"

lemma exc_msr_spr [simp]:
  "exc_msr e (put_spr r v s) = exc_msr e s"
  "exc_msr e (s\<lparr>ppc_next_instruction_address := a\<rparr>) = exc_msr e s"
  "is_601 (put_spr r v s) = is_601 s" "is_603 (put_spr r v s) = is_603 s"
  by (simp_all add: exc_msr_def put_spr_def)

lemma put_spr_cpu_sel [simp]:
  "ppc_shadow_gprs (put_spr r v s) = ppc_shadow_gprs s"
  "ppc_opcode_grabber (put_spr r v s) = ppc_opcode_grabber s"
  "int_pin (put_spr r v s) = int_pin s"
  "dec_exception_pending (put_spr r v s) = dec_exception_pending s"
  "thrm_exception_pending (put_spr r v s) = thrm_exception_pending s"
  "power_on (put_spr r v s) = power_on s" "power_off_reason (put_spr r v s) = power_off_reason s"
  "cpu.more (put_spr r v s) = cpu.more s" "exec_flags (put_spr r v s) = exec_flags s"
  "ppc_next_instruction_address (put_spr r v s) = ppc_next_instruction_address s"
  by (simp_all add: put_spr_def)

lemma exc_enter_sel [frame]:
  "spr (exc_enter e b r s) = (spr s)(SPR_SRR0 := r, SPR_SRR1 := (msr s AND 0x0000FF73) OR b)"
  "msr (exc_enter e b r s) = exc_msr e s"
  "ppc_next_instruction_address (exc_enter e b r s) = exc_vector e (exc_msr e s)"
  "exec_flags (exc_enter e b r s) = EXEF_EXCEPTION" "pc (exc_enter e b r s) = pc s"
  "cr (exc_enter e b r s) = cr s" "is_601 (exc_enter e b r s) = is_601 s"
  "is_603 (exc_enter e b r s) = is_603 s" "int_pin (exc_enter e b r s) = int_pin s"
  "dec_exception_pending (exc_enter e b r s) = dec_exception_pending s"
  "thrm_exception_pending (exc_enter e b r s) = thrm_exception_pending s"
  "ppc_opcode_grabber (exc_enter e b r s) =
     ppc_opcode_grabber (ppc_msr_did_change (msr s) (exc_msr e s) False s)"
  "gpr (exc_enter e b r s) = gpr (ppc_msr_did_change (msr s) (exc_msr e s) False s)"
  "ppc_shadow_gprs (exc_enter e b r s) =
     ppc_shadow_gprs (ppc_msr_did_change (msr s) (exc_msr e s) False s)"
  "cpu.more (exc_enter e b r s) = cpu.more s"
  by (auto simp: exc_enter_def exc_vector_def Let_def frame)


lemma mmu_more_cong:
  fixes s t :: "'a mmu_scheme"
  assumes "cpu.more s = cpu.more t"
  shows "tlb s = tlb t" "tracked ty s = tracked ty t" "pending ty s = pending ty t"
    "gCtxSyncCallbacks s = gCtxSyncCallbacks t" "tlb_inv s = tlb_inv t" "mode_ok s = mode_ok t"
proof -
  show a: "tlb s = tlb t" "tracked ty s = tracked ty t" "pending ty s = pending ty t"
    "gCtxSyncCallbacks s = gCtxSyncCallbacks t" for ty
    using assms by (cases s; cases t; cases ty; simp)+
  show "tlb_inv s = tlb_inv t"
    by (simp add: tlb_inv_def slot_ok_def a)
  show "mode_ok s = mode_ok t"
    using assms by (cases s; cases t; simp add: mode_ok_def)
qed

lemma exc_enter_inv [frame]:
  "tlb_inv (exc_enter e b r s) = tlb_inv s" "mode_ok (exc_enter e b r s) = mode_ok s"
  by (rule mmu_more_cong, simp add: frame)+

lemma change_mode_inv [frame]: "tlb_inv (mmu_change_mode s) = tlb_inv s"
  by (simp add: tlb_inv_def slot_ok_def frame)

lemma power_on_inv [frame]:
  "tlb_inv (s\<lparr>power_on := b\<rparr>) = tlb_inv s" "mode_ok (s\<lparr>power_on := b\<rparr>) = mode_ok s"
  "cur1 ty (s\<lparr>power_on := b\<rparr>) = cur1 ty s" "cur2 ty (s\<lparr>power_on := b\<rparr>) = cur2 ty s"
  by (rule mmu_more_cong, simp)+ (cases ty; simp)+

lemma exc_msr_cleared: "exc_msr e s AND NOT 0xFFFB1041 AND NOT (MSR_TGPR OR MSR_LE) = 0"
  by (rule u32_eqI) (unfold all_less_32, simp add: exc_msr_def Let_def bit_simps of_flag_def)

lemma tst_bits:
  "tst m MSR_DR \<longleftrightarrow> bit m 4" "tst m MSR_IR \<longleftrightarrow> bit m 5" "tst m MSR_IP \<longleftrightarrow> bit m 6"
  "tst m MSR_ME \<longleftrightarrow> bit m 12" "tst m MSR_FP \<longleftrightarrow> bit m 13" "tst m MSR_PR \<longleftrightarrow> bit m 14"
  "tst m MSR_EE \<longleftrightarrow> bit m 15" "tst m MSR_ILE \<longleftrightarrow> bit m 16" "tst m MSR_TGPR \<longleftrightarrow> bit m 17"
  "tst m MSR_POW \<longleftrightarrow> bit m 18" for m :: u32
  using tst_pow2[of m 4] tst_pow2[of m 5] tst_pow2[of m 6] tst_pow2[of m 12] tst_pow2[of m 13]
    tst_pow2[of m 14] tst_pow2[of m 15] tst_pow2[of m 16] tst_pow2[of m 17] tst_pow2[of m 18]
  by simp_all

lemma exc_msr_bits:
  "\<not> bit (exc_msr e s) 4" "\<not> bit (exc_msr e s) 5" "\<not> bit (exc_msr e s) 13" "\<not> bit (exc_msr e s) 14"
  "\<not> bit (exc_msr e s) 15" "bit (exc_msr e s) 6 = bit (msr s) 6" "bit (exc_msr e s) 12 = bit (msr s) 12"
  "bit (exc_msr e s) 17 = (if is_603 s then is_tlb_miss e else bit (msr s) 17)"
  by (simp_all add: exc_msr_def Let_def bit_simps of_flag_def)

text \<open>The state at the vector, before the two ways of leaving part.\<close>

definition exc_state :: "Except_Type \<Rightarrow> u32 \<Rightarrow> u32 \<Rightarrow> 'a mmu_scheme \<Rightarrow> 'a mmu_scheme" where
  "exc_state e b r s = mmu_change_mode
     (if e \<noteq> EXC_MACHINE_CHECK \<and> e \<noteq> EXC_SYSTEM_RESET then do_ctx_sync (exc_enter e b r s)
      else exc_enter e b r s)"

lemma exc_state_sel [frame]:
  "spr (exc_state e b r s) = (spr s)(SPR_SRR0 := r, SPR_SRR1 := (msr s AND 0x0000FF73) OR b)"
  "msr (exc_state e b r s) = exc_msr e s"
  "ppc_next_instruction_address (exc_state e b r s) = exc_vector e (exc_msr e s)"
  "exec_flags (exc_state e b r s) = EXEF_EXCEPTION" "pc (exc_state e b r s) = pc s"
  "cr (exc_state e b r s) = cr s" "is_601 (exc_state e b r s) = is_601 s"
  "is_603 (exc_state e b r s) = is_603 s" "int_pin (exc_state e b r s) = int_pin s"
  "dec_exception_pending (exc_state e b r s) = dec_exception_pending s"
  "thrm_exception_pending (exc_state e b r s) = thrm_exception_pending s"
  "ppc_opcode_grabber (exc_state e b r s) =
     ppc_opcode_grabber (ppc_msr_did_change (msr s) (exc_msr e s) False s)"
  "gpr (exc_state e b r s) = gpr (ppc_msr_did_change (msr s) (exc_msr e s) False s)"
  "ppc_shadow_gprs (exc_state e b r s) =
     ppc_shadow_gprs (ppc_msr_did_change (msr s) (exc_msr e s) False s)"
  by (simp_all add: exc_state_def frame)

lemma handler_eq:
  assumes "exc_srr0 e s = Some r"
  shows "ppc_exception_handler e b s =
    (let t = exc_state e b r s
     in if e \<noteq> EXC_EXT_INT \<and> e \<noteq> EXC_DECR then
          LongJmp (if \<not> power_on t \<and> power_off_reason t = po_endian_switch then t\<lparr>power_on := True\<rparr> else t)
        else Ret () t)"
  using assms by (simp add: ppc_exception_handler_def exc_state_def Let_def)

lemma exc_state_inv:
  assumes "tlb_inv s" "mode_ok s"
  shows "tlb_inv (exc_state e b r s)" "mode_ok (exc_state e b r s)"
    "cur1 ty (exc_state e b r s) = 1" "cur2 ty (exc_state e b r s) = 1"
proof -
  let ?m = "if e \<noteq> EXC_MACHINE_CHECK \<and> e \<noteq> EXC_SYSTEM_RESET then do_ctx_sync (exc_enter e b r s)
      else exc_enter e b r s"
  have inv: "tlb_inv ?m" and ok: "mode_ok ?m" and m: "msr ?m = exc_msr e s"
    using assms do_ctx_sync_inv[of "exc_enter e b r s"] by (simp_all add: frame)
  have off: "\<not> tst (exc_msr e s) MSR_IR" "\<not> tst (exc_msr e s) MSR_DR"
    by (simp_all add: tst_bits exc_msr_bits)
  show "tlb_inv (exc_state e b r s)" "mode_ok (exc_state e b r s)"
    unfolding exc_state_def change_mode_inv by (rule inv, rule mode_ok_change[OF ok])
  show "cur1 ty (exc_state e b r s) = 1" "cur2 ty (exc_state e b r s) = 1"
    unfolding exc_state_def mmu_change_mode_eq[OF ok]
    by (cases ty; simp add: m mode_arrays_msr off)+
qed


subsection \<open>Properties\<close>

text \<open>
  C2: Taking an exception. \<open>SRR0\<close> gets the return address of the exception's class, \<open>SRR1\<close> the
  saved MSR bits and the cause, execution goes to the vector under the prefix \<open>MSR[IP]\<close> selects,
  external interrupts, user mode, translation and the FPU are off with \<open>MSR[ME]\<close> and \<open>MSR[IP]\<close>
  kept, both TLBs are switched to the real mode arrays, the tracking invariant holds on, and the
  handler returns to its caller exactly for external interrupts and the decrementer.
\<close>

theorem exception_entry:
  assumes "exc_srr0 e s = Some r" "tlb_inv s" "mode_ok s"
  shows "\<exists>t. final (ppc_exception_handler e bits s) = Some t \<and>
     (returns (ppc_exception_handler e bits s) \<longleftrightarrow> e = EXC_EXT_INT \<or> e = EXC_DECR) \<and>
     spr t SPR_SRR0 = r \<and> spr t SPR_SRR1 = (msr s AND 0x0000FF73) OR bits \<and>
     ppc_next_instruction_address t = exc_vector e (msr s) \<and>
     \<not> tst (msr t) MSR_EE \<and> \<not> tst (msr t) MSR_PR \<and> \<not> tst (msr t) MSR_FP \<and>
     \<not> tst (msr t) MSR_IR \<and> \<not> tst (msr t) MSR_DR \<and>
     tst (msr t) MSR_ME = tst (msr s) MSR_ME \<and> tst (msr t) MSR_IP = tst (msr s) MSR_IP \<and>
     cur1 ITLB t = 1 \<and> cur1 DTLB t = 1 \<and> tlb_inv t \<and> mode_ok t"
proof -
  let ?t = "exc_state e bits r s"
  have "exc_vector e (exc_msr e s) = exc_vector e (msr s)"
    by (simp add: exc_vector_def tst_bits exc_msr_bits)
  then show ?thesis
    using exc_state_inv(1,2)[OF assms(2,3), of e bits r]
      exc_state_inv(3)[OF assms(2,3), of ITLB e bits r] exc_state_inv(3)[OF assms(2,3), of DTLB e bits r]
    by (auto simp: handler_eq[OF assms(1)] Let_def frame tst_bits exc_msr_bits)
qed

lemma static_mode_ok: "mode_ok static_mmu"
  by (simp add: mode_ok_def static_mmu_def)

theorem exception_entry_witness:
  "\<exists>t. final (ppc_exception_handler EXC_DSI 0 static_mmu) = Some t \<and> ppc_next_instruction_address t = 0x300"
  using exception_entry[of EXC_DSI static_mmu 0 0, OF _ static_mmu_inv static_mode_ok]
  by (auto simp: static_mmu_def exc_vector_def tst_def)

text \<open>
  The 603 runs a TLB miss handler on its own copies of \<open>r0\<close> to \<open>r3\<close>: when \<open>MSR[TGPR]\<close> was
  clear, a TLB miss exchanges the first four registers with the shadow set and any other
  exception leaves all registers alone.
\<close>

theorem tlb_miss_swaps_tgpr:
  assumes "exc_srr0 e s = Some r" "is_603 s" "\<not> tst (msr s) MSR_TGPR"
  shows "\<exists>t. final (ppc_exception_handler e bits s) = Some t \<and>
     tst (msr t) MSR_TGPR = is_tlb_miss e \<and>
     gpr t = (if is_tlb_miss e then (\<lambda>i. if i < 4 then ppc_shadow_gprs s i else gpr s i) else gpr s) \<and>
     ppc_shadow_gprs t =
       (if is_tlb_miss e then (\<lambda>i. if i < 4 then gpr s i else ppc_shadow_gprs s i) else ppc_shadow_gprs s)"
  using assms(2,3)
  by (simp add: handler_eq[OF assms(1)] Let_def frame tst_bits exc_msr_bits bit_xor_iff)

theorem tlb_miss_swaps_tgpr_witness:
  "\<exists>t. final (ppc_exception_handler EXC_DTLB_LOAD_MISS 0
       (static_mmu\<lparr>is_603 := True, ppc_shadow_gprs := (\<lambda>_. 7)\<rparr>)) = Some t \<and> gpr t 3 = 7 \<and> gpr t 4 = 0"
  using tlb_miss_swaps_tgpr[of EXC_DTLB_LOAD_MISS "static_mmu\<lparr>is_603 := True, ppc_shadow_gprs := (\<lambda>_. 7)\<rparr>" 0 0]
  by (auto simp: static_mmu_def is_tlb_miss_def tst_def)

text \<open>
  C31: When an interrupt arrives while floating point is on, the handler selects the dispatch
  table without floating point and then overwrites the flag that tells the interpreter loop to
  pick the new table up: \<open>EXEF_OPC_DECODER\<close> is clear in the state it returns.
\<close>

theorem interrupt_loses_decoder_flag:
  assumes "tst (msr s) MSR_FP" "e = EXC_EXT_INT \<or> e = EXC_DECR"
  shows "\<exists>t. ppc_exception_handler e bits s = Ret () t \<and> ppc_opcode_grabber t = OpcodeGrabberNoFPU \<and>
     \<not> tst (exec_flags t) EXEF_OPC_DECODER"
proof -
  obtain r where r: "exc_srr0 e s = Some r" using assms(2) by auto
  have "exec_flags (exc_state e bits r s) = EXEF_EXCEPTION"
    by (simp add: frame)
  with assms show ?thesis
    by (auto simp: handler_eq[OF r] Let_def frame tst_bits exc_msr_bits bit_xor_iff tst_def[of 2])
qed

theorem interrupt_loses_decoder_flag_witness:
  "\<exists>t. ppc_exception_handler EXC_EXT_INT 0 (static_mmu\<lparr>msr := 0x2000, ppc_opcode_grabber := OpcodeGrabber\<rparr>) = Ret () t \<and>
     ppc_opcode_grabber t = OpcodeGrabberNoFPU \<and> \<not> tst (exec_flags t) EXEF_OPC_DECODER"
  using interrupt_loses_decoder_flag[of "static_mmu\<lparr>msr := 0x2000, ppc_opcode_grabber := OpcodeGrabber\<rparr>" EXC_EXT_INT 0]
  by (simp add: tst_def)

end
