(* ===== verification/PpcSystem.thy ===== *)
theory PpcSystem
  imports PpcExceptions
begin

text \<open>
  Branches, traps and the supervisor instructions of \<open>src/cpu/ppc/ppcopcodes.cpp\<close> that do not
  touch special purpose registers: segment registers, the MSR, return from interrupt, context
  synchronization. Template parameters are boolean arguments. Cache hints that the source leaves
  empty (\<open>eieio\<close>, \<open>sync\<close>, \<open>icbi\<close>, \<open>dcbf\<close>, \<open>dcbst\<close>, \<open>dcbt\<close>, \<open>dcbtst\<close>) are \<open>ppc_nop\<close>.
\<close>

subsection \<open>Branches\<close>

definition ppc_b :: "bool \<Rightarrow> bool \<Rightarrow> u32 \<Rightarrow> 'a cpu_scheme \<Rightarrow> 'a cpu_scheme" where
  "ppc_b l a opcode s =
     (let adr_li = signed_drop_bit 6 (push_bit 6 (opcode AND NOT 3));
          s = s\<lparr>ppc_next_instruction_address := if a then adr_li else pc s + adr_li\<rparr>;
          s = (if l then put_spr SPR_LR (pc s + 4) s else s)
      in s\<lparr>exec_flags := EXEF_BRANCH\<rparr>)"

definition br_bo :: "u32 \<Rightarrow> u32" where "br_bo opcode = drop_bit 21 opcode AND 0x1F"
definition br_bi :: "u32 \<Rightarrow> nat" where "br_bi opcode = unat (drop_bit 16 opcode AND 0x1F)"

text \<open>\<open>ctr_ok\<close> and \<open>cnd_ok\<close> of the conditional branches, as conditions.\<close>

definition br_ctr_ok :: "u32 \<Rightarrow> u32 \<Rightarrow> bool" where
  "br_ctr_ok bo ctr \<longleftrightarrow> tst bo 0x04 \<or> ((ctr \<noteq> 0) = (\<not> tst bo 0x02))"

definition br_cnd_ok :: "u32 \<Rightarrow> nat \<Rightarrow> u32 \<Rightarrow> bool" where
  "br_cnd_ok bo bi c \<longleftrightarrow> tst bo 0x10 \<or> ((\<not> tst c (drop_bit bi 0x80000000)) = (\<not> tst bo 0x08))"

definition ppc_bc :: "bool \<Rightarrow> bool \<Rightarrow> u32 \<Rightarrow> 'a cpu_scheme \<Rightarrow> 'a cpu_scheme" where
  "ppc_bc l a opcode s =
     (let bo = br_bo opcode; bd = scast (ucast (opcode AND NOT 3) :: u16);
          s = (if \<not> tst bo 0x04 then put_spr SPR_CTR (spr s SPR_CTR - 1) s else s);
          s = (if br_ctr_ok bo (spr s SPR_CTR) \<and> br_cnd_ok bo (br_bi opcode) (cr s) then
                 s\<lparr>ppc_next_instruction_address := if a then bd else pc s + bd, exec_flags := EXEF_BRANCH\<rparr>
               else s)
      in if l then put_spr SPR_LR (pc s + 4) s else s)"

definition ppc_bcctr :: "bool \<Rightarrow> bool \<Rightarrow> u32 \<Rightarrow> 'a cpu_scheme \<Rightarrow> 'a cpu_scheme" where
  "ppc_bcctr l for601 opcode s =
     (let bo = br_bo opcode; ctr = spr s SPR_CTR;
          new_ctr = (if for601 then ctr - 1 else ctr);
          s = (if for601 \<and> \<not> tst bo 0x04 then put_spr SPR_CTR new_ctr s else s);
          s = (if br_ctr_ok bo new_ctr \<and> br_cnd_ok bo (br_bi opcode) (cr s) then
                 s\<lparr>ppc_next_instruction_address := ctr AND NOT 3, exec_flags := EXEF_BRANCH\<rparr>
               else s)
      in if l then put_spr SPR_LR (pc s + 4) s else s)"

definition ppc_bclr :: "bool \<Rightarrow> u32 \<Rightarrow> 'a cpu_scheme \<Rightarrow> 'a cpu_scheme" where
  "ppc_bclr l opcode s =
     (let bo = br_bo opcode;
          s = (if \<not> tst bo 0x04 then put_spr SPR_CTR (spr s SPR_CTR - 1) s else s);
          s = (if br_ctr_ok bo (spr s SPR_CTR) \<and> br_cnd_ok bo (br_bi opcode) (cr s) then
                 s\<lparr>ppc_next_instruction_address := spr s SPR_LR AND NOT 3, exec_flags := EXEF_BRANCH\<rparr>
               else s)
      in if l then put_spr SPR_LR (pc s + 4) s else s)"

subsection \<open>Supervisor state\<close>

text \<open>The guard at the head of every supervisor instruction.\<close>

definition supervisor ::
    "('a mmu_scheme \<Rightarrow> (unit, 'a mmu_scheme) outcome) \<Rightarrow> 'a mmu_scheme \<Rightarrow> (unit, 'a mmu_scheme) outcome" where
  "supervisor f s =
     (if tst (msr s) MSR_PR then ppc_exception_handler EXC_PROGRAM CAUSE_NOT_ALLOWED s else f s)"

definition put_sr :: "nat \<Rightarrow> u32 \<Rightarrow> 'a mmu_scheme \<Rightarrow> 'a mmu_scheme" where
  "put_sr grab_sr v s =
     (if sr s grab_sr \<noteq> v then mmu_pat_ctx_changed (s\<lparr>sr := (sr s)(grab_sr := v)\<rparr>) else s)"

definition ppc_mtsr :: "u32 \<Rightarrow> 'a mmu_scheme \<Rightarrow> (unit, 'a mmu_scheme) outcome" where
  "ppc_mtsr opcode = supervisor (\<lambda>s.
     Ret () (put_sr (unat (drop_bit 16 opcode AND 0x0F)) (gpr s (reg_s opcode)) s))"

definition ppc_mtsrin :: "u32 \<Rightarrow> 'a mmu_scheme \<Rightarrow> (unit, 'a mmu_scheme) outcome" where
  "ppc_mtsrin opcode = supervisor (\<lambda>s.
     Ret () (put_sr (unat (drop_bit 28 (gpr s (reg_b opcode)))) (gpr s (reg_s opcode)) s))"

definition ppc_mfsr :: "u32 \<Rightarrow> 'a mmu_scheme \<Rightarrow> (unit, 'a mmu_scheme) outcome" where
  "ppc_mfsr opcode = supervisor (\<lambda>s.
     Ret () (put_gpr (reg_d opcode) (sr s (unat (drop_bit 16 opcode AND 0x0F))) s))"

definition ppc_mfsrin :: "u32 \<Rightarrow> 'a mmu_scheme \<Rightarrow> (unit, 'a mmu_scheme) outcome" where
  "ppc_mfsrin opcode = supervisor (\<lambda>s.
     Ret () (put_gpr (reg_d opcode) (sr s (unat (drop_bit 28 (gpr s (reg_b opcode))))) s))"

definition ppc_mfmsr :: "u32 \<Rightarrow> 'a mmu_scheme \<Rightarrow> (unit, 'a mmu_scheme) outcome" where
  "ppc_mfmsr opcode = supervisor (\<lambda>s. Ret () (put_gpr (reg_d opcode) (msr s) s))"

definition ppc_mtmsr :: "u32 \<Rightarrow> 'a mmu_scheme \<Rightarrow> (unit, 'a mmu_scheme) outcome" where
  "ppc_mtmsr opcode = supervisor (\<lambda>s.
     let old_msr_val = msr s; new_msr_val = gpr s (reg_s opcode);
         s = (if \<not> is_601 s then ppc_change_endian (tst new_msr_val MSR_LE) s else s);
         s = ppc_msr_did_change old_msr_val new_msr_val True s
     in if tst (msr s) MSR_EE \<and> int_pin s then ppc_exception_handler EXC_EXT_INT 0 s
        else if tst (msr s) MSR_EE \<and> dec_exception_pending s then
          ppc_exception_handler EXC_DECR 0 (s\<lparr>dec_exception_pending := False\<rparr>)
        else if tst (msr s) MSR_EE \<and> thrm_exception_pending s then
          ppc_exception_handler EXC_THRM_MGMT_INT 0 (s\<lparr>thrm_exception_pending := False\<rparr>)
        else if tst (msr s) MSR_POW then
          let enter_sleep = (case ppc_pow_mode s of
                Pow_Unconditional \<Rightarrow> True
              | Pow_HID0 \<Rightarrow> tst (spr s SPR_HID0) (ppc_pow_hid0_mask s)
              | Pow_None \<Rightarrow> False)
          in if enter_sleep then
               Ret () (s\<lparr>exec_flags := exec_flags s OR EXEF_SLEEP,
                        ppc_next_instruction_address := (pc s AND 0xFFFFFFFC) + 4\<rparr>)
             else Ret () (mmu_change_mode s)
        else Ret () (mmu_change_mode s))"

text \<open>The MSR that \<open>rfi\<close> installs.\<close>

definition rfi_msr :: "'a cpu_scheme \<Rightarrow> u32" where
  "rfi_msr s =
     (let msr_bits_to_replace = (if is_603 s then 0x0000FF73 else 0x87C0FF73);
          msr_bits_to_clear = MSR_POW;
          bits_from_srr1 = spr s SPR_SRR1 AND (msr_bits_to_replace AND NOT msr_bits_to_clear);
          new_msr_val = (msr s AND NOT (msr_bits_to_replace OR msr_bits_to_clear)) OR bits_from_srr1
      in if is_603 s then new_msr_val AND NOT MSR_TGPR else new_msr_val)"

definition ppc_rfi :: "u32 \<Rightarrow> 'a mmu_scheme \<Rightarrow> (unit, 'a mmu_scheme) outcome" where
  "ppc_rfi opcode = supervisor (\<lambda>s.
     let new_msr_val = rfi_msr s;
         s = (if \<not> is_601 s then ppc_change_endian (tst new_msr_val MSR_LE) s else s);
         s = ppc_msr_did_change (msr s) new_msr_val True s
     in if tst (msr s) MSR_EE \<and> (int_pin s \<or> dec_exception_pending s \<or> thrm_exception_pending s) then
          let save_srr0 = spr s SPR_SRR0 AND NOT 3
          in obind
               (if int_pin s then ppc_exception_handler EXC_EXT_INT 0 s
                else if dec_exception_pending s then
                  ppc_exception_handler EXC_DECR 0 (s\<lparr>dec_exception_pending := False\<rparr>)
                else ppc_exception_handler EXC_THRM_MGMT_INT 0 (s\<lparr>thrm_exception_pending := False\<rparr>))
               (\<lambda>_ s. Ret () (put_spr SPR_SRR0 save_srr0 s))
        else
          let s = s\<lparr>ppc_next_instruction_address := spr s SPR_SRR0 AND NOT 3\<rparr>;
              s = mmu_change_mode (do_ctx_sync s)
          in Ret () (s\<lparr>exec_flags := exec_flags s OR EXEF_RFI\<rparr>))"

definition ppc_sc :: "u32 \<Rightarrow> 'a mmu_scheme \<Rightarrow> (unit, 'a mmu_scheme) outcome" where
  "ppc_sc opcode s = ppc_exception_handler EXC_SYSCALL 0 (do_ctx_sync s)"

subsection \<open>Traps and synchronization\<close>

definition trap_taken :: "u32 \<Rightarrow> u32 \<Rightarrow> u32 \<Rightarrow> bool" where
  "trap_taken to a b \<longleftrightarrow>
     (sint a < sint b \<and> tst to 0x10) \<or> (sint a > sint b \<and> tst to 0x08) \<or>
     (sint a = sint b \<and> tst to 0x04) \<or> (a < b \<and> tst to 0x02) \<or> (a > b \<and> tst to 0x01)"

definition ppc_tw :: "u32 \<Rightarrow> 'a mmu_scheme \<Rightarrow> (unit, 'a mmu_scheme) outcome" where
  "ppc_tw opcode s =
     (if trap_taken (drop_bit 21 opcode AND 0x1F) (gpr s (reg_a opcode)) (gpr s (reg_b opcode))
      then ppc_exception_handler EXC_PROGRAM CAUSE_TRAP s else Ret () s)"

definition ppc_twi :: "u32 \<Rightarrow> 'a mmu_scheme \<Rightarrow> (unit, 'a mmu_scheme) outcome" where
  "ppc_twi opcode s =
     (if trap_taken (drop_bit 21 opcode AND 0x1F) (gpr s (reg_a opcode)) (simm opcode)
      then ppc_exception_handler EXC_PROGRAM CAUSE_TRAP s else Ret () s)"

definition ppc_isync :: "u32 \<Rightarrow> 'a mmu_scheme \<Rightarrow> (unit, 'a mmu_scheme) outcome" where
  "ppc_isync opcode s = Ret () (do_ctx_sync s)"

definition ppc_dcbi :: "u32 \<Rightarrow> 'a mmu_scheme \<Rightarrow> (unit, 'a mmu_scheme) outcome" where
  "ppc_dcbi opcode = supervisor (Ret ())"

definition ppc_nop :: "u32 \<Rightarrow> 'a mmu_scheme \<Rightarrow> (unit, 'a mmu_scheme) outcome" where
  "ppc_nop opcode s = Ret () s"


subsection \<open>Counted branches\<close>

text \<open>
  The contract of a branch that decrements \<open>CTR\<close> and is taken while it is not zero. A loop closed
  by such a branch runs \<open>CTR\<close> times, and \<open>2\<^sup>3\<^sup>2\<close> times when it starts with zero.
\<close>

definition branch_run :: "('a cpu_scheme \<Rightarrow> 'a cpu_scheme) \<Rightarrow> nat \<Rightarrow> 'a cpu_scheme \<Rightarrow> 'a cpu_scheme" where
  "branch_run br k = (\<lambda>s. br (s\<lparr>exec_flags := 0\<rparr>)) ^^ k"

locale counted_branch =
  fixes br :: "'a cpu_scheme \<Rightarrow> 'a cpu_scheme"
  assumes br_ctr: "spr (br s) SPR_CTR = spr s SPR_CTR - 1"
    and br_flag: "exec_flags (br s) = (if spr s SPR_CTR - 1 \<noteq> 0 then EXEF_BRANCH else exec_flags s)"
begin

lemma run_ctr: "spr (branch_run br k s) SPR_CTR = spr s SPR_CTR - of_nat k"
  by (induction k) (simp_all add: branch_run_def br_ctr algebra_simps)

lemma run_flag:
  "exec_flags (branch_run br (Suc k) s) =
     (if spr s SPR_CTR - of_nat (Suc k) \<noteq> 0 then EXEF_BRANCH else 0)"
proof -
  have "exec_flags (branch_run br (Suc k) s) =
     (if spr (branch_run br k s) SPR_CTR - 1 \<noteq> 0 then EXEF_BRANCH else 0)"
    by (simp only: branch_run_def funpow.simps o_apply br_flag) simp
  also have "spr (branch_run br k s) SPR_CTR - 1 = spr s SPR_CTR - of_nat (Suc k)"
    by (simp add: run_ctr algebra_simps)
  finally show ?thesis .
qed

lemma loop_count:
  assumes "n = (if spr s SPR_CTR = 0 then 2 ^ 32 else unat (spr s SPR_CTR))"
  shows "(\<forall>k. 0 < k \<and> k < n \<longrightarrow> exec_flags (branch_run br k s) = EXEF_BRANCH) \<and>
     exec_flags (branch_run br n s) = 0 \<and> spr (branch_run br n s) SPR_CTR = 0"
proof -
  have c: "spr s SPR_CTR = of_nat n" using assms by (cases "spr s SPR_CTR = 0") simp_all
  have n: "n \<le> 2 ^ 32" "0 < n"
    using assms unat_u32_less[of "spr s SPR_CTR"] by (auto simp: unat_gt_0)
  have "of_nat n - of_nat k \<noteq> (0 :: u32)" if "0 < k" "k < n" for k
  proof -
    have "unat (of_nat (n - k) :: u32) = n - k"
      unfolding unat_of_nat using that n by (intro mod_less) simp
    then show ?thesis using that by (metis of_nat_diff unat_0 zero_less_diff less_irrefl less_imp_le)
  qed
  then have "exec_flags (branch_run br k s) = EXEF_BRANCH" if "0 < k" "k < n" for k
    using run_flag[of "k - 1" s] that c by simp
  moreover have "exec_flags (branch_run br n s) = 0" using run_flag[of "n - 1" s] n c by simp
  ultimately show ?thesis by (simp add: run_ctr c)
qed

end

text \<open>\<open>bdnz\<close> and \<open>bdnzlr\<close>, with displacement \<open>d\<close>.\<close>

lemma bo_bdnz: "br_bo (0x42000000 OR (d AND 0xFFFC)) = 0x10" "br_bo 0x4E000020 = 0x10"
  by (rule u32_eqI, unfold all_less_32, simp_all add: br_bo_def bit_simps)

interpretation bdnz: counted_branch "ppc_bc l a (0x42000000 OR (d AND 0xFFFC))"
  by unfold_locales
    (simp_all add: ppc_bc_def Let_def bo_bdnz tst_def br_ctr_ok_def br_cnd_ok_def put_spr_def)

interpretation bdnzlr: counted_branch "ppc_bclr l 0x4E000020"
  by unfold_locales
    (simp_all add: ppc_bclr_def Let_def bo_bdnz tst_def br_ctr_ok_def br_cnd_ok_def put_spr_def)


subsection \<open>Return from interrupt\<close>

lemma rfi_msr_bits:
  "bit (rfi_msr s) 15 = bit (spr s SPR_SRR1) 15"
  "\<not> bit (rfi_msr s) 18"
  "rfi_msr s AND 0xFF73 = spr s SPR_SRR1 AND 0xFF73"
  "bit (rfi_msr s) 17 = (\<not> is_603 s \<and> bit (msr s) 17)"
  by ((rule u32_eqI, unfold all_less_32)?, simp add: rfi_msr_def Let_def bit_simps)+

lemma mmu_more_update [simp]:
  "cpu.more (s\<lparr>ppc_next_instruction_address := a\<rparr>) = cpu.more s" "cpu.more (s\<lparr>exec_flags := f\<rparr>) = cpu.more s"
  "cpu.more (s\<lparr>dec_exception_pending := b\<rparr>) = cpu.more s" "cpu.more (s\<lparr>thrm_exception_pending := b\<rparr>) = cpu.more s"
  "cpu.more (s\<lparr>pc := a\<rparr>) = cpu.more s" "cpu.more (s\<lparr>power_on := b\<rparr>) = cpu.more s"
  by (cases s; simp)+

text \<open>The state in which \<open>rfi\<close> has installed the MSR.\<close>

definition rfi_switch :: "'a cpu_scheme \<Rightarrow> 'a cpu_scheme" where
  "rfi_switch s = ppc_msr_did_change (msr s) (rfi_msr s) True
     (if \<not> is_601 s then ppc_change_endian (tst (rfi_msr s) MSR_LE) s else s)"

lemma rfi_switch_sel [frame]:
  "cr (rfi_switch s) = cr s"
  "spr (rfi_switch s) = spr s" "msr (rfi_switch s) = rfi_msr s" "pc (rfi_switch s) = pc s"
  "is_601 (rfi_switch s) = is_601 s" "is_603 (rfi_switch s) = is_603 s" "int_pin (rfi_switch s) = int_pin s"
  "dec_exception_pending (rfi_switch s) = dec_exception_pending s"
  "thrm_exception_pending (rfi_switch s) = thrm_exception_pending s"
  "cpu.more (rfi_switch s) = cpu.more s"
  "gpr (rfi_switch s) =
     (if is_603 s \<and> tst (msr s XOR rfi_msr s) MSR_TGPR then (\<lambda>i. if i < 4 then ppc_shadow_gprs s i else gpr s i)
      else gpr s)"
  "ppc_shadow_gprs (rfi_switch s) =
     (if is_603 s \<and> tst (msr s XOR rfi_msr s) MSR_TGPR then (\<lambda>i. if i < 4 then gpr s i else ppc_shadow_gprs s i)
      else ppc_shadow_gprs s)"
  "tst (exec_flags (rfi_switch s)) (NOT EXEF_OPC_DECODER) = tst (exec_flags s) (NOT EXEF_OPC_DECODER)"
proof -
  have "tst (f OR 8) (NOT 8) = tst f (NOT 8)" for f :: u32
    by (simp only: tst_def bit.conj_disj_distrib2) simp
  then show "tst (exec_flags (rfi_switch s)) (NOT EXEF_OPC_DECODER) = tst (exec_flags s) (NOT EXEF_OPC_DECODER)"
    by (simp add: rfi_switch_def ppc_msr_did_change_def swap_tgpr_def Let_def frame)
qed (auto simp: rfi_switch_def frame)

lemma ppc_rfi_eq:
  "\<not> tst (msr s) MSR_PR \<Longrightarrow> ppc_rfi opcode s =
     (let s = rfi_switch s
      in if tst (msr s) MSR_EE \<and> (int_pin s \<or> dec_exception_pending s \<or> thrm_exception_pending s) then
          let save_srr0 = spr s SPR_SRR0 AND NOT 3
          in obind
               (if int_pin s then ppc_exception_handler EXC_EXT_INT 0 s
                else if dec_exception_pending s then
                  ppc_exception_handler EXC_DECR 0 (s\<lparr>dec_exception_pending := False\<rparr>)
                else ppc_exception_handler EXC_THRM_MGMT_INT 0 (s\<lparr>thrm_exception_pending := False\<rparr>))
               (\<lambda>_ s. Ret () (put_spr SPR_SRR0 save_srr0 s))
        else
          let s = s\<lparr>ppc_next_instruction_address := spr s SPR_SRR0 AND NOT 3\<rparr>;
              s = mmu_change_mode (do_ctx_sync s)
          in Ret () (s\<lparr>exec_flags := exec_flags s OR EXEF_RFI\<rparr>))"
proof -
  have m: "msr (if \<not> is_601 s then ppc_change_endian (tst (rfi_msr s) MSR_LE) s else s) = msr s"
    by (simp add: frame)
  assume "\<not> tst (msr s) MSR_PR"
  then show ?thesis by (simp only: ppc_rfi_def supervisor_def if_False rfi_switch_def Let_def m)
qed

lemma change_mode_cur:
  assumes "mode_ok s"
  shows "cur1 ITLB (mmu_change_mode s) = mode_arrays (msr_mode (msr s) MSR_IR)"
    "cur1 DTLB (mmu_change_mode s) = mode_arrays (msr_mode (msr s) MSR_DR)"
  by (simp_all add: mmu_change_mode_eq[OF assms])

text \<open>\<open>rfi\<close> with no interrupt waiting.\<close>

lemma ppc_rfi_plain:
  assumes "\<not> tst (msr s) MSR_PR" "tlb_inv s" "mode_ok s"
    "\<not> (tst (rfi_msr s) MSR_EE \<and> (int_pin s \<or> dec_exception_pending s \<or> thrm_exception_pending s))"
  shows "\<exists>u. ppc_rfi opcode s = Ret () u \<and> ppc_next_instruction_address u = spr s SPR_SRR0 AND NOT 3 \<and>
     msr u = rfi_msr s \<and> gpr u = gpr (rfi_switch s) \<and> ppc_shadow_gprs u = ppc_shadow_gprs (rfi_switch s) \<and>
     cr u = cr s \<and> cur1 ITLB u = mode_arrays (msr_mode (rfi_msr s) MSR_IR) \<and>
     cur1 DTLB u = mode_arrays (msr_mode (rfi_msr s) MSR_DR) \<and> tlb_inv u \<and> mode_ok u"
proof -
  let ?u = "(rfi_switch s)\<lparr>ppc_next_instruction_address := spr s SPR_SRR0 AND NOT 3\<rparr>"
  let ?v = "mmu_change_mode (do_ctx_sync ?u)"
  let ?w = "?v\<lparr>exec_flags := exec_flags ?v OR EXEF_RFI\<rparr>"
  have rfi: "ppc_rfi opcode s = Ret () ?w"
    using assms(4) by (simp only: ppc_rfi_eq[OF assms(1)] Let_def) (auto simp: frame)
  have tu: "tlb_inv ?u" "mode_ok ?u"
    using assms(2,3) mmu_more_cong(5,6)[of ?u s] by (simp_all add: frame)
  then have ok: "mode_ok (do_ctx_sync ?u)" by (simp add: frame)
  have "tlb_inv ?w" "mode_ok ?w"
    using mmu_more_cong(5,6)[of ?w ?v] do_ctx_sync_inv[OF tu(1)] mode_ok_change[OF ok] by (simp_all add: frame)
  then show ?thesis
    using rfi change_mode_cur[OF ok] by (intro exI[of _ ?w]) (simp add: frame)
qed

lemma handler_final:
  assumes "exc_srr0 e s = Some r"
  obtains p where "final (ppc_exception_handler e b s) = Some ((exc_state e b r s)\<lparr>power_on := p\<rparr>)"
proof -
  let ?x = "exc_state e b r s"
  consider "final (ppc_exception_handler e b s) = Some (?x\<lparr>power_on := True\<rparr>)"
    | "final (ppc_exception_handler e b s) = Some ?x"
    unfolding handler_eq[OF assms] Let_def
    by (cases "\<not> power_on ?x \<and> power_off_reason ?x = po_endian_switch";
        cases "e \<noteq> EXC_EXT_INT \<and> e \<noteq> EXC_DECR"; simp only: if_True if_False final.simps simp_thms)
  then show thesis
  proof cases
    case 1
    then show thesis by (rule that)
  next
    case 2
    moreover have "?x = ?x\<lparr>power_on := power_on ?x\<rparr>" by simp
    ultimately show thesis by (intro that[of "power_on ?x"]) simp
  qed
qed

text \<open>
  \<open>bdnz\<close> and \<open>bdnzlr\<close> close a loop that runs \<open>CTR\<close> times (\<open>2\<^sup>3\<^sup>2\<close> times from zero): the branch
  is taken before the last pass and falls through, with \<open>CTR\<close> zero, after it.
\<close>

theorem counted_loops:
  assumes "n = (if spr s SPR_CTR = 0 then 2 ^ 32 else unat (spr s SPR_CTR))"
  shows "(\<forall>k. 0 < k \<and> k < n \<longrightarrow>
       exec_flags (branch_run (ppc_bc l a (0x42000000 OR (d AND 0xFFFC))) k s) = EXEF_BRANCH \<and>
       exec_flags (branch_run (ppc_bclr l 0x4E000020) k s) = EXEF_BRANCH) \<and>
     exec_flags (branch_run (ppc_bc l a (0x42000000 OR (d AND 0xFFFC))) n s) = 0 \<and>
     spr (branch_run (ppc_bc l a (0x42000000 OR (d AND 0xFFFC))) n s) SPR_CTR = 0 \<and>
     exec_flags (branch_run (ppc_bclr l 0x4E000020) n s) = 0 \<and>
     spr (branch_run (ppc_bclr l 0x4E000020) n s) SPR_CTR = 0"
  using bdnz.loop_count[OF assms, of l a d] bdnzlr.loop_count[OF assms, of l] by blast

theorem counted_loops_witness:
  "exec_flags (branch_run (ppc_bc False False (0x42000000 OR (0xFFF8 AND 0xFFFC))) 2
      (static_mmu\<lparr>spr := (\<lambda>_. 3)\<rparr>)) = EXEF_BRANCH \<and>
   exec_flags (branch_run (ppc_bc False False (0x42000000 OR (0xFFF8 AND 0xFFFC))) 3
      (static_mmu\<lparr>spr := (\<lambda>_. 3)\<rparr>)) = 0"
  using counted_loops[of 3 "static_mmu\<lparr>spr := (\<lambda>_. 3)\<rparr>" False False "0xFFF8"] by simp

text \<open>
  C32: An exception handler that ends with \<open>rfi\<close> returns to what was interrupted: when the exception
  was taken outside a TLB miss handler and no interrupt is waiting, execution continues at the
  saved address with the saved MSR bits, the general registers and the shadow set are as before,
  the TLB arrays are those of the restored MSR, and the tracking invariant holds.
\<close>

theorem exception_rfi_roundtrip:
  assumes "exc_srr0 e s = Some r" "tlb_inv s" "mode_ok s" "bits AND 0xFF73 = 0"
    "is_603 s \<Longrightarrow> \<not> tst (msr s) MSR_TGPR"
    "tst (msr s) MSR_EE \<Longrightarrow> \<not> int_pin s \<and> \<not> dec_exception_pending s \<and> \<not> thrm_exception_pending s"
  shows "\<exists>t u. final (ppc_exception_handler e bits s) = Some t \<and>
     ppc_rfi opcode (t\<lparr>pc := a, exec_flags := 0\<rparr>) = Ret () u \<and>
     ppc_next_instruction_address u = r AND NOT 3 \<and> msr u AND 0xFF73 = msr s AND 0xFF73 \<and>
     gpr u = gpr s \<and> ppc_shadow_gprs u = ppc_shadow_gprs s \<and> cr u = cr s \<and>
     cur1 ITLB u = mode_arrays (msr_mode (msr s) MSR_IR) \<and>
     cur1 DTLB u = mode_arrays (msr_mode (msr s) MSR_DR) \<and> tlb_inv u \<and> mode_ok u"
proof -
  let ?x = "exc_state e bits r s"
  obtain p where p: "final (ppc_exception_handler e bits s) = Some (?x\<lparr>power_on := p\<rparr>)"
    by (rule handler_final[OF assms(1)])
  let ?t = "?x\<lparr>power_on := p, pc := a, exec_flags := 0\<rparr>"
  have inv: "tlb_inv ?t" "mode_ok ?t"
    using exc_state_inv(1,2)[OF assms(2,3)] mmu_more_cong(5,6)[of ?t ?x] by simp_all
  have srr1: "spr ?x SPR_SRR1 AND 0xFF73 = msr s AND 0xFF73"
    using assms(4) by (simp add: frame bit.conj_disj_distrib2 and.assoc)
  have msr: "rfi_msr ?t AND 0xFF73 = msr s AND 0xFF73"
    using srr1 by (simp add: rfi_msr_bits)
  have b: "bit (rfi_msr ?t) n = bit (msr s) n" if "bit (0xFF73 :: u32) n" for n
    using msr that by (metis bit_and_iff)
  have ee: "tst (rfi_msr ?t) MSR_EE = tst (msr s) MSR_EE"
    using b[of 15] by (simp add: tst_bits)
  have mode: "msr_mode (rfi_msr ?t) MSR_IR = msr_mode (msr s) MSR_IR"
    "msr_mode (rfi_msr ?t) MSR_DR = msr_mode (msr s) MSR_DR"
    using b[of 4] b[of 5] b[of 14] by (simp_all add: msr_mode_cases tst_bits)
  have pr: "\<not> tst (msr ?t) MSR_PR" by (simp add: frame tst_bits exc_msr_bits)
  have sw: "is_603 s \<Longrightarrow> tst (exc_msr e s XOR rfi_msr ?t) MSR_TGPR = is_tlb_miss e"
    "is_603 s \<Longrightarrow> tst (msr s XOR exc_msr e s) MSR_TGPR = is_tlb_miss e"
    using assms(5) by (auto simp: tst_bits bit_simps rfi_msr_bits exc_msr_bits frame)
  have nopend: "\<not> (tst (rfi_msr ?t) MSR_EE \<and> (int_pin ?t \<or> dec_exception_pending ?t \<or> thrm_exception_pending ?t))"
    using assms(6) ee by (auto simp: frame)
  have regs: "gpr (rfi_switch ?t) = gpr s" "ppc_shadow_gprs (rfi_switch ?t) = ppc_shadow_gprs s"
    "cr ?t = cr s" "spr ?t SPR_SRR0 = r"
    using sw by (auto simp: frame fun_eq_iff)
  obtain u where "ppc_rfi opcode ?t = Ret () u" "ppc_next_instruction_address u = r AND NOT 3"
    "msr u = rfi_msr ?t" "gpr u = gpr s" "ppc_shadow_gprs u = ppc_shadow_gprs s" "cr u = cr s"
    "cur1 ITLB u = mode_arrays (msr_mode (msr s) MSR_IR)" "cur1 DTLB u = mode_arrays (msr_mode (msr s) MSR_DR)"
    "tlb_inv u" "mode_ok u"
    using ppc_rfi_plain[OF pr inv nopend, of opcode] unfolding regs mode by blast
  then show ?thesis using p msr by (intro exI[of _ "?x\<lparr>power_on := p\<rparr>"] exI[of _ u]) simp
qed

theorem exception_rfi_roundtrip_witness:
  "\<exists>t u. final (ppc_exception_handler EXC_SYSCALL 0 (static_mmu\<lparr>pc := 0x1000, msr := 0x7030\<rparr>)) = Some t \<and>
     ppc_rfi 0x4C000064 (t\<lparr>pc := 0xC04, exec_flags := 0\<rparr>) = Ret () u \<and>
     ppc_next_instruction_address u = 0x1004 \<and> msr u AND 0xFF73 = 0x7030"
proof -
  have "tlb_inv (static_mmu\<lparr>pc := 0x1000, msr := 0x7030\<rparr>)" "mode_ok (static_mmu\<lparr>pc := 0x1000, msr := 0x7030\<rparr>)"
    using mmu_more_cong(5,6)[of "static_mmu\<lparr>pc := 0x1000, msr := 0x7030\<rparr>" static_mmu] static_mmu_inv static_mode_ok
    by simp_all
  from exception_rfi_roundtrip[of EXC_SYSCALL _ "0x1004", OF _ this, of 0 "0x4C000064" "0xC04"]
  show ?thesis by (auto simp: static_mmu_def tst_def)
qed

text \<open>
  When \<open>rfi\<close> enables an external or decrementer interrupt that is waiting, the interrupt is
  taken at once and returns to where the \<open>rfi\<close> was going: \<open>SRR0\<close> keeps the saved address and
  \<open>SRR1\<close> the restored MSR.
\<close>

theorem rfi_chains_interrupt:
  assumes "\<not> tst (msr s) MSR_PR" "tst (spr s SPR_SRR1) MSR_EE" "int_pin s \<or> dec_exception_pending s"
  shows "\<exists>t. ppc_rfi opcode s = Ret () t \<and> spr t SPR_SRR0 = spr s SPR_SRR0 AND NOT 3 \<and>
     spr t SPR_SRR1 = rfi_msr s AND 0xFF73 \<and> \<not> tst (msr t) MSR_EE \<and>
     dec_exception_pending t = (int_pin s \<and> dec_exception_pending s) \<and>
     ppc_next_instruction_address t = exc_vector (if int_pin s then EXC_EXT_INT else EXC_DECR) (rfi_msr s)"
proof -
  let ?s = "rfi_switch s"
  have ee: "tst (msr ?s) MSR_EE" using assms(2) by (simp add: frame tst_bits rfi_msr_bits)
  have v: "exc_vector e (exc_msr e x) = exc_vector e (msr x)" for e and x :: "'a mmu_scheme"
    by (simp add: exc_vector_def tst_bits exc_msr_bits)
  show ?thesis
  proof (cases "int_pin s")
    case True
    then show ?thesis
      using ee by (simp add: ppc_rfi_eq[OF assms(1)] Let_def frame handler_eq[of EXC_EXT_INT ?s, OF exc_srr0.simps(11)]
          tst_bits exc_msr_bits v)
  next
    case False
    let ?d = "?s\<lparr>dec_exception_pending := False\<rparr>"
    from False show ?thesis
      using ee assms(3) by (simp add: ppc_rfi_eq[OF assms(1)] Let_def frame handler_eq[of EXC_DECR ?d, OF exc_srr0.simps(12)]
          tst_bits exc_msr_bits v)
  qed
qed

theorem rfi_chains_interrupt_witness:
  "\<exists>t. ppc_rfi 0x4C000064 (static_mmu\<lparr>pc := 0x500, int_pin := True,
       spr := (\<lambda>n. if n = SPR_SRR0 then 0x2000 else 0x9032)\<rparr>) = Ret () t \<and> spr t SPR_SRR0 = 0x2000"
  using rfi_chains_interrupt[of "static_mmu\<lparr>pc := 0x500, int_pin := True,
       spr := (\<lambda>n. if n = SPR_SRR0 then 0x2000 else 0x9032)\<rparr>" "0x4C000064"]
  by (auto simp: static_mmu_def tst_def)

text \<open>
  C34: When \<open>rfi\<close> enables a waiting thermal interrupt, the handler leaves by \<open>longjmp\<close> before \<open>rfi\<close>
  restores the saved address: \<open>SRR0\<close> holds the address after the \<open>rfi\<close> instruction itself, whatever
  address the \<open>rfi\<close> was returning to.
\<close>

theorem rfi_thermal_loses_srr0:
  assumes "\<not> tst (msr s) MSR_PR" "tst (spr s SPR_SRR1) MSR_EE" "\<not> int_pin s" "\<not> dec_exception_pending s"
    "thrm_exception_pending s" "exec_flags s = 0"
  shows "\<exists>t. ppc_rfi opcode s = LongJmp t \<and> spr t SPR_SRR0 = (pc s AND 0xFFFFFFFC) + 4"
proof -
  let ?s = "(rfi_switch s)\<lparr>thrm_exception_pending := False\<rparr>"
  have ee: "tst (msr (rfi_switch s)) MSR_EE" using assms(2) by (simp add: frame tst_bits rfi_msr_bits)
  have "pc_or_next 4 ?s = (pc s AND 0xFFFFFFFC) + 4"
    using rfi_switch_sel(13)[of s] assms(6) by (simp add: pc_or_next_def frame tst_def)
  then show ?thesis
    using ee assms(3-5) handler_eq[of EXC_THRM_MGMT_INT ?s, OF exc_srr0.simps(13)]
    by (simp add: ppc_rfi_eq[OF assms(1)] Let_def frame)
qed

theorem rfi_thermal_loses_srr0_witness:
  "\<exists>t. ppc_rfi 0x4C000064 (static_mmu\<lparr>pc := 0x500, thrm_exception_pending := True,
       spr := (\<lambda>n. if n = SPR_SRR0 then 0x2000 else 0x9032)\<rparr>) = LongJmp t \<and> spr t SPR_SRR0 = 0x504"
  using rfi_thermal_loses_srr0[of "static_mmu\<lparr>pc := 0x500, thrm_exception_pending := True,
       spr := (\<lambda>n. if n = SPR_SRR0 then 0x2000 else 0x9032)\<rparr>" "0x4C000064"]
  by (auto simp: static_mmu_def tst_def)

lemma pat_ctx_sync:
  assumes "tlb_inv s"
  shows "flushed ITLB TLBE_FROM_PAT (do_ctx_sync (mmu_pat_ctx_changed s))"
    "flushed DTLB TLBE_FROM_PAT (do_ctx_sync (mmu_pat_ctx_changed s))"
    "tlb_inv (do_ctx_sync (mmu_pat_ctx_changed s))"
proof -
  let ?cs = "[(ITLB, TLBE_FROM_PAT), (DTLB, TLBE_FROM_PAT)]"
  have f: "fold (\<lambda>(ty, src). schedule_tlb_invalidation ty src) ?cs s = mmu_pat_ctx_changed s"
    by (simp add: mmu_pat_ctx_changed_def)
  have ok: "\<forall>(ty, src)\<in>set ?cs. src AND NOT TLBE_FROM_TRANSLATION = 0 \<and> src \<noteq> 0" by simp
  show "flushed ITLB TLBE_FROM_PAT (do_ctx_sync (mmu_pat_ctx_changed s))"
    "flushed DTLB TLBE_FROM_PAT (do_ctx_sync (mmu_pat_ctx_changed s))"
    using soft_tlb.changes_then_sync[OF assms ok, unfolded f] by simp_all
  show "tlb_inv (do_ctx_sync (mmu_pat_ctx_changed s))"
    using soft_tlb.changes_inv[OF assms ok, unfolded f] by (rule soft_tlb.sync_inv)
qed

lemma pat_ctx_sr [simp]: "sr (mmu_pat_ctx_changed s) = sr s"
  by (simp add: mmu_pat_ctx_changed_def schedule_tlb_invalidation_def add_ctx_sync_action_def Let_def)

text \<open>
  After a segment register is changed and \<open>isync\<close> executed, no page translation made under the
  old segment registers is left in either software TLB; a user program takes a program
  exception instead and changes no segment register.
\<close>

theorem mtsr_isync_flushes:
  assumes "tlb_inv s" "sr s n \<noteq> gpr s (reg_s opcode)" "n = unat (drop_bit 16 opcode AND 0x0F)"
  shows "if tst (msr s) MSR_PR then ppc_mtsr opcode s = ppc_exception_handler EXC_PROGRAM CAUSE_NOT_ALLOWED s
    else \<exists>t u. ppc_mtsr opcode s = Ret () t \<and> ppc_isync 0x4C00012C t = Ret () u \<and>
      sr u = (sr s)(n := gpr s (reg_s opcode)) \<and> flushed ITLB TLBE_FROM_PAT u \<and> flushed DTLB TLBE_FROM_PAT u \<and>
      tlb_inv u"
proof (cases "tst (msr s) MSR_PR")
  case True
  then show ?thesis by (simp add: ppc_mtsr_def supervisor_def)
next
  case False
  let ?s = "s\<lparr>sr := (sr s)(n := gpr s (reg_s opcode))\<rparr>"
  have "tlb_inv ?s" using assms(1) mmu_more_cong(5)[of ?s s] by simp
  note pat_ctx_sync[OF this]
  moreover have "ppc_mtsr opcode s = Ret () (mmu_pat_ctx_changed ?s)"
    using False assms(2,3) by (simp add: ppc_mtsr_def supervisor_def put_sr_def)
  ultimately show ?thesis using False by (simp add: ppc_isync_def frame)
qed

theorem mtsr_isync_flushes_witness:
  "\<exists>t u. ppc_mtsr 0x7C0301A4 (static_mmu\<lparr>gpr := (\<lambda>_. 9)\<rparr>) = Ret () t \<and> ppc_isync 0x4C00012C t = Ret () u \<and>
     sr u 3 = 9 \<and> flushed DTLB TLBE_FROM_PAT u"
proof -
  let ?s = "static_mmu\<lparr>gpr := (\<lambda>_. 9)\<rparr>"
  have inv: "tlb_inv ?s" using mmu_more_cong(5)[of ?s static_mmu] static_mmu_inv by simp
  have sr: "sr ?s 3 \<noteq> gpr ?s (reg_s 0x7C0301A4)" and pr: "tst (msr ?s) MSR_PR = False"
    by (simp_all add: static_mmu_def tst_def)
  have n: "3 = unat (drop_bit 16 0x7C0301A4 AND 0x0F :: u32)" by simp
  obtain t u where "ppc_mtsr 0x7C0301A4 ?s = Ret () t" "ppc_isync 0x4C00012C t = Ret () u"
    "sr u = (sr ?s)(3 := gpr ?s (reg_s 0x7C0301A4))" "flushed DTLB TLBE_FROM_PAT u"
    using mtsr_isync_flushes[OF inv sr n] unfolding pr if_False by blast
  then show ?thesis by (intro exI[of _ t] exI[of _ u]) simp
qed

end
