(* ===== verification/PpcMmu.thy ===== *)
theory PpcMmu
  imports PpcSystem
begin

text \<open>
  Address translation of \<open>src/cpu/ppc/ppcmmu.cpp\<close>: block translation of the 601 and of the later
  processors, the hashed page table, the software-loaded TLBs of the 603, the refill of the
  software TLBs, instruction fetch translation, DMA mapping, BAT updates and initialization; and
  the TLB instructions of \<open>src/cpu/ppc/ppcopcodes.cpp\<close>. Counters of the profiling builds and log
  output are not modelled; a pointer into host memory is its address.
\<close>

definition page_tag :: "u32 \<Rightarrow> u32" where
  "page_tag va = va AND NOT 0xFFF"

subsection \<open>Block address translation\<close>

record BATResult =
  hit :: bool
  bat_prot :: u8
  bat_phys :: u32

text \<open>The remapping table \<open>access_conv\<close> from 601 to PowerPC style.\<close>

definition access_conv :: "u8 list" where
  "access_conv = [2, 2, 2, 1, 0, 1, 2, 1]"

definition mpc601_block_address_translation :: "u32 \<Rightarrow> 'a mmu_scheme \<Rightarrow> BATResult" where
  "mpc601_block_address_translation la s =
     (let msr_pr = of_flag (tst (msr s) MSR_PR) :: u8
      in if tst (sr s (unat (drop_bit 28 la AND 0x0F))) 0x80000000 then
           \<lparr>hit = False, bat_prot = 0, bat_phys = 0\<rparr>
         else
           case find (\<lambda>i. valid (ibat_array s i) \<and> la AND hi_mask (ibat_array s i) = bepi (ibat_array s i))
                  [0, 1, 2, 3] of
             None \<Rightarrow> \<lparr>hit = False, bat_prot = 0, bat_phys = 0\<rparr>
           | Some i \<Rightarrow>
               let e = ibat_array s i;
                   key = ((access e AND 1) AND msr_pr) OR ((drop_bit 1 (access e) AND 1) AND (msr_pr XOR 1))
               in \<lparr>hit = True, bat_prot = access_conv ! unat (push_bit 2 key OR prot e),
                   bat_phys = phys_hi e OR (la AND NOT (hi_mask e))\<rparr>)"

definition ppc_block_address_translation :: "TLBType \<Rightarrow> u32 \<Rightarrow> 'a mmu_scheme \<Rightarrow> BATResult" where
  "ppc_block_address_translation ty la s =
     (let bat_array = (if ty = ITLB then ibat_array s else dbat_array s);
          msr_pr = tst (msr s) MSR_PR;
          access_bits = push_bit 1 (of_flag (\<not> msr_pr)) OR of_flag msr_pr
      in case find (\<lambda>i. access (bat_array i) AND access_bits \<noteq> 0 \<and>
                        la AND hi_mask (bat_array i) = bepi (bat_array i)) [0, 1, 2, 3] of
           None \<Rightarrow> \<lparr>hit = False, bat_prot = 0, bat_phys = 0\<rparr>
         | Some i \<Rightarrow> \<lparr>hit = True, bat_prot = prot (bat_array i),
                      bat_phys = phys_hi (bat_array i) OR (la AND NOT (hi_mask (bat_array i)))\<rparr>)"

subsection \<open>The hashed page table\<close>

definition calc_pteg_phys :: "u32 \<Rightarrow> 'a SetPRS_scheme \<Rightarrow> u32" where
  "calc_pteg_phys hash s =
     (let sdr1_val = spr s SPR_SDR1
      in (sdr1_val AND 0xFFFF0000) OR
         (push_bit 16 (sdr1_val AND 0x1FF) AND push_bit 6 (hash AND 0x7FC00)) OR
         push_bit 6 (hash AND 0x3FF))"

definition calc_pteg_addr :: "u32 \<Rightarrow> 'a mmu_scheme \<Rightarrow> (u64, 'a mmu_scheme) outcome" where
  "calc_pteg_addr hash s =
     (let pteg_addr = calc_pteg_phys hash s; area = last_ptab_area s
      in if pteg_addr \<ge> rstart area \<and> pteg_addr \<le> rend area then
           Ret (mem_ptr area + ucast (pteg_addr - rstart area)) s
         else
           case find_range (mem_ctrl_instance s) pteg_addr of
             None \<Rightarrow> Abort ''SOS: no page table region was found''
           | Some entry \<Rightarrow>
               if tst (rtype entry) (RT_ROM OR RT_RAM) then
                 Ret (mem_ptr entry + ucast (pteg_addr - rstart entry))
                   (s\<lparr>last_ptab_area := area\<lparr>rstart := rstart entry, rend := rend entry, mem_ptr := mem_ptr entry\<rparr>\<rparr>)
               else Abort ''SOS: no page table region was found'')"

definition pte_match :: "u32 \<Rightarrow> u16 \<Rightarrow> u32 \<Rightarrow> u32" where
  "pte_match vsid' page_index pteg_num =
     0x80000000 OR push_bit 7 vsid' OR push_bit 6 pteg_num OR ucast (drop_bit 10 page_index)"

definition search_pteg :: "hmem \<Rightarrow> u64 \<Rightarrow> u32 \<Rightarrow> u16 \<Rightarrow> u32 \<Rightarrow> u64 option" where
  "search_pteg m pteg_addr vsid' page_index pteg_num =
     find (\<lambda>a. pte_match vsid' page_index pteg_num = READ_DWORD_BE_A m a)
       (map (\<lambda>i. pteg_addr + 8 * of_nat i) [0..<8])"

definition seg_key :: "u32 \<Rightarrow> bool \<Rightarrow> bool" where
  "seg_key sr_val msr_pr = (if msr_pr then bit sr_val 29 else bit sr_val 30)"

text \<open>The page protection check shared by the two kinds of page translation.\<close>

definition pp_denied :: "bool \<Rightarrow> u32 \<Rightarrow> bool \<Rightarrow> bool" where
  "pp_denied key pp is_write \<longleftrightarrow> (key \<and> (pp = 0 \<or> pp = 1 \<and> is_write)) \<or> (pp = 3 \<and> is_write)"

definition raise_dsi :: "u32 \<Rightarrow> u32 \<Rightarrow> bool \<Rightarrow> 'a mmu_scheme \<Rightarrow> (unit, 'a mmu_scheme) outcome" where
  "raise_dsi cause la is_write s =
     mmu_exception_handler EXC_DSI 0
       (put_spr SPR_DAR la (put_spr SPR_DSISR (cause OR push_bit 25 (of_flag is_write)) s))"

definition raise_isi_dsi :: "u32 \<Rightarrow> u32 \<Rightarrow> bool \<Rightarrow> bool \<Rightarrow> 'a mmu_scheme \<Rightarrow> (unit, 'a mmu_scheme) outcome" where
  "raise_isi_dsi cause la is_instr_fetch is_write s =
     (if is_instr_fetch then mmu_exception_handler EXC_ISI cause s else raise_dsi cause la is_write s)"

record PATResult =
  pat_phys :: u32
  pat_prot :: u8
  pte_c_status :: u8

subsection \<open>The TLBs of the 603\<close>

definition tlb603_set :: "u32 \<Rightarrow> nat" where
  "tlb603_set ea = unat (drop_bit 12 ea AND 31)"

definition mpc603_tlb_miss ::
    "u32 \<Rightarrow> u32 \<Rightarrow> bool \<Rightarrow> bool \<Rightarrow> bool \<Rightarrow> nat option \<Rightarrow> 'a mmu_scheme \<Rightarrow> (unit, 'a mmu_scheme) outcome" where
  "mpc603_tlb_miss la sr_val is_instr_fetch is_write key hit_way s =
     (let exc_type = (if is_instr_fetch then EXC_ITLB_MISS
                      else if is_write then EXC_DTLB_STORE_MISS else EXC_DTLB_LOAD_MISS)
      in if mmu_exception_handler_dbg s then mmu_exception_handler exc_type 0 s
         else
           let page_index = drop_bit 12 la AND 0xFFFF;
               hash1 = (sr_val AND 0x7FFFF) XOR page_index;
               c = 0x80000000 OR push_bit 7 (sr_val AND 0xFFFFFF) OR drop_bit 10 page_index;
               s = (if is_instr_fetch then put_spr SPR_ICMP c (put_spr SPR_IMISS la s)
                    else put_spr SPR_DCMP c (put_spr SPR_DMISS la s));
               s = put_spr SPR_HASH1 (calc_pteg_phys hash1 s) s;
               s = put_spr SPR_HASH2 (calc_pteg_phys (NOT hash1) s) s;
               ty = (if is_instr_fetch then ITLB else DTLB);
               ways = tlb603 s ty (tlb603_set la);
               w = (case hit_way of Some w \<Rightarrow> w
                    | None \<Rightarrow> if \<not> valid603 (ways 0) then 0 else if \<not> valid603 (ways 1) then 1
                             else tlb603_lru s ty (tlb603_set la));
               srr1_bits = (cr s AND 0xF0000000) OR push_bit 19 (of_flag key) OR
                 push_bit 18 (of_flag is_instr_fetch) OR push_bit 17 (of_nat w) OR push_bit 16 (of_flag is_write)
           in mmu_exception_handler exc_type srr1_bits s)"

definition match603 :: "Tlb603Entry \<Rightarrow> u32 \<Rightarrow> u32 \<Rightarrow> bool" where
  "match603 e vs la \<longleftrightarrow> valid603 e \<and> vsid e = vs \<and> (ea_tag e XOR la) AND 0x0FFFF000 = 0"

definition mpc603_page_address_translation ::
    "u32 \<Rightarrow> u32 \<Rightarrow> bool \<Rightarrow> bool \<Rightarrow> bool \<Rightarrow> 'a mmu_scheme \<Rightarrow> (PATResult, 'a mmu_scheme) outcome" where
  "mpc603_page_address_translation la sr_val is_instr_fetch msr_pr is_write s =
     (let ty = (if is_instr_fetch then ITLB else DTLB);
          key = seg_key sr_val msr_pr;
          st = tlb603_set la;
          ways = tlb603 s ty st
      in case find (\<lambda>w. match603 (ways w) (sr_val AND 0xFFFFFF) la) [0, 1] of
           None \<Rightarrow>
             obind (mpc603_tlb_miss la sr_val is_instr_fetch is_write key None s)
               (\<lambda>_ s. Ret \<lparr>pat_phys = 0, pat_prot = 0, pte_c_status = 0\<rparr> s)
         | Some w \<Rightarrow>
             let s = s\<lparr>tlb603_lru := (tlb603_lru s)(ty := (tlb603_lru s ty)(st := 1 - w))\<rparr>;
                 lo = pte_lo (ways w);
                 pp = lo AND 3
             in obind (if pp_denied key pp is_write
                       then raise_isi_dsi 0x08000000 la is_instr_fetch is_write s else Ret () s) (\<lambda>_ s.
                obind (if is_write \<and> lo AND 0x80 = 0
                       then mpc603_tlb_miss la sr_val False is_write key (Some w) s else Ret () s) (\<lambda>_ s.
                Ret \<lparr>pat_phys = (lo AND 0xFFFFF000) OR (la AND 0x00000FFF),
                     pat_prot = ucast (push_bit 2 (of_flag key) OR pp :: u32), pte_c_status = ucast (lo AND 0x80)\<rparr> s)))"

subsection \<open>Page address translation\<close>

text \<open>The search of both page table entry groups; the second only after the first has failed.\<close>

definition find_pte :: "u32 \<Rightarrow> u32 \<Rightarrow> 'a mmu_scheme \<Rightarrow> (u64 option, 'a mmu_scheme) outcome" where
  "find_pte la sr_val s =
     (let page_index = ucast (drop_bit 12 la AND 0xFFFF) :: u16;
          pteg_hash1 = (sr_val AND 0x7FFFF) XOR (drop_bit 12 la AND 0xFFFF);
          vs = sr_val AND 0x0FFFFFF
      in obind (calc_pteg_addr pteg_hash1 s) (\<lambda>a s.
           case search_pteg (host_mem (mem_ctrl_instance s)) a vs page_index 0 of
             Some pte_addr \<Rightarrow> Ret (Some pte_addr) s
           | None \<Rightarrow>
               obind (calc_pteg_addr (NOT pteg_hash1) s) (\<lambda>a s.
                 Ret (search_pteg (host_mem (mem_ctrl_instance s)) a vs page_index 1) s)))"

definition put_host :: "u64 \<Rightarrow> u8 \<Rightarrow> 'a mmu_scheme \<Rightarrow> 'a mmu_scheme" where
  "put_host a v s =
     s\<lparr>mem_ctrl_instance := (mem_ctrl_instance s)\<lparr>host_mem := (host_mem (mem_ctrl_instance s))(a := v)\<rparr>\<rparr>"

text \<open>The R and C bits of the entry at \<open>pte_addr\<close>.\<close>

definition update_rc :: "u64 \<Rightarrow> bool \<Rightarrow> 'a mmu_scheme \<Rightarrow> 'a mmu_scheme" where
  "update_rc pte_addr is_write s =
     (let s = put_host (pte_addr + 6) (host_mem (mem_ctrl_instance s) (pte_addr + 6) OR 0x01) s
      in if is_write then put_host (pte_addr + 7) (host_mem (mem_ctrl_instance s) (pte_addr + 7) OR 0x80) s else s)"

definition page_address_translation ::
    "u32 \<Rightarrow> bool \<Rightarrow> bool \<Rightarrow> bool \<Rightarrow> 'a mmu_scheme \<Rightarrow> (PATResult, 'a mmu_scheme) outcome" where
  "page_address_translation la is_instr_fetch msr_pr is_write s =
     (let sr_val = sr s (unat (drop_bit 28 la AND 0x0F))
      in if tst sr_val 0x80000000 then
           if drop_bit 20 sr_val AND 0x1FF = 0x7F then
             Ret \<lparr>pat_phys = (la AND 0x0FFFFFFF) OR push_bit 28 sr_val, pat_prot = 0, pte_c_status = 1\<rparr> s
           else Abort ''Direct-store segments not supported''
         else
           obind (if tst sr_val 0x10000000 \<and> is_instr_fetch
                  then mmu_exception_handler EXC_ISI 0x10000000 s else Ret () s) (\<lambda>_ s.
           if is_603 s then mpc603_page_address_translation la sr_val is_instr_fetch msr_pr is_write s
           else
             obind (find_pte la sr_val s) (\<lambda>found s.
             case found of
               None \<Rightarrow> obind (raise_isi_dsi 0x40000000 la is_instr_fetch is_write s)
                         (\<lambda>_ s. Ret \<lparr>pat_phys = 0, pat_prot = 0, pte_c_status = 0\<rparr> s)
             | Some pte_addr \<Rightarrow>
                 let pte_word2 = READ_DWORD_BE_A (host_mem (mem_ctrl_instance s)) (pte_addr + 4);
                     key = seg_key sr_val msr_pr;
                     pp = pte_word2 AND 3
                 in obind (if pp_denied key pp is_write
                           then raise_isi_dsi 0x08000000 la is_instr_fetch is_write s else Ret () s) (\<lambda>_ s.
                    Ret \<lparr>pat_phys = (pte_word2 AND 0xFFFFF000) OR (la AND 0x00000FFF),
                         pat_prot = ucast (push_bit 2 (of_flag key) OR pp :: u32),
                         pte_c_status = ucast (pte_word2 AND 0x80)\<rparr> (update_rc pte_addr is_write s)))))"

subsection \<open>DMA\<close>

record MapDmaResult =
  dma_type :: u32
  dma_size :: u32
  is_writable :: bool
  host_va :: u64
  dev_obj :: "dev option"
  dev_base :: u32

definition dma_fail :: "bool \<Rightarrow> string \<Rightarrow> 's \<Rightarrow> (MapDmaResult, 's) outcome" where
  "dma_fail is_dbg msg s =
     (if is_dbg then Ret \<lparr>dma_type = RT_NONE, dma_size = 0, is_writable = False, host_va = 0, dev_obj = None, dev_base = 0\<rparr> s
      else Abort msg)"

definition mmu_map_dma_mem ::
    "u32 \<Rightarrow> u32 \<Rightarrow> bool \<Rightarrow> bool \<Rightarrow> bool \<Rightarrow> 'a mmu_scheme \<Rightarrow> (MapDmaResult, 'a mmu_scheme) outcome" where
  "mmu_map_dma_mem addr sz allow_mmio allow_partial is_dbg s =
     (case find_range (mem_ctrl_instance s) addr of
        None \<Rightarrow> dma_fail is_dbg ''SOS: DMA access to unmapped physical memory'' s
      | Some cur \<Rightarrow>
          let last_addr = addr + sz - 1; nxt = find_range (mem_ctrl_instance s) (rend cur + 1);
              adjacent = (case nxt of None \<Rightarrow> False | Some n \<Rightarrow>
                tst (rtype cur) (RT_ROM OR RT_RAM) \<and>
                rtype cur AND (RT_ROM OR RT_RAM) = rtype n AND (RT_ROM OR RT_RAM) \<and>
                mem_ptr n = mem_ptr cur + ucast (rend cur) - ucast (rstart cur) + 1 \<and> last_addr \<le> rend n);
              finish = (\<lambda>sz.
                if tst (rtype cur) RT_MMIO \<and> \<not> allow_mmio then
                  dma_fail is_dbg ''SOS: DMA access to a MMIO region is not allowed'' s
                else if tst (rtype cur) (RT_ROM OR RT_RAM) then
                  Ret \<lparr>dma_type = rtype cur, dma_size = sz, is_writable = tst (rtype cur) RT_RAM,
                       host_va = mem_ptr cur + ucast (addr - rstart cur), dev_obj = None, dev_base = 0\<rparr> s
                else
                  Ret \<lparr>dma_type = rtype cur, dma_size = sz, is_writable = True, host_va = 0,
                       dev_obj = devobj cur, dev_base = rstart cur\<rparr> s)
          in if last_addr > rend cur \<and> \<not> adjacent then
               if allow_partial then finish (rend cur - addr + 1)
               else dma_fail is_dbg ''DMA access to physical memory spans regions!'' s
             else finish sz)"

subsection \<open>Refill of the software TLBs\<close>

text \<open>Stores a translated page into the slot \<open>tlb2_target_entry\<close> chooses and tracks it.\<close>

definition fill_slot :: "TLBType \<Rightarrow> u32 \<Rightarrow> (TLBEntry \<Rightarrow> TLBEntry) \<Rightarrow> 'a mmu_scheme \<Rightarrow> slot \<times> 'a mmu_scheme" where
  "fill_slot ty tg f s =
     (let (p, s) = tlb2_target_entry ty tg s
      in (p, track_translated_entry ty p (s\<lparr>tlb := (tlb s)(p := f (tlb s p))\<rparr>)))"

definition mem_offset :: "AddressMapEntry \<Rightarrow> u32 \<Rightarrow> u32 \<Rightarrow> u64" where
  "mem_offset rgn guest_va phys_addr = mem_ptr rgn - ucast guest_va + ucast (phys_addr - rstart rgn)"

text \<open>The translation part of a refill: physical address and flags.\<close>

definition itlb_translate :: "u32 \<Rightarrow> 'a mmu_scheme \<Rightarrow> (u32 \<times> u16, 'a mmu_scheme) outcome" where
  "itlb_translate guest_va s =
     (if tst (msr s) MSR_IR then
        let bat_res = (if is_601 s then mpc601_block_address_translation guest_va s
                       else ppc_block_address_translation ITLB guest_va s)
        in if hit bat_res then
             obind (if bat_prot bat_res = 0 then mmu_exception_handler EXC_ISI 0x08000000 s else Ret () s)
               (\<lambda>_ s. Ret (bat_phys bat_res, TLBE_FROM_BAT) s)
           else
             obind (page_address_translation guest_va True (tst (msr s) MSR_PR) False s)
               (\<lambda>r s. Ret (pat_phys r, TLBE_FROM_PAT) s)
      else Ret (guest_va, 0) s)"

definition itlb2_refill :: "u32 \<Rightarrow> 'a mmu_scheme \<Rightarrow> (slot, 'a mmu_scheme) outcome" where
  "itlb2_refill guest_va s =
     obind (itlb_translate guest_va s) (\<lambda>(phys_addr, fl) s.
       case find_range (mem_ctrl_instance s) phys_addr of
         None \<Rightarrow> Abort ''Instruction fetch from unmapped memory''
       | Some rgn \<Rightarrow>
           if tst (rtype rgn) RT_MMIO then Abort ''Instruction fetch from MMIO region''
           else
             let (p, s) = fill_slot ITLB (page_tag guest_va) (\<lambda>e. e\<lparr>tag := page_tag guest_va,
                   flags := fl OR PAGE_MEM OR (flags e AND TLBE_CTX_TRACKED),
                   host_va_offs_r := mem_offset rgn guest_va phys_addr,
                   phys_tag := page_tag phys_addr\<rparr>) s
             in Ret p s)"

definition dtlb_translate :: "u32 \<Rightarrow> bool \<Rightarrow> 'a mmu_scheme \<Rightarrow> (u32 \<times> u16, 'a mmu_scheme) outcome" where
  "dtlb_translate guest_va is_write s =
     (if tst (msr s) MSR_DR then
        let bat_res = (if is_601 s then mpc601_block_address_translation guest_va s
                       else ppc_block_address_translation DTLB guest_va s)
        in if hit bat_res then
             obind (if bat_prot bat_res = 0 \<or> tst (bat_prot bat_res) 1 \<and> is_write
                    then raise_dsi 0x08000000 guest_va is_write s else Ret () s)
               (\<lambda>_ s. Ret (bat_phys bat_res, PTE_SET_C OR TLBE_FROM_BAT OR
                            (if bat_prot bat_res = 2 then PAGE_WRITABLE else 0)) s)
           else
             obind (page_address_translation guest_va False (tst (msr s) MSR_PR) is_write s)
               (\<lambda>r s. Ret (pat_phys r, TLBE_FROM_PAT OR
                   (if pat_prot r \<le> 2 \<or> pat_prot r = 6 then PAGE_WRITABLE else 0) OR
                   (if is_write \<or> pte_c_status r \<noteq> 0 then PTE_SET_C else 0)) s)
      else Ret (guest_va, PTE_SET_C OR PAGE_WRITABLE) s)"

text \<open>\<open>None\<close> is the address of \<open>UnmappedMem\<close>.\<close>

definition dtlb2_refill :: "u32 \<Rightarrow> bool \<Rightarrow> 'a mmu_scheme \<Rightarrow> (slot option, 'a mmu_scheme) outcome" where
  "dtlb2_refill guest_va is_write s =
     obind (dtlb_translate guest_va is_write s) (\<lambda>(phys_addr, fl) s.
       let tg = page_tag guest_va
       in case find_range (mem_ctrl_instance s) phys_addr of
         None \<Rightarrow> Ret None s
       | Some rgn \<Rightarrow>
           let (p, s) = fill_slot DTLB tg (\<lambda>e.
                 (if tst (rtype rgn) RT_MMIO then
                    e\<lparr>tag := tg, flags := fl OR PAGE_IO OR (flags e AND TLBE_CTX_TRACKED),
                      rgn_desc := Some rgn, dev_base_va := ucast (guest_va - (phys_addr - rstart rgn)),
                      phys_tag := page_tag phys_addr\<rparr>
                  else
                    e\<lparr>tag := tg, flags := fl OR PAGE_MEM OR (flags e AND TLBE_CTX_TRACKED),
                      host_va_offs_r := mem_offset rgn guest_va phys_addr,
                      host_va_offs_w := (if tst (rtype rgn) RT_ROM then dummy_page s - ucast tg
                                         else mem_offset rgn guest_va phys_addr),
                      phys_tag := page_tag phys_addr\<rparr>)) s
           in Ret (Some p) s)"

definition prepare_dtlb_write :: "slot \<Rightarrow> u32 \<Rightarrow> 'a mmu_scheme \<Rightarrow> (bool, 'a mmu_scheme) outcome" where
  "prepare_dtlb_write p guest_va s =
     obind (if \<not> tst (flags (tlb s p)) PAGE_WRITABLE then raise_dsi 0x08000000 guest_va True s else Ret () s) (\<lambda>_ s.
     if tst (flags (tlb s p)) PTE_SET_C then Ret False s
     else
       obind (page_address_translation guest_va False (tst (msr s) MSR_PR) True s) (\<lambda>_ s.
       Ret True (s\<lparr>tlb := (tlb s)(p := (tlb s p)\<lparr>flags := flags (tlb s p) OR PTE_SET_C\<rparr>)\<rparr>)))"

text \<open>Returns the host address and the physical address of an instruction.\<close>

definition mmu_translate_imem :: "u32 \<Rightarrow> 'a mmu_scheme \<Rightarrow> (u64 \<times> u32, 'a mmu_scheme) outcome" where
  "mmu_translate_imem vaddr s =
     (let tg = page_tag vaddr;
          ((p1, matched, primary_hit), s) = lookup_tlb ITLB vaddr tg s;
          found = (\<lambda>s. Ret (host_va_offs_r (tlb s p1) + ucast vaddr, phys_tag (tlb s p1) OR (vaddr AND 0xFFF)) s)
      in if primary_hit then found s
         else
           obind (case matched of Some p2 \<Rightarrow> Ret p2 s | None \<Rightarrow> itlb2_refill vaddr s) (\<lambda>p2 s.
             found (promote_tlb_entry ITLB p1 p2 s)))"

subsection \<open>The 603 TLB instructions\<close>

definition mmu_603_tlb_load :: "TLBType \<Rightarrow> u32 \<Rightarrow> 'a mmu_scheme \<Rightarrow> 'a mmu_scheme" where
  "mmu_603_tlb_load ty ea s =
     (let st = tlb603_set ea;
          w = unat (drop_bit 17 (spr s SPR_SRR1) AND 1);
          c = spr s (if ty = ITLB then SPR_ICMP else SPR_DCMP);
          entry = tlb603 s ty st w;
          s = (if valid603 entry then tlb_flush_pat_page ty (ea_tag entry) s else s);
          new = \<lparr>valid603 = tst c 0x80000000, vsid = drop_bit 7 c AND 0xFFFFFF,
                 ea_tag = ea AND 0xFFFFF000, pte_lo = spr s SPR_RPA\<rparr>;
          other = tlb603 s ty st (1 - w);
          other = (if valid603 other \<and> vsid other = vsid new \<and> (ea_tag other XOR ea_tag new) AND 0x0FFFF000 = 0
                   then other\<lparr>valid603 := False\<rparr> else other);
          s = s\<lparr>tlb603 := (tlb603 s)(ty := (tlb603 s ty)(st := (tlb603 s ty st)(w := new, 1 - w := other))),
                tlb603_lru := (tlb603_lru s)(ty := (tlb603_lru s ty)(st := 1 - w))\<rparr>
      in tlb_flush_pat_page ty (ea_tag new) s)"

definition mmu_603_tlb_invalidate_set :: "u32 \<Rightarrow> 'a mmu_scheme \<Rightarrow> 'a mmu_scheme" where
  "mmu_603_tlb_invalidate_set ea s =
     s\<lparr>tlb603 := (\<lambda>ty st w. if st = tlb603_set ea \<and> w < 2 then (tlb603 s ty st w)\<lparr>valid603 := False\<rparr> else tlb603 s ty st w)\<rparr>"

definition ppc_tlbie :: "u32 \<Rightarrow> 'a mmu_scheme \<Rightarrow> (unit, 'a mmu_scheme) outcome" where
  "ppc_tlbie opcode = supervisor (\<lambda>s.
     let s = (if is_603 s then mmu_603_tlb_invalidate_set (gpr s (reg_b opcode)) s else s)
     in Ret () (tlb_flush_all_pat s))"

definition ppc_tlbia :: "u32 \<Rightarrow> 'a mmu_scheme \<Rightarrow> (unit, 'a mmu_scheme) outcome" where
  "ppc_tlbia opcode = supervisor (Ret ())"

definition ppc_tlbld :: "u32 \<Rightarrow> 'a mmu_scheme \<Rightarrow> (unit, 'a mmu_scheme) outcome" where
  "ppc_tlbld opcode = supervisor (\<lambda>s.
     Ret () (if is_603 s then mmu_603_tlb_load DTLB (gpr s (reg_b opcode)) s else s))"

definition ppc_tlbli :: "u32 \<Rightarrow> 'a mmu_scheme \<Rightarrow> (unit, 'a mmu_scheme) outcome" where
  "ppc_tlbli opcode = supervisor (\<lambda>s.
     Ret () (if is_603 s then mmu_603_tlb_load ITLB (gpr s (reg_b opcode)) s else s))"

definition ppc_tlbsync :: "u32 \<Rightarrow> 'a mmu_scheme \<Rightarrow> (unit, 'a mmu_scheme) outcome" where
  "ppc_tlbsync opcode = supervisor (Ret ())"

subsection \<open>BAT updates and initialization\<close>

text \<open>\<open>bat_reg\<close> is the number of a BAT register, 528 to 543; the even register of a pair is the upper one.\<close>

definition mpc601_bat_update :: "nat \<Rightarrow> 'a mmu_scheme \<Rightarrow> 'a mmu_scheme" where
  "mpc601_bat_update bat_reg s =
     (let upper_reg_num = bat_reg - bat_reg mod 2;
          i = (bat_reg - 528) div 2;
          upper = spr s upper_reg_num; lower = spr s (upper_reg_num + 1);
          s = (if tst (spr s (upper_reg_num + 1)) 0x40 then
                 let bsm = lower AND 0x3F;
                     m = NOT (push_bit 17 bsm OR 0x1FFFF);
                     e = \<lparr>valid = True, access = ucast (drop_bit 2 upper AND 3), prot = ucast (upper AND 3),
                          phys_hi = lower AND m, hi_mask = m, bepi = upper AND m\<rparr>
                 in s\<lparr>ibat_array := (ibat_array s)(i := e), dbat_array := (dbat_array s)(i := e)\<rparr>
               else
                 s\<lparr>ibat_array := (ibat_array s)(i := (ibat_array s i)\<lparr>valid := False\<rparr>),
                   dbat_array := (dbat_array s)(i := (dbat_array s i)\<lparr>valid := False\<rparr>)\<rparr>)
      in schedule_tlb_invalidation DTLB TLBE_FROM_TRANSLATION
           (schedule_tlb_invalidation ITLB TLBE_FROM_TRANSLATION s))"

definition mpc601_dbat_update :: "nat \<Rightarrow> 'a mmu_scheme \<Rightarrow> 'a mmu_scheme" where
  "mpc601_dbat_update bat_reg s = s"

definition bat_entry :: "u32 \<Rightarrow> u32 \<Rightarrow> PPC_BAT_entry \<Rightarrow> PPC_BAT_entry" where
  "bat_entry upper lower e =
     (let bl = drop_bit 2 upper AND 0x7FF; m = NOT (push_bit 17 bl OR 0x1FFFF)
      in e\<lparr>access := ucast (upper AND 3), prot := ucast (lower AND 3), phys_hi := lower AND m,
           hi_mask := m, bepi := upper AND m\<rparr>)"

definition ppc_ibat_update :: "nat \<Rightarrow> 'a mmu_scheme \<Rightarrow> 'a mmu_scheme" where
  "ppc_ibat_update bat_reg s =
     (let u = bat_reg - bat_reg mod 2; i = (bat_reg - 528) div 2
      in schedule_tlb_invalidation ITLB TLBE_FROM_TRANSLATION
           (s\<lparr>ibat_array := (ibat_array s)(i := bat_entry (spr s u) (spr s (u + 1)) (ibat_array s i))\<rparr>))"

definition ppc_dbat_update :: "nat \<Rightarrow> 'a mmu_scheme \<Rightarrow> 'a mmu_scheme" where
  "ppc_dbat_update bat_reg s =
     (let u = bat_reg - bat_reg mod 2; i = (bat_reg - 536) div 2
      in schedule_tlb_invalidation DTLB TLBE_FROM_TRANSLATION
           (s\<lparr>dbat_array := (dbat_array s)(i := bat_entry (spr s u) (spr s (u + 1)) (dbat_array s i))\<rparr>))"

text \<open>The function pointers that \<open>ppc_mmu_init\<close> sets by \<open>is_601\<close>.\<close>

definition ibat_update :: "nat \<Rightarrow> 'a mmu_scheme \<Rightarrow> 'a mmu_scheme" where
  "ibat_update bat_reg s = (if is_601 s then mpc601_bat_update bat_reg s else ppc_ibat_update bat_reg s)"

definition dbat_update :: "nat \<Rightarrow> 'a mmu_scheme \<Rightarrow> 'a mmu_scheme" where
  "dbat_update bat_reg s = (if is_601 s then mpc601_dbat_update bat_reg s else ppc_dbat_update bat_reg s)"

text \<open>Slots that belong to one of the arrays.\<close>

fun in_arrays :: "slot \<Rightarrow> bool" where
  "in_arrays (Slot ty l m i) \<longleftrightarrow>
     (l = 1 \<or> l = 2) \<and> m \<in> {1, 2, 3} \<and> i < (if l = 1 then TLB_SIZE else TLB_SIZE * TLB2_WAYS)"

definition invalidate_tlb_entries :: "(slot \<Rightarrow> TLBEntry) \<Rightarrow> slot \<Rightarrow> TLBEntry" where
  "invalidate_tlb_entries t p =
     (if in_arrays p then (t p)\<lparr>tag := TLB_INVALID_TAG, flags := 0, lru_bits := 0, host_va_offs_r := 0,
        host_va_offs_w := 0, phys_tag := 0\<rparr> else t p)"

definition ppc_mmu_init :: "'a mmu_scheme \<Rightarrow> 'a mmu_scheme" where
  "ppc_mmu_init s =
     (let s = s\<lparr>gPendingIInvalidationSources := 0, gPendingDInvalidationSources := 0,
                gTrackedIEntries := [], gTrackedDEntries := [],
                last_ptab_area := \<lparr>eid = 0, rstart = 0xFFFFFFFF, rend = 0xFFFFFFFF, mirror = 0, rtype = 0,
                                  devobj = None, mem_ptr = 0\<rparr>,
                mmu_exception_handler_dbg := False,
                tlb603 := (\<lambda>_ _ _. \<lparr>valid603 = False, vsid = 0, ea_tag = 0, pte_lo = 0\<rparr>),
                tlb603_lru := (\<lambda>_ _. 0)\<rparr>;
          s = fold ibat_update [528..<536] s;
          s = fold dbat_update [536..<544] s;
          s = s\<lparr>tlb := invalidate_tlb_entries (tlb s)\<rparr>
      in mmu_change_mode s)"

end
