(* ===== verification/PpcMmuInv.thy ===== *)
theory PpcMmuInv
  imports PpcMmu
begin

text \<open>
  The tracking invariant of the software TLBs through address translation: a fetch, a refill, a page walk, a TLB
  instruction or a BAT update, however it leaves, keeps it.
\<close>

subsection \<open>The tracking invariant through translation\<close>

text \<open>\<open>keeps P m\<close>: whichever way \<open>m\<close> leaves, \<open>P\<close> holds of the state it leaves in.\<close>

definition keeps :: "('s \<Rightarrow> bool) \<Rightarrow> ('v, 's) outcome \<Rightarrow> bool" where
  "keeps P m \<longleftrightarrow> (\<forall>t. final m = Some t \<longrightarrow> P t)"

lemma keeps_simps [simp]:
  "keeps P (Ret v s) = P s" "keeps P (LongJmp s) = P s" "keeps P (Throw msg s) = P s" "keeps P (Abort msg)"
  by (simp_all add: keeps_def)

lemma keeps_obind:
  "keeps P m \<Longrightarrow> (\<And>v s. P s \<Longrightarrow> keeps P (f v s)) \<Longrightarrow> keeps P (obind m f)"
  by (cases m) simp_all

definition mmu_ok :: "'a mmu_scheme \<Rightarrow> bool" where
  "mmu_ok s \<longleftrightarrow> tlb_inv s \<and> mode_ok s"

lemma mmu_ok_more: "cpu.more s = cpu.more t \<Longrightarrow> mmu_ok s = mmu_ok t" for s t :: "'a mmu_scheme"
  unfolding mmu_ok_def by (simp only: mmu_more_cong(5,6)[of s t])

lemma tracked_updates [simp]:
  "tracked ty (s\<lparr>last_ptab_area := a\<rparr>) = tracked ty s" "pending ty (s\<lparr>last_ptab_area := a\<rparr>) = pending ty s"
  "tracked ty (s\<lparr>mem_ctrl_instance := m\<rparr>) = tracked ty s" "pending ty (s\<lparr>mem_ctrl_instance := m\<rparr>) = pending ty s"
  "tracked ty (s\<lparr>tlb603_lru := l\<rparr>) = tracked ty s" "pending ty (s\<lparr>tlb603_lru := l\<rparr>) = pending ty s"
  "tracked ty (s\<lparr>tlb603 := k\<rparr>) = tracked ty s" "pending ty (s\<lparr>tlb603 := k\<rparr>) = pending ty s"
  "tracked ty (s\<lparr>ibat_array := b\<rparr>) = tracked ty s" "pending ty (s\<lparr>ibat_array := b\<rparr>) = pending ty s"
  "tracked ty (s\<lparr>dbat_array := b\<rparr>) = tracked ty s" "pending ty (s\<lparr>dbat_array := b\<rparr>) = pending ty s"
  by (cases ty; simp)+

lemma mmu_ok_updates [simp]:
  "mmu_ok (s\<lparr>last_ptab_area := a\<rparr>) = mmu_ok s" "mmu_ok (s\<lparr>mem_ctrl_instance := m\<rparr>) = mmu_ok s"
  "mmu_ok (s\<lparr>tlb603_lru := l\<rparr>) = mmu_ok s" "mmu_ok (s\<lparr>tlb603 := k\<rparr>) = mmu_ok s"
  "mmu_ok (s\<lparr>ibat_array := b\<rparr>) = mmu_ok s" "mmu_ok (s\<lparr>dbat_array := b\<rparr>) = mmu_ok s"
  by (simp_all add: mmu_ok_def tlb_inv_def slot_ok_def mode_ok_def)

lemma mmu_ok_regs [simp]:
  "mmu_ok (put_spr r v s) = mmu_ok s" "mmu_ok (put_host a w s) = mmu_ok s"
  by (rule mmu_ok_more, simp) (simp add: put_host_def)

lemma exc_state_ok: "mmu_ok s \<Longrightarrow> mmu_ok (exc_state e b r s)"
  by (simp add: mmu_ok_def exc_state_inv)

lemma keeps_exception: "mmu_ok s \<Longrightarrow> keeps mmu_ok (ppc_exception_handler e b s)"
proof -
  assume ok: "mmu_ok s"
  show ?thesis
  proof (cases "exc_srr0 e s")
    case None
    then show ?thesis using ok by (simp add: ppc_exception_handler_def)
  next
    case (Some r)
    have "mmu_ok ((exc_state e b r s)\<lparr>power_on := True\<rparr>) = mmu_ok (exc_state e b r s)"
      by (rule mmu_ok_more) simp
    then show ?thesis
      using exc_state_ok[OF ok] by (simp add: handler_eq[OF Some] Let_def)
  qed
qed

lemma keeps_handler: "mmu_ok s \<Longrightarrow> keeps mmu_ok (mmu_exception_handler e b s)"
  by (simp add: mmu_exception_handler_def keeps_exception)

lemma keeps_supervisor: "mmu_ok s \<Longrightarrow> (\<And>s. mmu_ok s \<Longrightarrow> keeps mmu_ok (f s)) \<Longrightarrow> keeps mmu_ok (supervisor f s)"
  by (simp add: supervisor_def keeps_exception)

lemma keeps_raise: "mmu_ok s \<Longrightarrow> keeps mmu_ok (raise_dsi c la w s)" "mmu_ok s \<Longrightarrow> keeps mmu_ok (raise_isi_dsi c la i w s)"
  by (simp_all add: raise_dsi_def raise_isi_dsi_def keeps_handler)

lemma keeps_miss: "mmu_ok s \<Longrightarrow> keeps mmu_ok (mpc603_tlb_miss la v i w k h s)"
  by (simp add: mpc603_tlb_miss_def Let_def keeps_handler)

lemma keeps_if: "(c \<Longrightarrow> keeps P m) \<Longrightarrow> (\<not> c \<Longrightarrow> keeps P m') \<Longrightarrow> keeps P (if c then m else m')"
  by simp

lemma keeps_option:
  "(x = None \<Longrightarrow> keeps P m) \<Longrightarrow> (\<And>v. x = Some v \<Longrightarrow> keeps P (f v)) \<Longrightarrow>
   keeps P (case x of None \<Rightarrow> m | Some v \<Rightarrow> f v)"
  by (cases x) simp_all

lemmas keeps_intros = keeps_obind keeps_if keeps_option keeps_miss keeps_raise keeps_handler

lemma keeps_603: "mmu_ok s \<Longrightarrow> keeps mmu_ok (mpc603_page_address_translation la v i p w s)"
  unfolding mpc603_page_address_translation_def Let_def
  by (intro keeps_intros) simp_all

lemma keeps_find_pte: "mmu_ok s \<Longrightarrow> keeps mmu_ok (find_pte la v s)"
proof -
  have c: "mmu_ok s \<Longrightarrow> keeps mmu_ok (calc_pteg_addr h s)" for h and s :: "'a mmu_scheme"
    by (simp add: calc_pteg_addr_def Let_def split: option.splits)
  show "mmu_ok s \<Longrightarrow> keeps mmu_ok (find_pte la v s)"
    unfolding find_pte_def Let_def by (intro keeps_intros c) simp_all
qed

lemma keeps_page: "mmu_ok s \<Longrightarrow> keeps mmu_ok (page_address_translation la i p w s)"
  unfolding page_address_translation_def Let_def
  by (intro keeps_intros keeps_603 keeps_find_pte) (simp_all add: update_rc_def Let_def)

subsection \<open>Refills\<close>

lemma mode_ok_tlb: "mode_ok (s\<lparr>tlb := t\<rparr>) = mode_ok s" "mode_ok (put_tracked ty v s) = mode_ok s"
  "mode_ok (put_pending ty w s) = mode_ok s" "mode_ok (s\<lparr>gCtxSyncCallbacks := c\<rparr>) = mode_ok s"
  "mode_ok (s\<lparr>gTrackedIEntries := v\<rparr>) = mode_ok s" "mode_ok (s\<lparr>gTrackedDEntries := v\<rparr>) = mode_ok s"
  by (cases ty; simp add: mode_ok_def)+

lemma mode_ok_ops [simp]:
  "mode_ok (track_translated_entry ty p s) = mode_ok s" "mode_ok (put_lru f b s) = mode_ok s"
  "mode_ok (tlb2_touch_way w b s) = mode_ok s" "mode_ok (tlb_flush_pat_page ty ea s) = mode_ok s"
  "mode_ok (promote_tlb_entry ty p1 p2 s) = mode_ok s" "mode_ok (schedule_tlb_invalidation ty src s) = mode_ok s"
  "mode_ok (tlb_flush_all_pat s) = mode_ok s"
  by (simp_all add: track_translated_entry_def put_lru_def tlb2_touch_way_def tlb_flush_pat_page_def
      promote_tlb_entry_def schedule_tlb_invalidation_def add_ctx_sync_action_def tlb_flush_all_pat_def
      tlb_invalidate_tracked_def Let_def mode_ok_tlb split: prod.splits)

lemma promote_ok: "mmu_ok s \<Longrightarrow> slot_type p1 = ty \<Longrightarrow> mmu_ok (promote_tlb_entry ty p1 p2 s)"
  by (simp add: mmu_ok_def promote_inv)

lemma slot_type_way [simp]: "slot_type (way b w) = slot_type b"
  by (cases b) simp

lemma target_slot: "tlb2_target_entry ty tg s = (p, t) \<Longrightarrow> slot_type p = ty"
  by (auto simp: tlb2_target_entry_def Let_def set2_def)

lemma fill_slot_ok:
  assumes "mmu_ok s" "\<And>e. tst (flags (f e)) TLBE_CTX_TRACKED = tst (flags e) TLBE_CTX_TRACKED"
  shows "mmu_ok (snd (fill_slot ty tg f s))"
proof -
  obtain p t where pt: "tlb2_target_entry ty tg s = (p, t)" by (cases "tlb2_target_entry ty tg s")
  have "tlb_inv t" using target_inv[of s ty tg] assms(1) pt by (simp add: mmu_ok_def)
  then have "tlb_inv (track_translated_entry ty p (t\<lparr>tlb := (tlb t)(p := f (tlb t p))\<rparr>))"
    using target_slot[OF pt] assms(2) by (intro tlb_inv_fill) simp_all
  moreover have "mode_ok t" using pt assms(1) by (auto simp: tlb2_target_entry_def Let_def mmu_ok_def)
  ultimately show ?thesis by (simp add: fill_slot_def pt mmu_ok_def mode_ok_tlb)
qed

lemma tst_keep_tracked:
  "fl AND TLBE_CTX_TRACKED = 0 \<Longrightarrow> tst (fl OR (g AND TLBE_CTX_TRACKED)) TLBE_CTX_TRACKED = tst g TLBE_CTX_TRACKED"
  for fl g :: u16
  by (simp add: tst_def bit.conj_disj_distrib2 and.assoc)

lemma itlb_flags: "itlb_translate va s = Ret (ph, fl) t \<Longrightarrow> fl \<in> {TLBE_FROM_BAT, TLBE_FROM_PAT, 0}"
  by (auto simp: itlb_translate_def Let_def obind_eq_Ret split: if_splits)

lemma dtlb_flags: "dtlb_translate va w s = Ret (ph, fl) t \<Longrightarrow> fl AND TLBE_CTX_TRACKED = 0"
  by (auto simp: dtlb_translate_def Let_def obind_eq_Ret bit.conj_disj_distrib2 split: if_splits)

lemma keeps_translate:
  "mmu_ok s \<Longrightarrow> keeps mmu_ok (itlb_translate va s)" "mmu_ok s \<Longrightarrow> keeps mmu_ok (dtlb_translate va w s)"
  unfolding itlb_translate_def dtlb_translate_def Let_def
  by (intro keeps_intros keeps_page; simp)+

lemma keeps_obind_Ret:
  "keeps P m \<Longrightarrow> (\<And>v s. m = Ret v s \<Longrightarrow> P s \<Longrightarrow> keeps P (f v s)) \<Longrightarrow> keeps P (obind m f)"
  by (cases m) simp_all

lemma keeps_fill:
  assumes "mmu_ok t" "\<And>e. tst (flags (f e)) TLBE_CTX_TRACKED = tst (flags e) TLBE_CTX_TRACKED"
  shows "keeps mmu_ok (case fill_slot ty tg f t of (p, s) \<Rightarrow> Ret (g p) s)"
  using fill_slot_ok[OF assms, of ty tg] by (cases "fill_slot ty tg f t") simp

lemma keeps_refill:
  assumes "mmu_ok s"
  shows "keeps mmu_ok (itlb2_refill va s)" "keeps mmu_ok (dtlb2_refill va w s)"
proof -
  have k: "tst (fl OR PAGE_MEM OR (g AND TLBE_CTX_TRACKED)) TLBE_CTX_TRACKED = tst g TLBE_CTX_TRACKED"
    "tst (fl OR PAGE_IO OR (g AND TLBE_CTX_TRACKED)) TLBE_CTX_TRACKED = tst g TLBE_CTX_TRACKED"
    if "fl AND TLBE_CTX_TRACKED = 0" for fl g :: u16
    using that tst_keep_tracked[of "fl OR PAGE_MEM" g] tst_keep_tracked[of "fl OR PAGE_IO" g]
    by (simp_all add: bit.conj_disj_distrib2 or.assoc)
  show "keeps mmu_ok (itlb2_refill va s)"
    unfolding itlb2_refill_def
  proof (rule keeps_obind_Ret[OF keeps_translate(1)[OF assms]], clarify)
    fix ph fl and t :: "'a mmu_scheme"
    assume "itlb_translate va s = Ret (ph, fl) t" "mmu_ok t"
    moreover from this(1) have "fl AND TLBE_CTX_TRACKED = 0" using itlb_flags by fastforce
    ultimately show "keeps mmu_ok (case find_range (mem_ctrl_instance t) ph of
         None \<Rightarrow> Abort ''Instruction fetch from unmapped memory''
       | Some rgn \<Rightarrow>
           if tst (rtype rgn) RT_MMIO then Abort ''Instruction fetch from MMIO region''
           else
             let (p, s) = fill_slot ITLB (page_tag va) (\<lambda>e. e\<lparr>tag := page_tag va,
                   flags := fl OR PAGE_MEM OR (flags e AND TLBE_CTX_TRACKED),
                   host_va_offs_r := mem_offset rgn va ph,
                   phys_tag := page_tag ph\<rparr>) t
             in Ret p s)"
      unfolding Let_def by (intro keeps_if keeps_option keeps_fill) (simp_all add: k)
  qed
  show "keeps mmu_ok (dtlb2_refill va w s)"
    unfolding dtlb2_refill_def
  proof (rule keeps_obind_Ret[OF keeps_translate(2)[OF assms]], clarify)
    fix ph fl and t :: "'a mmu_scheme"
    assume t: "dtlb_translate va w s = Ret (ph, fl) t" "mmu_ok t"
    have fl: "fl AND TLBE_CTX_TRACKED = 0" by (rule dtlb_flags[OF t(1)])
    show "keeps mmu_ok (let tg = page_tag va
       in case find_range (mem_ctrl_instance t) ph of
         None \<Rightarrow> Ret None t
       | Some rgn \<Rightarrow>
           let (p, s) = fill_slot DTLB tg (\<lambda>e.
                 (if tst (rtype rgn) RT_MMIO then
                    e\<lparr>tag := tg, flags := fl OR PAGE_IO OR (flags e AND TLBE_CTX_TRACKED),
                      rgn_desc := Some rgn, dev_base_va := ucast (va - (ph - rstart rgn)),
                      phys_tag := page_tag ph\<rparr>
                  else
                    e\<lparr>tag := tg, flags := fl OR PAGE_MEM OR (flags e AND TLBE_CTX_TRACKED),
                      host_va_offs_r := mem_offset rgn va ph,
                      host_va_offs_w := (if tst (rtype rgn) RT_ROM then dummy_page t - ucast tg
                                         else mem_offset rgn va ph),
                      phys_tag := page_tag ph\<rparr>)) t
           in Ret (Some p) s)"
      unfolding Let_def using t(2) by (intro keeps_if keeps_option keeps_fill) (simp_all add: k[OF fl])
  qed
qed

lemma keeps_imem: "mmu_ok s \<Longrightarrow> keeps mmu_ok (mmu_translate_imem va s)"
proof -
  assume ok: "mmu_ok s"
  obtain p1 matched ph t where l: "lookup_tlb ITLB va (page_tag va) s = ((p1, matched, ph), t)"
    by (metis surj_pair)
  have t: "mmu_ok t" "slot_type p1 = ITLB"
    using ok lookup_tlb_inv[of s ITLB va "page_tag va"] l
    by (auto simp: mmu_ok_def lookup_tlb_def lookup_secondary_tlb_def Let_def split: if_splits prod.splits)
  show ?thesis
    unfolding mmu_translate_imem_def Let_def l prod.case
    using t by (intro keeps_if keeps_obind keeps_option keeps_refill) (simp_all add: promote_ok)
qed

lemma keeps_prepare: "mmu_ok s \<Longrightarrow> keeps mmu_ok (prepare_dtlb_write p va s)"
proof -
  have "mmu_ok (t\<lparr>tlb := (tlb t)(p := (tlb t p)\<lparr>flags := flags (tlb t p) OR PTE_SET_C\<rparr>)\<rparr>)"
    if "mmu_ok t" for t :: "'a mmu_scheme"
  proof -
    have f: "tst (f OR 0x40) 0x80 = tst f 0x80" "tst (f OR 0x40) 0x18 = tst f 0x18" for f :: u16
      by (simp_all add: tst_def bit.conj_disj_distrib2)
    show ?thesis using that by (auto simp: mmu_ok_def mode_ok_tlb tlb_inv_def slot_ok_def f)
  qed
  then show "mmu_ok s \<Longrightarrow> ?thesis"
    unfolding prepare_dtlb_write_def by (intro keeps_if keeps_obind keeps_page keeps_raise) simp_all
qed

lemma keeps_tlb_ops:
  assumes "mmu_ok s"
  shows "mmu_ok (mmu_603_tlb_load ty ea s)" "mmu_ok (ibat_update r s)" "mmu_ok (dbat_update r s)"
    "keeps mmu_ok (ppc_tlbie opcode s)"
proof -
  have fl: "mmu_ok (tlb_flush_pat_page ty ea s) " if "mmu_ok s" for ea and s :: "'a mmu_scheme"
    using that by (simp add: mmu_ok_def flush_pat_page_inv)
  have sch: "mmu_ok (schedule_tlb_invalidation ty TLBE_FROM_TRANSLATION s)" if "mmu_ok s" for ty and s :: "'a mmu_scheme"
    using that by (simp add: mmu_ok_def schedule_inv)
  show "mmu_ok (mmu_603_tlb_load ty ea s)"
    unfolding mmu_603_tlb_load_def Let_def by (intro fl) (use assms fl in simp)
  show "mmu_ok (ibat_update r s)" "mmu_ok (dbat_update r s)"
    unfolding ibat_update_def dbat_update_def mpc601_bat_update_def mpc601_dbat_update_def ppc_ibat_update_def
      ppc_dbat_update_def Let_def using assms by (auto intro!: sch)
  have pa: "mmu_ok (tlb_flush_all_pat t)" if "mmu_ok t" for t :: "'a mmu_scheme"
    using that flush_all_pat_inv(1)[of t] by (simp add: mmu_ok_def)
  show "keeps mmu_ok (ppc_tlbie opcode s)"
    unfolding ppc_tlbie_def Let_def
    by (intro keeps_supervisor[OF assms]) (simp add: pa mmu_603_tlb_invalidate_set_def)
qed

end
