(* ===== verification/PpcMmuFetch.thy ===== *)
theory PpcMmuFetch
  imports PpcMmuInv
begin

text \<open>
  Instruction fetch translation: what a successful translation leaves alone, the refill of the
  software TLBs, and that the fast path agrees with the slow one.
\<close>

subsection \<open>Instruction fetch\<close>

lemma handler_no_Ret:
  "e \<noteq> EXC_EXT_INT \<Longrightarrow> e \<noteq> EXC_DECR \<Longrightarrow> mmu_exception_handler e b s \<noteq> Ret u t"
  by (simp add: mmu_exception_handler_def ppc_exception_handler_def Let_def split: option.splits)

lemma raise_no_Ret: "raise_dsi c la w s \<noteq> Ret u t" "raise_isi_dsi c la i w s \<noteq> Ret u t"
  "mpc603_tlb_miss la v i w k h s \<noteq> Ret u t"
  by (simp_all add: raise_dsi_def raise_isi_dsi_def mpc603_tlb_miss_def Let_def handler_no_Ret)

text \<open>\<open>rets P m\<close>: when \<open>m\<close> returns, \<open>P\<close> holds of the state.\<close>

definition rets :: "('s \<Rightarrow> bool) \<Rightarrow> ('v, 's) outcome \<Rightarrow> bool" where
  "rets P m \<longleftrightarrow> (\<forall>v t. m = Ret v t \<longrightarrow> P t)"

lemma rets_simps [simp]: "rets P (Ret v s) = P s" "rets P (Abort msg)"
  by (simp_all add: rets_def)

lemma rets_obind: "rets P m \<Longrightarrow> (\<And>v s. P s \<Longrightarrow> rets P (f v s)) \<Longrightarrow> rets P (obind m f)"
  by (simp add: rets_def obind_eq_Ret) blast

lemma rets_if: "(c \<Longrightarrow> rets P m) \<Longrightarrow> (\<not> c \<Longrightarrow> rets P m') \<Longrightarrow> rets P (if c then m else m')"
  by simp

lemma rets_option:
  "(x = None \<Longrightarrow> rets P m) \<Longrightarrow> (\<And>v. x = Some v \<Longrightarrow> rets P (f v)) \<Longrightarrow>
   rets P (case x of None \<Rightarrow> m | Some v \<Rightarrow> f v)"
  by (cases x) simp_all

lemma rets_raise:
  "rets P (raise_dsi c la w s)" "rets P (raise_isi_dsi c la i w s)" "rets P (mpc603_tlb_miss la v i w k h s)"
  "rets P (mmu_exception_handler EXC_ISI b s)"
  by (simp_all add: rets_def raise_no_Ret handler_no_Ret)

lemmas rets_intros = rets_obind rets_if rets_option rets_raise

text \<open>
  What a successful translation leaves alone: everything but the cached page table region, the
  bytes of host memory and the replacement bits of the 603 TLBs.
\<close>

definition visible :: "'a mmu_scheme \<Rightarrow> 'a mmu_scheme" where
  "visible s = s\<lparr>last_ptab_area := last_ptab_area static_mmu, tlb603_lru := (\<lambda>_ _. 0),
     mem_ctrl_instance := (mem_ctrl_instance s)\<lparr>host_mem := (\<lambda>_. 0)\<rparr>\<rparr>"

definition same_tlb :: "'a mmu_scheme \<Rightarrow> 'a mmu_scheme \<Rightarrow> bool" where
  "same_tlb s t \<longleftrightarrow> visible s = visible t"

lemma same_tlb_simps [simp]:
  "same_tlb s s" "same_tlb s (t\<lparr>last_ptab_area := a\<rparr>) = same_tlb s t" "same_tlb s (t\<lparr>tlb603_lru := l\<rparr>) = same_tlb s t"
  "same_tlb s (put_host x v t) = same_tlb s t"
  by (simp_all add: same_tlb_def visible_def put_host_def)

lemma same_tlb_sel:
  assumes "same_tlb s t"
  shows "tlb s = tlb t" "cur1 ty s = cur1 ty t" "cur2 ty s = cur2 ty t" "msr s = msr t"
    "address_map (mem_ctrl_instance s) = address_map (mem_ctrl_instance t)"
proof -
  have v: "f (visible s) = f (visible t)" for f :: "_ \<Rightarrow> 'z" using assms by (simp add: same_tlb_def)
  show "tlb s = tlb t" "msr s = msr t" using v[of tlb] v[of msr] by (simp_all add: visible_def)
  show "cur1 ty s = cur1 ty t" "cur2 ty s = cur2 ty t"
    using v[of "cur1 ty"] v[of "cur2 ty"] by (cases ty; simp add: visible_def)+
  show "address_map (mem_ctrl_instance s) = address_map (mem_ctrl_instance t)"
    using v[of "\<lambda>s. address_map (mem_ctrl_instance s)"] by (simp add: visible_def)
qed

lemma find_pte_same: "same_tlb u s \<Longrightarrow> rets (same_tlb u) (find_pte la v s)"
proof -
  have c: "same_tlb u s \<Longrightarrow> rets (same_tlb u) (calc_pteg_addr h s)" for h and s :: "'a mmu_scheme"
    by (simp add: calc_pteg_addr_def Let_def split: option.splits)
  assume "same_tlb u s"
  then show ?thesis unfolding find_pte_def Let_def by (intro rets_intros c) simp_all
qed

lemma page_translation_same: "same_tlb u s \<Longrightarrow> rets (same_tlb u) (page_address_translation la i p w s)"
  unfolding page_address_translation_def mpc603_page_address_translation_def Let_def
  by (intro rets_intros find_pte_same) (simp_all add: update_rc_def Let_def)

lemma itlb_translate_same: "rets (same_tlb s) (itlb_translate va s)"
  unfolding itlb_translate_def Let_def by (intro rets_intros page_translation_same) simp_all

lemma track_entry:
  "tag (tlb (track_translated_entry ty p s) q) = tag (tlb s q)"
  "host_va_offs_r (tlb (track_translated_entry ty p s) q) = host_va_offs_r (tlb s q)"
  "phys_tag (tlb (track_translated_entry ty p s) q) = phys_tag (tlb s q)"
  "cur1 ty' (track_translated_entry ty p s) = cur1 ty' s"
  by (cases ty; cases ty'; simp add: track_translated_entry_def Let_def)+

lemma touch_sel:
  "tag (tlb (tlb2_touch_way w b s) q) = tag (tlb s q)" "host_va_offs_r (tlb (tlb2_touch_way w b s) q) = host_va_offs_r (tlb s q)"
  "phys_tag (tlb (tlb2_touch_way w b s) q) = phys_tag (tlb s q)" "cur1 ty (tlb2_touch_way w b s) = cur1 ty s"
  by (cases ty; simp add: tlb2_touch_way_def put_lru_def)+


lemma lookup_cases:
  assumes "lookup_tlb ty va tg s = ((p1, m, ph), t)"
  shows "p1 = Slot ty 1 (cur1 ty s) (tlb_index va)" "ph \<Longrightarrow> t = s \<and> tag (tlb s p1) = tg" "cur1 ty' t = cur1 ty' s"
    "m = Some p2 \<Longrightarrow> tag (tlb t p2) = tg" "m = None \<Longrightarrow> t = s"
  using assms by (auto simp: lookup_tlb_def lookup_secondary_tlb_def Let_def touch_sel split: if_splits prod.splits)

lemma lookup_primary:
  "tag (tlb s (Slot ty 1 (cur1 ty s) (tlb_index va))) = tg \<Longrightarrow>
   lookup_tlb ty va tg s = ((Slot ty 1 (cur1 ty s) (tlb_index va), Some (Slot ty 1 (cur1 ty s) (tlb_index va)), True), s)"
  by (simp add: lookup_tlb_def Let_def)

lemma itlb2_refill_Ret:
  assumes "itlb2_refill va s = Ret p t"
  obtains ph fl u rgn where "itlb_translate va s = Ret (ph, fl) u" "find_range (mem_ctrl_instance u) ph = Some rgn"
    "tag (tlb t p) = page_tag va" "host_va_offs_r (tlb t p) = mem_offset rgn va ph"
    "phys_tag (tlb t p) = page_tag ph" "cur1 ITLB t = cur1 ITLB s"
proof -
  from assms obtain ph fl u where u: "itlb_translate va s = Ret (ph, fl) u"
    by (auto simp: itlb2_refill_def obind_eq_Ret)
  then have c: "cur1 ITLB u = cur1 ITLB s"
    using itlb_translate_same[of s va] same_tlb_sel(2)[of s u ITLB] by (simp add: rets_def)
  from assms u obtain rgn where r: "find_range (mem_ctrl_instance u) ph = Some rgn" "\<not> tst (rtype rgn) RT_MMIO"
    by (auto simp: itlb2_refill_def split: option.splits if_splits)
  obtain q v where q: "tlb2_target_entry ITLB (page_tag va) u = (q, v)"
    by (cases "tlb2_target_entry ITLB (page_tag va) u")
  then obtain w b where "v = tlb2_touch_way w b u" by (simp add: tlb2_target_entry_def Let_def) blast
  then have v: "cur1 ITLB v = cur1 ITLB u" by (simp only: touch_sel)
  show thesis
    using that[OF u r(1)] assms u r(2) q c v
    by (auto simp: itlb2_refill_def r fill_slot_def track_entry track_entry(4)[where ty' = ITLB, simplified])
qed

lemma promote_sel:
  "tag (tlb (promote_tlb_entry ty p1 p2 s) p1) = tag (tlb s p2)"
  "host_va_offs_r (tlb (promote_tlb_entry ty p1 p2 s) p1) = host_va_offs_r (tlb s p2)"
  "phys_tag (tlb (promote_tlb_entry ty p1 p2 s) p1) = phys_tag (tlb s p2)"
  "cur1 ty' (promote_tlb_entry ty p1 p2 s) = cur1 ty' s"
  by (simp_all add: promote_tlb_entry_def Let_def track_entry) (cases ty'; simp)

lemma tlb_index_page: "page_tag va' = page_tag va \<Longrightarrow> tlb_index va' = tlb_index va"
proof -
  assume "page_tag va' = page_tag va"
  then have "drop_bit 12 va' AND 0xFFFFF = drop_bit 12 va AND 0xFFFFF"
    using drop_bit_and[of 12 va' "NOT 0xFFF"] drop_bit_and[of 12 va "NOT 0xFFF"] by (simp add: page_tag_def)
  then have "drop_bit 12 va' AND 0xFFFFF AND 0xFFF = drop_bit 12 va AND 0xFFFFF AND 0xFFF"
    by (simp only: and.assoc[symmetric])
  then show ?thesis by (simp add: tlb_index_def)
qed

lemma and_or_mask: "(x AND m) OR m = m" for x m :: u32
  by (simp add: bit_eq_iff bit_simps)

text \<open>The state after a successful fetch translation holds the page in its primary slot.\<close>

lemma imem_Ret:
  assumes "mmu_translate_imem va s = Ret (h, pa) t"
  defines "p \<equiv> Slot ITLB 1 (cur1 ITLB s) (tlb_index va)"
  shows "cur1 ITLB t = cur1 ITLB s" "tag (tlb t p) = page_tag va" "h = host_va_offs_r (tlb t p) + ucast va"
    "pa = phys_tag (tlb t p) OR (va AND 0xFFF)"
proof -
  obtain p1 m ph u where l: "lookup_tlb ITLB va (page_tag va) s = ((p1, m, ph), u)" by (metis surj_pair)
  note c = lookup_cases[OF l]
  have p: "p1 = p" using c(1) by (simp add: p_def)
  have "cur1 ITLB t = cur1 ITLB s \<and> tag (tlb t p) = page_tag va \<and> h = host_va_offs_r (tlb t p) + ucast va \<and>
    pa = phys_tag (tlb t p) OR (va AND 0xFFF)"
  proof (cases ph)
    case True
    then show ?thesis using assms(1) c(2) p by (auto simp: mmu_translate_imem_def l)
  next
    case False
    then obtain p2 v where v: "(case m of Some p2 \<Rightarrow> Ret p2 u | None \<Rightarrow> itlb2_refill va u) = Ret p2 v"
      "t = promote_tlb_entry ITLB p p2 v" "h = host_va_offs_r (tlb t p) + ucast va" "pa = phys_tag (tlb t p) OR (va AND 0xFFF)"
      using assms(1) p by (auto simp: mmu_translate_imem_def l obind_eq_Ret)
    then have "tag (tlb v p2) = page_tag va \<and> cur1 ITLB v = cur1 ITLB u"
      using c(4) by (auto split: option.splits elim: itlb2_refill_Ret)
    then show ?thesis using v c(3) by (simp add: promote_sel)
  qed
  then show "cur1 ITLB t = cur1 ITLB s" "tag (tlb t p) = page_tag va" "h = host_va_offs_r (tlb t p) + ucast va"
    "pa = phys_tag (tlb t p) OR (va AND 0xFFF)" by simp_all
qed

text \<open>
  C27: Instruction fetch through the software TLBs. A translation that misses both levels gives
  the host address of the translated physical address in the region that holds it; afterwards
  every address on the same page is translated by the primary level alone, consistently with
  the first one and without changing the state.
\<close>

theorem imem_translation:
  assumes "mmu_translate_imem va s = Ret (h, pa) t" "page_tag va' = page_tag va"
  shows "(\<exists>pa'. mmu_translate_imem va' t = Ret (h + ucast va' - ucast va, pa') t \<and> pa' OR 0xFFF = pa OR 0xFFF) \<and>
     (fst (snd (fst (lookup_tlb ITLB va (page_tag va) s))) = None \<longrightarrow>
        (\<exists>ph fl u rgn. itlb_translate va s = Ret (ph, fl) u \<and> find_range (mem_ctrl_instance s) ph = Some rgn \<and>
           h = mem_ptr rgn + ucast (ph - rstart rgn) \<and> pa = (page_tag ph) OR (va AND 0xFFF)))"
proof (intro conjI impI)
  note r = imem_Ret[OF assms(1)]
  let ?p = "Slot ITLB 1 (cur1 ITLB s) (tlb_index va)"
  have "lookup_tlb ITLB va' (page_tag va') t = ((?p, Some ?p, True), t)"
    using lookup_primary[of t ITLB va' "page_tag va'"] r(1,2) assms(2) tlb_index_page[OF assms(2)] by simp
  then show "\<exists>pa'. mmu_translate_imem va' t = Ret (h + ucast va' - ucast va, pa') t \<and> pa' OR 0xFFF = pa OR 0xFFF"
    using r(3,4) by (simp add: mmu_translate_imem_def or.assoc and_or_mask)
next
  assume n: "fst (snd (fst (lookup_tlb ITLB va (page_tag va) s))) = None"
  then have l: "lookup_tlb ITLB va (page_tag va) s = ((Slot ITLB 1 (cur1 ITLB s) (tlb_index va), None, False), s)"
    by (auto simp: lookup_tlb_def lookup_secondary_tlb_def Let_def split: if_splits)
  let ?p = "Slot ITLB 1 (cur1 ITLB s) (tlb_index va)"
  obtain p2 v where v: "itlb2_refill va s = Ret p2 v" "t = promote_tlb_entry ITLB ?p p2 v"
    "h = host_va_offs_r (tlb t ?p) + ucast va" "pa = phys_tag (tlb t ?p) OR (va AND 0xFFF)"
    using assms(1) by (auto simp: mmu_translate_imem_def l obind_eq_Ret)
  obtain ph fl u rgn where u: "itlb_translate va s = Ret (ph, fl) u" "find_range (mem_ctrl_instance u) ph = Some rgn"
    "host_va_offs_r (tlb v p2) = mem_offset rgn va ph" "phys_tag (tlb v p2) = page_tag ph"
    using itlb2_refill_Ret[OF v(1)] by metis
  have "find_range (mem_ctrl_instance s) ph = find_range (mem_ctrl_instance u) ph"
    using itlb_translate_same[of s va] u(1) same_tlb_sel(5)[of s u] by (simp add: rets_def find_range_def)
  moreover have "h = mem_ptr rgn + ucast (ph - rstart rgn)" "pa = (page_tag ph) OR (va AND 0xFFF)"
    using v(2-4) u(3,4) by (simp_all add: promote_sel mem_offset_def)
  ultimately show "\<exists>ph fl u rgn. itlb_translate va s = Ret (ph, fl) u \<and> find_range (mem_ctrl_instance s) ph = Some rgn \<and>
           h = mem_ptr rgn + ucast (ph - rstart rgn) \<and> pa = (page_tag ph) OR (va AND 0xFFF)"
    using u(1,2) by auto
qed


text \<open>A machine with one RAM region at 0, translation off, as \<open>ppc_mmu_init\<close> leaves it.\<close>

definition ram_mmu :: mmu where
  "ram_mmu = static_mmu\<lparr>tlb := (\<lambda>_. UnmappedMem), pCurITLB1 := 1, pCurITLB2 := 1, pCurDTLB1 := 1, pCurDTLB2 := 1,
     CurITLBMode := 0, CurDTLBMode := 0,
     mem_ctrl_instance := \<lparr>address_map = [\<lparr>eid = 1, rstart = 0, rend = 0xFFFFFF, mirror = 0, rtype = RT_RAM,
        devobj = None, mem_ptr = 0x7F0000000000\<rparr>], mem_regions = [0x7F0000000000], host_mem = (\<lambda>_. 0)\<rparr>\<rparr>"

lemma ram_mmu_fetch: "\<exists>t. mmu_translate_imem 0x1234 ram_mmu = Ret (0x7F0000001234, 0x1234) t"
proof -
  have sel: "tlb ram_mmu = (\<lambda>_. UnmappedMem)" "msr ram_mmu = 0"
    "address_map (mem_ctrl_instance ram_mmu) = [\<lparr>eid = 1, rstart = 0, rend = 0xFFFFFF, mirror = 0, rtype = RT_RAM,
        devobj = None, mem_ptr = 0x7F0000000000\<rparr>]"
    by (simp_all add: ram_mmu_def static_mmu_def)
  have "lookup_tlb ITLB 0x1234 (page_tag 0x1234) ram_mmu = ((Slot ITLB 1 (cur1 ITLB ram_mmu) (tlb_index 0x1234), None, False), ram_mmu)"
    by (simp add: lookup_tlb_def lookup_secondary_tlb_def Let_def sel UnmappedMem_def page_tag_def)
  moreover have "itlb_translate 0x1234 ram_mmu = Ret (0x1234, 0) ram_mmu"
    by (simp add: itlb_translate_def sel tst_def)
  ultimately show ?thesis
    by (simp add: mmu_translate_imem_def itlb2_refill_def find_range_def sel tst_def fill_slot_def promote_sel
        track_entry mem_offset_def page_tag_def split: prod.splits)
qed

theorem imem_translation_witness:
  "\<exists>t pa. mmu_translate_imem 0x1234 ram_mmu = Ret (0x7F0000001234, 0x1234) t \<and>
     mmu_translate_imem 0x1FFC t = Ret (0x7F0000001FFC, pa) t"
proof -
  obtain t where t: "mmu_translate_imem 0x1234 ram_mmu = Ret (0x7F0000001234, 0x1234) t" using ram_mmu_fetch by blast
  have p: "page_tag 0x1FFC = page_tag 0x1234" by (simp add: page_tag_def)
  show ?thesis using imem_translation[OF t p] t by auto
qed

end
