(* ===== verification/PpcMmuTables.thy ===== *)
theory PpcMmuTables
  imports PpcMmuFetch
begin

text \<open>
  Block translation, the place of the hashed page table and the software-loaded TLBs of the 603
  against what the architecture asks of them.
\<close>

subsection \<open>Block translation\<close>

lemma and_split: "(x AND m) OR (y AND NOT m) = (x AND m) + (y AND NOT m)" for x y m :: u32
proof -
  have "(x AND m) AND (y AND NOT m) = 0" by (simp add: bit_eq_iff bit_simps)
  then show ?thesis by (simp add: disjunctive_add_eq_or)
qed

lemma and_rest: "(x AND m) OR (la AND NOT m) = (x AND m) + (la - (la AND m))" for x la m :: u32
  using and_split[of la m la] and_split[of x m la]
  by (simp add: bit.conj_disj_distrib[symmetric] algebra_simps)

lemma schedule_sel [simp]:
  "ibat_array (schedule_tlb_invalidation ty src s) = ibat_array s" "dbat_array (schedule_tlb_invalidation ty src s) = dbat_array s"
  "msr (schedule_tlb_invalidation ty src s) = msr s"
  by (cases ty; simp add: schedule_tlb_invalidation_def add_ctx_sync_action_def Let_def)+

lemma ctx_sync_bats [simp]: "ibat_array (do_ctx_sync s) = ibat_array s" "dbat_array (do_ctx_sync s) = dbat_array s"
  using do_ctx_sync_frame[of s] by auto

lemma find_first: "i < 4 \<Longrightarrow> P i \<Longrightarrow> (\<And>j. j < i \<Longrightarrow> \<not> P j) \<Longrightarrow> find P [0, 1, 2, 3] = Some (i :: nat)"
  by (auto simp: less_Suc_eq numeral_eq_Suc)

text \<open>Block \<open>i\<close> of a BAT array covers \<open>la\<close> for the current privilege level.\<close>

definition bat_covers :: "(nat \<Rightarrow> PPC_BAT_entry) \<Rightarrow> bool \<Rightarrow> nat \<Rightarrow> u32 \<Rightarrow> bool" where
  "bat_covers bats pr i la \<longleftrightarrow> bit (access (bats i)) (if pr then 0 else 1) \<and> la AND hi_mask (bats i) = bepi (bats i)"

lemma access_test: "access e AND (push_bit 1 (of_flag (\<not> pr)) OR of_flag pr) \<noteq> 0 \<longleftrightarrow> bit (access e) (if pr then 0 else 1)"
  using tst_pow2[of "access e" 1] by (cases pr) (auto simp: tst_def and_one_eq bit_0 mod_2_eq_odd)

text \<open>
  C28: A BAT register pair takes effect at the next context synchronization. After \<open>mtspr\<close> has
  updated block \<open>i\<close> and \<open>isync\<close> has run, nothing translated before is left in the software TLB of
  that side, and every address of the block that no lower block covers is translated to the
  same offset in the physical block, with the protection bits of the pair.
\<close>

theorem bat_update_takes_effect:
  fixes s :: "'a mmu_scheme"
  assumes "tlb_inv s" "i < 4" "reg = (if ty = ITLB then 528 else 536) + 2 * i"
  defines "t \<equiv> do_ctx_sync (if ty = ITLB then ppc_ibat_update reg s else ppc_dbat_update reg s)"
  defines "bats \<equiv> if ty = ITLB then ibat_array t else dbat_array t"
  assumes "bat_covers bats (tst (msr s) MSR_PR) i la" "\<forall>j<i. \<not> bat_covers bats (tst (msr s) MSR_PR) j la"
  shows "flushed ty TLBE_FROM_TRANSLATION t \<and> tlb_inv t \<and>
    (let m = NOT (push_bit 17 (drop_bit 2 (spr s reg) AND 0x7FF) OR 0x1FFFF)
     in ppc_block_address_translation ty la t =
        \<lparr>hit = True, bat_prot = ucast (spr s (reg + 1) AND 3),
         bat_phys = (spr s (reg + 1) AND m) + (la - (spr s reg AND m))\<rparr>)"
proof -
  have r: "reg - reg mod 2 = reg" "(reg - (if ty = ITLB then 528 else 536)) div 2 = i"
    using assms(3) by (auto split: if_splits)
  let ?u = "if ty = ITLB then ppc_ibat_update reg s else ppc_dbat_update reg s"
  let ?e = "bat_entry (spr s reg) (spr s (reg + 1)) (if ty = ITLB then ibat_array s i else dbat_array s i)"
  define x where "x = (if ty = ITLB then s\<lparr>ibat_array := (ibat_array s)(i := ?e)\<rparr> else s\<lparr>dbat_array := (dbat_array s)(i := ?e)\<rparr>)"
  have u: "?u = schedule_tlb_invalidation ty TLBE_FROM_TRANSLATION x"
    using r assms(3) by (cases ty) (simp_all add: ppc_ibat_update_def ppc_dbat_update_def Let_def x_def)
  have "tlb_inv x"
    using assms(1) by (cases ty) (auto simp: x_def tlb_inv_def slot_ok_def)
  then have f: "flushed ty TLBE_FROM_TRANSLATION t" "tlb_inv t"
    using soft_tlb.changes_then_sync[of x "[(ty, TLBE_FROM_TRANSLATION)]" ty TLBE_FROM_TRANSLATION]
      soft_tlb.sync_inv[OF schedule_inv[of x TLBE_FROM_TRANSLATION ty]]
    unfolding t_def u by simp_all
  have b: "bats i = ?e" and pr: "msr t = msr s"
    unfolding bats_def t_def u by (cases ty; simp add: x_def frame)+
  let ?P = "\<lambda>j. access (bats j) AND (push_bit 1 (of_flag (\<not> tst (msr s) MSR_PR)) OR of_flag (tst (msr s) MSR_PR)) \<noteq> 0 \<and>
      la AND hi_mask (bats j) = bepi (bats j)"
  have "find ?P [0, 1, 2, 3] = Some i"
    using assms(6,7) by (intro find_first[OF assms(2)]) (simp_all only: bat_covers_def access_test simp_thms)
  then have "ppc_block_address_translation ty la t =
      \<lparr>hit = True, bat_prot = prot (bats i), bat_phys = phys_hi (bats i) OR (la AND NOT (hi_mask (bats i)))\<rparr>"
    unfolding ppc_block_address_translation_def Let_def pr bats_def[symmetric] by simp
  moreover have "la AND hi_mask (bats i) = bepi (bats i)" using assms(6) by (simp add: bat_covers_def)
  moreover obtain m where m: "NOT (push_bit 17 (drop_bit 2 (spr s reg) AND 0x7FF) OR 0x1FFFF) = m" by blast
  ultimately show ?thesis
    using f unfolding Let_def b bat_entry_def m by (simp add: and_rest)
qed


text \<open>A machine whose first instruction BAT maps 0xFF800000 to 0x80800000 with 128 KB blocks, read only.\<close>

definition bat_mmu :: mmu where
  "bat_mmu = put_spr 529 0x80800001 (put_spr 528 0xFF800002 static_mmu)"

theorem bat_update_takes_effect_witness:
  "bat_phys (ppc_block_address_translation ITLB 0xFF801234 (do_ctx_sync (ppc_ibat_update 528 bat_mmu))) = 0x80801234"
proof -
  let ?t = "do_ctx_sync (ppc_ibat_update 528 bat_mmu)"
  have i: "tlb_inv bat_mmu"
    using static_mmu_inv mmu_more_cong(5)[of bat_mmu static_mmu] by (simp add: bat_mmu_def put_spr_def)
  have s: "spr bat_mmu 528 = 0xFF800002" "spr bat_mmu 529 = 0x80800001" "msr bat_mmu = 0"
    by (simp_all add: bat_mmu_def static_mmu_def put_spr_def)
  have "ibat_array ?t 0 = bat_entry 0xFF800002 0x80800001 (ibat_array bat_mmu 0)"
    by (simp add: ppc_ibat_update_def s)
  then have "bat_covers (ibat_array ?t) (tst (msr bat_mmu) MSR_PR) 0 0xFF801234"
    by (simp add: bat_covers_def access_test[symmetric] bat_entry_def s tst_def)
  then show ?thesis
    using bat_update_takes_effect[of bat_mmu 0 528 ITLB "0xFF801234", OF i] by (simp add: s)
qed

subsection \<open>The page table\<close>

lemma unat_or_disjoint: "a AND b = 0 \<Longrightarrow> unat (a OR b) = unat a + unat b" for a b :: u32
proof -
  assume "a AND b = 0"
  then have "and (unat a) (unat b) = 0" by (metis unsigned_and_eq unsigned_0)
  then show ?thesis by (simp add: unsigned_or_eq disjunctive_add_eq_or)
qed

text \<open>
  The hashed page table lies where SDR1 says. With a table of \<open>2 ^ (16 + k)\<close> bytes at an
  origin aligned to its size, every hash gives the address of a whole entry group inside the
  table, selected by the low \<open>10 + k\<close> bits of the hash.
\<close>

theorem pteg_phys_exact:
  assumes "k \<le> 9" "org AND mask (16 + k) = 0" "spr s SPR_SDR1 = org OR mask k"
  shows "unat (calc_pteg_phys hash s) = unat org + 64 * (unat hash mod 2 ^ (10 + k)) \<and>
     unat (calc_pteg_phys hash s) + 64 \<le> unat org + 2 ^ (16 + k)"
proof -
  have o: "\<not> bit org i" if "i < 16 + k" for i
  proof -
    have "bit (org AND mask (16 + k)) i = False" unfolding assms(2) by simp
    then show ?thesis using that u32_bit_ge[of i org] by (auto simp: bit_simps)
  qed
  have m: "(0xFFFF0000 :: u32) = NOT (mask 16)" "(0x1FF :: u32) = mask 9" "(0x3FF :: u32) = mask 10"
    "(0x7FC00 :: u32) = push_bit 10 (mask 9)"
    by (simp_all add: mask_eq_exp_minus_1)
  have "calc_pteg_phys hash s = org OR push_bit 6 (hash AND mask (10 + k))"
    unfolding calc_pteg_phys_def Let_def assms(3) m
  proof (rule bit_word_eqI, goal_cases)
    case (1 i)
    have "i - 6 - 10 = i - 16" by simp
    then show ?case
      using 1 o[of i] o[of "i - 16"] assms(1) by (cases "i < 6"; cases "i < 16") (auto simp: bit_simps)
  qed
  moreover have "org AND push_bit 6 (hash AND mask (10 + k)) = 0"
    using o by (auto intro!: bit_word_eqI simp: bit_simps)
  moreover have "unat (push_bit 6 (hash AND mask (10 + k))) = 64 * (unat hash mod 2 ^ (10 + k))"
  proof -
    have "unat hash mod 2 ^ (10 + k) < 2 ^ (10 + k)" by simp
    also have "(2 :: nat) ^ (10 + k) \<le> 2 ^ 19" using assms(1) by (intro power_increasing) simp_all
    finally have "unat (hash AND mask (10 + k)) * 2 ^ 6 < 2 ^ 32" unfolding and_mask_unat by simp
    then show ?thesis unfolding unat_push_bit and_mask_unat by simp
  qed
  ultimately have u: "unat (calc_pteg_phys hash s) = unat org + 64 * (unat hash mod 2 ^ (10 + k))"
    by (simp add: unat_or_disjoint)
  have "unat hash mod 2 ^ (10 + k) + 1 \<le> 2 ^ (10 + k)" by (simp add: Suc_leI)
  then have "64 * (unat hash mod 2 ^ (10 + k)) + 64 \<le> 64 * 2 ^ (10 + k)" by linarith
  then show ?thesis using u by (simp add: power_add)
qed

theorem pteg_phys_exact_witness:
  "unat (calc_pteg_phys 0x12345 (put_spr SPR_SDR1 0x00F00001 static_mmu)) = 0xF00000 + 64 * (0x12345 mod 2 ^ 11)"
  using pteg_phys_exact[of 1 "0x00F00000" "put_spr SPR_SDR1 0x00F00001 static_mmu" "0x12345"]
  by (simp add: mask_eq_exp_minus_1)

subsection \<open>The software-loaded TLBs of the 603\<close>

lemma tlb603_set_less: "tlb603_set ea < 32"
  using field5_less_32[of "drop_bit 12 ea"] by (simp add: tlb603_set_def)

lemma flush_page_sel [simp]:
  "tlb603 (tlb_flush_pat_page ty ea s) = tlb603 s" "tlb603_lru (tlb_flush_pat_page ty ea s) = tlb603_lru s"
  "spr (tlb_flush_pat_page ty ea s) = spr s"
  by (simp_all add: tlb_flush_pat_page_def Let_def)

lemma same_page: "page_tag a = page_tag b \<Longrightarrow> tlb603_set a = tlb603_set b \<and> (a XOR b) AND 0x0FFFF000 = 0"
proof -
  assume p: "page_tag a = page_tag b"
  have "(a XOR b) AND (NOT 0xFFF AND 0x0FFFF000) = (page_tag a XOR page_tag b) AND 0x0FFFF000"
    unfolding page_tag_def by (simp only: and.assoc[symmetric] bit.conj_xor_distrib2)
  then have x: "(a XOR b) AND 0x0FFFF000 = 0" using p by simp
  have d: "tlb603_set a = unat (drop_bit 12 (page_tag a) AND 31)" for a
  proof -
    have "drop_bit 12 (page_tag a) AND 31 = drop_bit 12 a AND (drop_bit 12 (NOT 0xFFF) AND 31)"
      by (simp only: page_tag_def drop_bit_and and.assoc)
    then show ?thesis by (simp add: tlb603_set_def)
  qed
  show ?thesis using x p by (simp only: d simp_thms)
qed

lemma flush_slots_all:
  "p \<in> set ps \<Longrightarrow> tg \<noteq> TLB_INVALID_TAG \<Longrightarrow>
   \<not> (tag (fold (flush_slot tg) ps t p) = tg \<and> tst (flags (fold (flush_slot tg) ps t p)) TLBE_FROM_PAT)"
proof (induction ps rule: rev_induct)
  case (snoc q ps)
  show ?case
  proof (cases "p = q")
    case False
    then show ?thesis using snoc by (simp add: flush_slot_def)
  qed (use snoc.prems in \<open>simp add: flush_slot_def\<close>)
qed simp

lemma flush_slots_other: "tag (t p) \<noteq> tg \<Longrightarrow> fold (flush_slot tg) ps t p = t p"
proof (induction ps arbitrary: t)
  case (Cons q ps)
  have "flush_slot tg q t p = t p" using Cons.prems by (auto simp: flush_slot_def)
  then show ?case using Cons.IH[of "flush_slot tg q t"] Cons.prems by simp
qed simp

lemma xor_under_mask: "(x XOR y) AND k = 0 \<Longrightarrow> (z XOR y) AND k = (z XOR x) AND k" for x y z k :: u32
  by (auto simp: bit_eq_iff bit_simps)

text \<open>The slots a translated page can be cached in.\<close>

definition page_slots :: "TLBType \<Rightarrow> u32 \<Rightarrow> slot set" where
  "page_slots ty ea = {p. slot_type p = ty \<and> (slot_mode p = 2 \<or> slot_mode p = 3) \<and>
     (slot_level p = 1 \<and> slot_index p = tlb_index ea \<or>
      slot_level p = 2 \<and> (\<exists>w\<in>{0, 1, 2, 3}. slot_index p = tlb_index ea * TLB2_WAYS + w))}"

lemma flush_page_complete:
  assumes "p \<in> page_slots ty ea"
  shows "\<not> (tag (tlb (tlb_flush_pat_page ty (page_tag ea) s) p) = page_tag ea \<and>
     tst (flags (tlb (tlb_flush_pat_page ty (page_tag ea) s) p)) TLBE_FROM_PAT)"
proof -
  define ps where "ps = [Slot ty 1 2 (tlb_index (page_tag ea)), Slot ty 1 3 (tlb_index (page_tag ea))] @
               map (\<lambda>w. Slot ty 2 2 (tlb_index (page_tag ea) * TLB2_WAYS + w)) [0, 1, 2, 3] @
               map (\<lambda>w. Slot ty 2 3 (tlb_index (page_tag ea) * TLB2_WAYS + w)) [0, 1, 2, 3]"
  have "tlb_index (page_tag ea) = tlb_index ea" by (rule tlb_index_page) (simp add: page_tag_def and.assoc)
  then have p: "p \<in> set ps" using assms by (cases p) (auto simp: ps_def page_slots_def)
  have "(0xFFFFF000 :: u32) = NOT 0xFFF" by simp
  then have t: "page_tag ea AND 0xFFFFF000 = page_tag ea" by (simp only: page_tag_def and.assoc and.idem)
  have "page_tag ea \<noteq> TLB_INVALID_TAG"
  proof
    assume "page_tag ea = TLB_INVALID_TAG"
    then have "bit (ea AND NOT 0xFFF) 0 = bit (0xFFFFFFFF :: u32) 0" by (simp only: page_tag_def)
    then show False by (simp add: bit_simps)
  qed
  from flush_slots_all[OF p this, of "tlb s"] show ?thesis
    unfolding tlb_flush_pat_page_def Let_def t ps_def[symmetric] by simp
qed

text \<open>
  \<open>tlbld\<close> and \<open>tlbli\<close> take effect. After the load, an access to the page that its segment's
  VSID and the loaded protection bits allow is translated to the frame in RPA, and no cached page
  translation of the page is left in the software TLB to be used instead.
\<close>

theorem tlb603_load_translates:
  fixes s :: "'a mmu_scheme" and ea la :: u32 and ty :: TLBType
  defines "t \<equiv> mmu_603_tlb_load ty ea s"
  defines "c \<equiv> spr s (if ty = ITLB then SPR_ICMP else SPR_DCMP)"
  assumes "tst c 0x80000000" "page_tag la = page_tag ea" "sr_val AND 0xFFFFFF = drop_bit 7 c AND 0xFFFFFF"
    "\<not> pp_denied (seg_key sr_val pr) (spr s SPR_RPA AND 3) is_write" "is_write \<longrightarrow> spr s SPR_RPA AND 0x80 \<noteq> 0"
  shows "(\<exists>r u. mpc603_page_address_translation la sr_val (ty = ITLB) pr is_write t = Ret r u \<and>
      pat_phys r = (spr s SPR_RPA AND 0xFFFFF000) OR (la AND 0xFFF)) \<and>
    (\<forall>p \<in> page_slots ty ea. \<not> (tag (tlb t p) = page_tag ea \<and> tst (flags (tlb t p)) TLBE_FROM_PAT))"
proof -
  let ?w = "unat (drop_bit 17 (spr s SPR_SRR1) AND 1)"
  have w: "?w = 0 \<or> ?w = 1" by (simp add: and_one_eq mod_2_eq_odd)
  have ty: "(if ty = ITLB then ITLB else DTLB) = ty" by (cases ty) simp_all
  note pg = same_page[OF assms(4)]
  have "(0xFFFFF000 :: u32) = NOT 0xFFF" by simp
  then have tg: "ea AND 0xFFFFF000 = page_tag ea" for ea by (simp only: page_tag_def)
  have e: "tlb603 t ty (tlb603_set la) ?w = \<lparr>valid603 = True, vsid = drop_bit 7 c AND 0xFFFFFF, ea_tag = page_tag ea, pte_lo = spr s SPR_RPA\<rparr>"
    using assms(3) w pg by (auto simp: t_def mmu_603_tlb_load_def Let_def c_def tg)
  have k: "(page_tag ea XOR la) AND 0x0FFFF000 = 0"
    using same_page[of "page_tag ea" la] assms(4) by (simp add: page_tag_def and.assoc)
  have m: "match603 (tlb603 t ty (tlb603_set la) ?w) (sr_val AND 0xFFFFFF) la"
    using e k assms(5) by (simp add: match603_def)
  have o: "\<not> match603 (tlb603 t ty (tlb603_set la) (1 - ?w)) (sr_val AND 0xFFFFFF) la"
  proof -
    have x: "(z XOR la) AND 0x0FFFF000 = (z XOR page_tag ea) AND 0x0FFFF000" for z
      by (rule xor_under_mask[OF k])
    show ?thesis
      using w pg assms(5) unfolding match603_def x
      by (auto simp: t_def mmu_603_tlb_load_def Let_def c_def tg)
  qed
  have "find (\<lambda>w. match603 (tlb603 t ty (tlb603_set la) w) (sr_val AND 0xFFFFFF) la) [0, 1] = Some ?w"
    using w m o by auto
  then have "\<exists>r u. mpc603_page_address_translation la sr_val (ty = ITLB) pr is_write t = Ret r u \<and>
      pat_phys r = (spr s SPR_RPA AND 0xFFFFF000) OR (la AND 0xFFF)"
    using assms(6,7) e unfolding mpc603_page_address_translation_def ty Let_def by auto
  moreover have "\<not> (tag (tlb t p) = page_tag ea \<and> tst (flags (tlb t p)) TLBE_FROM_PAT)" if "p \<in> page_slots ty ea" for p
  proof -
    obtain u where "t = tlb_flush_pat_page ty (page_tag ea) u"
      unfolding t_def mmu_603_tlb_load_def Let_def tg Tlb603Entry.simps by blast
    then show ?thesis using flush_page_complete[OF that] by simp
  qed
  ultimately show ?thesis by blast
qed

text \<open>
  The matching of the 603 TLBs leaves the segment number out, so a page is also reachable from
  every other segment with the same VSID; a cached translation of such an alias survives the
  load that evicts the entry it came from.
\<close>

lemma tlb603_load_keeps_alias:
  assumes "tag (tlb s p) = page_tag la" "page_tag la \<noteq> page_tag ea"
    "page_tag la \<noteq> page_tag (ea_tag (tlb603 s ty (tlb603_set ea) (unat (drop_bit 17 (spr s SPR_SRR1) AND 1))))"
  shows "tlb (mmu_603_tlb_load ty ea s) p = tlb s p"
proof -
  have "(0xFFFFF000 :: u32) = NOT 0xFFF" by simp
  then have tg: "ea AND 0xFFFFF000 = page_tag ea" for ea by (simp only: page_tag_def)
  have f: "tlb (tlb_flush_pat_page ty x u) p = tlb u p" if "tag (tlb u p) \<noteq> page_tag x" for x and u :: "'a mmu_scheme"
    unfolding tlb_flush_pat_page_def Let_def tg mmu.select_convs mmu.update_convs
    using flush_slots_other[of "tlb u" p "page_tag x"] that by (simp del: fold.simps append.simps list.map fold_append)
  have "page_tag (page_tag ea) = page_tag ea" by (simp add: page_tag_def and.assoc)
  then show ?thesis
    using assms unfolding mmu_603_tlb_load_def Let_def tg by (simp add: f)
qed

text \<open>A machine that reloads the page at 0x1000 with the frame at 0x9000.\<close>

definition load_mmu :: mmu where
  "load_mmu = put_spr SPR_DCMP 0x80000000 (put_spr SPR_RPA 0x9082 static_mmu)"

theorem tlb603_load_translates_witness:
  "\<exists>r u. mpc603_page_address_translation 0x1234 0 False False True (mmu_603_tlb_load DTLB 0x1000 load_mmu) = Ret r u \<and>
     pat_phys r = 0x9234"
  using tlb603_load_translates[of load_mmu DTLB "0x1234" "0x1000" 0 False True]
  by (auto simp: load_mmu_def put_spr_def static_mmu_def tst_def page_tag_def pp_denied_def seg_key_def)

end
