(* ===== verification/PpcMmuDma.thy ===== *)
theory PpcMmuDma
  imports PpcMmuFetch
begin

text \<open>
  DMA mapping (\<open>mmu_map_dma_mem\<close> of \<open>src/cpu/ppc/ppcmmu.cpp\<close>): a device that is given a host pointer
  for a range of physical addresses sees the bytes the processor sees there.
\<close>

text \<open>The host address of a byte of physical memory.\<close>

definition phys_host :: "'a MemCtrl_scheme \<Rightarrow> u32 \<Rightarrow> u64 option" where
  "phys_host m pa =
     (case find_range m pa of
        None \<Rightarrow> None
      | Some e \<Rightarrow> if tst (rtype e) (RT_ROM OR RT_RAM) then Some (mem_ptr e + ucast (pa - rstart e)) else None)"

lemma ucast_add64: "unat a + unat i < 2 ^ 32 \<Longrightarrow> (ucast (a + i) :: u64) = ucast a + ucast i" for a i :: u32
proof -
  assume i: "unat a + unat i < 2 ^ 32"
  then have "unat (a + i) = unat a + unat i" by (simp add: unat_add_lem[THEN iffD1])
  then have "unat (ucast (a + i) :: u64) = unat (ucast a + ucast i :: u64)"
    using i by (simp add: unat_add_u64 unat_ucast_u32_u64)
  then show ?thesis by (rule unsigned_word_eqI)
qed

lemma ucast_diff64: "b \<le> a \<Longrightarrow> (ucast (a - b) :: u64) = ucast a - ucast b" for a b :: u32
  using ucast_add64[of "a - b" b] unat_sub[of b a] unat_u32_less[of a] by (simp add: word_le_nat_alt algebra_simps)

lemma phys_host_region:
  assumes "map_inv m" "e \<in> set (address_map m)" "tst (rtype e) (RT_ROM OR RT_RAM)" "rstart e \<le> pa" "pa \<le> rend e"
  shows "phys_host m pa = Some (mem_ptr e + ucast (pa - rstart e))"
proof -
  have "find_range m pa = Some e" using assms find_range_Some_iff[OF assms(1), of pa e] by (simp add: covers_def)
  then show ?thesis using assms(3) by (simp add: phys_host_def)
qed

text \<open>Bytes of one region, counted from an address inside it, are contiguous in host memory.\<close>

lemma phys_host_run:
  assumes "map_inv m" "e \<in> set (address_map m)" "tst (rtype e) (RT_ROM OR RT_RAM)" "rstart e \<le> a"
    "unat a + unat i \<le> unat (rend e)"
  shows "phys_host m (a + i) = Some (mem_ptr e + ucast (a - rstart e) + ucast i)"
proof -
  have l: "unat a + unat i < 2 ^ 32" using assms(5) unat_u32_less[of "rend e"] by simp
  then have "unat (a + i) = unat a + unat i" by (simp add: unat_add_lem[THEN iffD1])
  then have "rstart e \<le> a + i" "a + i \<le> rend e"
    using assms(4,5) by (simp_all add: word_le_nat_alt)
  then show ?thesis
    using phys_host_region[OF assms(1-3)] assms(4) l by (simp add: ucast_diff64 ucast_add64)
qed

lemma next_region:
  assumes "map_inv m" "e \<in> set (address_map m)" "find_range m (rend e + 1) = Some n" "rend e \<noteq> 0xFFFFFFFF"
  shows "n \<in> set (address_map m)" "rstart n = rend e + 1" "rend e + 1 \<le> rend n"
proof -
  have n: "n \<in> set (address_map m)" "rstart n \<le> rend e + 1" "rend e + 1 \<le> rend n"
    using assms(3) by (simp_all add: find_range_Some_iff[OF assms(1)] covers_def)
  show "n \<in> set (address_map m)" "rend e + 1 \<le> rend n" by (fact n)+
  have u: "unat (rend e + 1) = unat (rend e) + 1"
  proof -
    have "1 + rend e \<noteq> 0"
    proof
      assume "1 + rend e = 0"
      then have "rend e = - 1" by (simp add: eq_neg_iff_add_eq_0 add.commute)
      then show False using assms(4) by simp
    qed
    then show ?thesis using unatSuc[of "rend e"] by (simp add: add.commute)
  qed
  have "\<not> rstart n \<le> rend e"
  proof
    assume "rstart n \<le> rend e"
    moreover have "rend e \<le> rend n" using n(3) u by (simp add: word_le_nat_alt)
    moreover have "rstart e \<le> rend e" using assms(1,2) by (simp add: map_inv_def)
    ultimately have "find_range m (rend e) = Some n" "find_range m (rend e) = Some e"
      using n(1) assms(2) by (simp_all add: find_range_Some_iff[OF assms(1)] covers_def)
    then show False using u n(3) by (simp add: word_le_nat_alt)
  qed
  then show "rstart n = rend e + 1"
    using n(2) u by (simp add: word_le_nat_alt word_less_nat_alt word_unat_eq_iff)
qed


text \<open>
  C29: A DMA mapping is contiguous. When a request that does not wrap around is mapped to memory,
  every byte of the mapped length lies in ROM or RAM and at the same offset from \<open>host_va\<close> as from
  the requested address, also where the mapping crosses into an adjacent region; the length is
  the requested one unless a partial mapping was allowed, and is neither zero nor more than asked for.
\<close>

theorem dma_map_contiguous:
  assumes "map_inv (mem_ctrl_instance s)" "sz \<noteq> 0" "addr \<le> addr + sz - 1"
    "mmu_map_dma_mem addr sz allow_mmio allow_partial is_dbg s = Ret r t" "tst (dma_type r) (RT_ROM OR RT_RAM)"
  shows "0 < dma_size r \<and> dma_size r \<le> sz \<and> (\<not> allow_partial \<longrightarrow> dma_size r = sz) \<and>
     (\<forall>i < dma_size r. phys_host (mem_ctrl_instance s) (addr + i) = Some (host_va r + ucast i)) \<and> t = s"
proof -
  let ?m = "mem_ctrl_instance s"
  obtain cur where cur: "find_range ?m addr = Some cur"
    using assms(4,5) by (auto simp: mmu_map_dma_mem_def dma_fail_def tst_def split: option.splits if_splits)
  have c: "cur \<in> set (address_map ?m)" "rstart cur \<le> addr" "addr \<le> rend cur"
    using cur by (simp_all add: find_range_Some_iff[OF assms(1)] covers_def)
  define adj where "adj \<longleftrightarrow> (case find_range ?m (rend cur + 1) of None \<Rightarrow> False | Some n \<Rightarrow> tst (rtype cur) (RT_ROM OR RT_RAM) \<and>
      rtype cur AND (RT_ROM OR RT_RAM) = rtype n AND (RT_ROM OR RT_RAM) \<and>
      mem_ptr n = mem_ptr cur + ucast (rend cur) - ucast (rstart cur) + 1 \<and> addr + sz - 1 \<le> rend n)"
  note eq = assms(4)[unfolded mmu_map_dma_mem_def cur option.case Let_def, folded adj_def]
  have r: "tst (rtype cur) (RT_ROM OR RT_RAM)" "t = s" "host_va r = mem_ptr cur + ucast (addr - rstart cur)"
    "dma_size r = (if rend cur < addr + sz - 1 \<and> \<not> adj then rend cur - addr + 1 else sz)"
    "rend cur < addr + sz - 1 \<and> \<not> adj \<Longrightarrow> allow_partial"
    using eq assms(5) by (auto simp: dma_fail_def tst_def split: if_splits)
  have last: "unat (addr + sz - 1) + 1 = unat addr + unat sz" "unat addr + unat (sz - 1) < 2 ^ 32"
  proof -
    have z: "unat (sz - 1) = unat sz - 1" "0 < unat sz" using assms(2) by (simp_all add: unat_minus_one unat_gt_0)
    moreover have "unat (addr + (sz - 1)) = unat addr + unat (sz - 1)"
      using assms(3) unat_plus_simple[of addr "sz - 1"] by (simp add: algebra_simps)
    moreover have "addr + (sz - 1) = addr + sz - 1" by (simp add: algebra_simps)
    ultimately show "unat (addr + sz - 1) + 1 = unat addr + unat sz" "unat addr + unat (sz - 1) < 2 ^ 32"
      using unat_u32_less[of "addr + sz - 1"] by simp_all
  qed
  have run: "phys_host ?m (addr + i) = Some (host_va r + ucast i)" if "unat addr + unat i \<le> unat (rend cur)" for i
    using phys_host_run[OF assms(1) c(1) r(1) c(2) that] r(3) by simp
  show ?thesis
  proof (cases "rend cur < addr + sz - 1")
    case False
    then have "\<forall>i < sz. phys_host ?m (addr + i) = Some (host_va r + ucast i)"
      using last by (intro allI impI run) (simp add: word_less_nat_alt)
    then show ?thesis using False r assms(2) by (simp add: word_gt_0)
  next
    case cross: True
    show ?thesis
    proof (cases adj)
      case False
      have s: "unat (rend cur - addr + 1) = unat (rend cur) - unat addr + 1" "unat (rend cur) - unat addr + 1 \<le> unat sz"
        using unat_sub[OF c(3)] c(3) cross last(1) unat_u32_less[of "addr + sz - 1"]
        by (simp_all add: word_less_nat_alt word_le_nat_alt unat_add_lem[THEN iffD1])
      then have "\<forall>i < rend cur - addr + 1. phys_host ?m (addr + i) = Some (host_va r + ucast i)"
        using c(3) by (intro allI impI run) (simp add: word_less_nat_alt word_le_nat_alt)
      then show ?thesis using False cross r s by (auto simp: word_less_nat_alt word_le_nat_alt)
    next
      case True
      then obtain n where n: "find_range ?m (rend cur + 1) = Some n" "rtype cur AND (RT_ROM OR RT_RAM) = rtype n AND (RT_ROM OR RT_RAM)"
        "mem_ptr n = mem_ptr cur + ucast (rend cur) - ucast (rstart cur) + 1" "addr + sz - 1 \<le> rend n"
        by (auto simp: adj_def split: option.splits)
      have ne: "rend cur \<noteq> 0xFFFFFFFF"
        using cross unat_u32_less[of "addr + sz - 1"] by (auto simp: word_less_nat_alt)
      note nx = next_region[OF assms(1) c(1) n(1) ne]
      have "phys_host ?m (addr + i) = Some (host_va r + ucast i)" if "i < sz" "unat (rend cur) < unat addr + unat i" for i
      proof -
        have i: "unat addr + unat i < 2 ^ 32" "unat (rend cur) + unat (1 :: u32) < 2 ^ 32"
          using that last(1) unat_u32_less[of "addr + sz - 1"] by (simp_all add: word_less_nat_alt)
        then have u: "unat (addr + i) = unat addr + unat i" "unat (rend cur + 1) = unat (rend cur) + 1"
          by (simp_all add: unat_add_lem[THEN iffD1])
        have a: "rstart n \<le> addr + i" "addr + i \<le> rend n" "rend cur + 1 \<le> addr + i"
          using nx(2) that last(1) n(4) u by (simp_all add: word_less_nat_alt word_le_nat_alt)
        have "tst (rtype n) (RT_ROM OR RT_RAM)" using r(1) n(2) by (simp add: tst_def)
        then have "phys_host ?m (addr + i) = Some (mem_ptr n + ucast (addr + i - (rend cur + 1)))"
          using phys_host_region[OF assms(1) nx(1) _ a(1,2)] nx(2) by simp
        then show ?thesis
          using r(3) n(3) i c(2) a(3) ucast_add64[OF i(2)] by (simp add: ucast_diff64 ucast_add64)
      qed
      then have "\<forall>i < sz. phys_host ?m (addr + i) = Some (host_va r + ucast i)"
        using run by (meson not_less)
      then show ?thesis using True r assms(2) by (simp add: word_gt_0)
    qed
  qed
qed

theorem dma_map_contiguous_witness:
  "\<exists>r. mmu_map_dma_mem 0x1000 0x100 False False False ram_mmu = Ret r ram_mmu \<and>
     phys_host (mem_ctrl_instance ram_mmu) 0x10FF = Some (host_va r + 0xFF)"
proof -
  have fr: "find_range (mem_ctrl_instance ram_mmu) pa = (if pa \<le> 0xFFFFFF then Some \<lparr>eid = 1, rstart = 0, rend = 0xFFFFFF,
      mirror = 0, rtype = RT_RAM, devobj = None, mem_ptr = 0x7F0000000000\<rparr> else None)" for pa
    by (simp add: find_range_def ram_mmu_def)
  have inv: "map_inv (mem_ctrl_instance ram_mmu)" by (simp add: map_inv_def ram_mmu_def)
  obtain r where r: "mmu_map_dma_mem 0x1000 0x100 False False False ram_mmu = Ret r ram_mmu"
    "tst (dma_type r) (RT_ROM OR RT_RAM)" "dma_size r = 0x100"
    by (auto simp: mmu_map_dma_mem_def fr tst_def)
  have "\<forall>i < dma_size r. phys_host (mem_ctrl_instance ram_mmu) (0x1000 + i) = Some (host_va r + ucast i)"
    using dma_map_contiguous[OF inv _ _ r(1,2)] by simp
  from this[rule_format, of "0xFF"] show ?thesis using r by auto
qed

end
