(* ===== verification/PpcSpr.thy ===== *)
theory PpcSpr
  imports PpcMmuTables PpcMmuDma
begin

text \<open>
  Virtual time (\<open>src/cpu/ppc/ppcexec.cpp\<close>), the time base, the real-time clock of the 601, the
  decrementer, the thermal registers, and the moves to and from special purpose registers
  (\<open>src/cpu/ppc/ppcopcodes.cpp\<close>). The timer manager is a component of the state; the callbacks the
  processor registers with it are named by a datatype. Readings of the host clock, used in
  real-time mode only, come from an arbitrary sequence.
\<close>

subsection \<open>State\<close>

datatype timer_cb = Trigger_timed_decrementer | Trigger_immediate_decrementer | Update_thermal | Device_cb nat

record timebase = mmu +
  host_clock :: "nat \<Rightarrow> u64"
  host_reads :: nat
  g_realtime :: bool
  g_nanoseconds_base :: u64
  g_icycles :: u64
  icnt_factor :: nat
  icnt_default_period_ns :: u64
  icnt_period_ns :: u64
  icnt_time_offset_ns :: u64
  tbr_wr_timestamp :: u64
  rtc_timestamp :: u64
  tbr_wr_value :: u64
  tbr_freq_ghz :: u32
  tbr_freq_shift :: nat
  tbr_period_ns :: u64
  dec_wr_timestamp :: u64
  dec_wr_value :: u32
  rtc_lo :: u32
  rtc_hi :: u32
  timers :: "timer_cb TimerManager"

text \<open>The two \<open>TimerInfo\<close> objects of the processor, by their addresses.\<close>

abbreviation (input) "decrementer_timer \<equiv> (1 :: tid)"
abbreviation (input) "thermal_timer \<equiv> (2 :: tid)"

text \<open>An operation of the timer manager; its notification callback is \<open>force_cycle_counter_reload\<close>.\<close>

definition with_timers :: "(timer_cb TimerManager \<Rightarrow> timer_cb TimerManager) \<Rightarrow> 'a timebase_scheme \<Rightarrow> 'a timebase_scheme" where
  "with_timers f s =
     (let m = f ((timers s)\<lparr>notified := False\<rparr>)
      in s\<lparr>timers := m, exec_timer := exec_timer s \<or> notified m\<rparr>)"

subsection \<open>Virtual time\<close>

definition cpu_now_ns :: "'a timebase_scheme \<Rightarrow> u64 \<times> 'a timebase_scheme" where
  "cpu_now_ns s = (host_clock s (host_reads s), s\<lparr>host_reads := host_reads s + 1\<rparr>)"

definition get_virt_time_ns :: "'a timebase_scheme \<Rightarrow> u64 \<times> 'a timebase_scheme" where
  "get_virt_time_ns s =
     (if g_realtime s then
        let (now, s) = cpu_now_ns s in (now - g_nanoseconds_base s, s)
      else (icnt_time_offset_ns s + g_icycles s * icnt_period_ns s, s))"

definition set_virt_time_ns :: "u64 \<Rightarrow> 'a timebase_scheme \<Rightarrow> 'a timebase_scheme" where
  "set_virt_time_ns time_now s =
     (let s = (if g_realtime s then
                 let (now, s) = cpu_now_ns s in s\<lparr>g_nanoseconds_base := now - time_now - 5000\<rparr>
               else s\<lparr>g_icycles := time_now div icnt_period_ns s, icnt_time_offset_ns := time_now mod icnt_period_ns s\<rparr>);
          (time_new, s) = get_virt_time_ns s
      in if g_realtime s \<and> time_new > time_now then
           snd (get_virt_time_ns (s\<lparr>g_nanoseconds_base := g_nanoseconds_base s + 2 * (time_new - time_now)\<rparr>))
         else s)"

definition force_cycle_counter_reload :: "'a cpu_scheme \<Rightarrow> 'a cpu_scheme" where
  "force_cycle_counter_reload s = s\<lparr>exec_timer := True\<rparr>"

definition update_icnt_period :: "'a timebase_scheme \<Rightarrow> 'a timebase_scheme" where
  "update_icnt_period s =
     s\<lparr>icnt_period_ns := max 1 (drop_bit 4 (push_bit (icnt_factor s) (icnt_default_period_ns s)))\<rparr>"

definition increment_icnt_factor :: "'a timebase_scheme \<Rightarrow> 'a timebase_scheme" where
  "increment_icnt_factor s =
     (let (time_now, s) = get_virt_time_ns s;
          s = (if icnt_factor s < 31 then s\<lparr>icnt_factor := icnt_factor s + 1\<rparr> else s)
      in force_cycle_counter_reload (set_virt_time_ns time_now (update_icnt_period s)))"

definition decrement_icnt_factor :: "'a timebase_scheme \<Rightarrow> 'a timebase_scheme" where
  "decrement_icnt_factor s =
     (if icnt_factor s > 0 then
        let (time_now, s) = get_virt_time_ns s; s = s\<lparr>icnt_factor := icnt_factor s - 1\<rparr>
        in force_cycle_counter_reload (set_virt_time_ns time_now (update_icnt_period s))
      else s)"

definition toggle_g_realtime :: "'a timebase_scheme \<Rightarrow> 'a timebase_scheme" where
  "toggle_g_realtime s =
     (let (time_now, s) = get_virt_time_ns s
      in force_cycle_counter_reload (set_virt_time_ns time_now (s\<lparr>g_realtime := \<not> g_realtime s\<rparr>)))"

subsection \<open>The time base and the real-time clock\<close>

text \<open>The number of time base ticks in \<open>diff\<close> nanoseconds.\<close>

definition tb_ticks :: "u64 \<Rightarrow> 'a timebase_scheme \<Rightarrow> u64" where
  "tb_ticks diff s =
     (let (adj, adj_lo) = u32xu64_lo32 (tbr_freq_ghz s) diff
      in if tbr_freq_shift s \<noteq> 0
         then push_bit (tbr_freq_shift s) adj + ucast (drop_bit (32 - tbr_freq_shift s) adj_lo)
         else adj)"

abbreviation (input) "ONE_BILLION_NS \<equiv> (0x3B9ACA00 :: u64)"

definition calc_rtcl_value :: "'a timebase_scheme \<Rightarrow> 'a timebase_scheme" where
  "calc_rtcl_value s =
     (let (new_ts, s) = get_virt_time_ns s;
          rtc_l = tb_ticks (new_ts - rtc_timestamp s) s + ucast (rtc_lo s);
          s = (if rtc_l \<ge> ONE_BILLION_NS
               then s\<lparr>rtc_hi := rtc_hi s + ucast (rtc_l div ONE_BILLION_NS), rtc_lo := ucast (rtc_l mod ONE_BILLION_NS)\<rparr>
               else s\<lparr>rtc_lo := ucast rtc_l\<rparr>)
      in s\<lparr>rtc_timestamp := new_ts\<rparr>)"

definition calc_tbr_value :: "'a timebase_scheme \<Rightarrow> u64 \<times> 'a timebase_scheme" where
  "calc_tbr_value s =
     (let (now, s) = get_virt_time_ns s in (tbr_wr_value s + tb_ticks (now - tbr_wr_timestamp s) s, s))"

definition calc_dec_value :: "'a timebase_scheme \<Rightarrow> u32 \<times> 'a timebase_scheme" where
  "calc_dec_value s =
     (let (now, s) = get_virt_time_ns s in (dec_wr_value s - ucast (tb_ticks (now - dec_wr_timestamp s) s), s))"

definition update_timebase :: "u64 \<Rightarrow> u64 \<Rightarrow> 'a timebase_scheme \<Rightarrow> 'a timebase_scheme" where
  "update_timebase msk new_val s =
     (let (tbr_value, s) = calc_tbr_value s;
          s = s\<lparr>tbr_wr_value := (tbr_value AND msk) OR new_val\<rparr>;
          (now, s) = get_virt_time_ns s
      in s\<lparr>tbr_wr_timestamp := now\<rparr>)"

subsection \<open>The decrementer\<close>

definition trigger_decrementer_exception :: "'a timebase_scheme \<Rightarrow> (unit, 'a timebase_scheme) outcome" where
  "trigger_decrementer_exception s =
     (if tst (msr s) MSR_EE then ppc_exception_handler EXC_DECR 0 (s\<lparr>dec_exception_pending := False\<rparr>)
      else Ret () (s\<lparr>dec_exception_pending := True\<rparr>))"

definition update_decrementer :: "bool \<Rightarrow> u32 \<Rightarrow> u32 \<Rightarrow> 'a timebase_scheme \<Rightarrow> 'a timebase_scheme" where
  "update_decrementer update_time_stamp oldval newval s =
     (let s = (if update_time_stamp then
                 let (now, s) = get_virt_time_ns s in s\<lparr>dec_wr_value := newval, dec_wr_timestamp := now\<rparr>
               else s);
          s = s\<lparr>dec_exception_pending := False\<rparr>;
          s = (if active (infos (timers s) decrementer_timer) then with_timers (cancel_timer decrementer_timer) s else s)
      in if bit_changed (ucast oldval) (ucast newval) 31 \<and> bit_set (ucast newval) 31 then
           with_timers (add_immediate_timer decrementer_timer Trigger_immediate_decrementer) s
         else
           let newval = (if is_601 s then if newval < 0xFFFFFF80 then newval + 0x80 else newval
                         else if newval < 0xFFFFFFFF then newval + 1 else newval);
               (time_out, time_out_lo) = u32xu64_lo32 newval (tbr_period_ns s);
               (now, s) = get_virt_time_ns s
           in with_timers (add_oneshot_timer now decrementer_timer time_out Trigger_timed_decrementer) s)"

definition trigger_timed_decrementer_exception :: "'a timebase_scheme \<Rightarrow> (unit, 'a timebase_scheme) outcome" where
  "trigger_timed_decrementer_exception s =
     (let (new_val, s) = calc_dec_value s;
          new_val = (if new_val \<ge> 0 \<and> new_val \<noteq> 0xFFFFFFFF then 0xFFFFFFFF else new_val)
      in trigger_decrementer_exception (update_decrementer True new_val new_val s))"

definition trigger_immediate_decrementer_exception :: "'a timebase_scheme \<Rightarrow> (unit, 'a timebase_scheme) outcome" where
  "trigger_immediate_decrementer_exception s =
     trigger_decrementer_exception (update_decrementer False (spr s SPR_DEC_S) (spr s SPR_DEC_S) s)"

subsection \<open>The thermal registers\<close>

abbreviation (input) "junction_temperature \<equiv> (24 :: int)"

text \<open>One register: its new value, and whether it asks for an interrupt. The comparison is unsigned: the temperature is converted.\<close>

definition thermal_reg :: "u32 \<Rightarrow> u32 \<times> bool" where
  "thermal_reg val =
     (let threshold = drop_bit 23 val AND 0x7F; dir = bit val 2; en = bit val 1; valid = bit val 0;
          t = (if \<not> valid then False else if dir then of_int junction_temperature < threshold
               else of_int junction_temperature > threshold)
      in (push_bit 31 (of_flag t) OR push_bit 30 (of_flag valid) OR (val AND 0x3FFFFFFF), valid \<and> en \<and> t))"

definition update_thermal :: "'a timebase_scheme \<Rightarrow> (unit, 'a timebase_scheme) outcome" where
  "update_thermal s =
     (let enabled = bit (spr s SPR_THRM3) 0;
          (v1, i1) = thermal_reg (spr s SPR_THRM1);
          s = put_spr SPR_THRM1 v1 s;
          (v2, i2) = thermal_reg (spr s SPR_THRM2);
          s = put_spr SPR_THRM2 v2 s
      in if (i1 \<or> i2) \<and> enabled then
           if tst (msr s) MSR_EE then ppc_exception_handler EXC_THRM_MGMT_INT 0 (s\<lparr>thrm_exception_pending := False\<rparr>)
           else Ret () (s\<lparr>thrm_exception_pending := True\<rparr>)
         else Ret () s)"

definition arm_thermal_timer :: "'a timebase_scheme \<Rightarrow> 'a timebase_scheme" where
  "arm_thermal_timer s =
     (let s = (if active (infos (timers s) thermal_timer) then with_timers (cancel_timer thermal_timer) s else s);
          (now, s) = get_virt_time_ns s
      in with_timers (add_oneshot_timer now thermal_timer 20000 Update_thermal) s)"

subsection \<open>Moves to and from special purpose registers\<close>

definition ref_spr :: "u32 \<Rightarrow> nat" where
  "ref_spr opcode = reg_b opcode * 32 + reg_a opcode"

text \<open>The privilege check of both directions.\<close>

definition spr_guard :: "u32 \<Rightarrow> ('a timebase_scheme \<Rightarrow> (unit, 'a timebase_scheme) outcome) \<Rightarrow> 'a timebase_scheme \<Rightarrow> (unit, 'a timebase_scheme) outcome" where
  "spr_guard opcode f s =
     (if bit (ref_spr opcode) 4 \<and> tst (msr s) MSR_PR then ppc_exception_handler EXC_PROGRAM CAUSE_NOT_ALLOWED s else f s)"

definition read_tb :: "u64 \<Rightarrow> bool \<Rightarrow> nat \<Rightarrow> 'a SetPRS_scheme \<Rightarrow> 'a SetPRS_scheme" where
  "read_tb tbr_value upper d s =
     (let lo = ucast tbr_value; hi = ucast (drop_bit 32 tbr_value)
      in put_gpr d (if upper then hi else lo) (put_spr SPR_TBU_S hi (put_spr SPR_TBL_S lo s)))"

definition ppc_mfspr :: "u32 \<Rightarrow> 'a timebase_scheme \<Rightarrow> (unit, 'a timebase_scheme) outcome" where
  "ppc_mfspr opcode = spr_guard opcode (\<lambda>s.
     let r = ref_spr opcode; d = reg_d opcode; plain = Ret () (put_gpr d (spr s r) s)
     in if r = SPR_MQ then (if \<not> (is_601 s \<or> include_601 s) then ppc_illegalop opcode s else plain)
        else if r = SPR_RTCL_U then
          if \<not> is_601 s then ppc_illegalop opcode s
          else let s = calc_rtcl_value s; v = rtc_lo s AND 0x3FFFFF80
               in Ret () (put_spr SPR_RTCU_S (rtc_hi s) (put_gpr d v (put_spr SPR_RTCL_S v s)))
        else if r = SPR_RTCU_U then
          if \<not> is_601 s then ppc_illegalop opcode s
          else let s = calc_rtcl_value s
               in Ret () (put_spr SPR_RTCL_S (rtc_lo s) (put_gpr d (rtc_hi s) (put_spr SPR_RTCU_S (rtc_hi s) s)))
        else if r = SPR_DEC_U \<and> \<not> is_601 s then ppc_illegalop opcode s
        else if r = SPR_DEC_U \<or> r = SPR_DEC_S then
          let (val, s) = calc_dec_value s; val = (if is_601 s then val AND NOT 0x7F else val)
          in Ret () (put_gpr d val (put_spr SPR_DEC_S val s))
        else if r = SPR_TBL_U \<or> r = SPR_TBL_S then
          let (t, s) = calc_tbr_value s in Ret () (read_tb t False d s)
        else if r = SPR_TBU_U \<or> r = SPR_TBU_S then
          let (t, s) = calc_tbr_value s in Ret () (read_tb t True d s)
        else plain)"

definition ppc_mtspr :: "u32 \<Rightarrow> 'a timebase_scheme \<Rightarrow> (unit, 'a timebase_scheme) outcome" where
  "ppc_mtspr opcode = spr_guard opcode (\<lambda>s.
     let r = ref_spr opcode; val = gpr s (reg_d opcode)
     in if r = SPR_MQ then (if is_601 s \<or> include_601 s then Ret () (put_spr r val s) else ppc_illegalop opcode s)
        else if r = SPR_RTCL_U \<or> r = SPR_RTCU_U \<or> r = SPR_DEC_U then
          (if \<not> is_601 s then ppc_illegalop opcode s else Ret () s)
        else if r = SPR_XER then Ret () (put_spr r (val AND 0xe000ff7f) s)
        else if r = SPR_SDR1 then
          Ret () (if spr s r \<noteq> val then mmu_pat_ctx_changed (put_spr r val s) else s)
        else if r = SPR_RTCL_S then
          let s = calc_rtcl_value s; s = s\<lparr>rtc_lo := val AND 0x3FFFFF80\<rparr>
          in Ret () (put_spr SPR_RTCU_S (rtc_hi s) (put_spr SPR_RTCL_S (rtc_lo s) s))
        else if r = SPR_RTCU_S then
          let s = calc_rtcl_value s; s = put_spr SPR_RTCL_S (rtc_lo s) (s\<lparr>rtc_hi := val\<rparr>)
          in Ret () (put_spr SPR_RTCU_S val s)
        else if r = SPR_DEC_S then
          let val = (if is_601 s then val AND NOT 0x7F else val); (old, s) = calc_dec_value s
          in Ret () (put_spr SPR_DEC_S val (update_decrementer True old val s))
        else if r = SPR_TBL_S then
          let s = update_timebase 0xFFFFFFFF00000000 (ucast val) s
          in Ret () (put_spr SPR_TBU_S (ucast (drop_bit 32 (tbr_wr_value s))) (put_spr SPR_TBL_S val s))
        else if r = SPR_TBU_S then
          let s = update_timebase 0x00000000FFFFFFFF (push_bit 32 (ucast val)) s
          in Ret () (put_spr SPR_TBU_S val (put_spr SPR_TBL_S (ucast (tbr_wr_value s)) s))
        else if r = SPR_PVR then Ret () s
        else if 528 \<le> r \<and> r \<le> 535 then
          Ret () (if spr s r \<noteq> val then ibat_update r (put_spr r val s) else s)
        else if 536 \<le> r \<and> r \<le> 543 then
          Ret () (if spr s r \<noteq> val then dbat_update r (put_spr r val s) else s)
        else if r = SPR_HID0 then
          let s = put_spr r val s in Ret () (if is_601 s then ppc_change_endian (tst val 0x10000000) s else s)
        else if r = SPR_THRM1 \<or> r = SPR_THRM2 then
          Ret () (arm_thermal_timer (put_spr r (val AND 0x3F800007) s))
        else if r = SPR_THRM3 then
          let s = put_spr r (val AND 0x00003FFF) s;
              s = put_spr SPR_THRM1 (spr s SPR_THRM1 AND 0x3FFFFFFF) s;
              s = put_spr SPR_THRM2 (spr s SPR_THRM2 AND 0x3FFFFFFF) s
          in Ret () (arm_thermal_timer s)
        else Ret () (put_spr r val s))"

definition ppc_mftb :: "u32 \<Rightarrow> 'a timebase_scheme \<Rightarrow> (unit, 'a timebase_scheme) outcome" where
  "ppc_mftb opcode s =
     (let (t, s) = calc_tbr_value s
      in if ref_spr opcode = SPR_TBL_U then Ret () (read_tb t False (reg_d opcode) s)
         else if ref_spr opcode = SPR_TBU_U then Ret () (read_tb t True (reg_d opcode) s)
         else ppc_illegalop opcode s)"

subsection \<open>Firing the timers\<close>

text \<open>
  The loop of \<open>TimerManager::process_timers\<close> with the callbacks of the processor. A callback that
  leaves by \<open>longjmp\<close> leaves the loop too. The callbacks of the devices are a parameter; they get the current time and the
  time they were due, which those of the processor ignore.
\<close>

definition run_timer_cb :: "(nat \<Rightarrow> u64 \<Rightarrow> u64 \<Rightarrow> 'a timebase_scheme \<Rightarrow> (unit, 'a timebase_scheme) outcome) \<Rightarrow> timer_cb \<Rightarrow> u64 \<Rightarrow> u64 \<Rightarrow>
    'a timebase_scheme \<Rightarrow> (unit, 'a timebase_scheme) outcome" where
  "run_timer_cb dev c time_now timeout s =
     (case c of Trigger_timed_decrementer \<Rightarrow> trigger_timed_decrementer_exception s
      | Trigger_immediate_decrementer \<Rightarrow> trigger_immediate_decrementer_exception s
      | Update_thermal \<Rightarrow> update_thermal s
      | Device_cb n \<Rightarrow> dev n time_now timeout s)"

definition set_cb_active :: "bool \<Rightarrow> 'a timebase_scheme \<Rightarrow> 'a timebase_scheme" where
  "set_cb_active b s = s\<lparr>timers := (timers s)\<lparr>cb_active := b\<rparr>\<rparr>"

definition fire_timer :: "(nat \<Rightarrow> u64 \<Rightarrow> u64 \<Rightarrow> 'a timebase_scheme \<Rightarrow> (unit, 'a timebase_scheme) outcome) \<Rightarrow> u64 \<Rightarrow> tid \<Rightarrow>
    'a timebase_scheme \<Rightarrow> (unit, 'a timebase_scheme) outcome" where
  "fire_timer dev time_now cur s =
     obind (run_timer_cb dev (cb (infos (timers s) cur)) time_now (timeout_ns (infos (timers s) cur))
              (set_cb_active True (s\<lparr>timers := retire_timer time_now cur (timers s)\<rparr>)))
       (\<lambda>_ s. Ret () (set_cb_active False s))"

definition next_timer :: "'a timebase_scheme \<Rightarrow> tid option" where
  "next_timer s = pq_top (timer_gt (timers s)) (timer_queue (timers s))"

partial_function (option) fire_loop :: "(nat \<Rightarrow> u64 \<Rightarrow> u64 \<Rightarrow> 'a timebase_scheme \<Rightarrow> (unit, 'a timebase_scheme) outcome) \<Rightarrow> u64 \<Rightarrow>
    tid \<Rightarrow> 'a timebase_scheme \<Rightarrow> (u64, 'a timebase_scheme) outcome option" where
  "fire_loop dev time_now cur s =
     (if timeout_ns (infos (timers s) cur) \<le> time_now
      then case fire_timer dev time_now cur s of
             Ret _ s \<Rightarrow> (case next_timer s of None \<Rightarrow> Some (Ret 0 s) | Some next \<Rightarrow> fire_loop dev time_now next s)
           | LongJmp s \<Rightarrow> Some (LongJmp s)
           | Throw m s \<Rightarrow> Some (Throw m s)
           | Abort m \<Rightarrow> Some (Abort m)
      else Some (Ret (timeout_ns (infos (timers s) cur)) s))"

definition fire_timers :: "(nat \<Rightarrow> u64 \<Rightarrow> u64 \<Rightarrow> 'a timebase_scheme \<Rightarrow> (unit, 'a timebase_scheme) outcome) \<Rightarrow>
    'a timebase_scheme \<Rightarrow> (u64, 'a timebase_scheme) outcome option" where
  "fire_timers dev s =
     (let (time_now, s) = get_virt_time_ns s
      in case next_timer s of None \<Rightarrow> Some (Ret 0 s) | Some cur \<Rightarrow> fire_loop dev time_now cur s)"

subsection \<open>Ticks\<close>

lemma scale_div: "(h * 2 ^ 32 + l) * 2 ^ k div 2 ^ 32 = h * 2 ^ k + l div 2 ^ (32 - k)"
  if "k \<le> 32" for h l k :: nat
proof -
  have e: "(2::nat) ^ 32 = 2 ^ k * 2 ^ (32 - k)" using that by (simp flip: power_add)
  have "(h * 2 ^ 32 + l) * 2 ^ k = l * 2 ^ k + h * 2 ^ k * 2 ^ 32" by (simp add: algebra_simps)
  then have "(h * 2 ^ 32 + l) * 2 ^ k div 2 ^ 32 = h * 2 ^ k + (l * 2 ^ k) div 2 ^ 32" by simp
  also have "(l * 2 ^ k) div 2 ^ 32 = l div 2 ^ (32 - k)" unfolding e by simp
  finally show ?thesis .
qed

lemma len64: "LENGTH(64) = 64"
  by simp

lemma tb_ticks_exact:
  fixes s :: "'a timebase_scheme"
  assumes "tbr_freq_shift s < 32"
  shows "unat (tb_ticks diff s) = (unat (tbr_freq_ghz s) * unat diff * 2 ^ tbr_freq_shift s div 2 ^ 32) mod 2 ^ 64"
proof -
  obtain h l where p: "u32xu64_lo32 (tbr_freq_ghz s) diff = (h, l)" by (cases "u32xu64_lo32 (tbr_freq_ghz s) diff")
  let ?k = "tbr_freq_shift s"
  have "unat (tbr_freq_ghz s) * unat diff * 2 ^ ?k div 2 ^ 32 = unat h * 2 ^ ?k + unat l div 2 ^ (32 - ?k)"
    unfolding u32xu64_lo32_product[OF p, symmetric] using assms by (intro scale_div) simp
  moreover have "unat (tb_ticks diff s) = (unat h * 2 ^ ?k + unat l div 2 ^ (32 - ?k)) mod 2 ^ 64"
  proof (cases "?k = 0")
    case True
    have "unat l < 2 ^ 32" "unat h < 2 ^ 64" using unat_u64_less[of h] unsigned_less[of l] by simp_all
    with True show ?thesis by (simp add: tb_ticks_def p)
  next
    case False
    have "unat (push_bit ?k h) = (unat h * 2 ^ ?k) mod 2 ^ 64"
      unfolding unsigned_push_bit_eq by (simp add: push_bit_eq_mult take_bit_eq_mod flip: push_bit_eq_mult[where 'a="64 word"])
    moreover have "unat (ucast (drop_bit (32 - ?k) l) :: u64) = unat l div 2 ^ (32 - ?k)"
    proof -
      have "unat l div 2 ^ (32 - ?k) \<le> unat l" by simp
      also have "\<dots> < 2 ^ 64" using unsigned_less[of l, where 'a = nat] by simp
      finally show ?thesis
        by (simp only: unat_ucast_mod unat_drop_bit len64 mod_less)
    qed
    ultimately show ?thesis using False by (simp add: tb_ticks_def p unat_word_ariths mod_add_left_eq)
  qed
  ultimately show ?thesis by simp
qed


subsection \<open>Reading and writing the time base\<close>

lemma put_spr_tb_sel [simp]:
  fixes s :: "'a timebase_scheme"
  shows "mmu.more (put_spr r v s) = mmu.more s" "mmu.more (put_gpr r v s) = mmu.more s"
  by (simp_all add: put_spr_def put_gpr_def)

lemma tb_more:
  fixes s t :: "'a timebase_scheme"
  assumes "mmu.more s = mmu.more t"
  shows "g_realtime s = g_realtime t" "icnt_time_offset_ns s = icnt_time_offset_ns t"
    "g_icycles s = g_icycles t" "icnt_period_ns s = icnt_period_ns t" "tbr_wr_value s = tbr_wr_value t"
    "tbr_wr_timestamp s = tbr_wr_timestamp t" "tbr_freq_ghz s = tbr_freq_ghz t"
    "tbr_freq_shift s = tbr_freq_shift t" "timers s = timers t" "tbr_period_ns s = tbr_period_ns t"
    "dec_wr_value s = dec_wr_value t" "dec_wr_timestamp s = dec_wr_timestamp t"
  using assms by (cases s; cases t; simp)+

lemmas tb_put [simp] = tb_more[OF put_spr_tb_sel(1)] tb_more[OF put_spr_tb_sel(2)]

lemma virt_time_icount: "\<not> g_realtime s \<Longrightarrow> get_virt_time_ns s = (icnt_time_offset_ns s + g_icycles s * icnt_period_ns s, s)"
  by (simp add: get_virt_time_ns_def)

lemma tb_ticks_cong:
  "tbr_freq_ghz s = tbr_freq_ghz t \<Longrightarrow> tbr_freq_shift s = tbr_freq_shift t \<Longrightarrow> tb_ticks d s = tb_ticks d t"
  unfolding tb_ticks_def by metis

lemma tb_ticks_0 [simp]: "tb_ticks 0 s = 0"
  by (simp add: tb_ticks_def u32xu64_lo32_def)

lemma mftb_reads:
  assumes "\<not> g_realtime s" "calc_tbr_value s = (t, s)"
  shows "ref_spr op = SPR_TBL_U \<Longrightarrow> ppc_mftb op s = Ret () (read_tb t False (reg_d op) s)"
    "ref_spr op = SPR_TBU_U \<Longrightarrow> ppc_mftb op s = Ret () (read_tb t True (reg_d op) s)"
  using assms by (simp_all add: ppc_mftb_def)

lemma join_halves: "unat (push_bit 32 (ucast (h :: u32)) OR ucast (l :: u32) :: u64) = unat h * 2 ^ 32 + unat l"
proof -
  have b: "unat h < 2 ^ 32" "unat l < 2 ^ 32" using unsigned_less[of h, where 'a = nat] unsigned_less[of l, where 'a = nat] by simp_all
  have "unat (push_bit 32 (ucast h) OR ucast l :: u64) = or (unat (push_bit 32 (ucast h) :: u64)) (unat (ucast l :: u64))"
    by (rule unsigned_or_eq)
  also have "unat (push_bit 32 (ucast h) :: u64) = push_bit 32 (unat h)"
    using b by (simp add: unsigned_push_bit_eq unsigned_ucast_eq take_bit_push_bit) (simp add: take_bit_eq_mod push_bit_eq_mult)
  also have "unat (ucast l :: u64) = take_bit 32 (unat l)"
    using b by (simp add: unsigned_ucast_eq take_bit_eq_mod)
  also have "or (push_bit 32 (unat h)) (take_bit 32 (unat l)) = push_bit 32 (unat h) + take_bit 32 (unat l)"
    by (rule disjunctive_add_eq_or[symmetric]) (auto simp: bit_eq_iff bit_simps)
  finally show ?thesis using b by (simp add: push_bit_eq_mult take_bit_eq_mod)
qed

lemma split_halves: "unat (ucast (drop_bit 32 t) :: u32) * 2 ^ 32 + unat (ucast t :: u32) = unat (t :: u64)"
proof -
  have "unat (ucast (drop_bit 32 t) :: u32) = unat t div 2 ^ 32"
    using unat_u64_hi[of t] by (simp add: unat_ucast_mod unat_drop_bit)
  moreover have "unat (ucast t :: u32) = unat t mod 2 ^ 32" by (simp add: unat_ucast_mod)
  ultimately show ?thesis by simp
qed

lemma tb_join_mask:
  fixes x :: u64 and h l :: u32
  shows "(((x AND 0xFFFFFFFF) OR push_bit 32 (ucast h)) AND 0xFFFFFFFF00000000) OR ucast l = push_bit 32 (ucast h) OR ucast l"
proof -
  have m: "(0xFFFFFFFF00000000 :: u64) = push_bit 32 (mask 32)" "(0xFFFFFFFF :: u64) = mask 32"
    by (simp_all add: push_bit_eq_mult mask_eq_exp_minus_1)
  show ?thesis unfolding m by (rule bit_word_eqI) (auto simp: bit_simps dest: bit_imp_le_length)
qed

lemma update_timebase_icount:
  fixes s :: "'a timebase_scheme"
  assumes "\<not> g_realtime s"
  defines "now \<equiv> icnt_time_offset_ns s + g_icycles s * icnt_period_ns s"
  shows "update_timebase m v s = s\<lparr>tbr_wr_value :=
     ((tbr_wr_value s + tb_ticks (now - tbr_wr_timestamp s) s) AND m) OR v, tbr_wr_timestamp := now\<rparr>"
  using assms by (simp add: update_timebase_def calc_tbr_value_def virt_time_icount)

text \<open>
  The time base counts. After its upper and lower half have been written, a later read with
  \<open>mftb\<close>, after any number of instructions, gives the written 64-bit value advanced by exactly
  the elapsed virtual time multiplied by the frequency (a 32-bit binary fraction of a gigahertz
  with its scale), with no drift from the write, both halves of the same count.
\<close>

theorem timebase_counts:
  fixes s :: "'a timebase_scheme" and n :: u64
  assumes "\<not> g_realtime s" "\<not> tst (msr s) MSR_PR" "tbr_freq_shift s < 32"
    and "ref_spr opu = SPR_TBU_S" "ref_spr opl = SPR_TBL_S" "ref_spr rdl = SPR_TBL_U" "ref_spr rdu = SPR_TBU_U"
  shows "\<exists>s1 s2 l u. ppc_mtspr opu s = Ret () s1 \<and> ppc_mtspr opl s1 = Ret () s2 \<and>
     ppc_mftb rdl (s2\<lparr>g_icycles := g_icycles s2 + n\<rparr>) = Ret () l \<and>
     ppc_mftb rdu (s2\<lparr>g_icycles := g_icycles s2 + n\<rparr>) = Ret () u \<and>
     unat (gpr u (reg_d rdu)) * 2 ^ 32 + unat (gpr l (reg_d rdl)) =
       (unat (gpr s (reg_d opu)) * 2 ^ 32 + unat (gpr s (reg_d opl)) +
        unat (tbr_freq_ghz s) * unat (n * icnt_period_ns s) * 2 ^ tbr_freq_shift s div 2 ^ 32) mod 2 ^ 64"
proof -
  define now where "now = icnt_time_offset_ns s + g_icycles s * icnt_period_ns s"
  let ?hi = "gpr s (reg_d opu)" and ?lo = "gpr s (reg_d opl)"
  let ?W = "push_bit 32 (ucast ?hi) OR ucast ?lo :: u64"
  define s1 where "s1 = put_spr SPR_TBU_S ?hi (put_spr SPR_TBL_S (ucast (tbr_wr_value (update_timebase 0xFFFFFFFF (push_bit 32 (ucast ?hi)) s)))
    (update_timebase 0xFFFFFFFF (push_bit 32 (ucast ?hi)) s))"
  have m1: "ppc_mtspr opu s = Ret () s1"
    using assms by (simp add: ppc_mtspr_def spr_guard_def Let_def s1_def)
  have s1: "tbr_wr_timestamp s1 = now" "\<not> g_realtime s1" "msr s1 = msr s" "gpr s1 = gpr s"
    "tbr_wr_value s1 = ((tbr_wr_value s + tb_ticks (now - tbr_wr_timestamp s) s) AND 0xFFFFFFFF) OR push_bit 32 (ucast ?hi)"
    "icnt_time_offset_ns s1 = icnt_time_offset_ns s" "g_icycles s1 = g_icycles s" "icnt_period_ns s1 = icnt_period_ns s"
    "tbr_freq_ghz s1 = tbr_freq_ghz s" "tbr_freq_shift s1 = tbr_freq_shift s"
    using assms(1) by (simp_all add: s1_def update_timebase_icount now_def)
  define s2 where "s2 = put_spr SPR_TBU_S (ucast (drop_bit 32 (tbr_wr_value (update_timebase 0xFFFFFFFF00000000 (ucast ?lo) s1))))
    (put_spr SPR_TBL_S ?lo (update_timebase 0xFFFFFFFF00000000 (ucast ?lo) s1))"
  have m2: "ppc_mtspr opl s1 = Ret () s2"
    using assms s1 by (simp add: ppc_mtspr_def spr_guard_def Let_def s2_def)
  have W: "(((x AND 0xFFFFFFFF) OR push_bit 32 (ucast ?hi)) AND 0xFFFFFFFF00000000) OR ucast ?lo = ?W" for x :: u64
    by (rule tb_join_mask)
  have s2: "tbr_wr_timestamp s2 = now" "\<not> g_realtime s2" "tbr_wr_value s2 = ?W" "gpr s2 = gpr s"
    "icnt_time_offset_ns s2 = icnt_time_offset_ns s" "g_icycles s2 = g_icycles s" "icnt_period_ns s2 = icnt_period_ns s"
    "tbr_freq_ghz s2 = tbr_freq_ghz s" "tbr_freq_shift s2 = tbr_freq_shift s"
    using assms(1) s1 by (simp_all add: s2_def update_timebase_icount now_def[symmetric] W)
  let ?s = "s2\<lparr>g_icycles := g_icycles s2 + n\<rparr>" and ?t = "?W + tb_ticks (n * icnt_period_ns s) s"
  have "calc_tbr_value ?s = (?t, ?s)"
    using s2 tb_ticks_cong[of ?s s "n * icnt_period_ns s"]
    by (simp add: calc_tbr_value_def virt_time_icount now_def algebra_simps)
  from mftb_reads[OF _ this] s2(2) assms(6,7)
  have "ppc_mftb rdl ?s = Ret () (read_tb ?t False (reg_d rdl) ?s)"
    "ppc_mftb rdu ?s = Ret () (read_tb ?t True (reg_d rdu) ?s)" by simp_all
  moreover have "unat ?t = (unat ?hi * 2 ^ 32 + unat ?lo +
        unat (tbr_freq_ghz s) * unat (n * icnt_period_ns s) * 2 ^ tbr_freq_shift s div 2 ^ 32) mod 2 ^ 64"
    unfolding unat_word_ariths(1) join_halves tb_ticks_exact[OF assms(3)] len64 by (simp only: mod_add_right_eq)
  ultimately show ?thesis
    using m1 m2 split_halves[of ?t] by (auto simp: read_tb_def Let_def)
qed

subsection \<open>The decrementer\<close>

lemma exc_state_more [frame]: "mmu.more (exc_state e b r s) = mmu.more s"
proof -
  have "mmu.more (exc_enter e b r s) = mmu.more s"
    using exc_enter_sel(15)[of e b r s] by (cases s; cases "exc_enter e b r s"; simp)
  then show ?thesis by (simp add: exc_state_def frame)
qed


text \<open>The virtual time of the instruction counter, and the decrementer's delay for a written count.\<close>

definition icount_now :: "'a timebase_scheme \<Rightarrow> u64" where
  "icount_now s = icnt_time_offset_ns s + g_icycles s * icnt_period_ns s"















definition tb_machine :: timebase where
  "tb_machine = (mmu.extend static_mmu
     \<lparr>host_clock = (\<lambda>_. 0), host_reads = 0, g_realtime = False, g_nanoseconds_base = 0,
     g_icycles = 0, icnt_factor = 4, icnt_default_period_ns = 16, icnt_period_ns = 16, icnt_time_offset_ns = 0,
     tbr_wr_timestamp = 0, rtc_timestamp = 0, tbr_wr_value = 0, tbr_freq_ghz = 0x6666666, tbr_freq_shift = 0,
     tbr_period_ns = 0x2800000000, dec_wr_timestamp = 0, dec_wr_value = 0, rtc_lo = 0, rtc_hi = 0,
     timers = \<lparr>infos = (\<lambda>_. \<lparr>timeout_ns = 0, interval_ns = 0, active = False, cb = Update_thermal\<rparr>),
       timer_queue = [], cb_active = False, notified = False\<rparr>\<rparr>)
     \<lparr>gpr := (\<lambda>_. 0)(3 := 1, 4 := 0xFFFFFFF0, 7 := 9), msr := MSR_EE\<rparr>"

lemma tb_machine_sel:
  "spr tb_machine = (\<lambda>_. 0)" "gpr tb_machine = (\<lambda>_. 0)(3 := 1, 4 := 0xFFFFFFF0, 7 := 9)" "msr tb_machine = MSR_EE"
  "is_601 tb_machine = False" "exec_flags tb_machine = 0" "pc tb_machine = 0" "g_realtime tb_machine = False"
  "icnt_time_offset_ns tb_machine = 0" "g_icycles tb_machine = 0" "icnt_period_ns tb_machine = 16"
  "tbr_freq_ghz tb_machine = 0x6666666" "tbr_freq_shift tb_machine = 0" "tbr_period_ns tb_machine = 0x2800000000"
  "timer_queue (timers tb_machine) = []" "infos (timers tb_machine) i =
     \<lparr>timeout_ns = 0, interval_ns = 0, active = False, cb = Update_thermal\<rparr>"
  by (simp_all add: tb_machine_def static_mmu_def mmu.defs)

lemmas fields = ref_spr_def reg_a_def reg_b_def reg_d_def

theorem timebase_counts_witness:
  "\<exists>s1 s2 l u. ppc_mtspr 0x7C7D43A6 tb_machine = Ret () s1 \<and> ppc_mtspr 0x7C9C43A6 s1 = Ret () s2 \<and>
     ppc_mftb 0x7CAC42E6 (s2\<lparr>g_icycles := g_icycles s2 + 1000\<rparr>) = Ret () l \<and>
     ppc_mftb 0x7CCD42E6 (s2\<lparr>g_icycles := g_icycles s2 + 1000\<rparr>) = Ret () u \<and>
     unat (gpr u 6) * 2 ^ 32 + unat (gpr l 5) = 0x20000017F"
  using timebase_counts[of tb_machine "0x7C7D43A6" "0x7C9C43A6" "0x7CAC42E6" "0x7CCD42E6" 1000]
  by (simp add: tb_machine_sel fields tst_def)


subsection \<open>The thermal interrupt\<close>

lemma add_notifies:
  "exec_timer (with_timers (add_oneshot_timer now i d c) s) \<longleftrightarrow> exec_timer s \<or> \<not> cb_active (timers s)"
  by (simp add: with_timers_def add_oneshot_timer_def add_absolute_timer_def tm_defs)

lemma update_thermal_eq:
  "update_thermal s =
     (let w = (put_spr SPR_THRM2 (fst (thermal_reg (spr s SPR_THRM2))) (put_spr SPR_THRM1 (fst (thermal_reg (spr s SPR_THRM1))) s))
      in if (snd (thermal_reg (spr s SPR_THRM1)) \<or> snd (thermal_reg (spr s SPR_THRM2))) \<and> bit (spr s SPR_THRM3) 0 then
           if tst (msr s) MSR_EE then ppc_exception_handler EXC_THRM_MGMT_INT 0 (w\<lparr>thrm_exception_pending := False\<rparr>)
           else Ret () (w\<lparr>thrm_exception_pending := True\<rparr>)
         else Ret () w)"
  by (simp add: update_thermal_def Let_def split_def)

text \<open>
  C37: The thermal interrupt leaves the timer loop by \<open>longjmp\<close>, past the line that resets the
  manager's \<open>cb_active\<close>. From then on, until some other timer callback runs to its end, a timer that is
  added no longer asks the interpreter to look at the timers again, as it does otherwise.
\<close>

theorem thermal_interrupt_mutes_timers:
  fixes s :: "'a timebase_scheme"
  assumes "\<not> g_realtime s" "tst (msr s) MSR_EE" "timer_queue (timers s) = [thermal_timer]"
    and "infos (timers s) thermal_timer = \<lparr>timeout_ns = d, interval_ns = 0, active = True, cb = Update_thermal\<rparr>"
    and "d \<le> icount_now s" "bit (spr s SPR_THRM3) 0"
    and "snd (thermal_reg (spr s SPR_THRM1)) \<or> snd (thermal_reg (spr s SPR_THRM2))"
    and "\<not> cb_active (timers s)"
  shows "\<exists>t. fire_timers dev s = Some (LongJmp t) \<and> ppc_next_instruction_address t = exc_vector EXC_THRM_MGMT_INT (msr s) \<and>
     (\<forall>now i dl c. exec_timer (with_timers (add_oneshot_timer now i dl c) s)) \<and>
     (\<forall>now i dl c. exec_timer (with_timers (add_oneshot_timer now i dl c) t) = exec_timer t)"
proof -
  let ?n = "icount_now s"
  define a where "a = set_cb_active True (s\<lparr>timers := retire_timer ?n thermal_timer (timers s)\<rparr>)"
  have a: "spr a = spr s" "msr a = msr s" "cb_active (timers a)" by (simp_all add: a_def set_cb_active_def)
  define b where "b = put_spr SPR_THRM2 (fst (thermal_reg (spr s SPR_THRM2)))
      (put_spr SPR_THRM1 (fst (thermal_reg (spr s SPR_THRM1))) a)\<lparr>thrm_exception_pending := False\<rparr>"
  have up: "update_thermal a = ppc_exception_handler EXC_THRM_MGMT_INT 0 b"
    using assms(2,6,7) a by (auto simp: update_thermal_eq b_def Let_def put_spr_def)
  define x where "x = exc_state EXC_THRM_MGMT_INT 0 (pc_or_next 4 b) b"
  obtain t where t: "ppc_exception_handler EXC_THRM_MGMT_INT 0 b = LongJmp t" "t = x \<or> t = x\<lparr>power_on := True\<rparr>"
    using handler_eq[of EXC_THRM_MGMT_INT b "pc_or_next 4 b" 0] by (simp add: Let_def x_def)
  have "timers x = timers b" using exc_state_more[of EXC_THRM_MGMT_INT 0 "pc_or_next 4 b" b] tb_more[of x b] by (simp add: x_def)
  then have x: "cb_active (timers x)" "ppc_next_instruction_address x = exc_vector EXC_THRM_MGMT_INT (msr s)"
    using a by (simp_all add: b_def x_def frame) (simp add: exc_vector_def tst_bits exc_msr_bits put_spr_def)
  have "fire_timer dev ?n thermal_timer s = LongJmp t"
    unfolding fire_timer_def run_timer_cb_def a_def[symmetric] assms(4) by (simp add: up t)
  then have "fire_timers dev s = Some (LongJmp t)"
    using assms(3-5) virt_time_icount[OF assms(1)]
    by (subst fire_timers_def, simp add: next_timer_def, subst fire_loop.simps, simp add: icount_now_def)
  then show ?thesis using t(2) x assms(8) by (auto simp: add_notifies)
qed

definition hot_machine :: timebase where
  "hot_machine = tb_machine\<lparr>spr := (\<lambda>_. 0)(SPR_THRM1 := 0x08000003, SPR_THRM3 := 1),
     timers := add_oneshot_timer 0 thermal_timer 0 Update_thermal (timers tb_machine)\<rparr>"

theorem thermal_interrupt_mutes_timers_witness:
  "\<exists>t. fire_timers (\<lambda>_ _ _ s. Ret () s) hot_machine = Some (LongJmp t) \<and> ppc_next_instruction_address t = 0x1700 \<and>
     (\<forall>now i dl c. exec_timer (with_timers (add_oneshot_timer now i dl c) t) = exec_timer t)"
proof -
  have m: "\<not> g_realtime hot_machine" "msr hot_machine = MSR_EE" "timer_queue (timers hot_machine) = [thermal_timer]"
    "infos (timers hot_machine) thermal_timer = \<lparr>timeout_ns = 0, interval_ns = 0, active = True, cb = Update_thermal\<rparr>"
    "bit (spr hot_machine SPR_THRM3) 0" "spr hot_machine SPR_THRM1 = 0x08000003" "\<not> cb_active (timers hot_machine)"
    by (simp_all add: hot_machine_def tb_machine_sel add_oneshot_timer_def add_absolute_timer_def tm_defs)
      (simp add: tb_machine_def static_mmu_def mmu.defs)
  have "snd (thermal_reg 0x08000003)" by (simp add: thermal_reg_def bit_numeral_rec)
  with m show ?thesis
    using thermal_interrupt_mutes_timers[of hot_machine 0 "\<lambda>_ _ _ s. Ret () s"] by (auto simp: tst_def exc_vector_def)
qed

end
