(* ===== verification/PpcMmuWalk.thy ===== *)
theory PpcMmuWalk
  imports PpcMmuFetch
begin

text \<open>
  The page table walk against the architected translation: the search of the two entry groups,
  the protection check and the update of the R and C bits, with the cached page table region of
  \<open>calc_pteg_addr\<close> shown to be transparent.
\<close>

subsection \<open>The architected walk\<close>

text \<open>Host address of the entry group at a physical address.\<close>

definition pteg_host :: "u32 \<Rightarrow> 'a mmu_scheme \<Rightarrow> u64 option" where
  "pteg_host pa s =
     (case find_range (mem_ctrl_instance s) pa of
        None \<Rightarrow> None
      | Some e \<Rightarrow> if tst (rtype e) (RT_ROM OR RT_RAM) then Some (mem_ptr e + ucast (pa - rstart e)) else None)"

text \<open>The sixteen entries that may map an address, in the order they are looked at.\<close>

definition pte_candidates :: "u64 \<Rightarrow> u64 \<Rightarrow> (u64 \<times> u32) list" where
  "pte_candidates a1 a2 = map (\<lambda>i. (a1 + 8 * of_nat i, 0)) [0..<8] @ map (\<lambda>i. (a2 + 8 * of_nat i, 1)) [0..<8]"

definition walk :: "hmem \<Rightarrow> u64 \<Rightarrow> u64 \<Rightarrow> u32 \<Rightarrow> u32 \<Rightarrow> u64 option" where
  "walk m a1 a2 la sr_val = map_option fst
     (find (\<lambda>(a, h). pte_match (sr_val AND 0xFFFFFF) (ucast (drop_bit 12 la AND 0xFFFF)) h = READ_DWORD_BE_A m a)
        (pte_candidates a1 a2))"

text \<open>A fault with its cause, or the address of the entry that maps the page.\<close>

definition page_spec :: "hmem \<Rightarrow> u64 \<Rightarrow> u64 \<Rightarrow> u32 \<Rightarrow> u32 \<Rightarrow> bool \<Rightarrow> bool \<Rightarrow> u32 + u64" where
  "page_spec m a1 a2 la sr_val pr is_write =
     (case walk m a1 a2 la sr_val of
        None \<Rightarrow> Inl 0x40000000
      | Some a \<Rightarrow> if pp_denied (seg_key sr_val pr) (READ_DWORD_BE_A m (a + 4) AND 3) is_write
                  then Inl 0x08000000 else Inr a)"

subsection \<open>The cached page table region\<close>

definition ptab_ok :: "'a mmu_scheme \<Rightarrow> bool" where
  "ptab_ok s \<longleftrightarrow> (\<forall>pa. pa AND 0x3F = 0 \<and> rstart (last_ptab_area s) \<le> pa \<and> pa \<le> rend (last_ptab_area s) \<longrightarrow>
     pteg_host pa s = Some (mem_ptr (last_ptab_area s) + ucast (pa - rstart (last_ptab_area s))))"

lemma pteg_aligned: "calc_pteg_phys h s AND 0x3F = 0"
  by (rule u32_eqI) (unfold all_less_32, simp add: calc_pteg_phys_def Let_def bit_simps)

lemma pteg_host_upd [simp]: "pteg_host pa (s\<lparr>last_ptab_area := x\<rparr>) = pteg_host pa s"
  "calc_pteg_phys h (s\<lparr>last_ptab_area := x\<rparr>) = calc_pteg_phys h s"
  by (simp_all add: pteg_host_def calc_pteg_phys_def)

lemma calc_pteg_addr_spec:
  assumes "map_inv (mem_ctrl_instance s)" "ptab_ok s" "pteg_host (calc_pteg_phys h s) s = Some a"
  obtains x where "calc_pteg_addr h s = Ret a (s\<lparr>last_ptab_area := x\<rparr>)" "ptab_ok (s\<lparr>last_ptab_area := x\<rparr>)"
proof (cases "rstart (last_ptab_area s) \<le> calc_pteg_phys h s \<and> calc_pteg_phys h s \<le> rend (last_ptab_area s)")
  case True
  then have "calc_pteg_addr h s = Ret a (s\<lparr>last_ptab_area := last_ptab_area s\<rparr>)"
    using assms(2,3) pteg_aligned[of h s] by (simp add: calc_pteg_addr_def Let_def ptab_ok_def)
  then show thesis using assms(2) that[of "last_ptab_area s"] by simp
next
  case False
  from assms(3) obtain e where e: "find_range (mem_ctrl_instance s) (calc_pteg_phys h s) = Some e"
    "tst (rtype e) (RT_ROM OR RT_RAM)" "a = mem_ptr e + ucast (calc_pteg_phys h s - rstart e)"
    by (auto simp: pteg_host_def split: option.splits if_splits)
  have "find_range (mem_ctrl_instance s) pa = Some e" if "rstart e \<le> pa" "pa \<le> rend e" for pa
    using e(1) that unfolding find_range_Some_iff[OF assms(1)] by (simp add: covers_def)
  then show thesis
    using False e that[of "(last_ptab_area s)\<lparr>rstart := rstart e, rend := rend e, mem_ptr := mem_ptr e\<rparr>"]
    by (auto simp: calc_pteg_addr_def Let_def ptab_ok_def pteg_host_def)
qed

lemma find_append: "find P (xs @ ys) = (case find P xs of None \<Rightarrow> find P ys | Some x \<Rightarrow> Some x)"
  by (induction xs) simp_all

lemma find_map: "find P (map f xs) = map_option f (find (P \<circ> f) xs)"
  by (induction xs) simp_all

lemma walk_groups:
  "walk m a1 a2 la v =
     (case search_pteg m a1 (v AND 0xFFFFFF) (ucast (drop_bit 12 la AND 0xFFFF)) 0 of
        Some a \<Rightarrow> Some a
      | None \<Rightarrow> search_pteg m a2 (v AND 0xFFFFFF) (ucast (drop_bit 12 la AND 0xFFFF)) 1)"
  unfolding walk_def pte_candidates_def search_pteg_def find_append find_map
  by (simp add: option.map_comp comp_def option.case_eq_if)

lemma find_pte_spec:
  fixes s :: "'a mmu_scheme"
  defines "h \<equiv> \<lambda>la v. (v AND 0x7FFFF) XOR (drop_bit 12 la AND 0xFFFF)"
  assumes "map_inv (mem_ctrl_instance s)" "ptab_ok s"
    "pteg_host (calc_pteg_phys (h la v) s) s = Some a1" "pteg_host (calc_pteg_phys (NOT (h la v)) s) s = Some a2"
  obtains x where "find_pte la v s = Ret (walk (host_mem (mem_ctrl_instance s)) a1 a2 la v) (s\<lparr>last_ptab_area := x\<rparr>)"
    "ptab_ok (s\<lparr>last_ptab_area := x\<rparr>)"
proof -
  obtain x where x: "calc_pteg_addr (h la v) s = Ret a1 (s\<lparr>last_ptab_area := x\<rparr>)" "ptab_ok (s\<lparr>last_ptab_area := x\<rparr>)"
    using calc_pteg_addr_spec[OF assms(2-4)] .
  obtain y where y: "calc_pteg_addr (NOT (h la v)) (s\<lparr>last_ptab_area := x\<rparr>) = Ret a2 (s\<lparr>last_ptab_area := y\<rparr>)"
    "ptab_ok (s\<lparr>last_ptab_area := y\<rparr>)"
    using calc_pteg_addr_spec[of "s\<lparr>last_ptab_area := x\<rparr>" "NOT (h la v)" a2] assms(2,5) x(2) by auto
  let ?g = "search_pteg (host_mem (mem_ctrl_instance s)) a1 (v AND 0xFFFFFF) (ucast (drop_bit 12 la AND 0xFFFF)) 0"
  have "find_pte la v s = Ret (walk (host_mem (mem_ctrl_instance s)) a1 a2 la v)
      (s\<lparr>last_ptab_area := if ?g = None then y else x\<rparr>)"
    using x(1) y(1) unfolding find_pte_def Let_def h_def walk_groups by (cases ?g) simp_all
  moreover have "ptab_ok (s\<lparr>last_ptab_area := if ?g = None then y else x\<rparr>)"
    using x(2) y(2) by (cases "?g = None") (simp_all only: if_True if_False simp_thms)
  ultimately show thesis by (rule that)
qed

subsection \<open>R and C bits\<close>

lemma host_put_host: "host_mem (mem_ctrl_instance (put_host a v s)) = (host_mem (mem_ctrl_instance s))(a := v)"
  by (simp add: put_host_def)

lemma addr_neq: "c \<noteq> d \<Longrightarrow> a + c \<noteq> a + d" for a c d :: u64
  by simp

lemma rc_exact:
  fixes s :: "'a mmu_scheme"
  defines "m \<equiv> \<lambda>s. host_mem (mem_ctrl_instance (s :: 'a mmu_scheme))"
  shows "READ_DWORD_BE_A (m (update_rc a w s)) (a + 4) =
      READ_DWORD_BE_A (m s) (a + 4) OR 0x100 OR (if w then 0x80 else 0)"
    "READ_DWORD_BE_A (m (update_rc a w s)) a = READ_DWORD_BE_A (m s) a"
    "b \<noteq> a + 6 \<Longrightarrow> b \<noteq> a + 7 \<Longrightarrow> m (update_rc a w s) b = m s b"
proof -
  have u: "m (update_rc a w s) = (if w then (m s)(a + 6 := m s (a + 6) OR 1, a + 7 := m s (a + 7) OR 0x80)
      else (m s)(a + 6 := m s (a + 6) OR 1))"
    by (auto simp: m_def update_rc_def Let_def host_put_host)
  show "b \<noteq> a + 6 \<Longrightarrow> b \<noteq> a + 7 \<Longrightarrow> m (update_rc a w s) b = m s b" by (simp add: u)
  have o: "a + 4 + 1 = a + 5" "a + 4 + 2 = a + 6" "a + 4 + 3 = a + 7" by simp_all
  show "READ_DWORD_BE_A (m (update_rc a w s)) a = READ_DWORD_BE_A (m s) a"
    unfolding READ_DWORD_BE_A_U READ_DWORD_BE_U_def u by simp
  show "READ_DWORD_BE_A (m (update_rc a w s)) (a + 4) =
      READ_DWORD_BE_A (m s) (a + 4) OR 0x100 OR (if w then 0x80 else 0)"
    unfolding READ_DWORD_BE_A_U READ_DWORD_BE_U_def u o
    by (rule u32_eqI) (unfold all_less_32, simp add: bit_simps)
qed

subsection \<open>Faults\<close>

lemma exc_state_mem: "mem_ctrl_instance (exc_state e b r s) = mem_ctrl_instance s"
proof -
  have c: "mem_ctrl_instance (do_ctx_sync s) = mem_ctrl_instance s" for s :: "'a mmu_scheme"
    using do_ctx_sync_frame[of s] by auto
  have m: "mem_ctrl_instance (mmu_change_mode s) = mem_ctrl_instance s" for s :: "'a mmu_scheme"
    by (simp add: mmu_change_mode_def Let_def)
  have "cpu.more (exc_enter e b r s) = cpu.more s" by (simp add: frame)
  then have "mem_ctrl_instance (exc_enter e b r s) = mem_ctrl_instance s"
    by (cases s; cases "exc_enter e b r s") simp
  then show ?thesis by (simp add: exc_state_def c m)
qed

text \<open>How a fault is delivered: the registers that describe it, and memory untouched.\<close>

definition delivers :: "bool \<Rightarrow> u32 \<Rightarrow> u32 \<Rightarrow> bool \<Rightarrow> 'a mmu_scheme \<Rightarrow> 'a mmu_scheme \<Rightarrow> bool" where
  "delivers is_fetch cause la is_write s t \<longleftrightarrow>
     (if is_fetch then spr t SPR_SRR1 = (msr s AND 0xFF73) OR cause
      else spr t SPR_DSISR = cause OR push_bit 25 (of_flag is_write) \<and> spr t SPR_DAR = la) \<and>
     ppc_next_instruction_address t =
       (if tst (msr s) MSR_IP then 0xFFF00000 else 0) OR (if is_fetch then 0x400 else 0x300) \<and>
     mem_ctrl_instance t = mem_ctrl_instance s"

lemma raise_delivers:
  assumes "\<not> mmu_exception_handler_dbg s"
  shows "\<exists>t. raise_isi_dsi c la f w s = LongJmp t \<and> delivers f c la w s t"
proof (cases f)
  case True
  then have "exc_srr0 EXC_ISI s = Some (pc_or_next 0 s)" by simp
  then show ?thesis
    using assms True
    by (simp add: raise_isi_dsi_def mmu_exception_handler_def handler_eq Let_def delivers_def frame exc_state_mem
        exc_vector_def exc_msr_bits tst_bits or.commute)
next
  case False
  let ?s = "put_spr SPR_DAR la (put_spr SPR_DSISR (c OR push_bit 25 (of_flag w)) s)"
  have r: "exc_srr0 EXC_DSI ?s = Some (pc s AND 0xFFFFFFFC)" by simp
  have d: "\<not> mmu_exception_handler_dbg ?s" "mem_ctrl_instance ?s = mem_ctrl_instance s"
    using assms by (simp_all add: put_spr_def)
  then show ?thesis
    using False
    by (simp add: raise_isi_dsi_def raise_dsi_def mmu_exception_handler_def handler_eq[OF r] Let_def delivers_def frame
        exc_state_mem exc_vector_def exc_msr_bits tst_bits or.commute)
qed

text \<open>
  C3: Page address translation refines the architected page table walk. With both entry groups in
  memory, the first of the sixteen candidate entries that matches decides: without one, or when
  its protection bits forbid the access, the fault is delivered with its cause and address and
  memory stays as it was; otherwise the translation returns the page frame with the page offset,
  the R bit (and C bit for a write) of that entry is set, and no other bit of memory changes.
  The cached page table region never shows in the result.
\<close>

theorem page_walk_refines:
  fixes s :: "'a mmu_scheme" and la :: u32
  defines "v \<equiv> sr s (unat (drop_bit 28 la AND 0x0F))"
  defines "h \<equiv> (v AND 0x7FFFF) XOR (drop_bit 12 la AND 0xFFFF)"
  assumes "\<not> tst v 0x80000000" "\<not> (tst v 0x10000000 \<and> is_fetch)" "\<not> is_603 s" "\<not> mmu_exception_handler_dbg s"
    "map_inv (mem_ctrl_instance s)" "ptab_ok s"
    "pteg_host (calc_pteg_phys h s) s = Some a1" "pteg_host (calc_pteg_phys (NOT h) s) s = Some a2"
  shows "case page_spec (host_mem (mem_ctrl_instance s)) a1 a2 la v pr is_write of
      Inl cause \<Rightarrow> \<exists>t. page_address_translation la is_fetch pr is_write s = LongJmp t \<and>
        delivers is_fetch cause la is_write s t
    | Inr a \<Rightarrow> \<exists>r t. page_address_translation la is_fetch pr is_write s = Ret r t \<and>
        (let m = host_mem (mem_ctrl_instance s); m' = host_mem (mem_ctrl_instance t)
         in pat_phys r = (READ_DWORD_BE_A m (a + 4) AND 0xFFFFF000) OR (la AND 0xFFF) \<and>
            READ_DWORD_BE_A m' a = READ_DWORD_BE_A m a \<and>
            READ_DWORD_BE_A m' (a + 4) = READ_DWORD_BE_A m (a + 4) OR 0x100 OR (if is_write then 0x80 else 0) \<and>
            (\<forall>b. b \<noteq> a + 6 \<and> b \<noteq> a + 7 \<longrightarrow> m' b = m b)) \<and> ptab_ok t"
proof -
  let ?m = "host_mem (mem_ctrl_instance s)"
  obtain x where x: "find_pte la v s = Ret (walk ?m a1 a2 la v) (s\<lparr>last_ptab_area := x\<rparr>)" "ptab_ok (s\<lparr>last_ptab_area := x\<rparr>)"
    using find_pte_spec[OF assms(7,8), of v la a1 a2] assms(9,10) unfolding h_def by blast
  have f: "\<exists>t. raise_isi_dsi c la is_fetch is_write (s\<lparr>last_ptab_area := x\<rparr>) = LongJmp t \<and>
      delivers is_fetch c la is_write s t" for c
    using raise_delivers[of "s\<lparr>last_ptab_area := x\<rparr>" c la is_fetch is_write] assms(6) by (auto simp: delivers_def)
  have ok: "ptab_ok (update_rc a w s) = ptab_ok s" for a w and s :: "'a mmu_scheme"
    by (simp add: ptab_ok_def pteg_host_def update_rc_def put_host_def find_range_def Let_def)
  show ?thesis
  proof (cases "walk ?m a1 a2 la v")
    case None
    then show ?thesis
      using f[of "0x40000000"] x(1) assms(3-6)
      by (auto simp: page_spec_def page_address_translation_def v_def[symmetric] Let_def)
  next
    case (Some a)
    show ?thesis
    proof (cases "pp_denied (seg_key v pr) (READ_DWORD_BE_A ?m (a + 4) AND 3) is_write")
      case True
      then show ?thesis
        using Some f[of "0x08000000"] x(1) assms(3-6)
        by (auto simp: page_spec_def page_address_translation_def v_def[symmetric] Let_def)
    next
      case False
      let ?t = "update_rc a is_write (s\<lparr>last_ptab_area := x\<rparr>)"
      obtain r where "page_address_translation la is_fetch pr is_write s = Ret r ?t"
        "pat_phys r = (READ_DWORD_BE_A ?m (a + 4) AND 0xFFFFF000) OR (la AND 0xFFF)"
        using Some False x(1) assms(3-6)
        by (simp add: page_address_translation_def v_def[symmetric] Let_def)
      then show ?thesis
        using Some False rc_exact[where a = a and w = is_write and s = "s\<lparr>last_ptab_area := x\<rparr>"] x(2)
        by (simp add: page_spec_def Let_def ok)
    qed
  qed
qed

text \<open>A page table at 0x10000 that maps the page at 0x1000 to the frame at 0x5000.\<close>

definition walk_mmu :: mmu where
  "walk_mmu = put_spr SPR_SDR1 0x10000 (ram_mmu\<lparr>mem_ctrl_instance := (mem_ctrl_instance ram_mmu)\<lparr>host_mem :=
     (\<lambda>_. 0)(0x7F0000010040 := 0x80, 0x7F0000010046 := 0x50, 0x7F0000010047 := 0x02)\<rparr>,
     last_ptab_area := (last_ptab_area ram_mmu)\<lparr>rstart := 0xFFFFFFFF, rend := 0xFFFFFFFF\<rparr>\<rparr>)"

lemma walk_mmu_sel:
  "address_map (mem_ctrl_instance walk_mmu) = [\<lparr>eid = 1, rstart = 0, rend = 0xFFFFFF, mirror = 0, rtype = RT_RAM,
        devobj = None, mem_ptr = 0x7F0000000000\<rparr>]"
  "host_mem (mem_ctrl_instance walk_mmu) = (\<lambda>_. 0)(0x7F0000010040 := 0x80, 0x7F0000010046 := 0x50, 0x7F0000010047 := 0x02)"
  "spr walk_mmu SPR_SDR1 = 0x10000" "sr walk_mmu 0 = 0" "\<not> is_603 walk_mmu" "\<not> mmu_exception_handler_dbg walk_mmu"
  "rstart (last_ptab_area walk_mmu) = 0xFFFFFFFF"
  "rend (last_ptab_area walk_mmu) = 0xFFFFFFFF"
  by (simp_all add: walk_mmu_def ram_mmu_def static_mmu_def put_spr_def)

theorem page_walk_refines_witness:
  "\<exists>r t. page_address_translation 0x1234 False False True walk_mmu = Ret r t \<and> pat_phys r = 0x5234 \<and>
     READ_DWORD_BE_A (host_mem (mem_ctrl_instance t)) 0x7F0000010044 = 0x5182"
proof -
  have fr: "find_range (mem_ctrl_instance walk_mmu) pa = (if pa \<le> 0xFFFFFF then Some \<lparr>eid = 1, rstart = 0, rend = 0xFFFFFF,
      mirror = 0, rtype = RT_RAM, devobj = None, mem_ptr = 0x7F0000000000\<rparr> else None)" for pa
    by (simp add: find_range_def walk_mmu_sel)
  have ph: "pteg_host (calc_pteg_phys 1 walk_mmu) walk_mmu = Some 0x7F0000010040"
    "pteg_host (calc_pteg_phys (- 2) walk_mmu) walk_mmu = Some 0x7F000001FF80"
    by (simp_all add: pteg_host_def calc_pteg_phys_def walk_mmu_sel fr tst_def)
  have inv: "map_inv (mem_ctrl_instance walk_mmu)" by (simp add: map_inv_def walk_mmu_sel)
  have ok: "ptab_ok walk_mmu" by (auto simp: ptab_ok_def walk_mmu_sel)
  have r: "READ_DWORD_BE_A (host_mem (mem_ctrl_instance walk_mmu)) 0x7F0000010040 = 0x80000000"
    "READ_DWORD_BE_A (host_mem (mem_ctrl_instance walk_mmu)) 0x7F0000010044 = 0x5002"
    by (simp_all add: READ_DWORD_BE_A_U READ_DWORD_BE_U_def walk_mmu_sel)
  have "walk (host_mem (mem_ctrl_instance walk_mmu)) 0x7F0000010040 0x7F000001FF80 0x1234 0 = Some 0x7F0000010040"
    by (simp add: walk_def pte_candidates_def upt_conv_Cons r pte_match_def)
  then have "page_spec (host_mem (mem_ctrl_instance walk_mmu)) 0x7F0000010040 0x7F000001FF80 0x1234 0 False True = Inr 0x7F0000010040"
    by (simp add: page_spec_def r pp_denied_def seg_key_def)
  then show ?thesis
    using page_walk_refines[of walk_mmu "0x1234" False "0x7F0000010040" "0x7F000001FF80" False True] ph inv ok
    by (auto simp: walk_mmu_sel(4-6) tst_def r Let_def)
qed

end
