(* ===== verification/PpcVmem.thy ===== *)
theory PpcVmem
  imports PpcMmuTables PpcMmuWalk
begin

text \<open>
  Access to guest virtual memory: \<open>mmu_read_vmem\<close>, \<open>mmu_write_vmem\<close>, their unaligned variants,
  \<open>mmu_dcbz\<close> and the accessors of the debugger (\<open>src/cpu/ppc/ppcmmu.cpp\<close>). The template parameter
  is its size \<open>n\<close> in bytes (1, 2, 4 or 8); values are zero-extended to 64 bits. Memory-mapped
  devices (\<open>MMIODevice\<close>) are reached through their virtual functions \<open>read\<close> and \<open>write\<close>, a parameter
  of the definitions here.
\<close>

subsection \<open>Devices\<close>

record 's bus =
  dev_read :: "dev \<Rightarrow> u32 \<Rightarrow> u32 \<Rightarrow> nat \<Rightarrow> 's \<Rightarrow> (u32, 's) outcome"
  dev_write :: "dev \<Rightarrow> u32 \<Rightarrow> u32 \<Rightarrow> u32 \<Rightarrow> nat \<Rightarrow> 's \<Rightarrow> (unit, 's) outcome"

subsection \<open>Host memory by size\<close>

definition to_T :: "nat \<Rightarrow> u64 \<Rightarrow> u64" where
  "to_T n v = take_bit (8 * n) v"

definition host_read_A :: "nat \<Rightarrow> hmem \<Rightarrow> u64 \<Rightarrow> u64" where
  "host_read_A n m a =
     (if n = 1 then ucast (m a) else if n = 2 then ucast (READ_WORD_BE_A m a)
      else if n = 4 then ucast (READ_DWORD_BE_A m a) else READ_QWORD_BE_A m a)"

definition host_read_U :: "nat \<Rightarrow> hmem \<Rightarrow> u64 \<Rightarrow> u64" where
  "host_read_U n m a =
     (if n = 1 then ucast (m a) else if n = 2 then ucast (READ_WORD_BE_U m a)
      else if n = 4 then ucast (READ_DWORD_BE_U m a) else READ_QWORD_BE_U m a)"

definition host_write_A :: "nat \<Rightarrow> hmem \<Rightarrow> u64 \<Rightarrow> u64 \<Rightarrow> hmem" where
  "host_write_A n m a v =
     (if n = 1 then m(a := ucast v) else if n = 2 then WRITE_WORD_BE_A m a (ucast v)
      else if n = 4 then WRITE_DWORD_BE_A m a (ucast v) else WRITE_QWORD_BE_A m a v)"

definition host_write_U :: "nat \<Rightarrow> hmem \<Rightarrow> u64 \<Rightarrow> u64 \<Rightarrow> hmem" where
  "host_write_U n m a v =
     (if n = 1 then m(a := ucast v) else if n = 2 then WRITE_WORD_BE_U m a (ucast v)
      else if n = 4 then WRITE_DWORD_BE_U m a (ucast v) else WRITE_QWORD_BE_U m a v)"

abbreviation (input) hmem_of :: "'a mmu_scheme \<Rightarrow> hmem" where
  "hmem_of s \<equiv> host_mem (mem_ctrl_instance s)"

definition put_hmem :: "hmem \<Rightarrow> 'a mmu_scheme \<Rightarrow> 'a mmu_scheme" where
  "put_hmem m s = s\<lparr>mem_ctrl_instance := (mem_ctrl_instance s)\<lparr>host_mem := m\<rparr>\<rparr>"

subsection \<open>Translation of a data access\<close>

text \<open>
  Where an access goes: nowhere (\<open>UnmappedMem\<close>), to host memory, or to the device of a TLB entry.
\<close>

datatype target = NoPhys | HostVa u64 | Device slot

definition read_target :: "u32 \<Rightarrow> 'a mmu_scheme \<Rightarrow> (target, 'a mmu_scheme) outcome" where
  "read_target va s =
     (let tg = page_tag va;
          ((p1, matched, primary_hit), s) = lookup_tlb DTLB va tg s
      in if primary_hit then Ret (HostVa (host_va_offs_r (tlb s p1) + ucast va)) s
         else
           obind (case matched of Some p2 \<Rightarrow> Ret (Some p2) s | None \<Rightarrow> dtlb2_refill va False s) (\<lambda>r s.
             case r of
               None \<Rightarrow> Ret NoPhys s
             | Some p2 \<Rightarrow>
                 if tst (flags (tlb s p2)) PAGE_MEM then
                   let s = promote_tlb_entry DTLB p1 p2 s
                   in Ret (HostVa (host_va_offs_r (tlb s p1) + ucast va)) s
                 else Ret (Device p2) s))"

definition set_c_flag :: "slot \<Rightarrow> 'a mmu_scheme \<Rightarrow> 'a mmu_scheme" where
  "set_c_flag p s = s\<lparr>tlb := (tlb s)(p := (tlb s p)\<lparr>flags := flags (tlb s p) OR PTE_SET_C\<rparr>)\<rparr>"

definition write_target :: "u32 \<Rightarrow> 'a mmu_scheme \<Rightarrow> (target, 'a mmu_scheme) outcome" where
  "write_target va s =
     (let tg = page_tag va;
          ((p1, matched, primary_hit), s) = lookup_tlb DTLB va tg s
      in if primary_hit then
           obind (prepare_dtlb_write p1 va s) (\<lambda>updated s.
             let s = (if updated then
                        case lookup_secondary_tlb DTLB va tg s of
                          (None, s) \<Rightarrow> s
                        | (Some p2, s) \<Rightarrow> set_c_flag p2 s
                      else s)
             in Ret (HostVa (host_va_offs_w (tlb s p1) + ucast va)) s)
         else
           obind (case matched of Some p2 \<Rightarrow> Ret (Some p2) s | None \<Rightarrow> dtlb2_refill va True s) (\<lambda>r s.
             case r of
               None \<Rightarrow> Ret NoPhys s
             | Some p2 \<Rightarrow>
                 obind (prepare_dtlb_write p2 va s) (\<lambda>_ s.
                   if tst (flags (tlb s p2)) PAGE_MEM then
                     let s = promote_tlb_entry DTLB p1 p2 s
                     in Ret (HostVa (host_va_offs_w (tlb s p1) + ucast va)) s
                   else Ret (Device p2) s)))"

subsection \<open>Reads\<close>

text \<open>
  A read from a device through a TLB entry. A doubleword is read as two words, and the entry is looked at again for the second.
\<close>

definition entry_read :: "'a mmu_scheme bus \<Rightarrow> slot \<Rightarrow> u32 \<Rightarrow> nat \<Rightarrow> 'a mmu_scheme \<Rightarrow> (u32, 'a mmu_scheme) outcome" where
  "entry_read b p va n s =
     (case Option.bind (rgn_desc (tlb s p)) (\<lambda>r. map_option (Pair r) (devobj r)) of
        None \<Rightarrow> Abort ''null pointer''
      | Some (r, d) \<Rightarrow> dev_read b d (rstart r) (ucast (ucast va - dev_base_va (tlb s p))) n s)"

definition mmio_read ::
    "'a mmu_scheme bus \<Rightarrow> nat \<Rightarrow> u32 \<Rightarrow> u32 \<Rightarrow> slot \<Rightarrow> 'a mmu_scheme \<Rightarrow> (u64, 'a mmu_scheme) outcome" where
  "mmio_read b n opcode va p s =
     (if n = 8 then
        obind (if tst va 3 then ppc_alignment_exception opcode va s else Ret () s) (\<lambda>_ s.
        obind (entry_read b p va 4 s) (\<lambda>valueLow s.
        obind (entry_read b p (va + 4) 4 s) (\<lambda>valueHigh s.
        Ret (push_bit 32 (ucast valueLow) OR ucast valueHigh) s)))
      else obind (entry_read b p va n s) (\<lambda>v s. Ret (to_T n (ucast v)) s))"

definition read_vmem_with ::
    "'a mmu_scheme bus \<Rightarrow> (u32 \<Rightarrow> u64 \<Rightarrow> 'a mmu_scheme \<Rightarrow> (u64, 'a mmu_scheme) outcome) \<Rightarrow>
     nat \<Rightarrow> u32 \<Rightarrow> u32 \<Rightarrow> 'a mmu_scheme \<Rightarrow> (u64, 'a mmu_scheme) outcome" where
  "read_vmem_with b unaligned n opcode va s =
     obind (read_target va s) (\<lambda>tgt s.
       case tgt of
         NoPhys \<Rightarrow> Ret (to_T n (-1)) s
       | Device p \<Rightarrow> mmio_read b n opcode va p s
       | HostVa a \<Rightarrow>
           if n > 1 \<and> tst va (of_nat n - 1) then unaligned va a s
           else Ret (host_read_A n (hmem_of s) a) s)"

definition read_byte :: "'a mmu_scheme bus \<Rightarrow> u32 \<Rightarrow> u32 \<Rightarrow> 'a mmu_scheme \<Rightarrow> (u64, 'a mmu_scheme) outcome" where
  "read_byte b opcode va s = read_vmem_with b (\<lambda>_ a s. Ret (ucast (hmem_of s a)) s) 1 opcode va s"

fun read_bytes ::
    "'a mmu_scheme bus \<Rightarrow> nat \<Rightarrow> u32 \<Rightarrow> u32 \<Rightarrow> u64 \<Rightarrow> 'a mmu_scheme \<Rightarrow> (u64, 'a mmu_scheme) outcome" where
  "read_bytes b 0 opcode va res s = Ret res s"
| "read_bytes b (Suc k) opcode va res s =
     obind (read_byte b opcode va s) (\<lambda>v s. read_bytes b k opcode (va + 1) (push_bit 8 res OR v) s)"

definition read_unaligned ::
    "'a mmu_scheme bus \<Rightarrow> nat \<Rightarrow> u32 \<Rightarrow> u32 \<Rightarrow> u64 \<Rightarrow> 'a mmu_scheme \<Rightarrow> (u64, 'a mmu_scheme) outcome" where
  "read_unaligned b n opcode va a s =
     obind (if n = 8 \<and> tst va 3 then ppc_alignment_exception opcode va s else Ret () s) (\<lambda>_ s.
       if n > 1 \<and> unat (va AND 0xFFF) + n > 0x1000 then read_bytes b n opcode va 0 s
       else Ret (host_read_U n (hmem_of s) a) s)"

definition mmu_read_vmem ::
    "'a mmu_scheme bus \<Rightarrow> nat \<Rightarrow> u32 \<Rightarrow> u32 \<Rightarrow> 'a mmu_scheme \<Rightarrow> (u64, 'a mmu_scheme) outcome" where
  "mmu_read_vmem b n opcode va s = read_vmem_with b (read_unaligned b n opcode) n opcode va s"

subsection \<open>Writes\<close>

definition entry_write :: "'a mmu_scheme bus \<Rightarrow> slot \<Rightarrow> u32 \<Rightarrow> u32 \<Rightarrow> nat \<Rightarrow> 'a mmu_scheme \<Rightarrow> (unit, 'a mmu_scheme) outcome" where
  "entry_write b p va v n s =
     (case Option.bind (rgn_desc (tlb s p)) (\<lambda>r. map_option (Pair r) (devobj r)) of
        None \<Rightarrow> Abort ''null pointer''
      | Some (r, d) \<Rightarrow> dev_write b d (rstart r) (ucast (ucast va - dev_base_va (tlb s p))) v n s)"

definition mmio_write ::
    "'a mmu_scheme bus \<Rightarrow> nat \<Rightarrow> u32 \<Rightarrow> u32 \<Rightarrow> u64 \<Rightarrow> slot \<Rightarrow> 'a mmu_scheme \<Rightarrow> (unit, 'a mmu_scheme) outcome" where
  "mmio_write b n opcode va v p s =
     (if n = 8 then
        obind (if tst va 3 then ppc_alignment_exception opcode va s else Ret () s) (\<lambda>_ s.
        obind (entry_write b p va (ucast (drop_bit 32 v)) 4 s) (\<lambda>_ s.
        entry_write b p (va + 4) (ucast v) 4 s))
      else entry_write b p va (ucast v) n s)"

definition write_vmem_with ::
    "'a mmu_scheme bus \<Rightarrow> (u32 \<Rightarrow> u64 \<Rightarrow> u64 \<Rightarrow> 'a mmu_scheme \<Rightarrow> (unit, 'a mmu_scheme) outcome) \<Rightarrow>
     nat \<Rightarrow> u32 \<Rightarrow> u32 \<Rightarrow> u64 \<Rightarrow> 'a mmu_scheme \<Rightarrow> (unit, 'a mmu_scheme) outcome" where
  "write_vmem_with b unaligned n opcode va value s =
     (let v = to_T n value
      in obind (write_target va s) (\<lambda>tgt s.
           case tgt of
             NoPhys \<Rightarrow> Ret () s
           | Device p \<Rightarrow> mmio_write b n opcode va v p s
           | HostVa a \<Rightarrow>
               if n > 1 \<and> tst va (of_nat n - 1) then unaligned va a v s
               else Ret () (put_hmem (host_write_A n (hmem_of s) a v) s)))"

definition write_byte :: "'a mmu_scheme bus \<Rightarrow> u32 \<Rightarrow> u32 \<Rightarrow> u64 \<Rightarrow> 'a mmu_scheme \<Rightarrow> (unit, 'a mmu_scheme) outcome" where
  "write_byte b opcode va v s =
     write_vmem_with b (\<lambda>_ a v s. Ret () (put_hmem ((hmem_of s)(a := ucast v)) s)) 1 opcode va v s"

text \<open>The bytes of the value, the most significant first.\<close>

fun write_bytes ::
    "'a mmu_scheme bus \<Rightarrow> nat \<Rightarrow> u32 \<Rightarrow> u32 \<Rightarrow> u64 \<Rightarrow> 'a mmu_scheme \<Rightarrow> (unit, 'a mmu_scheme) outcome" where
  "write_bytes b 0 opcode va v s = Ret () s"
| "write_bytes b (Suc k) opcode va v s =
     obind (write_byte b opcode va (drop_bit (8 * k) v AND 0xFF) s) (\<lambda>_ s. write_bytes b k opcode (va + 1) v s)"

definition write_unaligned ::
    "'a mmu_scheme bus \<Rightarrow> nat \<Rightarrow> u32 \<Rightarrow> u32 \<Rightarrow> u64 \<Rightarrow> u64 \<Rightarrow> 'a mmu_scheme \<Rightarrow> (unit, 'a mmu_scheme) outcome" where
  "write_unaligned b n opcode va a v s =
     obind (if n = 8 \<and> tst va 3 then ppc_alignment_exception opcode va s else Ret () s) (\<lambda>_ s.
       if n > 1 \<and> unat (va AND 0xFFF) + n > 0x1000 then write_bytes b n opcode va v s
       else Ret () (put_hmem (host_write_U n (hmem_of s) a v) s))"

definition mmu_write_vmem ::
    "'a mmu_scheme bus \<Rightarrow> nat \<Rightarrow> u32 \<Rightarrow> u32 \<Rightarrow> u64 \<Rightarrow> 'a mmu_scheme \<Rightarrow> (unit, 'a mmu_scheme) outcome" where
  "mmu_write_vmem b n opcode va v s = write_vmem_with b (write_unaligned b n opcode) n opcode va v s"

definition mmu_dcbz :: "'a mmu_scheme bus \<Rightarrow> u32 \<Rightarrow> u32 \<Rightarrow> 'a mmu_scheme \<Rightarrow> (unit, 'a mmu_scheme) outcome" where
  "mmu_dcbz b opcode va s =
     (let tg = page_tag va; ((p1, matched, primary_hit), s) = lookup_tlb DTLB va tg s
      in obind (case matched of Some p \<Rightarrow> Ret (Some p) s | None \<Rightarrow> dtlb2_refill va True s) (\<lambda>r s.
           let zero_block =
             obind (mmu_write_vmem b 8 opcode va 0 s) (\<lambda>_ s.
             obind (mmu_write_vmem b 8 opcode (va + 8) 0 s) (\<lambda>_ s.
             obind (mmu_write_vmem b 8 opcode (va + 16) 0 s) (\<lambda>_ s.
             mmu_write_vmem b 8 opcode (va + 24) 0 s)))
           in case r of
                None \<Rightarrow> zero_block
              | Some p \<Rightarrow>
                  if tst (flags (tlb s p)) PAGE_IO then obind (prepare_dtlb_write p va s) (\<lambda>_ s. Ret () s)
                  else zero_block))"

subsection \<open>The debugger's accessors\<close>

text \<open>
  \<open>with_dbg_handler\<close> is the frame the three accessors share: the MMU exceptions are thrown while
  \<open>f\<close> runs, and a throw or a return restores the handler, \<open>DSISR\<close> and \<open>DAR\<close>; a \<open>longjmp\<close> does not.
\<close>

definition with_dbg_handler ::
    "('a mmu_scheme \<Rightarrow> ('v, 'a mmu_scheme) outcome) \<Rightarrow> 'a mmu_scheme \<Rightarrow> ('v, 'a mmu_scheme) outcome" where
  "with_dbg_handler f s =
     (let restore = (\<lambda>t. put_spr SPR_DAR (spr s SPR_DAR) (put_spr SPR_DSISR (spr s SPR_DSISR)
             (t\<lparr>mmu_exception_handler_dbg := False\<rparr>)))
      in case f (s\<lparr>mmu_exception_handler_dbg := True\<rparr>) of
           Ret v t \<Rightarrow> Ret v (restore t)
         | Throw msg t \<Rightarrow> Throw msg (restore t)
         | LongJmp t \<Rightarrow> LongJmp t
         | Abort msg \<Rightarrow> Abort msg)"

abbreviation (input) "NO_OPCODE \<equiv> (0 :: u32)"

definition dbg_size :: "nat \<Rightarrow> nat" where
  "dbg_size n = (if n = 2 \<or> n = 4 \<or> n = 8 then n else 1)"

definition mem_read_dbg :: "'a mmu_scheme bus \<Rightarrow> u32 \<Rightarrow> nat \<Rightarrow> 'a mmu_scheme \<Rightarrow> (u64, 'a mmu_scheme) outcome" where
  "mem_read_dbg b va n = with_dbg_handler (mmu_read_vmem b (dbg_size n) NO_OPCODE va)"

definition mem_write_dbg :: "'a mmu_scheme bus \<Rightarrow> u32 \<Rightarrow> u64 \<Rightarrow> nat \<Rightarrow> 'a mmu_scheme \<Rightarrow> (unit, 'a mmu_scheme) outcome" where
  "mem_write_dbg b va v n = with_dbg_handler (mmu_write_vmem b (dbg_size n) NO_OPCODE va v)"

text \<open>\<open>None\<close> is an address that is not mapped; the exceptions are caught.\<close>

definition mmu_translate_dbg :: "u32 \<Rightarrow> 'a mmu_scheme \<Rightarrow> (u32 option, 'a mmu_scheme) outcome" where
  "mmu_translate_dbg va s =
     (let body = (\<lambda>s. let tg = page_tag va; ((p1, matched, primary_hit), s) = lookup_tlb DTLB va tg s;
             found = (\<lambda>p s. Ret (Some (phys_tag (tlb s p) OR (va AND 0xFFF))) s)
         in if primary_hit then found p1 s
            else
              obind (case matched of Some p2 \<Rightarrow> Ret (Some p2) s | None \<Rightarrow> dtlb2_refill va False s) (\<lambda>r s.
                case r of
                  None \<Rightarrow> Ret None s
                | Some p2 \<Rightarrow>
                    if tst (flags (tlb s p2)) PAGE_MEM then found p1 (promote_tlb_entry DTLB p1 p2 s)
                    else found p2 s))
      in case with_dbg_handler body s of
           Throw msg t \<Rightarrow> Ret None t
         | r \<Rightarrow> r)"

end
