(* ===== verification/PpcLoadStore.thy ===== *)
theory PpcLoadStore
  imports PpcVmem
begin

text \<open>
  The integer load and store instructions of \<open>src/cpu/ppc/ppcopcodes.cpp\<close>: byte, halfword and word
  accesses with and without update, byte-reversed, algebraic, multiple and string accesses, the
  reservation pair, \<open>dcbz\<close> and the external control accesses. The template parameter of \<open>ppc_st\<close>
  and \<open>ppc_lz\<close> is its size \<open>n\<close> (1, 2 or 4).
\<close>

subsection \<open>Effective addresses\<close>

definition ra_or_0 :: "u32 \<Rightarrow> 'a SetPRS_scheme \<Rightarrow> u32" where
  "ra_or_0 opcode s = (if reg_a opcode \<noteq> 0 then gpr s (reg_a opcode) else 0)"

definition ea_imm :: "u32 \<Rightarrow> 'a SetPRS_scheme \<Rightarrow> u32" where
  "ea_imm opcode s = simm opcode + ra_or_0 opcode s"

definition ea_idx :: "u32 \<Rightarrow> 'a SetPRS_scheme \<Rightarrow> u32" where
  "ea_idx opcode s = gpr s (reg_b opcode) + ra_or_0 opcode s"

definition ppc_dcbz :: "'a mmu_scheme bus \<Rightarrow> u32 \<Rightarrow> 'a mmu_scheme \<Rightarrow> (unit, 'a mmu_scheme) outcome" where
  "ppc_dcbz b opcode s = mmu_dcbz b opcode (ea_idx opcode s AND 0xFFFFFFE0) s"

subsection \<open>Stores\<close>

definition ppc_st :: "'a mmu_scheme bus \<Rightarrow> nat \<Rightarrow> u32 \<Rightarrow> 'a mmu_scheme \<Rightarrow> (unit, 'a mmu_scheme) outcome" where
  "ppc_st b n opcode s = mmu_write_vmem b n opcode (ea_imm opcode s) (ucast (gpr s (reg_s opcode))) s"

definition ppc_stx :: "'a mmu_scheme bus \<Rightarrow> nat \<Rightarrow> u32 \<Rightarrow> 'a mmu_scheme \<Rightarrow> (unit, 'a mmu_scheme) outcome" where
  "ppc_stx b n opcode s = mmu_write_vmem b n opcode (ea_idx opcode s) (ucast (gpr s (reg_s opcode))) s"

definition store_update :: "'a mmu_scheme bus \<Rightarrow> nat \<Rightarrow> u32 \<Rightarrow> u32 \<Rightarrow> u32 \<Rightarrow> 'a mmu_scheme \<Rightarrow> (unit, 'a mmu_scheme) outcome" where
  "store_update b n opcode offs ea s =
     (if reg_a opcode \<noteq> 0 then
        obind (mmu_write_vmem b n opcode ea (ucast (gpr s (reg_s opcode))) s) (\<lambda>_ s. Ret () (put_gpr (reg_a opcode) ea s))
      else if is_601 s then mmu_write_vmem b n opcode offs (ucast (gpr s (reg_s opcode))) s
      else ppc_illegalop opcode s)"

definition ppc_stu :: "'a mmu_scheme bus \<Rightarrow> nat \<Rightarrow> u32 \<Rightarrow> 'a mmu_scheme \<Rightarrow> (unit, 'a mmu_scheme) outcome" where
  "ppc_stu b n opcode s = store_update b n opcode (simm opcode) (gpr s (reg_a opcode) + simm opcode) s"

definition ppc_stux :: "'a mmu_scheme bus \<Rightarrow> nat \<Rightarrow> u32 \<Rightarrow> 'a mmu_scheme \<Rightarrow> (unit, 'a mmu_scheme) outcome" where
  "ppc_stux b n opcode s =
     store_update b n opcode (gpr s (reg_b opcode)) (gpr s (reg_a opcode) + gpr s (reg_b opcode)) s"

definition ppc_sthbrx :: "'a mmu_scheme bus \<Rightarrow> u32 \<Rightarrow> 'a mmu_scheme \<Rightarrow> (unit, 'a mmu_scheme) outcome" where
  "ppc_sthbrx b opcode s =
     mmu_write_vmem b 2 opcode (ea_idx opcode s) (ucast (BYTESWAP_16 (ucast (gpr s (reg_s opcode))))) s"

definition ppc_stwbrx :: "'a mmu_scheme bus \<Rightarrow> u32 \<Rightarrow> 'a mmu_scheme \<Rightarrow> (unit, 'a mmu_scheme) outcome" where
  "ppc_stwbrx b opcode s =
     mmu_write_vmem b 4 opcode (ea_idx opcode s) (ucast (BYTESWAP_32 (gpr s (reg_s opcode)))) s"

definition ppc_stwcx :: "'a mmu_scheme bus \<Rightarrow> u32 \<Rightarrow> 'a mmu_scheme \<Rightarrow> (unit, 'a mmu_scheme) outcome" where
  "ppc_stwcx b opcode s =
     (let ea = ea_idx opcode s; v = ucast (gpr s (reg_s opcode));
          s = s\<lparr>cr := (cr s AND 0x0FFFFFFF) OR drop_bit 3 (spr s SPR_XER AND XER_SO)\<rparr>
      in if reserve s then
           obind (mmu_write_vmem b 4 opcode ea v s) (\<lambda>_ s. Ret () (s\<lparr>reserve := False, cr := cr s OR 0x20000000\<rparr>))
         else Ret () s)"

text \<open>The loop of \<open>stmw\<close>, over the registers still to store.\<close>

fun stmw_loop :: "'a mmu_scheme bus \<Rightarrow> u32 \<Rightarrow> nat list \<Rightarrow> u32 \<Rightarrow> 'a mmu_scheme \<Rightarrow> (unit, 'a mmu_scheme) outcome" where
  "stmw_loop b opcode [] ea s = Ret () s"
| "stmw_loop b opcode (r # rs) ea s =
     obind (mmu_write_vmem b 4 opcode ea (ucast (gpr s r)) s) (\<lambda>_ s. stmw_loop b opcode rs (ea + 4) s)"

definition ppc_stmw :: "'a mmu_scheme bus \<Rightarrow> u32 \<Rightarrow> 'a mmu_scheme \<Rightarrow> (unit, 'a mmu_scheme) outcome" where
  "ppc_stmw b opcode s =
     (let ea = ea_imm opcode s
      in obind (if tst ea 3 then ppc_alignment_exception opcode ea s else Ret () s) (\<lambda>_ s.
           stmw_loop b opcode [reg_s opcode..<32] ea s))"

subsection \<open>Loads\<close>

definition load_gpr :: "nat \<Rightarrow> (u64 \<Rightarrow> u32) \<Rightarrow> (u64, 'a mmu_scheme) outcome \<Rightarrow> (unit, 'a mmu_scheme) outcome" where
  "load_gpr r f m = obind m (\<lambda>v s. Ret () (put_gpr r (f v) s))"

definition ppc_lz :: "'a mmu_scheme bus \<Rightarrow> nat \<Rightarrow> u32 \<Rightarrow> 'a mmu_scheme \<Rightarrow> (unit, 'a mmu_scheme) outcome" where
  "ppc_lz b n opcode s = load_gpr (reg_d opcode) ucast (mmu_read_vmem b n opcode (ea_imm opcode s) s)"

definition ppc_lzx :: "'a mmu_scheme bus \<Rightarrow> nat \<Rightarrow> u32 \<Rightarrow> 'a mmu_scheme \<Rightarrow> (unit, 'a mmu_scheme) outcome" where
  "ppc_lzx b n opcode s = load_gpr (reg_d opcode) ucast (mmu_read_vmem b n opcode (ea_idx opcode s) s)"

definition load_update :: "'a mmu_scheme bus \<Rightarrow> nat \<Rightarrow> (u64 \<Rightarrow> u32) \<Rightarrow> u32 \<Rightarrow> u32 \<Rightarrow> 'a mmu_scheme \<Rightarrow> (unit, 'a mmu_scheme) outcome" where
  "load_update b n f opcode ea s =
     (if reg_a opcode \<noteq> reg_d opcode \<and> reg_a opcode \<noteq> 0 then
        obind (load_gpr (reg_d opcode) f (mmu_read_vmem b n opcode ea s)) (\<lambda>_ s. Ret () (put_gpr (reg_a opcode) ea s))
      else ppc_illegalop opcode s)"

definition ppc_lzu :: "'a mmu_scheme bus \<Rightarrow> nat \<Rightarrow> u32 \<Rightarrow> 'a mmu_scheme \<Rightarrow> (unit, 'a mmu_scheme) outcome" where
  "ppc_lzu b n opcode s = load_update b n ucast opcode (simm opcode + gpr s (reg_a opcode)) s"

definition ppc_lzux :: "'a mmu_scheme bus \<Rightarrow> nat \<Rightarrow> u32 \<Rightarrow> 'a mmu_scheme \<Rightarrow> (unit, 'a mmu_scheme) outcome" where
  "ppc_lzux b n opcode s = load_update b n ucast opcode (gpr s (reg_a opcode) + gpr s (reg_b opcode)) s"

definition sext16 :: "u64 \<Rightarrow> u32" where
  "sext16 v = scast (ucast v :: u16)"

definition ppc_lha :: "'a mmu_scheme bus \<Rightarrow> u32 \<Rightarrow> 'a mmu_scheme \<Rightarrow> (unit, 'a mmu_scheme) outcome" where
  "ppc_lha b opcode s = load_gpr (reg_d opcode) sext16 (mmu_read_vmem b 2 opcode (ea_imm opcode s) s)"

definition ppc_lhau :: "'a mmu_scheme bus \<Rightarrow> u32 \<Rightarrow> 'a mmu_scheme \<Rightarrow> (unit, 'a mmu_scheme) outcome" where
  "ppc_lhau b opcode s = load_update b 2 sext16 opcode (simm opcode + gpr s (reg_a opcode)) s"

definition ppc_lhaux :: "'a mmu_scheme bus \<Rightarrow> u32 \<Rightarrow> 'a mmu_scheme \<Rightarrow> (unit, 'a mmu_scheme) outcome" where
  "ppc_lhaux b opcode s = load_update b 2 sext16 opcode (gpr s (reg_a opcode) + gpr s (reg_b opcode)) s"

definition ppc_lhax :: "'a mmu_scheme bus \<Rightarrow> u32 \<Rightarrow> 'a mmu_scheme \<Rightarrow> (unit, 'a mmu_scheme) outcome" where
  "ppc_lhax b opcode s = load_gpr (reg_d opcode) sext16 (mmu_read_vmem b 2 opcode (ea_idx opcode s) s)"

definition ppc_lhbrx :: "'a mmu_scheme bus \<Rightarrow> u32 \<Rightarrow> 'a mmu_scheme \<Rightarrow> (unit, 'a mmu_scheme) outcome" where
  "ppc_lhbrx b opcode s =
     load_gpr (reg_d opcode) (\<lambda>v. ucast (BYTESWAP_16 (ucast v))) (mmu_read_vmem b 2 opcode (ea_idx opcode s) s)"

definition ppc_lwbrx :: "'a mmu_scheme bus \<Rightarrow> u32 \<Rightarrow> 'a mmu_scheme \<Rightarrow> (unit, 'a mmu_scheme) outcome" where
  "ppc_lwbrx b opcode s =
     load_gpr (reg_d opcode) (\<lambda>v. BYTESWAP_32 (ucast v)) (mmu_read_vmem b 4 opcode (ea_idx opcode s) s)"

definition ppc_lwarx :: "'a mmu_scheme bus \<Rightarrow> u32 \<Rightarrow> 'a mmu_scheme \<Rightarrow> (unit, 'a mmu_scheme) outcome" where
  "ppc_lwarx b opcode s =
     load_gpr (reg_d opcode) ucast (mmu_read_vmem b 4 opcode (ea_idx opcode s) (s\<lparr>reserve := True\<rparr>))"

fun lmw_loop :: "'a mmu_scheme bus \<Rightarrow> u32 \<Rightarrow> nat list \<Rightarrow> u32 \<Rightarrow> 'a mmu_scheme \<Rightarrow> (unit, 'a mmu_scheme) outcome" where
  "lmw_loop b opcode [] ea s = Ret () s"
| "lmw_loop b opcode (r # rs) ea s =
     obind (load_gpr r ucast (mmu_read_vmem b 4 opcode ea s)) (\<lambda>_ s. lmw_loop b opcode rs (ea + 4) s)"

definition ppc_lmw :: "'a mmu_scheme bus \<Rightarrow> u32 \<Rightarrow> 'a mmu_scheme \<Rightarrow> (unit, 'a mmu_scheme) outcome" where
  "ppc_lmw b opcode s = lmw_loop b opcode [reg_d opcode..<32] (ea_imm opcode s) s"

subsection \<open>String accesses\<close>

definition next_reg :: "nat \<Rightarrow> nat" where
  "next_reg r = (if r + 1 \<ge> 32 then 0 else r + 1)"

definition lsw_tail :: "'a mmu_scheme bus \<Rightarrow> u32 \<Rightarrow> nat \<Rightarrow> u32 \<Rightarrow> nat \<Rightarrow> 'a mmu_scheme \<Rightarrow> (unit, 'a mmu_scheme) outcome" where
  "lsw_tail b opcode r ea n s =
     (if n = 1 then load_gpr r (\<lambda>v. push_bit 24 (ucast v)) (mmu_read_vmem b 1 opcode ea s)
      else if n = 2 then load_gpr r (\<lambda>v. push_bit 16 (ucast v)) (mmu_read_vmem b 2 opcode ea s)
      else if n = 3 then
        obind (load_gpr r (\<lambda>v. push_bit 16 (ucast v)) (mmu_read_vmem b 2 opcode ea s)) (\<lambda>_ s.
        obind (mmu_read_vmem b 1 opcode (ea + 2) s) (\<lambda>v s. Ret () (put_gpr r (gpr s r + push_bit 8 (ucast v)) s)))
      else Ret () s)"

fun lswi_loop :: "'a mmu_scheme bus \<Rightarrow> u32 \<Rightarrow> nat \<Rightarrow> u32 \<Rightarrow> nat \<Rightarrow> 'a mmu_scheme \<Rightarrow> (unit, 'a mmu_scheme) outcome" where
  "lswi_loop b opcode r ea n s =
     (if n \<ge> 4 then
        obind (load_gpr r ucast (mmu_read_vmem b 4 opcode ea s)) (\<lambda>_ s. lswi_loop b opcode (next_reg r) (ea + 4) (n - 4) s)
      else lsw_tail b opcode r ea n s)"

declare lswi_loop.simps [simp del]

text \<open>The byte count of the immediate forms: 0 stands for 32.\<close>

definition nb :: "u32 \<Rightarrow> nat" where
  "nb opcode = (if reg_b opcode = 0 then 32 else reg_b opcode)"

definition ppc_lswi :: "'a mmu_scheme bus \<Rightarrow> u32 \<Rightarrow> 'a mmu_scheme \<Rightarrow> (unit, 'a mmu_scheme) outcome" where
  "ppc_lswi b opcode s = lswi_loop b opcode (reg_d opcode) (ra_or_0 opcode s) (nb opcode) s"

text \<open>\<open>lswx\<close>; on a 601 the registers of the address are skipped. The two reads of the three byte case are taken left to right.\<close>

fun lswx_loop :: "'a mmu_scheme bus \<Rightarrow> u32 \<Rightarrow> nat \<Rightarrow> u32 \<Rightarrow> nat \<Rightarrow> 'a mmu_scheme \<Rightarrow> (unit, 'a mmu_scheme) outcome" where
  "lswx_loop b opcode r ea n s =
     (if n = 0 then Ret () s
      else if is_601 s \<and> (r = reg_b opcode \<or> reg_a opcode \<noteq> 0 \<and> r = reg_a opcode) then
        lswx_loop b opcode ((r + 1) mod 32) (ea + 4) (n - 4) s
      else if n = 1 then load_gpr r (\<lambda>v. push_bit 24 (ucast v)) (mmu_read_vmem b 1 opcode ea s)
      else if n = 2 then load_gpr r (\<lambda>v. push_bit 16 (ucast v)) (mmu_read_vmem b 2 opcode ea s)
      else if n = 3 then
        obind (mmu_read_vmem b 2 opcode ea s) (\<lambda>v s.
        load_gpr r (\<lambda>w. push_bit 16 (ucast v) OR push_bit 8 (ucast w)) (mmu_read_vmem b 1 opcode (ea + 2) s))
      else
        obind (load_gpr r ucast (mmu_read_vmem b 4 opcode ea s)) (\<lambda>_ s.
          lswx_loop b opcode ((r + 1) mod 32) (ea + 4) (n - 4) s))"

declare lswx_loop.simps [simp del]

definition ppc_lswx :: "'a mmu_scheme bus \<Rightarrow> u32 \<Rightarrow> 'a mmu_scheme \<Rightarrow> (unit, 'a mmu_scheme) outcome" where
  "ppc_lswx b opcode s = lswx_loop b opcode (reg_d opcode) (ea_idx opcode s) (unat (spr s SPR_XER AND 0x7F)) s"

fun stsw_loop :: "'a mmu_scheme bus \<Rightarrow> u32 \<Rightarrow> nat \<Rightarrow> u32 \<Rightarrow> nat \<Rightarrow> 'a mmu_scheme \<Rightarrow> (unit, 'a mmu_scheme) outcome" where
  "stsw_loop b opcode r ea n s =
     (if n \<ge> 4 then
        obind (mmu_write_vmem b 4 opcode ea (ucast (gpr s r)) s) (\<lambda>_ s. stsw_loop b opcode (next_reg r) (ea + 4) (n - 4) s)
      else if n = 1 then mmu_write_vmem b 1 opcode ea (ucast (drop_bit 24 (gpr s r))) s
      else if n = 2 then mmu_write_vmem b 2 opcode ea (ucast (drop_bit 16 (gpr s r))) s
      else if n = 3 then
        obind (mmu_write_vmem b 2 opcode ea (ucast (drop_bit 16 (gpr s r))) s) (\<lambda>_ s.
        mmu_write_vmem b 1 opcode (ea + 2) (ucast (drop_bit 8 (gpr s r) AND 0xFF)) s)
      else Ret () s)"

declare stsw_loop.simps [simp del]

definition ppc_stswi :: "'a mmu_scheme bus \<Rightarrow> u32 \<Rightarrow> 'a mmu_scheme \<Rightarrow> (unit, 'a mmu_scheme) outcome" where
  "ppc_stswi b opcode s = stsw_loop b opcode (reg_s opcode) (ra_or_0 opcode s) (nb opcode) s"

definition ppc_stswx :: "'a mmu_scheme bus \<Rightarrow> u32 \<Rightarrow> 'a mmu_scheme \<Rightarrow> (unit, 'a mmu_scheme) outcome" where
  "ppc_stswx b opcode s = stsw_loop b opcode (reg_s opcode) (ea_idx opcode s) (unat (spr s SPR_XER AND 127)) s"

subsection \<open>External control\<close>

definition ppc_eciwx :: "'a mmu_scheme bus \<Rightarrow> u32 \<Rightarrow> 'a mmu_scheme \<Rightarrow> (unit, 'a mmu_scheme) outcome" where
  "ppc_eciwx b opcode s =
     (if \<not> tst (spr s SPR_EAR) 0x80000000 then ppc_exception_handler EXC_DSI 0 s
      else
        let ea = ea_idx opcode s
        in obind (if tst ea 3 then ppc_alignment_exception opcode ea s else Ret () s) (\<lambda>_ s.
             load_gpr (reg_d opcode) ucast (mmu_read_vmem b 4 opcode ea s)))"

definition ppc_ecowx :: "'a mmu_scheme bus \<Rightarrow> u32 \<Rightarrow> 'a mmu_scheme \<Rightarrow> (unit, 'a mmu_scheme) outcome" where
  "ppc_ecowx b opcode s =
     (if \<not> tst (spr s SPR_EAR) 0x80000000 then ppc_exception_handler EXC_DSI 0 (put_spr SPR_DSISR 0x00100000 s)
      else
        let ea = ea_idx opcode s; v = ucast (gpr s (reg_s opcode))
        in obind (if tst ea 3 then ppc_alignment_exception opcode ea s else Ret () s) (\<lambda>_ s.
             mmu_write_vmem b 4 opcode ea v s))"

end
