(* ===== verification/PpcFloat.thy ===== *)
theory PpcFloat
  imports PpcSpr PpcLoadStore PpcInteger
begin

text \<open>
  The floating point instructions (\<open>src/cpu/ppc/ppcfpopcodes.cpp\<close>). A register holds the 64 bits of
  a double. Classification, comparison and conversion to integers are computed on these bits. The
  arithmetic of the host (\<open>+\<close>, \<open>-\<close>, \<open>*\<close>, \<open>/\<close>, \<open>fma\<close>, \<open>sqrt\<close> and the conversions between \<open>float\<close>
  and \<open>double\<close>) is a parameter: it gets the rounding mode in force and gives the bits of the result with the
  exceptions it raises. The host's rounding mode and its sticky exception flags are part of the state.
\<close>

subsection \<open>The host\<close>

record fexcept =
  FE_OVERFLOW :: bool
  FE_UNDERFLOW :: bool
  FE_DIVBYZERO :: bool

datatype host_rounding = FE_TONEAREST | FE_TOWARDZERO | FE_UPWARD | FE_DOWNWARD

record host_fpu =
  h_add :: "host_rounding \<Rightarrow> u64 \<Rightarrow> u64 \<Rightarrow> u64 \<times> fexcept"
  h_sub :: "host_rounding \<Rightarrow> u64 \<Rightarrow> u64 \<Rightarrow> u64 \<times> fexcept"
  h_mul :: "host_rounding \<Rightarrow> u64 \<Rightarrow> u64 \<Rightarrow> u64 \<times> fexcept"
  h_div :: "host_rounding \<Rightarrow> u64 \<Rightarrow> u64 \<Rightarrow> u64 \<times> fexcept"
  h_fma :: "host_rounding \<Rightarrow> u64 \<Rightarrow> u64 \<Rightarrow> u64 \<Rightarrow> u64 \<times> fexcept"
  h_sqrt :: "host_rounding \<Rightarrow> u64 \<Rightarrow> u64 \<times> fexcept"
  h_to_float :: "host_rounding \<Rightarrow> u64 \<Rightarrow> u32 \<times> fexcept"
  h_to_double :: "u32 \<Rightarrow> u64"

record fpu = timebase +
  host_round :: host_rounding
  host_except :: fexcept

definition no_except :: fexcept where
  "no_except = \<lparr>FE_OVERFLOW = False, FE_UNDERFLOW = False, FE_DIVBYZERO = False\<rparr>"

text \<open>An operation of the host with the mode in force; its exceptions stick.\<close>

definition host_op :: "(host_rounding \<Rightarrow> 'r \<times> fexcept) \<Rightarrow> 'a fpu_scheme \<Rightarrow> 'r \<times> 'a fpu_scheme" where
  "host_op f s =
     (let (r, e) = f (host_round s); h = host_except s
      in (r, s\<lparr>host_except := \<lparr>FE_OVERFLOW = FE_OVERFLOW h \<or> FE_OVERFLOW e,
              FE_UNDERFLOW = FE_UNDERFLOW h \<or> FE_UNDERFLOW e, FE_DIVBYZERO = FE_DIVBYZERO h \<or> FE_DIVBYZERO e\<rparr>\<rparr>))"

definition set_host_rounding_mode :: "u32 \<Rightarrow> 'a fpu_scheme \<Rightarrow> 'a fpu_scheme" where
  "set_host_rounding_mode mode s =
     (let m = mode AND 3
      in s\<lparr>host_round := if m = 0 then FE_TONEAREST else if m = 1 then FE_TOWARDZERO
            else if m = 2 then FE_UPWARD else FE_DOWNWARD\<rparr>)"

definition update_fpscr :: "u32 \<Rightarrow> 'a fpu_scheme \<Rightarrow> 'a fpu_scheme" where
  "update_fpscr new_fpscr s =
     (let s = (if new_fpscr AND 3 \<noteq> fpscr s AND 3 then set_host_rounding_mode (new_fpscr AND 3) s else s)
      in s\<lparr>fpscr := new_fpscr\<rparr>)"

definition test_and_clear_fp_exceptions :: "'a fpu_scheme \<Rightarrow> fexcept \<times> 'a fpu_scheme" where
  "test_and_clear_fp_exceptions s = (host_except s, s\<lparr>host_except := no_except\<rparr>)"

subsection \<open>Doubles as bits\<close>

abbreviation (input) "DBL_PINF \<equiv> (0x7FF0000000000000 :: u64)"
abbreviation (input) "DBL_NINF \<equiv> (0xFFF0000000000000 :: u64)"
abbreviation (input) "QUIET_NAN \<equiv> (0x7FF8000000000000 :: u64)"
abbreviation (input) "DBL_MAX \<equiv> (0x7FEFFFFFFFFFFFFF :: u64)"
abbreviation (input) "NEG_DBL_MAX \<equiv> (0xFFEFFFFFFFFFFFFF :: u64)"
abbreviation (input) "ONE_DBL \<equiv> (0x3FF0000000000000 :: u64)"

definition is_nan :: "u64 \<Rightarrow> bool" where
  "is_nan x \<longleftrightarrow> x AND 0x7FFFFFFFFFFFFFFF > DBL_PINF"

definition is_inf :: "u64 \<Rightarrow> bool" where
  "is_inf x \<longleftrightarrow> x AND 0x7FFFFFFFFFFFFFFF = DBL_PINF"

text \<open>Doubles that are not NaNs are ordered like these numbers.\<close>

definition dbl_key :: "u64 \<Rightarrow> int" where
  "dbl_key x = (if bit x 63 then - uint (x AND 0x7FFFFFFFFFFFFFFF) else uint (x AND 0x7FFFFFFFFFFFFFFF))"

definition dbl_less :: "u64 \<Rightarrow> u64 \<Rightarrow> bool" where
  "dbl_less x y \<longleftrightarrow> \<not> is_nan x \<and> \<not> is_nan y \<and> dbl_key x < dbl_key y"

definition dbl_eq :: "u64 \<Rightarrow> u64 \<Rightarrow> bool" where
  "dbl_eq x y \<longleftrightarrow> \<not> is_nan x \<and> \<not> is_nan y \<and> dbl_key x = dbl_key y"

definition dbl_neg :: "u64 \<Rightarrow> u64" where
  "dbl_neg x = x XOR 0x8000000000000000"

text \<open>The value is \<open>dbl_sig x * 2 ^ (dbl_exp x - 1075)\<close>.\<close>

definition dbl_exp :: "u64 \<Rightarrow> nat" where
  "dbl_exp x = max 1 (unat (drop_bit 52 x AND 0x7FF))"

definition dbl_sig :: "u64 \<Rightarrow> int" where
  "dbl_sig x =
     (let f = uint (x AND 0xFFFFFFFFFFFFF);
          m = (if drop_bit 52 x AND 0x7FF = 0 then f else f + 2 ^ 52)
      in if bit x 63 then - m else m)"

text \<open>\<open>floor\<close>, \<open>ceil\<close>, \<open>trunc\<close>, and rounding to the nearest with ties to even, of \<open>n * 2 ^ (e - 1075)\<close>.\<close>

definition floor_scaled :: "int \<Rightarrow> nat \<Rightarrow> int" where
  "floor_scaled n e = (if e \<ge> 1075 then n * 2 ^ (e - 1075) else n div 2 ^ (1075 - e))"

definition dbl_floor :: "u64 \<Rightarrow> int" where
  "dbl_floor x = floor_scaled (dbl_sig x) (dbl_exp x)"

definition dbl_ceil :: "u64 \<Rightarrow> int" where
  "dbl_ceil x = - floor_scaled (- dbl_sig x) (dbl_exp x)"

definition dbl_trunc :: "u64 \<Rightarrow> int" where
  "dbl_trunc x = (if dbl_sig x < 0 then dbl_ceil x else dbl_floor x)"

definition dbl_nearest :: "u64 \<Rightarrow> int" where
  "dbl_nearest x =
     (if dbl_exp x \<ge> 1075 then dbl_floor x
      else let d = 2 ^ (1075 - dbl_exp x); q = dbl_floor x; r = dbl_sig x mod d
           in if 2 * r < d then q else if 2 * r > d then q + 1 else if even q then q else q + 1)"

definition nearbyint :: "host_rounding \<Rightarrow> u64 \<Rightarrow> int" where
  "nearbyint m x =
     (case m of FE_TONEAREST \<Rightarrow> dbl_nearest x | FE_TOWARDZERO \<Rightarrow> dbl_trunc x | FE_UPWARD \<Rightarrow> dbl_ceil x | FE_DOWNWARD \<Rightarrow> dbl_floor x)"

subsection \<open>FPSCR\<close>

abbreviation (input) "FPSCR_VE \<equiv> (0x80 :: u32)"
abbreviation (input) "FPSCR_VXCVI \<equiv> (0x100 :: u32)"
abbreviation (input) "FPSCR_VXSQRT \<equiv> (0x200 :: u32)"
abbreviation (input) "FPSCR_VXSOFT \<equiv> (0x400 :: u32)"
abbreviation (input) "FPCC_FUNAN \<equiv> (0x1000 :: u32)"
abbreviation (input) "FPCC_ZERO \<equiv> (0x2000 :: u32)"
abbreviation (input) "FPCC_POS \<equiv> (0x4000 :: u32)"
abbreviation (input) "FPCC_NEG \<equiv> (0x8000 :: u32)"
abbreviation (input) "FPCC_MASK \<equiv> (0xF000 :: u32)"
abbreviation (input) "FPRCD \<equiv> (0x10000 :: u32)"
abbreviation (input) "FPSCR_FI \<equiv> (0x20000 :: u32)"
abbreviation (input) "FPSCR_FR \<equiv> (0x40000 :: u32)"
abbreviation (input) "FPSCR_VXVC \<equiv> (0x80000 :: u32)"
abbreviation (input) "FPSCR_VXIMZ \<equiv> (0x100000 :: u32)"
abbreviation (input) "FPSCR_VXZDZ \<equiv> (0x200000 :: u32)"
abbreviation (input) "FPSCR_VXIDI \<equiv> (0x400000 :: u32)"
abbreviation (input) "FPSCR_VXISI \<equiv> (0x800000 :: u32)"
abbreviation (input) "FPSCR_VXSNAN \<equiv> (0x1000000 :: u32)"
abbreviation (input) "FPSCR_XX \<equiv> (0x2000000 :: u32)"
abbreviation (input) "FPSCR_ZX \<equiv> (0x4000000 :: u32)"
abbreviation (input) "FPSCR_UX \<equiv> (0x8000000 :: u32)"
abbreviation (input) "FPSCR_OX \<equiv> (0x10000000 :: u32)"
abbreviation (input) "FPSCR_VX \<equiv> (0x20000000 :: u32)"
abbreviation (input) "FPSCR_FEX \<equiv> (0x40000000 :: u32)"
abbreviation (input) "FPSCR_FX \<equiv> (0x80000000 :: u32)"

definition or_fpscr :: "u32 \<Rightarrow> 'a SetPRS_scheme \<Rightarrow> 'a SetPRS_scheme" where
  "or_fpscr m s = s\<lparr>fpscr := fpscr s OR m\<rparr>"

definition put_fpr :: "nat \<Rightarrow> u64 \<Rightarrow> 'a SetPRS_scheme \<Rightarrow> 'a SetPRS_scheme" where
  "put_fpr r v s = s\<lparr>fpr := (fpr s)(r := v)\<rparr>"

definition ppc_update_cr1 :: "'a SetPRS_scheme \<Rightarrow> 'a SetPRS_scheme" where
  "ppc_update_cr1 s = s\<lparr>cr := (cr s AND NOT 0x0F000000) OR (drop_bit 4 (fpscr s) AND 0x0F000000)\<rparr>"

definition check_snan :: "u64 \<Rightarrow> bool" where
  "check_snan x \<longleftrightarrow> x AND DBL_PINF = DBL_PINF \<and> x AND 0xFFFFFFFFFFFFF \<noteq> 0 \<and> x AND 0x8000000000000 = 0"

definition check_qnan :: "u64 \<Rightarrow> bool" where
  "check_qnan x \<longleftrightarrow> x AND DBL_PINF = DBL_PINF \<and> x AND 0x8000000000000 \<noteq> 0"

text \<open>\<open>snan_single_check\<close> and \<open>snan_double_check\<close> on one or more registers.\<close>

definition snan_check :: "nat list \<Rightarrow> 'a SetPRS_scheme \<Rightarrow> bool \<times> 'a SetPRS_scheme" where
  "snan_check rs s =
     (if list_ex (\<lambda>r. check_snan (fpr s r)) rs
      then (True, or_fpscr (FPSCR_FX OR FPSCR_VX OR FPSCR_VXSNAN) s) else (False, s))"

definition max_double_check :: "u64 \<Rightarrow> u64 \<Rightarrow> 'a SetPRS_scheme \<Rightarrow> 'a SetPRS_scheme" where
  "max_double_check a b s =
     (if dbl_eq a DBL_MAX \<and> dbl_eq b DBL_MAX \<or> dbl_eq a NEG_DBL_MAX \<and> dbl_eq b NEG_DBL_MAX
      then or_fpscr (FPSCR_FX OR FPSCR_OX OR FPSCR_XX OR FPSCR_FI) s else s)"

text \<open>A flag with \<open>set_endresult_nan\<close>: the result becomes the default NaN when it is a NaN.\<close>

definition set_endresult_nan :: "'a SetPRS_scheme \<Rightarrow> u64 \<times> 'a SetPRS_scheme" where
  "set_endresult_nan s = (QUIET_NAN, or_fpscr (FPSCR_FX OR FPSCR_VX) s)"

definition invalid_nan :: "bool \<Rightarrow> u32 \<Rightarrow> u64 \<times> 'a SetPRS_scheme \<Rightarrow> u64 \<times> 'a SetPRS_scheme" where
  "invalid_nan c m = (\<lambda>(r, s).
     if c then
       let s = or_fpscr m s in if is_nan r then set_endresult_nan s else (r, s)
     else (r, s))"

definition invalid_flag :: "bool \<Rightarrow> u32 \<Rightarrow> u64 \<times> 'a SetPRS_scheme \<Rightarrow> u64 \<times> 'a SetPRS_scheme" where
  "invalid_flag c m = (\<lambda>(r, s). (r, if c then or_fpscr m s else s))"

definition default_nan :: "bool \<Rightarrow> u64 \<times> 's \<Rightarrow> u64 \<times> 's" where
  "default_nan c = (\<lambda>(r, s). (if c then QUIET_NAN else r, s))"

definition fpresult_update :: "u64 \<Rightarrow> 'a fpu_scheme \<Rightarrow> 'a fpu_scheme" where
  "fpresult_update r s =
     (if is_nan r then or_fpscr (FPCC_FUNAN OR FPRCD) s
      else
        let s = (if dbl_less 0 r then or_fpscr FPCC_POS s else if dbl_less r 0 then or_fpscr FPCC_NEG s
                 else or_fpscr FPCC_ZERO s);
            (e, s) = test_and_clear_fp_exceptions s;
            s = (if FE_OVERFLOW e then or_fpscr (FPSCR_OX + FPSCR_FX) s else s);
            s = (if FE_UNDERFLOW e then or_fpscr (FPSCR_UX + FPSCR_FX) s else s);
            s = (if FE_DIVBYZERO e then or_fpscr (FPSCR_ZX + FPSCR_FX) s else s)
        in if is_inf r then or_fpscr FPCC_FUNAN s else s)"

definition ppc_update_vx :: "'a SetPRS_scheme \<Rightarrow> 'a SetPRS_scheme" where
  "ppc_update_vx s =
     (if tst (fpscr s) 0x1F80700 then or_fpscr FPSCR_VX s else s\<lparr>fpscr := fpscr s AND NOT FPSCR_VX\<rparr>)"

definition ppc_update_fex :: "'a SetPRS_scheme \<Rightarrow> 'a SetPRS_scheme" where
  "ppc_update_fex s =
     (if drop_bit 22 (fpscr s) AND 0x0F8 \<noteq> 0 then or_fpscr FPSCR_FEX s else s\<lparr>fpscr := fpscr s AND NOT FPSCR_FEX\<rparr>)"

definition record_cr1 :: "bool \<Rightarrow> 'a SetPRS_scheme \<Rightarrow> 'a SetPRS_scheme" where
  "record_cr1 rec s = (if rec then ppc_update_cr1 s else s)"

definition reg_c :: "u32 \<Rightarrow> nat" where "reg_c opcode = unat (drop_bit 6 opcode AND 0x1F)"

text \<open>The end the arithmetic instructions share: store the result, or the NaN for a signalling operand.\<close>

definition store_fp :: "nat list \<Rightarrow> nat \<Rightarrow> u64 \<times> 'a SetPRS_scheme \<Rightarrow> 'a SetPRS_scheme" where
  "store_fp rs d = (\<lambda>(r, s).
     let (snan, s) = snan_check rs s in put_fpr d (if snan then 0x7FFC000000000000 else r) s)"

definition fp_finish :: "bool \<Rightarrow> nat list \<Rightarrow> nat \<Rightarrow> u64 \<times> 'a fpu_scheme \<Rightarrow> 'a fpu_scheme" where
  "fp_finish rec rs d x = record_cr1 rec (fpresult_update (fst x) (store_fp rs d x))"

subsection \<open>Arithmetic\<close>

definition opposite_infs :: "u64 \<Rightarrow> u64 \<Rightarrow> bool" where
  "opposite_infs a b \<longleftrightarrow> dbl_eq a DBL_PINF \<and> dbl_eq b DBL_NINF \<or> dbl_eq a DBL_NINF \<and> dbl_eq b DBL_PINF"

definition inf_times_zero :: "u64 \<Rightarrow> u64 \<Rightarrow> bool" where
  "inf_times_zero a c \<longleftrightarrow> is_inf a \<and> dbl_eq c 0 \<or> is_inf c \<and> dbl_eq a 0"

text \<open>The casts to \<open>float\<close> and back, and the ones with a minus sign in front of the \<open>float\<close>.\<close>

definition via_float :: "host_fpu \<Rightarrow> u64 \<times> 'a fpu_scheme \<Rightarrow> u64 \<times> 'a fpu_scheme" where
  "via_float h = (\<lambda>(r, s). let (f, s) = host_op (\<lambda>m. h_to_float h m r) s in (h_to_double h f, s))"

definition via_neg_float :: "host_fpu \<Rightarrow> u64 \<times> 'a fpu_scheme \<Rightarrow> u64 \<times> 'a fpu_scheme" where
  "via_neg_float h = (\<lambda>(r, s). let (f, s) = host_op (\<lambda>m. h_to_float h m r) s in (h_to_double h (f XOR 0x80000000), s))"

definition neg_result :: "u64 \<times> 's \<Rightarrow> u64 \<times> 's" where
  "neg_result = (\<lambda>(r, s). (dbl_neg r, s))"

definition ppc_fadd :: "host_fpu \<Rightarrow> bool \<Rightarrow> u32 \<Rightarrow> 'a fpu_scheme \<Rightarrow> 'a fpu_scheme" where
  "ppc_fadd h rec opcode s =
     (let a = fpr s (reg_a opcode);
          b = fpr s (reg_b opcode);
          s = max_double_check a b s;
          x = host_op (\<lambda>m. h_add h m a b) s;
          x = invalid_nan (opposite_infs a b) FPSCR_VXISI x
      in fp_finish rec [reg_a opcode, reg_b opcode] (reg_d opcode) x)"

definition ppc_fsub :: "host_fpu \<Rightarrow> bool \<Rightarrow> u32 \<Rightarrow> 'a fpu_scheme \<Rightarrow> 'a fpu_scheme" where
  "ppc_fsub h rec opcode s =
     (let a = fpr s (reg_a opcode);
          b = fpr s (reg_b opcode);
          x = host_op (\<lambda>m. h_sub h m a b) s;
          x = invalid_nan (dbl_eq a DBL_PINF \<and> dbl_eq b DBL_PINF) FPSCR_VXISI x
      in fp_finish rec [reg_a opcode, reg_b opcode] (reg_d opcode) x)"

definition ppc_fdiv :: "host_fpu \<Rightarrow> bool \<Rightarrow> u32 \<Rightarrow> 'a fpu_scheme \<Rightarrow> 'a fpu_scheme" where
  "ppc_fdiv h rec opcode s =
     (if is_601 s \<and> fpr s (reg_b opcode) = 0x8000000000000000 \<and> dbl_less 0 (fpr s (reg_a opcode))
      then record_cr1 rec (fpresult_update (fpr s (reg_b opcode)) s)
      else
      let a = fpr s (reg_a opcode);
          b = fpr s (reg_b opcode);
          x = host_op (\<lambda>m. h_div h m a b) s;
          x = invalid_flag (dbl_eq b 0) (FPSCR_FX OR FPSCR_VX) x;
          x = invalid_flag (is_inf a \<and> is_inf b) FPSCR_VXIDI x;
          x = invalid_nan (dbl_eq a 0 \<and> dbl_eq b 0) FPSCR_VXZDZ x
      in fp_finish rec [reg_a opcode, reg_b opcode] (reg_d opcode) x)"

definition ppc_fmul :: "host_fpu \<Rightarrow> bool \<Rightarrow> u32 \<Rightarrow> 'a fpu_scheme \<Rightarrow> 'a fpu_scheme" where
  "ppc_fmul h rec opcode s =
     (let a = fpr s (reg_a opcode);
          c = fpr s (reg_c opcode);
          x = host_op (\<lambda>m. h_mul h m a c) s;
          x = invalid_nan (inf_times_zero a c) FPSCR_VXIMZ x;
          x = default_nan (is_nan a \<or> is_nan c) x
      in fp_finish rec [reg_a opcode, reg_c opcode] (reg_d opcode) x)"

definition ppc_fmadd :: "host_fpu \<Rightarrow> bool \<Rightarrow> u32 \<Rightarrow> 'a fpu_scheme \<Rightarrow> 'a fpu_scheme" where
  "ppc_fmadd h rec opcode s =
     (let a = fpr s (reg_a opcode);
          b = fpr s (reg_b opcode);
          c = fpr s (reg_c opcode);
          x = host_op (\<lambda>m. h_fma h m a c b) s;
          x = invalid_nan (opposite_infs a b) FPSCR_VXISI x;
          x = invalid_nan (inf_times_zero a c) FPSCR_VXIMZ x
      in fp_finish rec [reg_a opcode, reg_b opcode, reg_c opcode] (reg_d opcode) x)"

definition ppc_fmsub :: "host_fpu \<Rightarrow> bool \<Rightarrow> u32 \<Rightarrow> 'a fpu_scheme \<Rightarrow> 'a fpu_scheme" where
  "ppc_fmsub h rec opcode s =
     (let a = fpr s (reg_a opcode);
          b = fpr s (reg_b opcode);
          c = fpr s (reg_c opcode);
          x = host_op (\<lambda>m. h_fma h m a c (dbl_neg b)) s;
          x = invalid_nan (inf_times_zero a c) FPSCR_VXIMZ x;
          x = invalid_nan (opposite_infs a b) FPSCR_VXISI x;
          x = default_nan (is_nan a \<or> is_nan b \<or> is_nan c) x
      in fp_finish rec [reg_a opcode, reg_b opcode, reg_c opcode] (reg_d opcode) x)"

definition ppc_fnmadd :: "host_fpu \<Rightarrow> bool \<Rightarrow> u32 \<Rightarrow> 'a fpu_scheme \<Rightarrow> 'a fpu_scheme" where
  "ppc_fnmadd h rec opcode s =
     (let a = fpr s (reg_a opcode);
          b = fpr s (reg_b opcode);
          c = fpr s (reg_c opcode);
          x = host_op (\<lambda>m. h_fma h m a c b) s;
          x = neg_result x;
          x = default_nan (is_nan (fst x)) x;
          x = invalid_nan (opposite_infs a b) FPSCR_VXISI x;
          x = invalid_nan (inf_times_zero a c) FPSCR_VXIMZ x
      in fp_finish rec [reg_a opcode, reg_b opcode, reg_c opcode] (reg_d opcode) x)"

definition ppc_fnmsub :: "host_fpu \<Rightarrow> bool \<Rightarrow> u32 \<Rightarrow> 'a fpu_scheme \<Rightarrow> 'a fpu_scheme" where
  "ppc_fnmsub h rec opcode s =
     (let a = fpr s (reg_a opcode);
          b = fpr s (reg_b opcode);
          c = fpr s (reg_c opcode);
          x = host_op (\<lambda>m. h_fma h m a c (dbl_neg b)) s;
          x = neg_result x;
          x = invalid_nan (inf_times_zero a c) FPSCR_VXIMZ x;
          x = invalid_nan (opposite_infs a b) FPSCR_VXISI x
      in fp_finish rec [reg_a opcode, reg_b opcode, reg_c opcode] (reg_d opcode) x)"

definition ppc_fadds :: "host_fpu \<Rightarrow> bool \<Rightarrow> u32 \<Rightarrow> 'a fpu_scheme \<Rightarrow> 'a fpu_scheme" where
  "ppc_fadds h rec opcode s =
     (let a = fpr s (reg_a opcode);
          b = fpr s (reg_b opcode);
          s = max_double_check a b s;
          x = host_op (\<lambda>m. h_add h m a b) s;
          x = via_float h x;
          x = invalid_nan (opposite_infs a b) FPSCR_VXISI x
      in fp_finish rec [reg_a opcode, reg_b opcode] (reg_d opcode) x)"

definition ppc_fsubs :: "host_fpu \<Rightarrow> bool \<Rightarrow> u32 \<Rightarrow> 'a fpu_scheme \<Rightarrow> 'a fpu_scheme" where
  "ppc_fsubs h rec opcode s =
     (let a = fpr s (reg_a opcode);
          b = fpr s (reg_b opcode);
          x = host_op (\<lambda>m. h_sub h m a b) s;
          x = via_float h x;
          x = invalid_nan (dbl_eq a DBL_PINF \<and> dbl_eq b DBL_PINF \<or> dbl_eq a DBL_NINF \<and> dbl_eq b DBL_NINF) FPSCR_VXISI x
      in fp_finish rec [reg_a opcode, reg_b opcode] (reg_d opcode) x)"

definition ppc_fdivs :: "host_fpu \<Rightarrow> bool \<Rightarrow> u32 \<Rightarrow> 'a fpu_scheme \<Rightarrow> 'a fpu_scheme" where
  "ppc_fdivs h rec opcode s =
     (let a = fpr s (reg_a opcode);
          b = fpr s (reg_b opcode);
          x = host_op (\<lambda>m. h_div h m a b) s;
          x = via_float h x;
          x = invalid_flag (dbl_eq b 0) (FPSCR_FX OR FPSCR_VX) x;
          x = invalid_flag (is_inf a \<and> is_inf b) FPSCR_VXIDI x;
          x = invalid_nan (dbl_eq a 0 \<and> dbl_eq b 0) FPSCR_VXZDZ x;
          x = default_nan (is_nan a \<or> is_nan b) x
      in fp_finish rec [reg_a opcode, reg_b opcode] (reg_d opcode) x)"

definition ppc_fmuls :: "host_fpu \<Rightarrow> bool \<Rightarrow> u32 \<Rightarrow> 'a fpu_scheme \<Rightarrow> 'a fpu_scheme" where
  "ppc_fmuls h rec opcode s =
     (let a = fpr s (reg_a opcode);
          c = fpr s (reg_c opcode);
          x = host_op (\<lambda>m. h_mul h m a c) s;
          x = via_float h x;
          x = invalid_nan (inf_times_zero a c) FPSCR_VXIMZ x;
          x = default_nan (is_nan a \<or> is_nan c) x
      in fp_finish rec [reg_a opcode, reg_c opcode] (reg_d opcode) x)"

definition ppc_fmadds :: "host_fpu \<Rightarrow> bool \<Rightarrow> u32 \<Rightarrow> 'a fpu_scheme \<Rightarrow> 'a fpu_scheme" where
  "ppc_fmadds h rec opcode s =
     (let a = fpr s (reg_a opcode);
          b = fpr s (reg_b opcode);
          c = fpr s (reg_c opcode);
          x = host_op (\<lambda>m. h_fma h m a c b) s;
          x = via_float h x;
          x = invalid_flag (opposite_infs a b) FPSCR_VXISI x;
          x = invalid_nan (inf_times_zero a c) FPSCR_VXIMZ x
      in fp_finish rec [reg_a opcode, reg_b opcode, reg_c opcode] (reg_d opcode) x)"

definition ppc_fmsubs :: "host_fpu \<Rightarrow> bool \<Rightarrow> u32 \<Rightarrow> 'a fpu_scheme \<Rightarrow> 'a fpu_scheme" where
  "ppc_fmsubs h rec opcode s =
     (let a = fpr s (reg_a opcode);
          b = fpr s (reg_b opcode);
          c = fpr s (reg_c opcode);
          x = host_op (\<lambda>m. h_fma h m a c (dbl_neg b)) s;
          x = via_float h x;
          x = invalid_nan (inf_times_zero a c) FPSCR_VXIMZ x;
          x = invalid_flag (dbl_eq a DBL_PINF \<and> dbl_eq b DBL_PINF) FPSCR_VXISI x
      in fp_finish rec [reg_a opcode, reg_b opcode, reg_c opcode] (reg_d opcode) x)"

definition ppc_fnmadds :: "host_fpu \<Rightarrow> bool \<Rightarrow> u32 \<Rightarrow> 'a fpu_scheme \<Rightarrow> 'a fpu_scheme" where
  "ppc_fnmadds h rec opcode s =
     (let a = fpr s (reg_a opcode);
          b = fpr s (reg_b opcode);
          c = fpr s (reg_c opcode);
          x = host_op (\<lambda>m. h_fma h m a c b) s;
          x = via_neg_float h x;
          x = default_nan (is_nan (fst x)) x;
          x = invalid_flag (opposite_infs a b) FPSCR_VXISI x;
          x = invalid_nan (inf_times_zero a c) FPSCR_VXIMZ x
      in fp_finish rec [reg_a opcode, reg_b opcode, reg_c opcode] (reg_d opcode) x)"

definition ppc_fnmsubs :: "host_fpu \<Rightarrow> bool \<Rightarrow> u32 \<Rightarrow> 'a fpu_scheme \<Rightarrow> 'a fpu_scheme" where
  "ppc_fnmsubs h rec opcode s =
     (let a = fpr s (reg_a opcode);
          b = fpr s (reg_b opcode);
          c = fpr s (reg_c opcode);
          s = snd (snan_check [reg_b opcode] (snd (snan_check [reg_a opcode, reg_c opcode] s)));
          x = host_op (\<lambda>m. h_fma h m a c (dbl_neg b)) s;
          x = via_neg_float h x;
          x = invalid_nan (inf_times_zero a c) FPSCR_VXIMZ x;
          x = invalid_flag (dbl_eq a DBL_PINF \<and> dbl_eq b DBL_PINF) FPSCR_VXISI x;
          x = default_nan (is_nan a \<or> is_nan b \<or> is_nan c) x
      in fp_finish rec [reg_a opcode, reg_b opcode, reg_c opcode] (reg_d opcode) x)"

subsection \<open>Sign, selection and other unary operations\<close>

definition ppc_fabs :: "bool \<Rightarrow> u32 \<Rightarrow> 'a SetPRS_scheme \<Rightarrow> 'a SetPRS_scheme" where
  "ppc_fabs rec opcode s = record_cr1 rec (put_fpr (reg_d opcode) (fpr s (reg_b opcode) AND NOT 0x8000000000000000) s)"

definition ppc_fnabs :: "bool \<Rightarrow> u32 \<Rightarrow> 'a SetPRS_scheme \<Rightarrow> 'a SetPRS_scheme" where
  "ppc_fnabs rec opcode s = record_cr1 rec (put_fpr (reg_d opcode) (fpr s (reg_b opcode) OR 0x8000000000000000) s)"

definition ppc_fneg :: "bool \<Rightarrow> u32 \<Rightarrow> 'a SetPRS_scheme \<Rightarrow> 'a SetPRS_scheme" where
  "ppc_fneg rec opcode s = record_cr1 rec (put_fpr (reg_d opcode) (fpr s (reg_b opcode) XOR 0x8000000000000000) s)"

definition ppc_fmr :: "bool \<Rightarrow> u32 \<Rightarrow> 'a SetPRS_scheme \<Rightarrow> 'a SetPRS_scheme" where
  "ppc_fmr rec opcode s = record_cr1 rec (put_fpr (reg_d opcode) (fpr s (reg_b opcode)) s)"

definition ppc_fsel :: "bool \<Rightarrow> u32 \<Rightarrow> 'a SetPRS_scheme \<Rightarrow> 'a SetPRS_scheme" where
  "ppc_fsel rec opcode s =
     (let a = fpr s (reg_a opcode)
      in record_cr1 rec (put_fpr (reg_d opcode)
           (if is_nan a \<or> dbl_less a 0 then fpr s (reg_b opcode) else fpr s (reg_c opcode)) s))"

definition ppc_fsqrt :: "host_fpu \<Rightarrow> bool \<Rightarrow> u32 \<Rightarrow> 'a fpu_scheme \<Rightarrow> 'a fpu_scheme" where
  "ppc_fsqrt h rec opcode s =
     (let x = host_op (\<lambda>m. h_sqrt h m (fpr s (reg_b opcode))) s
      in record_cr1 rec (store_fp [reg_b opcode] (reg_d opcode) x))"

definition ppc_fsqrts :: "host_fpu \<Rightarrow> bool \<Rightarrow> u32 \<Rightarrow> 'a fpu_scheme \<Rightarrow> 'a fpu_scheme" where
  "ppc_fsqrts h rec opcode s =
     (let x = via_float h (host_op (\<lambda>m. h_sqrt h m (fpr s (reg_b opcode))) s)
      in record_cr1 rec (store_fp [reg_b opcode] (reg_d opcode) x))"

definition ppc_frsqrte :: "host_fpu \<Rightarrow> bool \<Rightarrow> u32 \<Rightarrow> 'a fpu_scheme \<Rightarrow> 'a fpu_scheme" where
  "ppc_frsqrte h rec opcode s =
     (let (q, s) = host_op (\<lambda>m. h_sqrt h m (fpr s (reg_b opcode))) s;
          x = host_op (\<lambda>m. h_div h m ONE_DBL q) s
      in record_cr1 rec (store_fp [reg_b opcode] (reg_d opcode) x))"

definition ppc_frsp :: "host_fpu \<Rightarrow> bool \<Rightarrow> u32 \<Rightarrow> 'a fpu_scheme \<Rightarrow> 'a fpu_scheme" where
  "ppc_frsp h rec opcode s =
     record_cr1 rec (store_fp [reg_b opcode] (reg_d opcode) (via_float h (fpr s (reg_b opcode), s)))"

definition ppc_fres :: "host_fpu \<Rightarrow> bool \<Rightarrow> u32 \<Rightarrow> 'a fpu_scheme \<Rightarrow> 'a fpu_scheme" where
  "ppc_fres h rec opcode s =
     (let b = fpr s (reg_b opcode);
          (r, s) = via_float h (host_op (\<lambda>m. h_div h m ONE_DBL b) s);
          s = (if dbl_eq b 0 then or_fpscr FPSCR_ZX s
               else if is_nan b then or_fpscr FPSCR_VXSNAN s
               else if is_inf b then or_fpscr FPSCR_VXSNAN (s\<lparr>fpscr := fpscr s AND 0xFFF9FFFF\<rparr>)
               else s)
      in record_cr1 rec (store_fp [reg_b opcode] (reg_d opcode) (r, s)))"

subsection \<open>Conversion to an integer\<close>

definition round_invalid :: "nat \<Rightarrow> u32 \<Rightarrow> u64 \<Rightarrow> 'a SetPRS_scheme \<Rightarrow> 'a SetPRS_scheme" where
  "round_invalid d m r s =
     (let s = s\<lparr>fpscr := (fpscr s AND NOT (FPSCR_FR OR FPSCR_FI)) OR FPSCR_VXCVI OR FPSCR_VX OR m\<rparr>
      in if tst (fpscr s) FPSCR_VE then or_fpscr FPSCR_FEX s else put_fpr d r s)"

definition round_to_int :: "u32 \<Rightarrow> u32 \<Rightarrow> bool \<Rightarrow> 'a fpu_scheme \<Rightarrow> 'a fpu_scheme" where
  "round_to_int opcode mode rec s =
     (let d = reg_d opcode; v = fpr s (reg_b opcode)
      in record_cr1 rec
        (if is_nan v then round_invalid d (if check_snan v then FPSCR_VXSNAN else 0) 0xFFF8000080000000 s
         else if dbl_less 0x41DFFFFFFFC00000 v \<or> dbl_less v 0xC1E0000000000000 then
           round_invalid d 0 (if \<not> dbl_less v 0 then 0xFFF800007FFFFFFF else 0xFFF8000080000000) s
         else
           let i = (if mode AND 3 = 0 then nearbyint (host_round s) v else if mode AND 3 = 1 then dbl_trunc v
                    else if mode AND 3 = 2 then dbl_ceil v else dbl_floor v)
           in put_fpr d (ucast (word_of_int i :: u32) OR 0xFFF8000000000000) s))"

definition ppc_fctiw :: "bool \<Rightarrow> u32 \<Rightarrow> 'a fpu_scheme \<Rightarrow> 'a fpu_scheme" where
  "ppc_fctiw rec opcode s = round_to_int opcode (fpscr s AND 3) rec s"

definition ppc_fctiwz :: "bool \<Rightarrow> u32 \<Rightarrow> 'a fpu_scheme \<Rightarrow> 'a fpu_scheme" where
  "ppc_fctiwz rec opcode s = round_to_int opcode 1 rec s"

subsection \<open>Loads and stores\<close>

definition load_fpr :: "nat \<Rightarrow> (u64 \<Rightarrow> u64) \<Rightarrow> (u64, 'a mmu_scheme) outcome \<Rightarrow> (unit, 'a mmu_scheme) outcome" where
  "load_fpr r f m = obind m (\<lambda>v s. Ret () (put_fpr r (f v) s))"

definition single_load :: "host_fpu \<Rightarrow> u64 \<Rightarrow> u64" where
  "single_load h v = h_to_double h (ucast v)"

definition fp_load_update :: "'a mmu_scheme bus \<Rightarrow> nat \<Rightarrow> (u64 \<Rightarrow> u64) \<Rightarrow> u32 \<Rightarrow> u32 \<Rightarrow> 'a mmu_scheme \<Rightarrow> (unit, 'a mmu_scheme) outcome" where
  "fp_load_update b n f opcode ea s =
     (if reg_a opcode \<noteq> 0 then
        obind (load_fpr (reg_d opcode) f (mmu_read_vmem b n opcode ea s)) (\<lambda>_ s. Ret () (put_gpr (reg_a opcode) ea s))
      else ppc_illegalop opcode s)"

definition ppc_lfs :: "host_fpu \<Rightarrow> 'a mmu_scheme bus \<Rightarrow> u32 \<Rightarrow> 'a mmu_scheme \<Rightarrow> (unit, 'a mmu_scheme) outcome" where
  "ppc_lfs h b opcode s = load_fpr (reg_d opcode) (single_load h) (mmu_read_vmem b 4 opcode (ea_imm opcode s) s)"

definition ppc_lfsu :: "host_fpu \<Rightarrow> 'a mmu_scheme bus \<Rightarrow> u32 \<Rightarrow> 'a mmu_scheme \<Rightarrow> (unit, 'a mmu_scheme) outcome" where
  "ppc_lfsu h b opcode s = fp_load_update b 4 (single_load h) opcode (simm opcode + gpr s (reg_a opcode)) s"

definition ppc_lfsx :: "host_fpu \<Rightarrow> 'a mmu_scheme bus \<Rightarrow> u32 \<Rightarrow> 'a mmu_scheme \<Rightarrow> (unit, 'a mmu_scheme) outcome" where
  "ppc_lfsx h b opcode s = load_fpr (reg_d opcode) (single_load h) (mmu_read_vmem b 4 opcode (ea_idx opcode s) s)"

definition ppc_lfsux :: "host_fpu \<Rightarrow> 'a mmu_scheme bus \<Rightarrow> u32 \<Rightarrow> 'a mmu_scheme \<Rightarrow> (unit, 'a mmu_scheme) outcome" where
  "ppc_lfsux h b opcode s = fp_load_update b 4 (single_load h) opcode (gpr s (reg_a opcode) + gpr s (reg_b opcode)) s"

definition ppc_lfd :: "'a mmu_scheme bus \<Rightarrow> u32 \<Rightarrow> 'a mmu_scheme \<Rightarrow> (unit, 'a mmu_scheme) outcome" where
  "ppc_lfd b opcode s = load_fpr (reg_d opcode) (\<lambda>v. v) (mmu_read_vmem b 8 opcode (ea_imm opcode s) s)"

definition ppc_lfdu :: "'a mmu_scheme bus \<Rightarrow> u32 \<Rightarrow> 'a mmu_scheme \<Rightarrow> (unit, 'a mmu_scheme) outcome" where
  "ppc_lfdu b opcode s = fp_load_update b 8 (\<lambda>v. v) opcode (simm opcode + gpr s (reg_a opcode)) s"

definition ppc_lfdx :: "'a mmu_scheme bus \<Rightarrow> u32 \<Rightarrow> 'a mmu_scheme \<Rightarrow> (unit, 'a mmu_scheme) outcome" where
  "ppc_lfdx b opcode s = load_fpr (reg_d opcode) (\<lambda>v. v) (mmu_read_vmem b 8 opcode (ea_idx opcode s) s)"

definition ppc_lfdux :: "'a mmu_scheme bus \<Rightarrow> u32 \<Rightarrow> 'a mmu_scheme \<Rightarrow> (unit, 'a mmu_scheme) outcome" where
  "ppc_lfdux b opcode s = fp_load_update b 8 (\<lambda>v. v) opcode (gpr s (reg_a opcode) + gpr s (reg_b opcode)) s"

definition fp_store_single :: "host_fpu \<Rightarrow> 'a fpu_scheme bus \<Rightarrow> u32 \<Rightarrow> u32 \<Rightarrow> 'a fpu_scheme \<Rightarrow> (unit, 'a fpu_scheme) outcome" where
  "fp_store_single h b opcode ea s =
     (let (r, s) = host_op (\<lambda>m. h_to_float h m (fpr s (reg_s opcode))) s
      in mmu_write_vmem b 4 opcode ea (ucast r) s)"

definition fp_store_double :: "'a mmu_scheme bus \<Rightarrow> u32 \<Rightarrow> u32 \<Rightarrow> 'a mmu_scheme \<Rightarrow> (unit, 'a mmu_scheme) outcome" where
  "fp_store_double b opcode ea s = mmu_write_vmem b 8 opcode ea (fpr s (reg_s opcode)) s"

definition fp_store_update :: "(u32 \<Rightarrow> 'a mmu_scheme \<Rightarrow> (unit, 'a mmu_scheme) outcome) \<Rightarrow> u32 \<Rightarrow> u32 \<Rightarrow> 'a mmu_scheme \<Rightarrow> (unit, 'a mmu_scheme) outcome" where
  "fp_store_update st opcode ea s =
     (if reg_a opcode \<noteq> 0 then obind (st ea s) (\<lambda>_ s. Ret () (put_gpr (reg_a opcode) ea s))
      else ppc_illegalop opcode s)"

definition ppc_stfs :: "host_fpu \<Rightarrow> 'a fpu_scheme bus \<Rightarrow> u32 \<Rightarrow> 'a fpu_scheme \<Rightarrow> (unit, 'a fpu_scheme) outcome" where
  "ppc_stfs h b opcode s = fp_store_single h b opcode (ea_imm opcode s) s"

definition ppc_stfsu :: "host_fpu \<Rightarrow> 'a fpu_scheme bus \<Rightarrow> u32 \<Rightarrow> 'a fpu_scheme \<Rightarrow> (unit, 'a fpu_scheme) outcome" where
  "ppc_stfsu h b opcode s = fp_store_update (fp_store_single h b opcode) opcode (simm opcode + gpr s (reg_a opcode)) s"

definition ppc_stfsx :: "host_fpu \<Rightarrow> 'a fpu_scheme bus \<Rightarrow> u32 \<Rightarrow> 'a fpu_scheme \<Rightarrow> (unit, 'a fpu_scheme) outcome" where
  "ppc_stfsx h b opcode s = fp_store_single h b opcode (ea_idx opcode s) s"

definition ppc_stfsux :: "host_fpu \<Rightarrow> 'a fpu_scheme bus \<Rightarrow> u32 \<Rightarrow> 'a fpu_scheme \<Rightarrow> (unit, 'a fpu_scheme) outcome" where
  "ppc_stfsux h b opcode s = fp_store_update (fp_store_single h b opcode) opcode (gpr s (reg_a opcode) + gpr s (reg_b opcode)) s"

definition ppc_stfd :: "'a mmu_scheme bus \<Rightarrow> u32 \<Rightarrow> 'a mmu_scheme \<Rightarrow> (unit, 'a mmu_scheme) outcome" where
  "ppc_stfd b opcode s = fp_store_double b opcode (ea_imm opcode s) s"

definition ppc_stfdu :: "'a mmu_scheme bus \<Rightarrow> u32 \<Rightarrow> 'a mmu_scheme \<Rightarrow> (unit, 'a mmu_scheme) outcome" where
  "ppc_stfdu b opcode s = fp_store_update (fp_store_double b opcode) opcode (simm opcode + gpr s (reg_a opcode)) s"

definition ppc_stfdx :: "'a mmu_scheme bus \<Rightarrow> u32 \<Rightarrow> 'a mmu_scheme \<Rightarrow> (unit, 'a mmu_scheme) outcome" where
  "ppc_stfdx b opcode s = fp_store_double b opcode (ea_idx opcode s) s"

definition ppc_stfdux :: "'a mmu_scheme bus \<Rightarrow> u32 \<Rightarrow> 'a mmu_scheme \<Rightarrow> (unit, 'a mmu_scheme) outcome" where
  "ppc_stfdux b opcode s = fp_store_update (fp_store_double b opcode) opcode (gpr s (reg_a opcode) + gpr s (reg_b opcode)) s"

definition ppc_stfiwx :: "'a mmu_scheme bus \<Rightarrow> u32 \<Rightarrow> 'a mmu_scheme \<Rightarrow> (unit, 'a mmu_scheme) outcome" where
  "ppc_stfiwx b opcode s = mmu_write_vmem b 4 opcode (ea_idx opcode s) (ucast (ucast (fpr s (reg_s opcode)) :: u32)) s"

subsection \<open>Moves to and from FPSCR\<close>

definition ppc_mffs :: "bool \<Rightarrow> bool \<Rightarrow> u32 \<Rightarrow> 'a SetPRS_scheme \<Rightarrow> 'a SetPRS_scheme" where
  "ppc_mffs for601 rec opcode s =
     record_cr1 rec (put_fpr (reg_d opcode)
       (ucast (fpscr s) OR (if for601 then 0xFFFFFFFF00000000 else 0xFFF8000000000000)) s)"

text \<open>Update of VX and FEX after the bits selected by \<open>m\<close> have been replaced.\<close>

definition fpscr_replace :: "bool \<Rightarrow> u32 \<Rightarrow> u32 \<Rightarrow> 'a SetPRS_scheme \<Rightarrow> 'a SetPRS_scheme" where
  "fpscr_replace rec m v s =
     record_cr1 rec (ppc_update_fex (ppc_update_vx (s\<lparr>fpscr := (fpscr s AND NOT m) OR (v AND m)\<rparr>)))"

definition mtfsf_mask :: "u32 \<Rightarrow> u32" where
  "mtfsf_mask fm =
     (if fm = 0xFF then 0xFFFFFFFF
      else (if tst fm 0x80 then 0xF0000000 else 0) OR (if tst fm 0x40 then 0x0F000000 else 0) OR
           (if tst fm 0x20 then 0x00F00000 else 0) OR (if tst fm 0x10 then 0x000F0000 else 0) OR
           (if tst fm 0x08 then 0x0000F000 else 0) OR (if tst fm 0x04 then 0x00000F00 else 0) OR
           (if tst fm 0x02 then 0x000000F0 else 0) OR (if tst fm 0x01 then 0x0000000F else 0))
     AND NOT (FPSCR_FEX OR FPSCR_VX)"

definition ppc_mtfsf :: "bool \<Rightarrow> u32 \<Rightarrow> 'a SetPRS_scheme \<Rightarrow> 'a SetPRS_scheme" where
  "ppc_mtfsf rec opcode s = fpscr_replace rec (mtfsf_mask (drop_bit 17 opcode AND 0xFF)) (ucast (fpr s (reg_b opcode))) s"

definition ppc_mtfsfi :: "bool \<Rightarrow> u32 \<Rightarrow> 'a SetPRS_scheme \<Rightarrow> 'a SetPRS_scheme" where
  "ppc_mtfsfi rec opcode s =
     (let f = crf_d opcode; imm = push_bit 16 opcode AND 0xF0000000;
          m = drop_bit f 0xF0000000 AND NOT (FPSCR_FEX OR FPSCR_VX)
      in fpscr_replace rec m (drop_bit f imm) s)"

definition ppc_mtfsb0 :: "bool \<Rightarrow> u32 \<Rightarrow> 'a SetPRS_scheme \<Rightarrow> 'a SetPRS_scheme" where
  "ppc_mtfsb0 rec opcode s =
     (let crf_d = reg_d opcode;
          s = (if crf_d = 0 \<or> crf_d > 2 then s\<lparr>fpscr := fpscr s AND NOT (drop_bit crf_d 0x80000000)\<rparr> else s)
      in record_cr1 rec (ppc_update_fex (ppc_update_vx s)))"

definition ppc_mtfsb1 :: "bool \<Rightarrow> u32 \<Rightarrow> 'a SetPRS_scheme \<Rightarrow> 'a SetPRS_scheme" where
  "ppc_mtfsb1 rec opcode s =
     (let crf_d = reg_d opcode;
          s = (if crf_d = 0 \<or> crf_d > 2 then or_fpscr (drop_bit crf_d 0x80000000) s else s)
      in record_cr1 rec (ppc_update_fex (ppc_update_vx s)))"

definition ppc_mcrfs :: "u32 \<Rightarrow> 'a SetPRS_scheme \<Rightarrow> 'a SetPRS_scheme" where
  "ppc_mcrfs opcode s =
     (let f = crf_d opcode; g = crf_s opcode;
          s = s\<lparr>cr := (cr s AND NOT (drop_bit f 0xF0000000)) OR drop_bit f (push_bit g (fpscr s) AND 0xF0000000)\<rparr>;
          s = s\<lparr>fpscr := fpscr s AND NOT (drop_bit g 0xF0000000 AND
            (FPSCR_FX OR FPSCR_OX OR FPSCR_UX OR FPSCR_ZX OR FPSCR_XX OR FPSCR_VXSNAN OR FPSCR_VXISI OR FPSCR_VXIDI OR
             FPSCR_VXZDZ OR FPSCR_VXIMZ OR FPSCR_VXVC OR FPSCR_VXSOFT OR FPSCR_VXSQRT OR FPSCR_VXCVI))\<rparr>
      in ppc_update_fex (ppc_update_vx s))"

subsection \<open>Comparisons\<close>

definition fp_compare :: "u64 \<Rightarrow> u64 \<Rightarrow> u32" where
  "fp_compare a b =
     (if is_nan a \<or> is_nan b then CR_SO else if dbl_less a b then CR_LT else if dbl_less b a then CR_GT else CR_EQ)"

definition put_compare :: "u32 \<Rightarrow> u32 \<Rightarrow> 'a SetPRS_scheme \<Rightarrow> 'a SetPRS_scheme" where
  "put_compare opcode c s =
     (let f = crf_d opcode;
          s = s\<lparr>fpscr := fpscr s AND NOT FPSCR_VE\<rparr>;
          s = s\<lparr>fpscr := (fpscr s AND NOT FPCC_MASK) OR drop_bit 16 c\<rparr>
      in s\<lparr>cr := (cr s AND NOT (drop_bit f 0xF0000000)) OR drop_bit f c\<rparr>)"

definition ppc_fcmpo :: "u32 \<Rightarrow> 'a SetPRS_scheme \<Rightarrow> 'a SetPRS_scheme" where
  "ppc_fcmpo opcode s =
     (let a = fpr s (reg_a opcode); b = fpr s (reg_b opcode);
          s = (if is_nan a \<or> is_nan b then
                 let s = or_fpscr (FPSCR_FX OR FPSCR_VX) s;
                     s = (if check_snan a \<or> check_snan b then or_fpscr FPSCR_VXSNAN s else s)
                 in if \<not> tst (fpscr s) FPSCR_FEX \<or> check_qnan a \<or> check_qnan b then or_fpscr FPSCR_VXVC s else s
               else s)
      in put_compare opcode (fp_compare a b) s)"

definition ppc_fcmpu :: "u32 \<Rightarrow> 'a SetPRS_scheme \<Rightarrow> 'a SetPRS_scheme" where
  "ppc_fcmpu opcode s =
     (let a = fpr s (reg_a opcode); b = fpr s (reg_b opcode);
          s = (if (is_nan a \<or> is_nan b) \<and> (check_snan a \<or> check_snan b)
               then or_fpscr (FPSCR_FX OR FPSCR_VX OR FPSCR_VXSNAN) s else s)
      in put_compare opcode (fp_compare a b) s)"

end
