(* ===== verification/PpcIntegerExact.thy ===== *)
theory PpcIntegerExact
  imports PpcInteger
begin

text \<open>
  The integer instructions against their mathematical meaning: compares, condition register
  logic, rotates, multiplication, division, arithmetic shifts and leading zeros.
\<close>

subsection \<open>Compares and condition register operations\<close>

lemma and_top_u32: "x AND 0x80000000 = (if bit x 31 then 0x80000000 else 0)" for x :: u32
  by (rule u32_eqI) (unfold all_less_32, simp add: bit_simps)

lemma crf_d_le: "crf_d opcode \<le> 28"
proof -
  have "drop_bit 21 opcode AND 0x1C \<le> 0x1C" by (rule word_and_le1)
  then have "unat (drop_bit 21 opcode AND 0x1C) \<le> unat (0x1C :: u32)" by (simp only: word_le_nat_alt)
  then show ?thesis by (simp add: crf_d_def)
qed

lemma bit_F0000000: "bit (0xF0000000 :: u32) n \<longleftrightarrow> 28 \<le> n \<and> n < 32"
proof (cases "n < 32")
  case True
  have "\<forall>i<32. bit (0xF0000000 :: u32) i \<longleftrightarrow> 28 \<le> i \<and> i < 32"
    unfolding all_less_32 by simp
  with True show ?thesis by blast
qed (simp add: bits)

lemma bit_field_insert:
  "bit ((c AND NOT (drop_bit f 0xF0000000)) OR drop_bit f w) n \<longleftrightarrow>
     bit c n \<and> \<not> (28 \<le> f + n \<and> f + n < 32) \<or> bit w (f + n)" for c w :: u32
proof (cases "n < 32")
  case True
  then show ?thesis
    by (simp only: bit_or_iff bit_and_iff bit_not_iff bit_drop_bit_eq bit_F0000000 o_apply) simp
qed (simp add: bits)

lemma cmp_field_bits:
  fixes v x :: u32
  assumes "v = 0x20000000 \<or> v = 0x40000000 \<or> v = 0x80000000"
  defines "w \<equiv> v + drop_bit 3 (x AND 0x80000000)"
  shows "bit w 31 \<longleftrightarrow> v = 0x80000000" "bit w 30 \<longleftrightarrow> v = 0x40000000" "bit w 29 \<longleftrightarrow> v = 0x20000000"
    "bit w 28 \<longleftrightarrow> bit x 31" "w AND 0xF0000000 = w"
  unfolding w_def and_top_u32 using assms(1) by (auto split: if_splits)

definition field_is :: "nat \<Rightarrow> bool \<Rightarrow> bool \<Rightarrow> bool \<Rightarrow> bool \<Rightarrow> u32 \<Rightarrow> bool" where
  "field_is f lt gt eq so w \<longleftrightarrow>
     bit w (31 - f) = lt \<and> bit w (30 - f) = gt \<and> bit w (29 - f) = eq \<and> bit w (28 - f) = so"

lemma put_crf_field:
  assumes "f \<le> 28" "v = 0x20000000 \<or> v = 0x40000000 \<or> v = 0x80000000"
  shows "field_is f (v = 0x80000000) (v = 0x40000000) (v = 0x20000000) (bit (xer s) 31)
           (cr (put_crf f v s)) \<and>
         cr (put_crf f v s) AND NOT (drop_bit f 0xF0000000) = cr s AND NOT (drop_bit f 0xF0000000)"
proof
  have "bit (cr (put_crf f v s)) (j - f) = bit (v + drop_bit 3 (spr s 1 AND 0x80000000)) j"
    if "28 \<le> j" "j < 32" for j
    using that assms(1) by (simp add: put_crf_def bit_field_insert)
  from this[of 31] this[of 30] this[of 29] this[of 28]
  show "field_is f (v = 0x80000000) (v = 0x40000000) (v = 0x20000000) (bit (xer s) 31) (cr (put_crf f v s))"
    using cmp_field_bits[OF assms(2), of "spr s 1"] by (simp add: field_is_def xer_def)
  have "drop_bit f (v + drop_bit 3 (spr s 1 AND 0x80000000)) AND NOT (drop_bit f 0xF0000000) =
     drop_bit f ((v + drop_bit 3 (spr s 1 AND 0x80000000)) AND 0xF0000000) AND NOT (drop_bit f 0xF0000000)"
    using cmp_field_bits(5)[OF assms(2), of "spr s 1"] by simp
  also have "\<dots> = 0"
    by (rule bit_word_eqI) (auto simp: bit_simps)
  finally show "cr (put_crf f v s) AND NOT (drop_bit f 0xF0000000) = cr s AND NOT (drop_bit f 0xF0000000)"
    by (simp add: put_crf_def bit.conj_disj_distrib2 and.assoc)
qed

lemma trichotomy:
  "x < y \<longleftrightarrow> x \<noteq> y \<and> \<not> y < x" "\<not> (x = y \<and> y < x)"
  "sint u < sint v \<longleftrightarrow> u \<noteq> v \<and> \<not> sint v < sint u" "\<not> (u = v \<and> sint v < sint u)"
  for x y u v :: u32
  by (auto simp: sint_eq_iff_u32[of u v])

lemma put_crf_frame: "(put_crf f v s)\<lparr>cr := c\<rparr> = s\<lparr>cr := c\<rparr>"
  by (simp add: put_crf_def)

text \<open>
  C19: The four compares set exactly one of LT, GT and EQ of the selected condition register
  field, by the signed order for \<open>cmp\<close> and \<open>cmpi\<close> and the unsigned one for \<open>cmpl\<close> and \<open>cmpli\<close>, and
  copy \<open>XER[SO]\<close> into its SO bit. The other condition register fields and the rest of the state stay as they were.
\<close>

theorem compare_exact:
  "let a = gpr s (reg_a opcode); b = gpr s (reg_b opcode); f = crf_d opcode; so = bit (xer s) 31
   in field_is f (sint a < sint b) (sint a > sint b) (a = b) so (cr (ppc_cmp opcode s)) \<and>
      field_is f (a < b) (a > b) (a = b) so (cr (ppc_cmpl opcode s)) \<and>
      field_is f (sint a < sint (simm opcode)) (sint a > sint (simm opcode)) (a = simm opcode) so
        (cr (ppc_cmpi opcode s)) \<and>
      field_is f (a < uimm opcode) (a > uimm opcode) (a = uimm opcode) so (cr (ppc_cmpli opcode s)) \<and>
      list_all (\<lambda>r. cr r AND NOT (drop_bit f 0xF0000000) = cr s AND NOT (drop_bit f 0xF0000000) \<and> r\<lparr>cr := cr s\<rparr> = s)
        [ppc_cmp opcode s, ppc_cmpl opcode s, ppc_cmpi opcode s, ppc_cmpli opcode s]"
proof -
  have fld: "field_is (crf_d opcode) lt gt eq (bit (xer s) 31) (cr (put_crf (crf_d opcode)
       (if eq then 0x20000000 else if gt then 0x40000000 else 0x80000000) s))"
    if "lt \<longleftrightarrow> \<not> eq \<and> \<not> gt" "\<not> (eq \<and> gt)" for lt gt eq
    using put_crf_field[OF crf_d_le, of "if eq then 0x20000000 else if gt then 0x40000000 else 0x80000000" opcode s]
      that by (cases eq; cases gt) simp_all
  have other: "cr (put_crf (crf_d opcode) (if eq then 0x20000000 else if gt then 0x40000000 else 0x80000000) s) AND NOT (drop_bit (crf_d opcode) 0xF0000000)
      = cr s AND NOT (drop_bit (crf_d opcode) 0xF0000000)" for eq gt
    by (rule put_crf_field[OF crf_d_le, THEN conjunct2]) simp
  show ?thesis
    unfolding Let_def ppc_cmp_def ppc_cmpi_def ppc_cmpl_def ppc_cmpli_def sint_eq_iff_u32[symmetric] list.pred_inject
    by (intro conjI fld trichotomy other TrueI) (simp_all add: put_crf_frame)
qed


subsection \<open>Condition register logic\<close>

text \<open>Bit \<open>i\<close> of the condition register in the manual's numbering (bit 0 on the left).\<close>

definition crb :: "'a SetPRS_scheme \<Rightarrow> nat \<Rightarrow> bool" where
  "crb s i = bit (cr s) (31 - i)"

lemma drop_top: "i < 32 \<Longrightarrow> drop_bit i 0x80000000 = (2 ^ (31 - i) :: u32)"
proof -
  assume "i < 32"
  have "(0x80000000 :: u32) = push_bit i (2 ^ (31 - i))"
    using \<open>i < 32\<close> by (simp add: push_bit_eq_mult flip: power_add)
  moreover have "drop_bit i (push_bit i (2 ^ (31 - i))) = (2 ^ (31 - i) :: u32)"
    using \<open>i < 32\<close> by (intro bit_word_eqI) (auto simp: bit_simps)
  ultimately show ?thesis by simp
qed

lemma tst_crb: "i < 32 \<Longrightarrow> tst (cr s) (drop_bit i 0x80000000) = crb s i"
  by (simp add: drop_top tst_pow2 crb_def)

lemma crb_put_cr_bit:
  "\<lbrakk>d < 32; i < 32\<rbrakk> \<Longrightarrow> crb (put_cr_bit d v s) i = (if i = d then v else crb s i)"
  by (auto simp: crb_def put_cr_bit_def drop_top bit_simps)

lemma crb_ir:
  "tst (ucast (drop_bit (31 - i) (cr s) AND drop_bit (31 - j) (cr s)) :: u8) 1 \<longleftrightarrow> crb s i \<and> crb s j"
  "tst (ucast (drop_bit (31 - i) (cr s) OR drop_bit (31 - j) (cr s)) :: u8) 1 \<longleftrightarrow> crb s i \<or> crb s j"
  "tst (ucast (drop_bit (31 - i) (cr s) XOR drop_bit (31 - j) (cr s)) :: u8) 1 \<longleftrightarrow> crb s i \<noteq> crb s j"
  by (simp_all add: crb_def bit_simps flip: bit_0)

text \<open>
  The eight condition register logic instructions write the truth function of their name
  of bits \<open>crbA\<close> and \<open>crbB\<close> into bit \<open>crbD\<close> and keep every other bit.
\<close>

theorem cr_logic_exact:
  assumes "i < 32"
  shows "let a = crb s (reg_a opcode); b = crb s (reg_b opcode);
             res = (\<lambda>v. if i = reg_d opcode then v else crb s i)
   in crb (ppc_crand opcode s) i = res (a \<and> b) \<and> crb (ppc_crandc opcode s) i = res (a \<and> \<not> b) \<and>
      crb (ppc_creqv opcode s) i = res (a = b) \<and> crb (ppc_crnand opcode s) i = res (\<not> (a \<and> b)) \<and>
      crb (ppc_crnor opcode s) i = res (\<not> (a \<or> b)) \<and> crb (ppc_cror opcode s) i = res (a \<or> b) \<and>
      crb (ppc_crorc opcode s) i = res (a \<or> \<not> b) \<and> crb (ppc_crxor opcode s) i = res (a \<noteq> b)"
  unfolding Let_def ppc_crand_def ppc_crandc_def ppc_creqv_def ppc_crnand_def ppc_crnor_def
    ppc_cror_def ppc_crorc_def ppc_crxor_def crb_ir
  using assms by (simp add: crb_put_cr_bit tst_crb)

theorem cr_logic_exact_witness:
  "crb (ppc_crxor 0x00010182 (zero_prs\<lparr>cr := 0x40000000\<rparr>)) 0 \<longleftrightarrow> True"
  using cr_logic_exact[of 0 "zero_prs\<lparr>cr := 0x40000000\<rparr>" "0x00010182"]
  by (simp add: Let_def crb_def zero_prs_def reg_a_def reg_b_def reg_d_def)


subsection \<open>Rotates\<close>

lemma index_less_32 [simp]: "31 - i < (32 :: nat)"
  by simp

lemma sint_eq_iff: "x = y \<longleftrightarrow> sint x = sint y" for x y :: "'a::len word"
  by (auto dest: arg_cong[where f = "word_of_int :: int \<Rightarrow> 'a word"])

text \<open>Bit \<open>i\<close> (from the left) belongs to the mask \<open>MASK(mb, me)\<close>, wrapping around when \<open>me < mb\<close>.\<close>

definition in_mask :: "nat \<Rightarrow> nat \<Rightarrow> nat \<Rightarrow> bool" where
  "in_mask mb me i \<longleftrightarrow> (if mb \<le> me then mb \<le> i \<and> i \<le> me else mb \<le> i \<or> i \<le> me)"

lemma bit_rot_mask:
  assumes "mb < 32" "me < 32" "i < 32"
  shows "bit (rot_mask mb me) (31 - i) \<longleftrightarrow> in_mask mb me i"
  using assms unfolding rot_mask_def Let_def u32_minus_1(1)
  by (auto simp: in_mask_def bit_or_iff bit_and_iff bit_drop_bit_eq bit_push_bit_iff
      bit_mask_iff bit_not_iff)

lemma bit_ROTL_left:
  assumes "i < 32"
  shows "bit (ROTL_32 x n) (31 - i) = bit x (31 - (i + n) mod 32)"
proof -
  have "(31 - i + 32 - n mod 32) mod 32 = 31 - (i + n) mod 32"
  proof -
    define m where "m = n mod 32"
    have "m < 32" "(i + n) mod 32 = (i + m) mod 32" by (simp_all add: m_def mod_simps)
    then show ?thesis
      using assms unfolding m_def[symmetric]
      by (cases "i + m < 32") (auto simp: mod_if le_mod_geq not_less)
  qed
  then show ?thesis by (simp add: bit_ROTL_32)
qed

text \<open>
  The rotate instructions against the architecture's definition, bit by bit from the left:
  bit \<open>i\<close> of the result is bit \<open>i + n mod 32\<close> of \<open>rS\<close> inside \<open>MASK(mb, me)\<close>; outside it is zero, or for
  \<open>rlwimi\<close> the old bit of \<open>rA\<close>.
\<close>

theorem rlwinm_exact:
  assumes "i < 32"
  shows "let sh = reg_b opcode; rs = gpr s (reg_s opcode);
             inside = in_mask (rot_mb opcode) (rot_me opcode) i;
             rot = (\<lambda>n. bit rs (31 - (i + n) mod 32))
    in bit (gpr (ppc_rlwinm opcode s) (reg_a opcode)) (31 - i) = (inside \<and> rot sh) \<and>
       bit (gpr (ppc_rlwnm opcode s) (reg_a opcode)) (31 - i) =
         (inside \<and> rot (unat (gpr s (reg_b opcode)))) \<and>
       bit (gpr (ppc_rlwimi opcode s) (reg_a opcode)) (31 - i) =
         (if inside then rot sh else bit (gpr s (reg_a opcode)) (31 - i))"
  using assms unfolding Let_def ppc_rlwinm_def ppc_rlwnm_def ppc_rlwimi_def
  by (simp add: bit_or_iff bit_and_iff bit_not_iff bit_rot_mask bit_ROTL_left)

theorem rlwinm_exact_witness:
  "bit (gpr (ppc_rlwinm 0x54601C3E (zero_prs\<lparr>gpr := (\<lambda>_. 0x12345678)\<rparr>)) 0) 0 = bit (0x12345678 :: u32) 29"
  using rlwinm_exact[of 31 "0x54601C3E" "zero_prs\<lparr>gpr := (\<lambda>_. 0x12345678)\<rparr>"]
  by (simp add: Let_def in_mask_def zero_prs_def reg_a_def reg_b_def reg_d_def rot_mb_def rot_me_def)


subsection \<open>Multiplication and division\<close>

lemma sint_u64_of_int: "- (2 ^ 63) \<le> k \<Longrightarrow> k < 2 ^ 63 \<Longrightarrow> sint (word_of_int k :: u64) = k"
  using int_word_sint[where 'a=64, of k] by simp

lemma sint_mult_bounds:
  fixes a b :: u32
  shows "- (2 ^ 62) \<le> sint a * sint b" "sint a * sint b \<le> 2 ^ 62"
proof -
  have "\<bar>sint a\<bar> \<le> 2 ^ 31" "\<bar>sint b\<bar> \<le> 2 ^ 31"
    using sint_u32_bounds[of a] sint_u32_bounds[of b] by auto
  then have "\<bar>sint a * sint b\<bar> \<le> 2 ^ 31 * 2 ^ 31"
    unfolding abs_mult by (intro mult_mono) auto
  then show "- (2 ^ 62) \<le> sint a * sint b" "sint a * sint b \<le> 2 ^ 62" by auto
qed

lemma scast_product:
  fixes a b :: u32
  defines "p \<equiv> scast a * scast b :: u64"
  shows "p = word_of_int (sint a * sint b)" "sint p = sint a * sint b"
proof -
  show p: "p = word_of_int (sint a * sint b)"
    unfolding p_def scast_eq of_int_mult ..
  show "sint p = sint a * sint b"
    unfolding p using sint_mult_bounds[of a b] by (intro sint_u64_of_int) auto
qed

lemma ucast_word_of_int_64_32: "(ucast (word_of_int k :: u64) :: u32) = word_of_int k"
  by (rule bit_word_eqI) (simp add: bit_simps)

lemma sint_ucast_32: "sint (ucast (p :: u64) :: u32) = (sint p + 2147483648) mod 4294967296 - 2147483648"
proof -
  have "p = word_of_int (sint p)" by simp
  then show ?thesis by (metis ucast_word_of_int_64_32 sint_word_of_int_u32)
qed

lemma fits_s32_iff: "(k + 2147483648) mod 4294967296 - 2147483648 = k \<longleftrightarrow> \<not> ov_s32 k" for k :: int
proof
  assume "(k + 2147483648) mod 4294967296 - 2147483648 = k"
  moreover have "0 \<le> (k + 2147483648) mod 4294967296" "(k + 2147483648) mod 4294967296 < 4294967296"
    by (rule pos_mod_sign, simp) (rule pos_mod_bound, simp)
  ultimately show "\<not> ov_s32 k" by (simp add: ov_s32_def)
next
  assume "\<not> ov_s32 k"
  then show "(k + 2147483648) mod 4294967296 - 2147483648 = k"
    by (subst mod_pos_pos_trivial) (auto simp: ov_s32_def)
qed

lemma product_fits_iff:
  fixes a b :: u32
  shows "(scast a * scast b :: u64) \<noteq> scast (ucast (scast a * scast b :: u64) :: u32) \<longleftrightarrow> ov_s32 (sint a * sint b)"
proof -
  define p where "p = (scast a * scast b :: u64)"
  have "p = scast (ucast p :: u32) \<longleftrightarrow> sint p = sint (scast (ucast p :: u32) :: u64)"
    by (rule sint_eq_iff)
  also have "sint (scast (ucast p :: u32) :: u64) = sint (ucast p :: u32)"
    unfolding scast_eq by (rule sint_u64_of_int) (use sint_u32_bounds[of "ucast p"] in auto)
  finally show ?thesis
    using fits_s32_iff[of "sint p"] scast_product(2)[of a b]
    unfolding p_def[symmetric] sint_ucast_32 by auto
qed

text \<open>
  \<open>mullw\<close> gives the low word of the exact signed product and sets \<open>XER[OV]\<close> exactly when the
  product does not fit; \<open>mulhw\<close> and \<open>mulhwu\<close> give the high word of the exact signed and unsigned
  product.
\<close>

theorem mul_exact:
  "let a = gpr s (reg_a opcode); b = gpr s (reg_b opcode); k = sint a * sint b;
       lo = ppc_mullw rec True opcode s
   in gpr lo (reg_d opcode) = word_of_int k \<and> (bit (xer lo) 30 \<longleftrightarrow> ov_s32 k) \<and>
      gpr (ppc_mulhw rec opcode s) (reg_d opcode) = word_of_int (k div 2 ^ 32) \<and>
      unat (gpr (ppc_mulhwu rec opcode s) (reg_d opcode)) = unat a * unat b div 2 ^ 32"
proof -
  have lo: "(ucast (scast a * scast b :: u64) :: u32) = word_of_int (sint a * sint b)" for a b :: u32
    unfolding scast_product(1) ucast_word_of_int_64_32 ..
  have hi: "(ucast (signed_drop_bit 32 (scast a * scast b :: u64)) :: u32) = word_of_int (sint a * sint b div 2 ^ 32)"
    for a b :: u32
  proof -
    have "signed_drop_bit 32 (scast a * scast b :: u64) = word_of_int (sint a * sint b div 2 ^ 32)"
      unfolding scast_product(2)[symmetric] drop_bit_eq_div[symmetric] sint_signed_drop_bit_eq[symmetric]
      by simp
    then show ?thesis by (simp only: ucast_word_of_int_64_32)
  qed
  have hu: "unat (ucast (drop_bit 32 (ucast a * ucast b :: u64)) :: u32) = unat a * unat b div 2 ^ 32" for a b :: u32
  proof -
    have "unat a * unat b < 4294967296 * 4294967296"
      by (intro mult_strict_mono' unat_u32_less) simp_all
    then have "unat (ucast a * ucast b :: u64) = unat a * unat b"
      using unat_mult_lem[of "ucast a :: u64" "ucast b"] by (simp add: unat_ucast_u32_u64)
    then show ?thesis
      using unat_u64_hi[of "ucast a * ucast b"] by (simp add: unat_ucast_mod unat_drop_bit)
  qed
  have "gpr (ppc_mullw rec True opcode s) (reg_d opcode) =
      word_of_int (sint (gpr s (reg_a opcode)) * sint (gpr s (reg_b opcode)))"
    unfolding ppc_mullw_def Let_def lo xer_finish by simp
  moreover have "bit (xer (ppc_mullw rec True opcode s)) 30 \<longleftrightarrow>
      ov_s32 (sint (gpr s (reg_a opcode)) * sint (gpr s (reg_b opcode)))"
    unfolding ppc_mullw_def Let_def xer_finish if_True bit_xer_set_ov product_fits_iff by simp
  moreover have "gpr (ppc_mulhw rec opcode s) (reg_d opcode) =
      word_of_int (sint (gpr s (reg_a opcode)) * sint (gpr s (reg_b opcode)) div 2 ^ 32)"
    unfolding ppc_mulhw_def Let_def hi xer_finish by simp
  moreover have "unat (gpr (ppc_mulhwu rec opcode s) (reg_d opcode)) =
      unat (gpr s (reg_a opcode)) * unat (gpr s (reg_b opcode)) div 2 ^ 32"
    unfolding ppc_mulhwu_def Let_def xer_finish by (simp only: fun_upd_same hu)
  ultimately show ?thesis
    unfolding Let_def by blast
qed

lemma sdiv_overflow_iff:
  fixes x y :: int
  assumes "- 2147483648 \<le> x" "x < 2147483648" "y \<noteq> 0"
  shows "ov_s32 (x sdiv y) \<longleftrightarrow> x = - 2147483648 \<and> y = - 1"
proof (cases "\<bar>y\<bar> = 1")
  case True
  then show ?thesis using assms
    by (auto simp: ov_s32_def signed_divide_int_def sgn_if abs_if split: if_splits)
next
  case False
  then have "2 \<le> \<bar>y\<bar>" using assms(3) by linarith
  have "\<bar>x\<bar> div \<bar>y\<bar> \<le> \<bar>x\<bar> div 2"
    using \<open>2 \<le> \<bar>y\<bar>\<close> by (intro zdiv_mono2) auto
  also have "\<dots> \<le> 1073741824" using assms by linarith
  finally have "\<bar>x\<bar> div \<bar>y\<bar> \<le> 1073741824" .
  moreover have "0 \<le> \<bar>x\<bar> div \<bar>y\<bar>"
    using assms(3) by (simp add: pos_imp_zdiv_nonneg_iff)
  moreover have "sgn x * sgn y = 1 \<or> sgn x * sgn y = - 1 \<or> sgn x * sgn y = 0"
    by (auto simp: sgn_if)
  ultimately have "\<bar>x sdiv y\<bar> \<le> 1073741824"
    unfolding signed_divide_int_def by auto
  then show ?thesis using False by (auto simp: ov_s32_def)
qed

lemma sint_min: "sint x = - 2147483648 \<longleftrightarrow> x = 0x80000000" "sint x = - 1 \<longleftrightarrow> x = 0xFFFFFFFF" for x :: u32
  using sint_eq_iff_u32[of x "0x80000000"] sint_eq_iff_u32[of x "- 1"] by (simp_all add: u32_minus_1)

lemma sint_word_of_int_fits: "\<not> ov_s32 k \<Longrightarrow> sint (word_of_int k :: u32) = k"
  unfolding sint_word_of_int_u32 by (subst mod_pos_pos_trivial) (auto simp: ov_s32_def)

text \<open>
  \<open>divw\<close> sets \<open>XER[OV]\<close> exactly when the divisor is zero or the quotient does not fit, and
  then \<open>XER[SO]\<close> too; in every other case the result is the quotient rounded towards zero.
\<close>

theorem divw_exact:
  "let a = gpr s (reg_a opcode); b = gpr s (reg_b opcode); q = sint a sdiv sint b;
       s' = ppc_divw rec True opcode s
   in (bit (xer s') 30 \<longleftrightarrow> b = 0 \<or> ov_s32 q) \<and>
      (if b = 0 \<or> ov_s32 q then bit (xer s') 31 else sint (gpr s' (reg_d opcode)) = q)"
proof -
  let ?a = "gpr s (reg_a opcode)" and ?b = "gpr s (reg_b opcode)"
  have ov: "ov_s32 (sint ?a sdiv sint ?b) \<longleftrightarrow> ?a = 0x80000000 \<and> ?b = 0xFFFFFFFF" if "?b \<noteq> 0"
    using sdiv_overflow_iff[OF sint_u32_bounds, of "sint ?b" ?a] that sint_eq_iff_u32[of ?b 0] sint_min by simp
  show ?thesis
  proof (cases "?b = 0 \<or> ?a = 0x80000000 \<and> ?b = 0xFFFFFFFF")
    case True
    then show ?thesis
      using ov unfolding Let_def ppc_divw_def
      by (elim disjE) (auto simp: bit_xer_set_ov)
  next
    case False
    then have "\<not> ov_s32 (sint ?a sdiv sint ?b)" using ov by blast
    with False show ?thesis
      unfolding Let_def ppc_divw_def by (auto simp: bit_xer_set_ov sint_word_of_int_fits)
  qed
qed

lemma tst_low_bits:
  fixes d :: u32
  assumes "n \<le> 31"
  shows "tst d (2 ^ n - 1) \<longleftrightarrow> \<not> 2 ^ n dvd sint d"
proof -
  have "d AND (2 ^ n - 1) = take_bit n d"
    by (simp add: take_bit_eq_mask mask_eq_exp_minus_1)
  moreover have "take_bit n d = 0 \<longleftrightarrow> take_bit n (sint d) = 0"
  proof -
    have "take_bit n (sint d) = take_bit n (uint d)"
      using assms by (simp add: sint_uint take_bit_signed_take_bit)
    also have "\<dots> = uint (take_bit n d)" by (simp add: unsigned_take_bit_eq)
    finally show ?thesis by (simp add: unsigned_eq_0_iff)
  qed
  ultimately show ?thesis by (simp add: tst_def take_bit_eq_0_iff)
qed

lemma sdiv_pow2:
  fixes x :: int
  shows "x sdiv 2 ^ n = x div 2 ^ n + of_bool (x < 0 \<and> \<not> 2 ^ n dvd x)"
proof (cases "x < 0")
  case True
  then have "x sdiv 2 ^ n = - ((- x) div 2 ^ n)"
    by (simp add: signed_divide_int_def sgn_if)
  then show ?thesis
    using True zdiv_zminus1_eq_if[of "2 ^ n" x] by (auto simp: dvd_eq_mod_eq_0)
qed (auto simp: signed_divide_int_def sgn_if)

lemma xer_or_ca_bit: "bit (xer (xer_or_ca c (put_spr 1 (spr s 1 AND NOT 0x20000000) s))) 29 = c"
  by (simp add: xer_or_ca_def xer_def bit_simps)

lemma gpr_xer_or_ca [simp]: "gpr (xer_or_ca c s) = gpr s"
  by (simp add: xer_or_ca_def)

text \<open>
  \<open>srawi\<close> divides by \<open>2 ^ n\<close> rounding down, and its carry is the correction to rounding
  towards zero: the result plus \<open>XER[CA]\<close> is the truncated quotient.
\<close>

theorem srawi_exact:
  "let d = gpr s (reg_s opcode); n = reg_b opcode; s' = ppc_srawi rec opcode s;
       q = sint (gpr s' (reg_a opcode))
   in q = sint d div 2 ^ n \<and> q + of_bool (xer_ca s') = sint d sdiv 2 ^ n"
proof -
  have "reg_b opcode \<le> 31" using reg_less_32(3)[of opcode] by linarith
  then show ?thesis
    unfolding Let_def ppc_srawi_def xer_ca_bit xer_finish sdiv_pow2 xer_or_ca_bit
    by (simp add: tst_low_bits sint_signed_drop_bit_eq drop_bit_eq_div)
qed

lemma tst_top_bit:
  fixes d :: u32
  assumes "unat d < 2 ^ Suc m"
  shows "tst d (2 ^ m) \<longleftrightarrow> 2 ^ m \<le> unat d"
proof -
  have "tst d (2 ^ m) \<longleftrightarrow> bit (unat d) m"
    by (simp add: tst_pow2 bit_unsigned_iff)
  also have "\<dots> \<longleftrightarrow> 2 ^ m \<le> unat d"
    unfolding bit_iff_odd using assms by (intro odd_div_top) simp
  finally show ?thesis .
qed

lemma u32_pow2_nz: "m < 32 \<Longrightarrow> (2 :: u32) ^ m \<noteq> 0"
  by (auto dest!: arg_cong[where f = "\<lambda>w. bit w m"] simp: bit_simps)

lemma drop_pow2: "m < 31 \<Longrightarrow> drop_bit (Suc 0) ((2 :: u32) ^ Suc m) = 2 ^ m"
  by (rule bit_word_eqI) (auto simp: bit_simps)

lemma cntlzw_loop_spec:
  assumes "unat d < 2 ^ Suc m" "m < 32" "Suc m < n"
  shows "\<exists>j\<le>Suc m. cntlzw_loop d (2 ^ m) k n = k + word_of_nat j \<and>
           (if d = 0 then j = Suc m else j \<le> m \<and> 2 ^ (m - j) \<le> unat d \<and> unat d < 2 ^ Suc (m - j))"
  using assms
proof (induction m arbitrary: k n)
  case 0
  then obtain n' where n: "n = Suc (Suc n')" by (metis Suc_lessE less_Suc_eq_0_disj not_less_eq)
  have "unat d = 0 \<or> unat d = 1" using 0 by auto
  then have "d = 0 \<or> d = 1" by (simp add: word_unat_eq_iff)
  then show ?case by (auto simp: n tst_def intro: exI[of _ 0] exI[of _ 1])
next
  case (Suc m)
  then obtain n' where n: "n = Suc n'" by (cases n) auto
  show ?case
  proof (cases "2 ^ Suc m \<le> unat d")
    case True
    then have "cntlzw_loop d (2 ^ Suc m) k n = k" "d \<noteq> 0"
      using tst_top_bit[OF Suc.prems(1)] by (auto simp: n)
    then show ?thesis using True Suc.prems(1) by (intro exI[of _ 0]) auto
  next
    case False
    then have "cntlzw_loop d (2 ^ Suc m) k n = cntlzw_loop d (2 ^ m) (k + 1) n'"
      using tst_top_bit[OF Suc.prems(1)] u32_pow2_nz[OF Suc.prems(2)] Suc.prems(2)
      by (simp add: n drop_pow2 del: power_Suc)
    moreover obtain j where "j \<le> Suc m" "cntlzw_loop d (2 ^ m) (k + 1) n' = k + 1 + word_of_nat j"
      "if d = 0 then j = Suc m else j \<le> m \<and> 2 ^ (m - j) \<le> unat d \<and> unat d < 2 ^ Suc (m - j)"
      using Suc.IH[of n' "k + 1"] False Suc.prems n by auto
    ultimately show ?thesis
      by (intro exI[of _ "Suc j"]) (auto simp: algebra_simps split: if_splits)
  qed
qed

text \<open>
  \<open>cntlzw\<close> counts the leading zeros: 32 for zero, and otherwise the position from the left
  of the highest bit set. The counting loop ends within its 33 steps.
\<close>

theorem cntlzw_exact:
  "let d = gpr s (reg_s opcode); n = unat (gpr (ppc_cntlzw rec opcode s) (reg_a opcode))
   in if d = 0 then n = 32 else n \<le> 31 \<and> 2 ^ (31 - n) \<le> unat d \<and> unat d < 2 * 2 ^ (31 - n)"
proof -
  let ?d = "gpr s (reg_s opcode)"
  have "\<exists>j\<le>Suc 31. cntlzw_loop ?d (2 ^ 31) 0 33 = 0 + word_of_nat j \<and>
      (if ?d = 0 then j = Suc 31 else j \<le> 31 \<and> 2 ^ (31 - j) \<le> unat ?d \<and> unat ?d < 2 ^ Suc (31 - j))"
    by (rule cntlzw_loop_spec) (use unat_u32_less[of ?d] in simp_all)
  then obtain j where j: "j \<le> Suc 31" "cntlzw_loop ?d (2 ^ 31) 0 33 = 0 + word_of_nat j"
    "if ?d = 0 then j = Suc 31 else j \<le> 31 \<and> 2 ^ (31 - j) \<le> unat ?d \<and> unat ?d < 2 ^ Suc (31 - j)"
    by blast
  have "unat (gpr (ppc_cntlzw rec opcode s) (reg_a opcode)) = j"
    using j(1,2) by (simp add: ppc_cntlzw_def Let_def unat_of_nat)
  then show ?thesis
    using j(3) by (auto simp: Let_def split: if_splits)
qed


end
