(* ===== verification/PowerOpcodes.thy ===== *)
theory PowerOpcodes
  imports PpcIntegerExact
begin

text \<open>
  The POWER instructions of the 601: \<open>src/cpu/ppc/poweropcodes.cpp\<close>, except \<open>power_lscbx\<close>, which
  reads memory. \<open>MQ\<close> is special purpose register 0. \<open>power_div\<close> is \<^const>\<open>None\<close> where the C++ division
  is undefined (\<open>INT64_MIN / -1\<close>).
\<close>

definition power_rot_mask :: "nat \<Rightarrow> nat \<Rightarrow> u32" where
  "power_rot_mask mb me =
     (let m1 = drop_bit mb 0xFFFFFFFF; m2 = push_bit (31 - me) 0xFFFFFFFF
      in if mb \<le> me then m2 AND m1 else m1 OR m2)"

text \<open>The shift amount of the register forms, and the common end of an instruction.\<close>

definition rb_sh :: "u32 \<Rightarrow> 'a SetPRS_scheme \<Rightarrow> nat" where
  "rb_sh opcode s = unat (gpr s (reg_b opcode) AND 0x1F)"

definition power_finish :: "bool \<Rightarrow> nat \<Rightarrow> u32 \<Rightarrow> 'a SetPRS_scheme \<Rightarrow> 'a SetPRS_scheme" where
  "power_finish rec r v s = put_gpr r v (if rec then ppc_changecrf0 v s else s)"

definition set_ca :: "bool \<Rightarrow> 'a SetPRS_scheme \<Rightarrow> 'a SetPRS_scheme" where
  "set_ca c s = put_spr SPR_XER (if c then spr s SPR_XER OR XER_CA else spr s SPR_XER AND NOT XER_CA) s"

subsection \<open>Arithmetic\<close>

definition power_abs :: "bool \<Rightarrow> bool \<Rightarrow> u32 \<Rightarrow> 'a SetPRS_scheme \<Rightarrow> 'a SetPRS_scheme" where
  "power_abs rec ov opcode s =
     (let a = gpr s (reg_a opcode);
          d = (if a = 0x80000000 then a else if sint a < 0 then - a else a);
          s = (if ov then xer_set_ov (a = 0x80000000) s else s)
      in power_finish rec (reg_d opcode) d s)"

definition power_clcs :: "u32 \<Rightarrow> 'a cpu_scheme \<Rightarrow> 'a cpu_scheme" where
  "power_clcs opcode s =
     (let k = reg_a opcode mod 16;
          d = (if k \<in> {4, 5, 6} then 0x20
               else if k = 7 then if is_601 s then 1 else 0
               else if k \<in> {8, 9} then if is_601 s then 8 else 4
               else if k \<in> {10, 11} then if is_601 s then 0x8000 else 0x4000
               else if is_601 s then 0x40 else 0x20)
      in put_gpr (reg_d opcode) d s)"

definition power_div :: "bool \<Rightarrow> bool \<Rightarrow> u32 \<Rightarrow> 'a SetPRS_scheme \<Rightarrow> 'a SetPRS_scheme option" where
  "power_div rec ov opcode s =
     (let dividend = sint (push_bit 32 (ucast (gpr s (reg_a opcode))) OR ucast (spr s SPR_MQ) :: u64);
          divisor = sint (gpr s (reg_b opcode));
          finish = (\<lambda>d remainder ovf.
            let s = (if ov then xer_set_ov ovf s else s);
                s = (if rec then ppc_changecrf0 remainder s else s)
            in put_spr SPR_MQ remainder (put_gpr (reg_d opcode) d s))
      in if dividend = 0x80000000 \<and> divisor = - 1 then Some (finish 0x80000000 0 True)
         else if divisor = 0 then Some (finish 0x80000000 0 True)
         else if dividend = - (2 ^ 63) \<and> divisor = - 1 then None
         else
           let quotient = word_of_int (dividend sdiv divisor) :: u64;
               remainder = word_of_int (dividend smod divisor)
           in Some (finish (ucast quotient) remainder
                     ((signed_drop_bit 31 quotient + 1) AND NOT 1 \<noteq> 0)))"

definition power_divs :: "bool \<Rightarrow> bool \<Rightarrow> u32 \<Rightarrow> 'a SetPRS_scheme \<Rightarrow> 'a SetPRS_scheme" where
  "power_divs rec ov opcode s =
     (let a = gpr s (reg_a opcode); b = gpr s (reg_b opcode);
          (d, remainder, ovf) =
            (if b = 0 then (- 1, a, True)
             else if a = 0x80000000 \<and> b = 0xFFFFFFFF then (0x80000000, 0, True)
             else (word_of_int (sint a sdiv sint b), word_of_int (sint a smod sint b), False));
          s = (if ov then xer_set_ov ovf s else s);
          s = (if rec then ppc_changecrf0 remainder s else s)
      in put_spr SPR_MQ remainder (put_gpr (reg_d opcode) d s))"

definition power_doz :: "bool \<Rightarrow> bool \<Rightarrow> u32 \<Rightarrow> 'a SetPRS_scheme \<Rightarrow> 'a SetPRS_scheme" where
  "power_doz rec ov opcode s =
     (let a = gpr s (reg_a opcode); b = gpr s (reg_b opcode);
          d = (if sint a < sint b then b - a else 0);
          s = (if ov then xer_set_ov (sint d < 0) s else s)
      in power_finish rec (reg_d opcode) d s)"

definition power_dozi :: "u32 \<Rightarrow> 'a SetPRS_scheme \<Rightarrow> 'a SetPRS_scheme" where
  "power_dozi opcode s =
     (let a = gpr s (reg_a opcode)
      in put_gpr (reg_d opcode) (if sint a > sint (simm opcode) then 0 else simm opcode - a) s)"

definition power_mul :: "bool \<Rightarrow> bool \<Rightarrow> u32 \<Rightarrow> 'a SetPRS_scheme \<Rightarrow> 'a SetPRS_scheme" where
  "power_mul rec ov opcode s =
     (let product = scast (gpr s (reg_a opcode)) * scast (gpr s (reg_b opcode)) :: u64;
          s = put_spr SPR_MQ (ucast product) s;
          s = (if ov then xer_set_ov ((signed_drop_bit 31 product + 1) AND NOT 1 \<noteq> 0) s else s);
          s = (if rec then ppc_changecrf0 (ucast product) s else s)
      in put_gpr (reg_d opcode) (ucast (drop_bit 32 product)) s)"

definition power_nabs :: "bool \<Rightarrow> bool \<Rightarrow> u32 \<Rightarrow> 'a SetPRS_scheme \<Rightarrow> 'a SetPRS_scheme" where
  "power_nabs rec ov opcode s =
     (let a = gpr s (reg_a opcode);
          d = (if sint a < 0 then a else - a);
          s = (if ov then put_spr SPR_XER (spr s SPR_XER AND NOT XER_OV) s else s)
      in power_finish rec (reg_d opcode) d s)"

subsection \<open>Masks and bit insertion\<close>

definition power_maskg :: "bool \<Rightarrow> u32 \<Rightarrow> 'a SetPRS_scheme \<Rightarrow> 'a SetPRS_scheme" where
  "power_maskg rec opcode s =
     (let mask_start = unat (gpr s (reg_s opcode) AND 0x1F); mask_end = rb_sh opcode s;
          insert_mask =
            (if mask_start < mask_end + 1 then power_rot_mask mask_start mask_end
             else if mask_start = mask_end + 1 then 0xFFFFFFFF
             else NOT (power_rot_mask (mask_end + 1) (mask_start - 1)))
      in power_finish rec (reg_a opcode) insert_mask s)"

definition power_maskir :: "bool \<Rightarrow> u32 \<Rightarrow> 'a SetPRS_scheme \<Rightarrow> 'a SetPRS_scheme" where
  "power_maskir rec opcode s =
     (let b = gpr s (reg_b opcode)
      in power_finish rec (reg_a opcode)
           ((gpr s (reg_a opcode) AND NOT b) OR (gpr s (reg_s opcode) AND b)) s)"

definition power_rlmi :: "u32 \<Rightarrow> 'a SetPRS_scheme \<Rightarrow> 'a SetPRS_scheme" where
  "power_rlmi opcode s =
     (let r = ROTL_32 (gpr s (reg_s opcode)) (unat (gpr s (reg_b opcode)));
          msk = power_rot_mask (rot_mb opcode) (rot_me opcode)
      in power_finish (tst opcode 1) (reg_a opcode)
           ((r AND msk) OR (gpr s (reg_a opcode) AND NOT msk)) s)"

definition power_rrib :: "bool \<Rightarrow> u32 \<Rightarrow> 'a SetPRS_scheme \<Rightarrow> 'a SetPRS_scheme" where
  "power_rrib rec opcode s =
     (let m = drop_bit (rb_sh opcode s) 0x80000000; a = gpr s (reg_a opcode)
      in power_finish rec (reg_a opcode)
           (if sint (gpr s (reg_s opcode)) < 0 then a OR m else a AND NOT m) s)"

subsection \<open>Shifts through MQ\<close>

definition power_sle :: "bool \<Rightarrow> u32 \<Rightarrow> 'a SetPRS_scheme \<Rightarrow> 'a SetPRS_scheme" where
  "power_sle rec opcode s =
     (let d = gpr s (reg_s opcode); rot_sh = rb_sh opcode s; a = push_bit rot_sh d;
          s = put_spr SPR_MQ (ROTL_32 d rot_sh) s;
          s = put_gpr (reg_a opcode) a s
      in power_finish rec (reg_a opcode) a s)"

definition power_sleq :: "bool \<Rightarrow> u32 \<Rightarrow> 'a SetPRS_scheme \<Rightarrow> 'a SetPRS_scheme" where
  "power_sleq rec opcode s =
     (let rot_sh = rb_sh opcode s; r = ROTL_32 (gpr s (reg_s opcode)) rot_sh;
          msk = power_rot_mask 0 (31 - rot_sh);
          a = (r AND msk) OR (spr s SPR_MQ AND NOT msk);
          s = put_spr SPR_MQ r s
      in power_finish rec (reg_a opcode) a s)"

definition power_sliq :: "bool \<Rightarrow> u32 \<Rightarrow> 'a SetPRS_scheme \<Rightarrow> 'a SetPRS_scheme" where
  "power_sliq rec opcode s =
     (let d = gpr s (reg_s opcode); rot_sh = reg_b opcode;
          s' = put_spr SPR_MQ (ROTL_32 d rot_sh) s
      in power_finish rec (reg_a opcode) (push_bit rot_sh d) s')"

definition power_slliq :: "bool \<Rightarrow> u32 \<Rightarrow> 'a SetPRS_scheme \<Rightarrow> 'a SetPRS_scheme" where
  "power_slliq rec opcode s =
     (let rot_sh = reg_b opcode; r = ROTL_32 (gpr s (reg_s opcode)) rot_sh;
          msk = power_rot_mask 0 (31 - rot_sh);
          a = (r AND msk) OR (spr s SPR_MQ AND NOT msk);
          s = put_spr SPR_MQ r s
      in power_finish rec (reg_a opcode) a s)"

definition power_sllq :: "bool \<Rightarrow> u32 \<Rightarrow> 'a SetPRS_scheme \<Rightarrow> 'a SetPRS_scheme" where
  "power_sllq rec opcode s =
     (let rot_sh = rb_sh opcode s;
          a = (if tst (gpr s (reg_b opcode)) 0x20 then spr s SPR_MQ AND push_bit rot_sh (- 1)
               else push_bit rot_sh (gpr s (reg_s opcode)) OR (spr s SPR_MQ AND (push_bit rot_sh 1 - 1)))
      in power_finish rec (reg_a opcode) a s)"

definition power_slq :: "bool \<Rightarrow> u32 \<Rightarrow> 'a SetPRS_scheme \<Rightarrow> 'a SetPRS_scheme" where
  "power_slq rec opcode s =
     (let d = gpr s (reg_s opcode); rot_sh = rb_sh opcode s;
          a = (if tst (gpr s (reg_b opcode)) 0x20 then 0 else push_bit rot_sh d);
          s = (if rec then ppc_changecrf0 a s else s);
          s = put_spr SPR_MQ (ROTL_32 d rot_sh) s
      in put_gpr (reg_a opcode) a s)"

definition power_sraiq :: "bool \<Rightarrow> u32 \<Rightarrow> 'a SetPRS_scheme \<Rightarrow> 'a SetPRS_scheme" where
  "power_sraiq rec opcode s =
     (let d = gpr s (reg_s opcode); rot_sh = reg_b opcode; msk = push_bit rot_sh 1 - 1;
          s = put_spr SPR_MQ (ROTR_32 d rot_sh) s;
          s = set_ca (sint d < 0 \<and> tst d msk) s
      in power_finish rec (reg_a opcode) (signed_drop_bit rot_sh d) s)"

definition power_sraq :: "bool \<Rightarrow> u32 \<Rightarrow> 'a SetPRS_scheme \<Rightarrow> 'a SetPRS_scheme" where
  "power_sraq rec opcode s =
     (let d = gpr s (reg_s opcode); b = gpr s (reg_b opcode); rot_sh = rb_sh opcode s;
          msk = (if tst b 0x20 then - 1 else push_bit rot_sh 1 - 1);
          a = signed_drop_bit (if tst b 0x20 then 31 else rot_sh) d;
          s = put_spr SPR_MQ (ROTL_32 d rot_sh) s;
          s = set_ca (sint d < 0 \<and> tst d msk) s;
          s = put_spr SPR_MQ (ROTR_32 d rot_sh) s
      in power_finish rec (reg_a opcode) a s)"

definition power_sre :: "bool \<Rightarrow> u32 \<Rightarrow> 'a SetPRS_scheme \<Rightarrow> 'a SetPRS_scheme" where
  "power_sre rec opcode s =
     (let d = gpr s (reg_s opcode); rot_sh = rb_sh opcode s;
          s = put_spr SPR_MQ (ROTR_32 d rot_sh) s
      in power_finish rec (reg_a opcode) (drop_bit rot_sh d) s)"

definition power_srea :: "bool \<Rightarrow> u32 \<Rightarrow> 'a SetPRS_scheme \<Rightarrow> 'a SetPRS_scheme" where
  "power_srea rec opcode s =
     (let d = gpr s (reg_s opcode); rot_sh = rb_sh opcode s;
          r = ROTR_32 d rot_sh; msk = drop_bit rot_sh (- 1);
          s = set_ca (sint d < 0 \<and> tst r (NOT msk)) s
      in put_spr SPR_MQ r (power_finish rec (reg_a opcode) (signed_drop_bit rot_sh d) s))"

definition power_sreq :: "bool \<Rightarrow> u32 \<Rightarrow> 'a SetPRS_scheme \<Rightarrow> 'a SetPRS_scheme" where
  "power_sreq rec opcode s =
     (let d = gpr s (reg_s opcode); rot_sh = rb_sh opcode s; msk = drop_bit rot_sh (- 1);
          a = drop_bit rot_sh d OR (spr s SPR_MQ AND NOT msk);
          s = put_spr SPR_MQ (ROTR_32 d rot_sh) s
      in power_finish rec (reg_a opcode) a s)"

definition power_sriq :: "bool \<Rightarrow> u32 \<Rightarrow> 'a SetPRS_scheme \<Rightarrow> 'a SetPRS_scheme" where
  "power_sriq rec opcode s =
     (let d = gpr s (reg_s opcode); rot_sh = reg_b opcode;
          s = put_spr SPR_MQ (ROTR_32 d rot_sh) s
      in power_finish rec (reg_a opcode) (drop_bit rot_sh d) s)"

definition power_srliq :: "bool \<Rightarrow> u32 \<Rightarrow> 'a SetPRS_scheme \<Rightarrow> 'a SetPRS_scheme" where
  "power_srliq rec opcode s =
     (let rot_sh = reg_b opcode; r = ROTR_32 (gpr s (reg_s opcode)) rot_sh;
          msk = power_rot_mask rot_sh 31;
          a = (r AND msk) OR (spr s SPR_MQ AND NOT msk);
          s = put_spr SPR_MQ r s
      in power_finish rec (reg_a opcode) a s)"

definition power_srlq :: "bool \<Rightarrow> u32 \<Rightarrow> 'a SetPRS_scheme \<Rightarrow> 'a SetPRS_scheme" where
  "power_srlq rec opcode s =
     (let rot_sh = rb_sh opcode s; r = ROTR_32 (gpr s (reg_s opcode)) rot_sh;
          msk = power_rot_mask rot_sh 31;
          a = (if tst (gpr s (reg_b opcode)) 0x20 then spr s SPR_MQ AND msk
               else (r AND msk) OR (spr s SPR_MQ AND NOT msk))
      in power_finish rec (reg_a opcode) a s)"

definition power_srq :: "bool \<Rightarrow> u32 \<Rightarrow> 'a SetPRS_scheme \<Rightarrow> 'a SetPRS_scheme" where
  "power_srq rec opcode s =
     (let d = gpr s (reg_s opcode); rot_sh = rb_sh opcode s;
          a = (if tst (gpr s (reg_b opcode)) 0x20 then 0 else drop_bit rot_sh d);
          s = put_spr SPR_MQ (ROTR_32 d rot_sh) s
      in power_finish rec (reg_a opcode) a s)"

subsection \<open>Values through MQ\<close>

lemma power_finish_sel [simp]:
  "gpr (power_finish rec r v s) = (gpr s)(r := v)" "spr (power_finish rec r v s) = spr s"
  by (simp_all add: power_finish_def)

lemma set_ca_sel [simp]: "gpr (set_ca c s) = gpr s"
  by (simp add: set_ca_def)

lemma rb_sh_less [simp]: "rb_sh opcode s < 32"
  by (simp add: rb_sh_def field5_less_32)

lemma power_rot_mask_eq: "power_rot_mask = rot_mask"
  by (simp add: fun_eq_iff power_rot_mask_def rot_mask_def)

text \<open>A double word in a pair of registers.\<close>

definition dword :: "u32 \<Rightarrow> u32 \<Rightarrow> u64" where
  "dword hi lo = push_bit 32 (ucast hi) OR ucast lo"

lemma bit_dword: "bit (dword hi lo) i \<longleftrightarrow> (if i < 32 then bit lo i else i < 64 \<and> bit hi (i - 32))"
  by (auto simp: dword_def bit_simps bits u32_bit_ge dest: bit_imp_le_length)

lemma bit_ROTR_32: "bit (ROTR_32 x n) i \<longleftrightarrow> i < 32 \<and> bit x ((i + n) mod 32)"
  by (auto simp: ROTR_32_rotr bit_word_rotr_iff)

text \<open>The masks of the source, by the bits they hold.\<close>

definition low_mask :: "nat \<Rightarrow> u32 \<Rightarrow> bool" where
  "low_mask n m \<longleftrightarrow> (\<forall>i<32. bit m i \<longleftrightarrow> i < n)"

lemma low_masks:
  assumes "n < 32"
  shows "low_mask n (push_bit n 1 - 1)" "low_mask n (NOT (push_bit n (- 1)))"
    "low_mask n (NOT (power_rot_mask 0 (31 - n)))" "low_mask (32 - n) (power_rot_mask n 31)"
    "low_mask (32 - n) (drop_bit n (- 1))"
proof -
  show "low_mask n (push_bit n 1 - 1)"
    by (auto simp: low_mask_def push_bit_of_1 mask_eq_exp_minus_1[symmetric] bit_mask_iff)
qed (use assms in \<open>auto simp: low_mask_def power_rot_mask_def Let_def u32_minus_1 bit_simps\<close>)

lemma bit_ROTL_cases:
  assumes "n < 32"
  shows "bit (ROTL_32 x n) i \<longleftrightarrow> i < 32 \<and> (if n \<le> i then bit x (i - n) else bit x (i + 32 - n))"
proof (cases "n \<le> i")
  case True
  then have "(i + 32 - n) mod 32 = (i - n) mod 32" by (metis Nat.add_diff_assoc2 mod_add_self2)
  with True assms show ?thesis by (cases "i < 32") (simp_all add: bit_ROTL_32)
next
  case False
  with assms show ?thesis by (simp add: bit_ROTL_32)
qed

lemma bit_ROTR_cases:
  assumes "n < 32"
  shows "bit (ROTR_32 x n) i \<longleftrightarrow> i < 32 \<and> (if i + n < 32 then bit x (i + n) else bit x (i + n - 32))"
proof (cases "i < 32 \<and> 32 \<le> i + n")
  case True
  with assms have "i + n - 32 < 32" by arith
  with True have "(i + n) mod 32 = i + n - 32" by (simp add: le_mod_geq)
  with True show ?thesis by (simp add: bit_ROTR_32)
qed (auto simp: bit_ROTR_32)

lemma dword_eqI:
  "(\<And>i. i < 32 \<Longrightarrow> bit lo i = bit x i) \<Longrightarrow> (\<And>i. i < 32 \<Longrightarrow> bit hi i = bit x (i + 32)) \<Longrightarrow> dword hi lo = x"
proof (rule bit_word_eqI)
  fix i
  assume h: "\<And>i. i < 32 \<Longrightarrow> bit lo i = bit x i" "\<And>i. i < 32 \<Longrightarrow> bit hi i = bit x (i + 32)"
    and "i < LENGTH(64)"
  then show "bit (dword hi lo) i = bit x i" using h(2)[of "i - 32"] by (auto simp: bit_dword)
qed

text \<open>What the two halves of a pair compute, for a shift amount below 32.\<close>

lemma pair_left:
  assumes "n < 32"
  shows "low_mask n (NOT m) \<Longrightarrow> dword ((ROTL_32 y n AND m) OR (ROTL_32 x n AND NOT m)) (push_bit n x) = push_bit n (dword y x)"
    "low_mask n m \<Longrightarrow> dword (push_bit n y OR (ROTL_32 x n AND m)) (push_bit n x) = push_bit n (dword y x)"
    "low_mask n (NOT m) \<Longrightarrow> dword (ROTL_32 x n AND m) 0 = push_bit (32 + n) (dword y x)"
  using assms
  by (intro dword_eqI; auto simp: low_mask_def bit_dword bit_ROTL_cases bit_push_bit_iff bit_and_iff
      bit_or_iff bit_not_iff u32_bit_ge)+

lemma pair_right:
  assumes "n < 32"
  shows "low_mask (32 - n) m \<Longrightarrow> dword (drop_bit n x) (drop_bit n y OR (ROTR_32 x n AND NOT m)) = drop_bit n (dword x y)"
    "low_mask (32 - n) m \<Longrightarrow>
       dword (drop_bit n x) ((ROTR_32 y n AND m) OR (ROTR_32 x n AND NOT m)) = drop_bit n (dword x y)"
    "low_mask (32 - n) m \<Longrightarrow> dword 0 (ROTR_32 x n AND m) = drop_bit (32 + n) (dword x y)"
  using assms
  by (intro dword_eqI; auto simp: low_mask_def bit_dword bit_ROTR_cases bit_drop_bit_eq bit_and_iff
      bit_or_iff bit_not_iff u32_bit_ge ac_simps)+


lemma sh_mod_64: "unat (b :: u32) mod 64 = (if tst b 0x20 then 32 else 0) + unat (b AND 0x1F)"
proof -
  have "unat (b AND 0x1F) = unat b mod 32" using and_mask_unat[of b 5] by (simp add: mask_eq_exp_minus_1)
  moreover have "tst b 0x20 \<longleftrightarrow> odd (unat b div 32)"
    using tst_pow2[of b 5] bit_unsigned_iff[of b 5, where 'a = nat] by (simp add: bit_iff_odd)
  moreover have "unat b mod 64 = 32 * (unat b div 32 mod 2) + unat b mod 32"
    using mod_mult2_eq[of "unat b" 32 2] by simp
  ultimately show ?thesis by (simp add: odd_iff_mod_2_eq_one)
qed

text \<open>
  The shifts through \<open>MQ\<close> compose to double word shifts. \<open>slq\<close> on the low word followed by \<open>sllq\<close>
  on the high word, with the same amount register, shift the pair left by the amount modulo 64;
  \<open>srq\<close> and \<open>srlq\<close> shift it right; \<open>sle\<close> with \<open>sleq\<close> and \<open>sre\<close> with \<open>sreq\<close> do so modulo 32.
\<close>

theorem mq_pair_shifts:
  assumes "reg_b op2 = reg_b op1" "reg_a op1 \<noteq> reg_s op2" "reg_a op1 \<noteq> reg_b op1" "reg_a op1 \<noteq> reg_a op2"
  shows "let n = unat (gpr s (reg_b op1)); x = gpr s (reg_s op1); y = gpr s (reg_s op2);
      sl = power_sllq rec op2 (power_slq rec op1 s); sr = power_srlq rec op2 (power_srq rec op1 s);
      el = power_sleq rec op2 (power_sle rec op1 s); er = power_sreq rec op2 (power_sre rec op1 s)
    in dword (gpr sl (reg_a op2)) (gpr sl (reg_a op1)) = push_bit (n mod 64) (dword y x) \<and>
       dword (gpr sr (reg_a op1)) (gpr sr (reg_a op2)) = drop_bit (n mod 64) (dword x y) \<and>
       dword (gpr el (reg_a op2)) (gpr el (reg_a op1)) = push_bit (n mod 32) (dword y x) \<and>
       dword (gpr er (reg_a op1)) (gpr er (reg_a op2)) = drop_bit (n mod 32) (dword x y)"
proof -
  define n where "n = rb_sh op1 s"
  define x where "x = gpr s (reg_s op1)"
  define y where "y = gpr s (reg_s op2)"
  define t where "t = tst (gpr s (reg_b op1)) 0x20"
  have n: "n < 32" by (simp add: n_def)
  have m: "unat (gpr s (reg_b op1)) mod 64 = (if t then 32 + n else n)" "unat (gpr s (reg_b op1)) mod 32 = n"
    using sh_mod_64[of "gpr s (reg_b op1)"] and_mask_unat[of "gpr s (reg_b op1)" 5]
    by (simp_all add: t_def n_def rb_sh_def mask_eq_exp_minus_1)
  have first: "gpr (power_slq rec op1 s) = (gpr s)(reg_a op1 := if t then 0 else push_bit n x)"
    "gpr (power_srq rec op1 s) = (gpr s)(reg_a op1 := if t then 0 else drop_bit n x)"
    "gpr (power_sle rec op1 s) = (gpr s)(reg_a op1 := push_bit n x)"
    "gpr (power_sre rec op1 s) = (gpr s)(reg_a op1 := drop_bit n x)"
    "spr (power_slq rec op1 s) SPR_MQ = ROTL_32 x n" "spr (power_srq rec op1 s) SPR_MQ = ROTR_32 x n"
    "spr (power_sle rec op1 s) SPR_MQ = ROTL_32 x n" "spr (power_sre rec op1 s) SPR_MQ = ROTR_32 x n"
    by (simp_all add: power_slq_def power_srq_def power_sle_def power_sre_def Let_def n_def x_def t_def)
  have sh: "rb_sh op2 (power_slq rec op1 s) = n" "rb_sh op2 (power_srq rec op1 s) = n"
    "rb_sh op2 (power_sle rec op1 s) = n" "rb_sh op2 (power_sre rec op1 s) = n"
    using assms by (simp_all add: rb_sh_def first n_def)
  have rb: "gpr (power_slq rec op1 s) (reg_b op2) = gpr s (reg_b op1)" "gpr (power_srq rec op1 s) (reg_b op2) = gpr s (reg_b op1)"
    using assms by (simp_all add: first)
  let ?L = "power_rot_mask 0 (31 - n)" and ?R = "power_rot_mask n 31"
  have second: "gpr (power_sllq rec op2 (power_slq rec op1 s)) = (gpr s)(reg_a op1 := if t then 0 else push_bit n x,
      reg_a op2 := if t then ROTL_32 x n AND push_bit n (- 1) else push_bit n y OR (ROTL_32 x n AND (push_bit n 1 - 1)))"
    "gpr (power_srlq rec op2 (power_srq rec op1 s)) = (gpr s)(reg_a op1 := if t then 0 else drop_bit n x,
      reg_a op2 := if t then ROTR_32 x n AND ?R else (ROTR_32 y n AND ?R) OR (ROTR_32 x n AND NOT ?R))"
    "gpr (power_sleq rec op2 (power_sle rec op1 s)) = (gpr s)(reg_a op1 := push_bit n x,
      reg_a op2 := (ROTL_32 y n AND ?L) OR (ROTL_32 x n AND NOT ?L))"
    "gpr (power_sreq rec op2 (power_sre rec op1 s)) = (gpr s)(reg_a op1 := drop_bit n x,
      reg_a op2 := drop_bit n y OR (ROTR_32 x n AND NOT (drop_bit n (- 1))))"
    using assms(2)
    by (simp_all add: power_sllq_def power_srlq_def power_sleq_def power_sreq_def Let_def sh rb y_def t_def[symmetric])
      (simp_all add: first)
  have ne: "reg_a op2 \<noteq> reg_a op1" using assms(4) by simp
  have L: "low_mask n (NOT (push_bit n (- 1)))" "low_mask n (push_bit n 1 - 1)" "low_mask n (NOT ?L)"
    "low_mask (32 - n) ?R" "low_mask (32 - n) (drop_bit n (- 1))"
    by (rule low_masks[OF n])+
  show ?thesis
    unfolding Let_def m x_def[symmetric] y_def[symmetric] second fun_upd_same fun_upd_other[OF assms(4)] fun_upd_other[OF ne]
    using pair_left(1)[OF n L(3), of y x] pair_left(2)[OF n L(2), of y x] pair_left(3)[OF n L(1), of x y]
      pair_right(1)[OF n L(5), of x y] pair_right(2)[OF n L(4), of x y] pair_right(3)[OF n L(4), of x y]
    by (cases t) (simp_all only: if_True if_False simp_thms)
qed

theorem mq_pair_shifts_witness:
  "let s = zero_prs\<lparr>gpr := (\<lambda>r. [0, 0x80000001, 0x12345678, 36] ! (r mod 4))\<rparr>
   in dword (gpr (power_sllq False 0x7C4619B0 (power_slq False 0x7C251930 s)) 6)
        (gpr (power_sllq False 0x7C4619B0 (power_slq False 0x7C251930 s)) 5) = push_bit 36 (dword 0x12345678 0x80000001)"
  using mq_pair_shifts[of "0x7C4619B0" "0x7C251930" "zero_prs\<lparr>gpr := (\<lambda>r. [0, 0x80000001, 0x12345678, 36] ! (r mod 4))\<rparr>" False]
  by (simp add: Let_def reg_d_def reg_a_def reg_b_def)


text \<open>
  \<open>maskg\<close> distinguishes three cases; in all of them the mask is the one the rotate instructions
  use for the same start and end.
\<close>

theorem maskg_is_rot_mask:
  "gpr (power_maskg rec opcode s) (reg_a opcode) =
     rot_mask (unat (gpr s (reg_s opcode) AND 0x1F)) (unat (gpr s (reg_b opcode) AND 0x1F))"
proof -
  let ?b = "unat (gpr s (reg_s opcode) AND 0x1F)" and ?e = "unat (gpr s (reg_b opcode) AND 0x1F)"
  have less: "?b < 32" "?e < 32" by (rule field5_less_32)+
  have left: "x = y" if "\<And>i. i < 32 \<Longrightarrow> bit x (31 - i) = bit y (31 - i)" for x y :: u32
  proof (rule u32_eqI, intro allI impI)
    fix i :: nat
    assume "i < 32"
    then have "31 - (31 - i) = i" by arith
    then show "bit x i = bit y i" using that[of "31 - i"] by simp
  qed
  consider "?b < ?e + 1" | "?b = ?e + 1" | "?e + 1 < ?b" by linarith
  then show ?thesis
  proof cases
    case 1
    then show ?thesis by (simp add: power_maskg_def Let_def rb_sh_def power_rot_mask_eq)
  next
    case 2
    have "rot_mask (?e + 1) ?e = 0xFFFFFFFF"
      using less 2 by (intro left) (auto simp: bit_rot_mask in_mask_def u32_minus_1)
    with 2 show ?thesis by (simp add: power_maskg_def Let_def rb_sh_def power_rot_mask_eq)
  next
    case 3
    have "NOT (rot_mask (?e + 1) (?b - 1)) = rot_mask ?b ?e"
      using less 3 by (intro left) (auto simp: bit_rot_mask in_mask_def bit_not_iff)
    with 3 show ?thesis by (simp add: power_maskg_def Let_def rb_sh_def power_rot_mask_eq)
  qed
qed

subsection \<open>Division and multiplication\<close>

lemma fits_test:
  "(signed_drop_bit 31 q + 1) AND NOT 1 \<noteq> 0 \<longleftrightarrow> ov_s32 (sint q)" for q :: u64
proof -
  let ?w = "signed_drop_bit 31 q"
  have "(x AND NOT 1 = 0) = (x = 0 \<or> x = 1)" for x :: u64
  proof -
    have "x = (x AND NOT 1) OR (x AND 1)" by (simp add: bit.conj_disj_distrib[symmetric])
    then show ?thesis by (cases "odd x") (auto simp: and_one_eq mod_2_eq_odd)
  qed
  then have "(?w + 1) AND NOT 1 = 0 \<longleftrightarrow> ?w = - 1 \<or> ?w = 0" by (auto simp: add_eq_0_iff2)
  also have "\<dots> \<longleftrightarrow> sint ?w = - 1 \<or> sint ?w = 0" by (simp add: sint_eq_iff)
  also have "sint ?w = sint q div 2 ^ 31" by (simp add: sint_signed_drop_bit_eq drop_bit_eq_div)
  finally show ?thesis by (auto simp: ov_s32_def)
qed

lemmas fits_tests = fits_test fits_test [simplified]

lemma mod_smod_bound: "d \<noteq> 0 \<Longrightarrow> \<bar>D smod d\<bar> < \<bar>d\<bar>" for D d :: int
proof -
  assume "d \<noteq> 0"
  have "D smod d = sgn D * (\<bar>D\<bar> mod \<bar>d\<bar>)"
    by (simp add: signed_modulo_int_def signed_divide_int_def)
  then have "\<bar>D smod d\<bar> \<le> \<bar>D\<bar> mod \<bar>d\<bar>"
    using \<open>d \<noteq> 0\<close> by (simp add: abs_mult abs_sgn_eq)
  also have "\<dots> < \<bar>d\<bar>" using \<open>d \<noteq> 0\<close> by simp
  finally show ?thesis .
qed


lemma sdiv_64_bound:
  fixes D d :: int
  assumes "- (2 ^ 63) \<le> D" "D < 2 ^ 63" "d \<noteq> 0" "\<not> (D = - (2 ^ 63) \<and> d = - 1)"
  shows "- (2 ^ 63) \<le> D sdiv d \<and> D sdiv d < 2 ^ 63"
proof (cases "D = - (2 ^ 63)")
  case False
  have "0 \<le> \<bar>D\<bar> div \<bar>d\<bar>" using assms(3) by (simp add: pos_imp_zdiv_nonneg_iff)
  then have "\<bar>D sdiv d\<bar> \<le> \<bar>D\<bar> div \<bar>d\<bar>" by (simp add: signed_divide_int_def abs_mult abs_sgn_eq)
  also have "\<dots> \<le> \<bar>D\<bar>" using zdiv_mono2[of "\<bar>D\<bar>" 1 "\<bar>d\<bar>"] assms(3) by simp
  finally show ?thesis using assms(1,2) False by linarith
next
  case True
  show ?thesis
  proof (cases "d < 0")
    case True
    then have "2 \<le> \<bar>d\<bar>" using assms(4) \<open>D = _\<close> by linarith
    then have "\<bar>D\<bar> div \<bar>d\<bar> \<le> \<bar>D\<bar> div 2" by (intro zdiv_mono2) auto
    moreover have "0 \<le> \<bar>D\<bar> div \<bar>d\<bar>" using assms(3) by (simp add: pos_imp_zdiv_nonneg_iff)
    ultimately show ?thesis using True \<open>D = _\<close> by (auto simp: signed_divide_int_def sgn_if)
  next
    case False
    have "\<bar>D\<bar> div \<bar>d\<bar> \<le> \<bar>D\<bar>" using zdiv_mono2[of "\<bar>D\<bar>" 1 "\<bar>d\<bar>"] assms(3) by simp
    moreover have "0 \<le> \<bar>D\<bar> div \<bar>d\<bar>" using assms(3) by (simp add: pos_imp_zdiv_nonneg_iff)
    ultimately show ?thesis using False \<open>D = _\<close> assms(3) by (auto simp: signed_divide_int_def sgn_if)
  qed
qed

lemma sint_u64_bounds: "- (2 ^ 63) \<le> sint (x :: u64)" "sint (x :: u64) < 2 ^ 63"
  using sint_greater_eq[of x] sint_less[of x] by simp_all

lemma mq_xer_set_ov [simp]: "spr (xer_set_ov c s) SPR_MQ = spr s SPR_MQ"
  by (simp add: xer_set_ov_def)

lemma xer_put_mq [simp]: "xer (put_spr SPR_MQ v s) = xer s"
  by (simp add: xer_def)

text \<open>
  C33: \<open>div\<close> divides the double word \<open>rA\<close>, \<open>MQ\<close> by \<open>rB\<close>, rounding towards zero, with the remainder in
  \<open>MQ\<close>. \<open>XER[OV]\<close> is set for division by zero and for a quotient that does not fit 32 bits, and
  also for \<open>2\<^sup>3\<^sup>1\<close> divided by -1, whose quotient does fit. For \<open>-2\<^sup>6\<^sup>3\<close> divided by -1 the C++
  division is undefined.
\<close>

theorem power_div_exact:
  "let D = sint (dword (gpr s (reg_a opcode)) (spr s SPR_MQ)); d = sint (gpr s (reg_b opcode))
   in case power_div rec True opcode s of
        None \<Rightarrow> D = - (2 ^ 63) \<and> d = - 1
      | Some s' \<Rightarrow>
          \<not> (D = - (2 ^ 63) \<and> d = - 1) \<and>
          (bit (xer s') 30 \<longleftrightarrow> d = 0 \<or> ov_s32 (D sdiv d) \<or> D = 2 ^ 31 \<and> d = - 1) \<and>
          (if d = 0 \<or> ov_s32 (D sdiv d) then bit (xer s') 31
           else sint (gpr s' (reg_d opcode)) = D sdiv d \<and> sint (spr s' SPR_MQ) = D smod d)"
proof -
  define D where "D = sint (dword (gpr s (reg_a opcode)) (spr s SPR_MQ))"
  define d where "d = sint (gpr s (reg_b opcode))"
  have bD: "- (2 ^ 63) \<le> D" "D < 2 ^ 63" unfolding D_def by (rule sint_u64_bounds)+
  have bd: "- 2147483648 \<le> d" "d < 2147483648" unfolding d_def by (rule sint_u32_bounds)+
  have q: "sint (word_of_int (D sdiv d) :: u64) = D sdiv d" if "d \<noteq> 0" "\<not> (D = - (2 ^ 63) \<and> d = - 1)"
    using sdiv_64_bound[OF bD that] by (intro sint_u64_of_int) auto
  have r: "sint (word_of_int (D smod d) :: u32) = D smod d" if "d \<noteq> 0"
    using mod_smod_bound[OF that, of D] bd by (intro sint_word_of_int_fits) (auto simp: ov_s32_def)
  have dz: "2 ^ 31 sdiv - 1 = (- (2 ^ 31) :: int)" "2 ^ 31 smod - 1 = (0 :: int)"
    by (simp_all add: signed_divide_int_def signed_modulo_int_def)
  note unf = Let_def D_def[symmetric] d_def[symmetric] power_div_def dword_def[symmetric]
  consider "D = 2 ^ 31 \<and> d = - 1" | "d = 0" | "D = - (2 ^ 63) \<and> d = - 1"
    | "d \<noteq> 0" "\<not> (D = - (2 ^ 63) \<and> d = - 1)" "\<not> (D = 2 ^ 31 \<and> d = - 1)" by blast
  then show ?thesis
  proof cases
    case 1
    then show ?thesis unfolding unf using dz by (simp add: bit_xer_set_ov ov_s32_def)
  next
    case 2
    then show ?thesis unfolding unf by (simp add: bit_xer_set_ov)
  next
    case 3
    then show ?thesis unfolding unf by simp
  next
    case 4
    then show ?thesis
      unfolding unf using q[OF 4(1,2)] r[OF 4(1)]
      by (auto simp: fits_tests bit_xer_set_ov ucast_word_of_int_64_32 sint_word_of_int_fits)
  qed
qed

text \<open>
  \<open>mul\<close> leaves the exact signed product in \<open>rD\<close> and \<open>MQ\<close> and sets \<open>XER[OV]\<close> exactly when the
  product does not fit 32 bits.
\<close>

theorem power_mul_exact:
  "let k = sint (gpr s (reg_a opcode)) * sint (gpr s (reg_b opcode)); s' = power_mul rec True opcode s
   in sint (dword (gpr s' (reg_d opcode)) (spr s' SPR_MQ)) = k \<and> (bit (xer s') 30 \<longleftrightarrow> ov_s32 k)"
proof -
  have d: "dword (ucast (drop_bit 32 p)) (ucast p) = p" for p :: u64
    by (rule dword_eqI) (simp_all add: bit_simps ac_simps)
  show ?thesis
    unfolding Let_def power_mul_def
    by (auto simp: bit_xer_set_ov fits_tests scast_product(2) d)
qed

lemma tst_iff: "tst x y \<longleftrightarrow> (\<exists>i<32. bit x i \<and> bit y i)" for x y :: u32
  unfolding tst_def by (auto simp: bit_eq_iff bit_and_iff u32_bit_ge dest: bit_imp_le_length)

lemma lost_bits:
  fixes d :: u32
  assumes "n < 32"
  shows "tst (ROTR_32 d n) (NOT (drop_bit n (- 1))) \<longleftrightarrow> \<not> 2 ^ n dvd sint d"
    "tst d (push_bit n 1 - 1) \<longleftrightarrow> \<not> 2 ^ n dvd sint d"
proof -
  show b: "tst d (push_bit n 1 - 1) \<longleftrightarrow> \<not> 2 ^ n dvd sint d"
    using tst_low_bits[of n d] assms by (simp add: push_bit_of_1)
  note m = low_masks(1,5)[OF assms, unfolded low_mask_def]
  have "tst (ROTR_32 d n) (NOT (drop_bit n (- 1))) \<longleftrightarrow> (\<exists>i<32. 32 - n \<le> i \<and> bit d (i + n - 32))"
  proof -
    have "bit (ROTR_32 d n) i \<and> bit (NOT (drop_bit n (- 1)) :: u32) i \<longleftrightarrow> 32 - n \<le> i \<and> bit d (i + n - 32)"
      if "i < 32" for i
      using m(2)[rule_format, OF that] that assms
      unfolding bit_not_iff bit_ROTR_cases[OF assms] by auto
    then show ?thesis unfolding tst_iff by blast
  qed
  also have "\<dots> \<longleftrightarrow> (\<exists>j<n. bit d j)"
  proof
    assume "\<exists>j<n. bit d j"
    then obtain j where "j < n" "bit d j" by blast
    then show "\<exists>i<32. 32 - n \<le> i \<and> bit d (i + n - 32)"
      using assms by (intro exI[of _ "j + 32 - n"]) auto
  next
    assume "\<exists>i<32. 32 - n \<le> i \<and> bit d (i + n - 32)"
    then obtain i where "i < 32" "32 - n \<le> i" "bit d (i + n - 32)" by blast
    then show "\<exists>j<n. bit d j" using assms by (intro exI[of _ "i + n - 32"]) auto
  qed
  also have "\<dots> \<longleftrightarrow> (\<exists>i<32. bit d i \<and> i < n)" using assms less_trans[of _ n 32] by blast
  also have "\<dots> \<longleftrightarrow> tst d (push_bit n 1 - 1)" using m(1) unfolding tst_iff by blast
  finally show "tst (ROTR_32 d n) (NOT (drop_bit n (- 1))) \<longleftrightarrow> \<not> 2 ^ n dvd sint d" using b by simp
qed

lemma xer_ca_set_ca [simp]:
  "xer_ca (set_ca c s) = c" "xer_ca (power_finish rec r v s) = xer_ca s" "xer_ca (put_spr SPR_MQ v s) = xer_ca s"
  by (auto simp: xer_ca_bit xer_def set_ca_def power_finish_def bit_simps)

lemma sar_exact:
  fixes d :: u32
  assumes "n < 32" "c \<longleftrightarrow> sint d < 0 \<and> \<not> 2 ^ n dvd sint d"
  shows "sint (signed_drop_bit n d) = sint d div 2 ^ n \<and>
    sint (signed_drop_bit n d) + of_bool c = sint d sdiv 2 ^ n"
  using assms by (simp add: sint_signed_drop_bit_eq drop_bit_eq_div sdiv_pow2)

lemma small_div:
  fixes x p :: int
  assumes "\<bar>x\<bar> < p \<or> x = - p" "0 < p"
  shows "x div p = (if x < 0 then - 1 else 0)"
proof (cases "x < 0")
  case True
  have "(x + p) div p = x div p + 1" using assms(2) by (intro div_add_self2) simp
  moreover have "(x + p) div p = 0" using True assms by (intro div_pos_pos_trivial) auto
  ultimately show ?thesis using True by simp
next
  case False
  then show ?thesis using assms by (simp add: div_pos_pos_trivial)
qed

lemma sar_exact_long:
  fixes d :: u32
  assumes "32 \<le> n"
  shows "sint (signed_drop_bit 31 d) = sint d div 2 ^ n \<and>
    sint (signed_drop_bit 31 d) + of_bool (sint d < 0) = sint d sdiv 2 ^ n"
proof -
  have "4294967296 \<le> (2 :: int) ^ n" using power_increasing[OF assms, of "2 :: int"] by simp
  then have lt: "\<bar>sint d\<bar> < 2 ^ n" using sint_u32_bounds[of d] by linarith
  have "sint d div 2 ^ n = (if sint d < 0 then - 1 else 0)"
    using lt by (intro small_div) simp_all
  moreover have "\<not> 2 ^ n dvd sint d" if "sint d < 0"
    using zdvd_imp_le[of "2 ^ n" "- sint d"] lt that by auto
  moreover have "sint d div 2 ^ 31 = (if sint d < 0 then - 1 else 0)"
    using sint_u32_bounds[of d] by (intro small_div) auto
  ultimately show ?thesis by (auto simp: sint_signed_drop_bit_eq drop_bit_eq_div sdiv_pow2)
qed

text \<open>
  The arithmetic right shifts \<open>sraiq\<close>, \<open>srea\<close> and \<open>sraq\<close> divide by a power of two rounding down, and
  \<open>XER[CA]\<close> is the correction to the truncated quotient, for \<open>sraq\<close> also when the amount is 32 or
  more.
\<close>

theorem power_shift_right_algebraic:
  "let d = sint (gpr s (reg_s opcode)); n = rb_sh opcode s; m = unat (gpr s (reg_b opcode)) mod 64;
       exact = (\<lambda>n t. sint (gpr t (reg_a opcode)) = d div 2 ^ n \<and>
                  sint (gpr t (reg_a opcode)) + of_bool (xer_ca t) = d sdiv 2 ^ n)
   in exact (reg_b opcode) (power_sraiq rec opcode s) \<and> exact n (power_srea rec opcode s) \<and>
      exact m (power_sraq rec opcode s)"
proof -
  let ?d = "gpr s (reg_s opcode)" and ?b = "gpr s (reg_b opcode)"
  have n: "reg_b opcode < 32" "rb_sh opcode s < 32" by simp_all
  have m: "unat ?b mod 64 = (if tst ?b 0x20 then 32 + rb_sh opcode s else rb_sh opcode s)"
    using sh_mod_64[of ?b] by (simp add: rb_sh_def)
  have i: "gpr (power_sraiq rec opcode s) (reg_a opcode) = signed_drop_bit (reg_b opcode) ?d"
    "xer_ca (power_sraiq rec opcode s) \<longleftrightarrow> sint ?d < 0 \<and> \<not> 2 ^ reg_b opcode dvd sint ?d"
    unfolding power_sraiq_def Let_def lost_bits(2)[OF n(1)] by simp_all
  have e: "gpr (power_srea rec opcode s) (reg_a opcode) = signed_drop_bit (rb_sh opcode s) ?d"
    "xer_ca (power_srea rec opcode s) \<longleftrightarrow> sint ?d < 0 \<and> \<not> 2 ^ rb_sh opcode s dvd sint ?d"
    unfolding power_srea_def Let_def lost_bits(1)[OF n(2)] by simp_all
  have q: "gpr (power_sraq rec opcode s) (reg_a opcode) =
      signed_drop_bit (if tst ?b 0x20 then 31 else rb_sh opcode s) ?d"
    "xer_ca (power_sraq rec opcode s) \<longleftrightarrow>
      sint ?d < 0 \<and> (tst ?b 0x20 \<or> \<not> 2 ^ rb_sh opcode s dvd sint ?d)"
    using lost_bits(2)[OF n(2), of ?d] unfolding power_sraq_def Let_def
    by (auto simp: tst_def split: if_splits)
  show ?thesis
    unfolding Let_def m
    using sar_exact[OF n(1) i(2)] sar_exact[OF n(2) e(2)] sar_exact_long[of "32 + rb_sh opcode s" ?d]
      sar_exact[OF n(2), of "xer_ca (power_sraq rec opcode s)" ?d] q(2)
    unfolding i(1) e(1) q(1) by (cases "tst ?b 0x20") simp_all
qed

end
