(* ===== verification/PpcOpcodeTable.thy ===== *)
theory PpcOpcodeTable
  imports PpcFloat PpcSystem PowerOpcodes PpcLoadStore
begin

text \<open>
  The dispatch tables of \<open>src/cpu/ppc/ppcexec.cpp\<close>: \<open>OpcodeGrabber\<close>, \<open>OpcodeGrabberNoFPU\<close> and
  \<open>initialize_ppc_opcode_table\<close>, line by line with the source's macros, and \<open>lscbx\<close>, the one POWER
  instruction that accesses memory. A table has 64 rows of 2048 slots; a macro fills the slots of a row whose
  number is congruent to \<open>v\<close> modulo \<open>k\<close>.
\<close>

subsection \<open>lscbx\<close>

fun lscbx_loop :: "'a mmu_scheme bus \<Rightarrow> u32 \<Rightarrow> u8 \<Rightarrow> nat \<Rightarrow> nat \<Rightarrow> u32 \<Rightarrow> nat \<Rightarrow> u32 \<Rightarrow> 'a mmu_scheme \<Rightarrow>
    (nat \<times> u32 \<times> nat \<times> nat \<times> bool, 'a mmu_scheme) outcome" where
  "lscbx_loop b opcode matching_byte 0 d acc sh ea s = Ret (d, acc, sh, 0, False) s"
| "lscbx_loop b opcode matching_byte (Suc n) d acc sh ea s =
     obind (mmu_read_vmem b 1 opcode ea s) (\<lambda>v s.
       let return_value = ucast v :: u8; acc = acc OR push_bit sh (ucast return_value);
           keep = d \<noteq> reg_a opcode \<and> d \<noteq> reg_b opcode;
           (s, d, acc, sh) = (if sh = 0 then (if keep then put_gpr d acc s else s, (d + 1) mod 32, 0, 24)
                              else (s, d, acc, sh - 8))
       in if return_value = matching_byte then Ret (d, acc, sh, n, True) s
          else lscbx_loop b opcode matching_byte n d acc sh (ea + 1) s)"

definition power_lscbx :: "'a mmu_scheme bus \<Rightarrow> bool \<Rightarrow> u32 \<Rightarrow> 'a mmu_scheme \<Rightarrow> (unit, 'a mmu_scheme) outcome" where
  "power_lscbx b rec opcode s =
     (let bytes_to_load = unat (spr s SPR_XER AND 0x7F); matching_byte = ucast (drop_bit 8 (spr s SPR_XER)) :: u8
      in obind (lscbx_loop b opcode matching_byte bytes_to_load (reg_d opcode) 0 24 (ea_idx opcode s) s)
           (\<lambda>(d, acc, sh, rest, is_match) s.
             let s = (if sh \<noteq> 24 \<and> d \<noteq> reg_a opcode \<and> d \<noteq> reg_b opcode then put_gpr d acc s else s);
                 s = put_spr SPR_XER ((spr s SPR_XER AND NOT 0x7F) OR of_nat (bytes_to_load - rest)) s
             in Ret () (if rec then s\<lparr>cr := (cr s AND 0x0FFFFFFF) OR (if is_match then CR_EQ else 0) OR
                                           drop_bit 3 (spr s SPR_XER AND XER_SO)\<rparr> else s)))"

subsection \<open>Tables and macros\<close>

record 's env =
  env_fpu :: host_fpu
  env_bus :: "'s bus"
  env_timer :: "nat \<Rightarrow> u64 \<Rightarrow> u64 \<Rightarrow> 's \<Rightarrow> (unit, 's) outcome"

type_synonym 'a machine_env = "'a fpu_scheme env"

text \<open>The conditions the tables were built under.\<close>

record op_config =
  cfg_601 :: bool
  cfg_inc601 :: bool
  cfg_970 :: bool

type_synonym 's handler = "u32 \<Rightarrow> 's \<Rightarrow> (unit, 's) outcome"

text \<open>The row, the modulus and the residue of the slots, whether the macro is one of the \<open>_fp\<close> ones, and the handler.\<close>

type_synonym 's op_entry = "nat \<times> nat \<times> nat \<times> bool \<times> 's handler"

definition pure :: "(u32 \<Rightarrow> 's \<Rightarrow> 's) \<Rightarrow> 's handler" where
  "pure f opcode s = Ret () (f opcode s)"

text \<open>A division the host traps on.\<close>

definition trapping :: "(u32 \<Rightarrow> 's \<Rightarrow> 's option) \<Rightarrow> 's handler" where
  "trapping f opcode s = (case f opcode s of None \<Rightarrow> Abort ''SIGFPE'' | Some s \<Rightarrow> Ret () s)"

definition OPr :: "nat \<Rightarrow> nat \<Rightarrow> 's handler \<Rightarrow> 's op_entry list" where
  "OPr opcode md fn = [(opcode, 2048, md, False, fn)]"

definition OPr_fp :: "nat \<Rightarrow> nat \<Rightarrow> 's handler \<Rightarrow> 's op_entry list" where
  "OPr_fp opcode md fn = [(opcode, 2048, md, True, fn)]"

definition OP :: "nat \<Rightarrow> 's handler \<Rightarrow> 's op_entry list" where
  "OP opcode fn = [(opcode, 1, 0, False, fn)]"

definition OP_fp :: "nat \<Rightarrow> 's handler \<Rightarrow> 's op_entry list" where
  "OP_fp opcode fn = [(opcode, 1, 0, True, fn)]"

definition OPX :: "nat \<Rightarrow> nat \<Rightarrow> 's handler \<Rightarrow> 's op_entry list" where
  "OPX opcode subopcode fn = OPr opcode (subopcode * 2) fn"

definition OPX_fp :: "nat \<Rightarrow> nat \<Rightarrow> 's handler \<Rightarrow> 's op_entry list" where
  "OPX_fp opcode subopcode fn = OPr_fp opcode (subopcode * 2) fn"

definition OPXd :: "nat \<Rightarrow> nat \<Rightarrow> (bool \<Rightarrow> 's handler) \<Rightarrow> 's op_entry list" where
  "OPXd opcode subopcode fn = OPr opcode (subopcode * 2) (fn False) @ OPr opcode (subopcode * 2 + 1) (fn True)"

definition OPXd_fp :: "nat \<Rightarrow> nat \<Rightarrow> (bool \<Rightarrow> 's handler) \<Rightarrow> 's op_entry list" where
  "OPXd_fp opcode subopcode fn = OPr_fp opcode (subopcode * 2) (fn False) @ OPr_fp opcode (subopcode * 2 + 1) (fn True)"

definition OPXod :: "nat \<Rightarrow> nat \<Rightarrow> (bool \<Rightarrow> bool \<Rightarrow> 's handler) \<Rightarrow> 's op_entry list" where
  "OPXod opcode subopcode fn =
     OPr opcode (subopcode * 2) (fn False False) @ OPr opcode (subopcode * 2 + 1) (fn True False) @
     OPr opcode (subopcode * 2 + 0x400) (fn False True) @ OPr opcode (subopcode * 2 + 0x401) (fn True True)"

definition OPla :: "nat \<Rightarrow> nat \<Rightarrow> 's handler \<Rightarrow> 's op_entry list" where
  "OPla opcode subopcode fn = [(opcode, 4, subopcode, False, fn)]"

text \<open>\<open>OP59cd\<close> and the loop over the double precision instructions: every value of the \<open>frC\<close> field.\<close>

definition OPXcd_fp :: "nat \<Rightarrow> nat \<Rightarrow> (bool \<Rightarrow> 's handler) \<Rightarrow> 's op_entry list" where
  "OPXcd_fp opcode subopcode fn =
     [(opcode, 64, subopcode * 2, True, fn False), (opcode, 64, subopcode * 2 + 1, True, fn True)]"

subsection \<open>initialize\_ppc\_opcode\_table\<close>

definition ops_primary :: "'a machine_env \<Rightarrow> op_config \<Rightarrow> 'a fpu_scheme op_entry list" where
  "ops_primary e c =
    (let h = env_fpu e; b = env_bus e; is601 = cfg_601 c; inc601 = cfg_inc601 c
    in concat [
      OP 3 ppc_twi,
      OP 7 (pure ppc_mulli),
      OP 8 (pure ppc_subfic),
      (if is601 \<or> inc601 then OP 9 (pure power_dozi) else []),
      OP 10 (pure ppc_cmpli),
      OP 11 (pure ppc_cmpi),
      OP 12 (pure (ppc_addic False)),
      OP 13 (pure (ppc_addic True)),
      OP 14 (pure (ppc_addi False)),
      OP 15 (pure (ppc_addi True)),
      OP 17 ppc_sc,
      OP 20 (pure ppc_rlwimi),
      OP 21 (pure ppc_rlwinm),
      (if is601 \<or> inc601 then OP 22 (pure power_rlmi) else []),
      OP 23 (pure ppc_rlwnm),
      OP 24 (pure (ppc_ori False)),
      OP 25 (pure (ppc_ori True)),
      OP 26 (pure (ppc_xori False)),
      OP 27 (pure (ppc_xori True)),
      OP 28 (pure (ppc_andirc False)),
      OP 29 (pure (ppc_andirc True)),
      OP 32 (ppc_lz b 4),
      OP 33 (ppc_lzu b 4),
      OP 34 (ppc_lz b 1),
      OP 35 (ppc_lzu b 1),
      OP 36 (ppc_st b 4),
      OP 37 (ppc_stu b 4),
      OP 38 (ppc_st b 1),
      OP 39 (ppc_stu b 1),
      OP 40 (ppc_lz b 2),
      OP 41 (ppc_lzu b 2),
      OP 42 (ppc_lha b),
      OP 43 (ppc_lhau b),
      OP 44 (ppc_st b 2),
      OP 45 (ppc_stu b 2),
      OP 46 (ppc_lmw b),
      OP 47 (ppc_stmw b),
      OP_fp 48 (ppc_lfs h b),
      OP_fp 49 (ppc_lfsu h b),
      OP_fp 50 (ppc_lfd b),
      OP_fp 51 (ppc_lfdu b),
      OP_fp 52 (ppc_stfs h b),
      OP_fp 53 (ppc_stfsu h b),
      OP_fp 54 (ppc_stfd b),
      OP_fp 55 (ppc_stfdu b)])"

definition ops_19 :: "'a machine_env \<Rightarrow> op_config \<Rightarrow> 'a fpu_scheme op_entry list" where
  "ops_19 e c =
    (let is601 = cfg_601 c
    in concat [
      OPla 16 0 (pure (ppc_bc False False)),
      OPla 16 1 (pure (ppc_bc True False)),
      OPla 16 2 (pure (ppc_bc False True)),
      OPla 16 3 (pure (ppc_bc True True)),
      OPla 18 0 (pure (ppc_b False False)),
      OPla 18 1 (pure (ppc_b True False)),
      OPla 18 2 (pure (ppc_b False True)),
      OPla 18 3 (pure (ppc_b True True)),
      OPr 19 0 (pure ppc_mcrf),
      OPr 19 32 (pure (ppc_bclr False)),
      OPr 19 33 (pure (ppc_bclr True)),
      OPr 19 66 (pure ppc_crnor),
      OPr 19 100 ppc_rfi,
      OPr 19 258 (pure ppc_crandc),
      OPr 19 300 ppc_isync,
      OPr 19 386 (pure ppc_crxor),
      OPr 19 450 (pure ppc_crnand),
      OPr 19 514 (pure ppc_crand),
      OPr 19 578 (pure ppc_creqv),
      OPr 19 834 (pure ppc_crorc),
      OPr 19 898 (pure ppc_cror),
      (if is601 then OPr 19 1056 (pure (ppc_bcctr False True)) else []),
      (if \<not> is601 then OPr 19 1056 (pure (ppc_bcctr False False)) else []),
      (if is601 then OPr 19 1057 (pure (ppc_bcctr True True)) else []),
      (if \<not> is601 then OPr 19 1057 (pure (ppc_bcctr True False)) else [])])"

definition ops_31a :: "'a machine_env \<Rightarrow> op_config \<Rightarrow> 'a fpu_scheme op_entry list" where
  "ops_31a e c =
    concat [
      OPX 31 0 (pure ppc_cmp),
      OPX 31 4 ppc_tw,
      OPX 31 32 (pure ppc_cmpl),
      OPXod 31 8 (\<lambda>r v. pure (ppc_subf True r v)),
      OPXod 31 40 (\<lambda>r v. pure (ppc_subf False r v)),
      OPXod 31 104 (\<lambda>r v. pure (ppc_neg r v)),
      OPXod 31 136 (\<lambda>r v. pure (ppc_subfe r v)),
      OPXod 31 200 (\<lambda>r v. pure (ppc_subfze r v)),
      OPXod 31 232 (\<lambda>r v. pure (ppc_subfme r v)),
      OPXod 31 10 (\<lambda>r v. pure (ppc_add True r v)),
      OPXod 31 138 (\<lambda>r v. pure (ppc_adde r v)),
      OPXod 31 202 (\<lambda>r v. pure (ppc_addze r v)),
      OPXod 31 234 (\<lambda>r v. pure (ppc_addme r v)),
      OPXod 31 266 (\<lambda>r v. pure (ppc_add False r v)),
      OPXd 31 11 (\<lambda>r. pure (ppc_mulhwu r)),
      OPXd 31 75 (\<lambda>r. pure (ppc_mulhw r)),
      OPXod 31 235 (\<lambda>r v. pure (ppc_mullw r v)),
      OPXod 31 459 (\<lambda>r v. pure (ppc_divwu r v)),
      OPXod 31 491 (\<lambda>r v. pure (ppc_divw r v))]"

definition ops_31b :: "'a machine_env \<Rightarrow> op_config \<Rightarrow> 'a fpu_scheme op_entry list" where
  "ops_31b e c =
    (let h = env_fpu e; b = env_bus e; is601 = cfg_601 c
    in concat [
      OPX 31 20 (ppc_lwarx b),
      OPX 31 23 (ppc_lzx b 4),
      OPX 31 55 (ppc_lzux b 4),
      OPX 31 87 (ppc_lzx b 1),
      OPX 31 119 (ppc_lzux b 1),
      OPX 31 279 (ppc_lzx b 2),
      OPX 31 311 (ppc_lzux b 2),
      OPX 31 343 (ppc_lhax b),
      OPX 31 375 (ppc_lhaux b),
      OPX 31 533 (ppc_lswx b),
      OPX 31 534 (ppc_lwbrx b),
      OPX_fp 31 535 (ppc_lfsx h b),
      OPX_fp 31 567 (ppc_lfsux h b),
      OPX 31 597 (ppc_lswi b),
      OPX_fp 31 599 (ppc_lfdx b),
      OPX_fp 31 631 (ppc_lfdux b),
      OPX 31 790 (ppc_lhbrx b),
      OPr 31 301 (ppc_stwcx b),
      OPX 31 151 (ppc_stx b 4),
      OPX 31 183 (ppc_stux b 4),
      OPX 31 215 (ppc_stx b 1),
      OPX 31 247 (ppc_stux b 1),
      OPX 31 407 (ppc_stx b 2),
      OPX 31 439 (ppc_stux b 2),
      OPX 31 661 (ppc_stswx b),
      OPX 31 662 (ppc_stwbrx b),
      OPX_fp 31 663 (ppc_stfsx h b),
      OPX_fp 31 695 (ppc_stfsux h b),
      OPX 31 725 (ppc_stswi b),
      OPX_fp 31 727 (ppc_stfdx b),
      OPX_fp 31 759 (ppc_stfdux b),
      OPX 31 918 (ppc_sthbrx b),
      (if \<not> is601 then OPX_fp 31 983 (ppc_stfiwx b) else []),
      OPX 31 310 (ppc_eciwx b),
      OPX 31 438 (ppc_ecowx b)])"

definition ops_31c :: "'a machine_env \<Rightarrow> op_config \<Rightarrow> 'a fpu_scheme op_entry list" where
  "ops_31c e c =
    concat [
      OPXd 31 24 (\<lambda>r. pure (ppc_shift True r)),
      OPXd 31 28 (\<lambda>r. pure (ppc_logical ppc_and r)),
      OPXd 31 60 (\<lambda>r. pure (ppc_logical ppc_andc r)),
      OPXd 31 124 (\<lambda>r. pure (ppc_logical ppc_nor r)),
      OPXd 31 284 (\<lambda>r. pure (ppc_logical ppc_eqv r)),
      OPXd 31 316 (\<lambda>r. pure (ppc_logical ppc_xor r)),
      OPXd 31 412 (\<lambda>r. pure (ppc_logical ppc_orc r)),
      OPXd 31 444 (\<lambda>r. pure (ppc_logical ppc_or r)),
      OPXd 31 476 (\<lambda>r. pure (ppc_logical ppc_nand r)),
      OPXd 31 536 (\<lambda>r. pure (ppc_shift False r)),
      OPXd 31 792 (\<lambda>r. pure (ppc_sraw r)),
      OPXd 31 824 (\<lambda>r. pure (ppc_srawi r)),
      OPXd 31 922 (\<lambda>r. pure (ppc_extsh r)),
      OPXd 31 954 (\<lambda>r. pure (ppc_extsb r)),
      OPXd 31 26 (\<lambda>r. pure (ppc_cntlzw r))]"

definition ops_31d :: "'a machine_env \<Rightarrow> op_config \<Rightarrow> 'a fpu_scheme op_entry list" where
  "ops_31d e c =
    (let b = env_bus e; is601 = cfg_601 c
    in concat [
      OPX 31 19 (pure ppc_mfcr),
      OPX 31 83 ppc_mfmsr,
      OPX 31 144 (pure ppc_mtcrf),
      OPX 31 146 ppc_mtmsr,
      OPX 31 210 ppc_mtsr,
      OPX 31 242 ppc_mtsrin,
      OPX 31 339 ppc_mfspr,
      (if \<not> is601 then OPX 31 371 ppc_mftb else []),
      OPX 31 467 ppc_mtspr,
      OPX 31 512 (pure ppc_mcrxr),
      OPX 31 595 ppc_mfsr,
      OPX 31 659 ppc_mfsrin,
      OPX 31 54 ppc_nop,
      OPX 31 86 ppc_nop,
      OPX 31 246 ppc_nop,
      OPX 31 278 ppc_nop,
      OPX 31 598 ppc_nop,
      OPX 31 470 ppc_dcbi,
      OPX 31 1014 (ppc_dcbz b)])"

definition ops_31p :: "'a machine_env \<Rightarrow> op_config \<Rightarrow> 'a fpu_scheme op_entry list" where
  "ops_31p e c =
    (let b = env_bus e; is601 = cfg_601 c; inc601 = cfg_inc601 c
    in concat [
      (if is601 \<or> inc601 then OPXd 31 29 (\<lambda>r. pure (power_maskg r)) else []),
      (if is601 \<or> inc601 then OPXod 31 107 (\<lambda>r v. pure (power_mul r v)) else []),
      (if is601 \<or> inc601 then OPXd 31 152 (\<lambda>r. pure (power_slq r)) else []),
      (if is601 \<or> inc601 then OPXd 31 153 (\<lambda>r. pure (power_sle r)) else []),
      (if is601 \<or> inc601 then OPXd 31 184 (\<lambda>r. pure (power_sliq r)) else []),
      (if is601 \<or> inc601 then OPXd 31 216 (\<lambda>r. pure (power_sllq r)) else []),
      (if is601 \<or> inc601 then OPXd 31 217 (\<lambda>r. pure (power_sleq r)) else []),
      (if is601 \<or> inc601 then OPXd 31 248 (\<lambda>r. pure (power_slliq r)) else []),
      (if is601 \<or> inc601 then OPXod 31 264 (\<lambda>r v. pure (power_doz r v)) else []),
      (if is601 \<or> inc601 then OPXd 31 277 (\<lambda>r. power_lscbx b r) else []),
      (if is601 \<or> inc601 then OPXod 31 331 (\<lambda>r v. trapping (power_div r v)) else []),
      (if is601 \<or> inc601 then OPXod 31 360 (\<lambda>r v. pure (power_abs r v)) else []),
      (if is601 \<or> inc601 then OPXod 31 363 (\<lambda>r v. pure (power_divs r v)) else []),
      (if is601 \<or> inc601 then OPXod 31 488 (\<lambda>r v. pure (power_nabs r v)) else []),
      (if is601 \<or> inc601 then OPX 31 531 (pure power_clcs) else []),
      (if is601 \<or> inc601 then OPXd 31 537 (\<lambda>r. pure (power_rrib r)) else []),
      (if is601 \<or> inc601 then OPXd 31 541 (\<lambda>r. pure (power_maskir r)) else []),
      (if is601 \<or> inc601 then OPXd 31 664 (\<lambda>r. pure (power_srq r)) else []),
      (if is601 \<or> inc601 then OPXd 31 665 (\<lambda>r. pure (power_sre r)) else []),
      (if is601 \<or> inc601 then OPXd 31 696 (\<lambda>r. pure (power_sriq r)) else []),
      (if is601 \<or> inc601 then OPXd 31 728 (\<lambda>r. pure (power_srlq r)) else []),
      (if is601 \<or> inc601 then OPXd 31 729 (\<lambda>r. pure (power_sreq r)) else []),
      (if is601 \<or> inc601 then OPXd 31 760 (\<lambda>r. pure (power_srliq r)) else []),
      (if is601 \<or> inc601 then OPXd 31 920 (\<lambda>r. pure (power_sraq r)) else []),
      (if is601 \<or> inc601 then OPXd 31 921 (\<lambda>r. pure (power_srea r)) else []),
      (if is601 \<or> inc601 then OPXd 31 952 (\<lambda>r. pure (power_sraiq r)) else [])])"

definition ops_31e :: "'a machine_env \<Rightarrow> op_config \<Rightarrow> 'a fpu_scheme op_entry list" where
  "ops_31e e c =
    (let is601 = cfg_601 c
    in concat [
      OPX 31 306 ppc_tlbie,
      (if \<not> is601 then OPX 31 370 ppc_tlbia else []),
      (if \<not> is601 then OPX 31 566 ppc_tlbsync else []),
      OPX 31 854 ppc_nop,
      OPX 31 982 ppc_nop,
      (if \<not> is601 then OPX 31 978 ppc_tlbld else []),
      (if \<not> is601 then OPX 31 1010 ppc_tlbli else [])])"

definition ops_59 :: "'a machine_env \<Rightarrow> op_config \<Rightarrow> 'a fpu_scheme op_entry list" where
  "ops_59 e c =
    (let h = env_fpu e; is601 = cfg_601 c; mpc970 = cfg_970 c
    in concat [
      OPXd_fp 59 18 (\<lambda>r. pure (ppc_fdivs h r)),
      OPXd_fp 59 20 (\<lambda>r. pure (ppc_fsubs h r)),
      OPXd_fp 59 21 (\<lambda>r. pure (ppc_fadds h r)),
      (if mpc970 then OPXd_fp 59 22 (\<lambda>r. pure (ppc_fsqrts h r)) else []),
      (if \<not> is601 then OPXd_fp 59 24 (\<lambda>r. pure (ppc_fres h r)) else []),
      OPXcd_fp 59 25 (\<lambda>r. pure (ppc_fmuls h r)),
      OPXcd_fp 59 28 (\<lambda>r. pure (ppc_fmsubs h r)),
      OPXcd_fp 59 29 (\<lambda>r. pure (ppc_fmadds h r)),
      OPXcd_fp 59 30 (\<lambda>r. pure (ppc_fnmsubs h r)),
      OPXcd_fp 59 31 (\<lambda>r. pure (ppc_fnmadds h r))])"

definition ops_63 :: "'a machine_env \<Rightarrow> op_config \<Rightarrow> 'a fpu_scheme op_entry list" where
  "ops_63 e c =
    (let h = env_fpu e; is601 = cfg_601 c; mpc970 = cfg_970 c
    in concat [
      OPX_fp 63 0 (pure ppc_fcmpu),
      OPXd_fp 63 12 (\<lambda>r. pure (ppc_frsp h r)),
      OPXd_fp 63 14 (\<lambda>r. pure (ppc_fctiw r)),
      OPXd_fp 63 15 (\<lambda>r. pure (ppc_fctiwz r)),
      OPXd_fp 63 18 (\<lambda>r. pure (ppc_fdiv h r)),
      OPXd_fp 63 20 (\<lambda>r. pure (ppc_fsub h r)),
      OPXd_fp 63 21 (\<lambda>r. pure (ppc_fadd h r)),
      (if mpc970 then OPXd_fp 63 22 (\<lambda>r. pure (ppc_fsqrt h r)) else []),
      (if \<not> is601 then OPXd_fp 63 26 (\<lambda>r. pure (ppc_frsqrte h r)) else []),
      OPX_fp 63 32 (pure ppc_fcmpo),
      OPXd_fp 63 38 (\<lambda>r. pure (ppc_mtfsb1 r)),
      OPXd_fp 63 40 (\<lambda>r. pure (ppc_fneg r)),
      OPX_fp 63 64 (pure ppc_mcrfs),
      OPXd_fp 63 70 (\<lambda>r. pure (ppc_mtfsb0 r)),
      OPXd_fp 63 72 (\<lambda>r. pure (ppc_fmr r)),
      OPXd_fp 63 134 (\<lambda>r. pure (ppc_mtfsfi r)),
      OPXd_fp 63 136 (\<lambda>r. pure (ppc_fnabs r)),
      OPXd_fp 63 264 (\<lambda>r. pure (ppc_fabs r)),
      (if is601 then OPXd_fp 63 583 (\<lambda>r. pure (ppc_mffs True r)) else []),
      (if \<not> is601 then OPXd_fp 63 583 (\<lambda>r. pure (ppc_mffs False r)) else []),
      OPXd_fp 63 711 (\<lambda>r. pure (ppc_mtfsf r)),
      (if \<not> is601 then OPXcd_fp 63 23 (\<lambda>r. pure (ppc_fsel r)) else []),
      OPXcd_fp 63 25 (\<lambda>r. pure (ppc_fmul h r)),
      OPXcd_fp 63 28 (\<lambda>r. pure (ppc_fmsub h r)),
      OPXcd_fp 63 29 (\<lambda>r. pure (ppc_fmadd h r)),
      OPXcd_fp 63 30 (\<lambda>r. pure (ppc_fnmsub h r)),
      OPXcd_fp 63 31 (\<lambda>r. pure (ppc_fnmadd h r))])"


definition opcode_entries :: "'a machine_env \<Rightarrow> op_config \<Rightarrow> 'a fpu_scheme op_entry list" where
  "opcode_entries e c = ops_primary e c @ ops_19 e c @ ops_31a e c @ ops_31b e c @ ops_31c e c @ ops_31d e c @
     ops_31p e c @ ops_31e e c @ ops_59 e c @ ops_63 e c"

definition fills :: "nat \<Rightarrow> nat \<Rightarrow> 's op_entry \<Rightarrow> bool" where
  "fills row slot = (\<lambda>(r, k, v, fp, fn). r = row \<and> slot mod k = v)"

text \<open>The last assignment to a slot wins.\<close>

definition OpcodeGrabber_at :: "'a machine_env \<Rightarrow> op_config \<Rightarrow> nat \<Rightarrow> nat \<Rightarrow> 'a fpu_scheme handler" where
  "OpcodeGrabber_at e c row slot =
     (case find (fills row slot) (rev (opcode_entries e c)) of
        None \<Rightarrow> ppc_illegalop | Some (_, _, _, _, fn) \<Rightarrow> fn)"

definition fp_slot :: "'a machine_env \<Rightarrow> op_config \<Rightarrow> nat \<Rightarrow> nat \<Rightarrow> bool" where
  "fp_slot e c row slot = list_ex (\<lambda>x. fills row slot x \<and> (fst (snd (snd (snd x))))) (opcode_entries e c)"

definition OpcodeGrabberNoFPU_at :: "'a machine_env \<Rightarrow> op_config \<Rightarrow> nat \<Rightarrow> nat \<Rightarrow> 'a fpu_scheme handler" where
  "OpcodeGrabberNoFPU_at e c row slot =
     (if fp_slot e c row slot then ppc_fpu_off else OpcodeGrabber_at e c row slot)"

definition ppc_main_opcode :: "'a machine_env \<Rightarrow> op_config \<Rightarrow> Grabber \<Rightarrow> u32 \<Rightarrow> 'a fpu_scheme \<Rightarrow> (unit, 'a fpu_scheme) outcome" where
  "ppc_main_opcode e c opcodeGrabber opcode =
     (let row = unat (drop_bit 26 opcode); slot = unat (opcode AND 0x7FF)
      in (case opcodeGrabber of OpcodeGrabber \<Rightarrow> OpcodeGrabber_at e c row slot
          | OpcodeGrabberNoFPU \<Rightarrow> OpcodeGrabberNoFPU_at e c row slot) opcode)"

end
