(* ===== verification/PpcExec.thy ===== *)
theory PpcExec
  imports PpcOpcodeTable
begin

text \<open>
  The interpreter of \<open>src/cpu/ppc/ppcexec.cpp\<close>: timer events, the inner loop with its execution blocks, the
  outer loops, single stepping and the initialization of the processor. The local variables of the inner
  loop are a record. \<open>setjmp\<close> and \<open>longjmp\<close> are the outcome \<open>LongJmp\<close> and its handler in the outer
  loops. A loop is a partial function into \<open>option\<close>: not returning is \<open>None\<close>.
\<close>

subsection \<open>State\<close>

record interp = fpu +
  optab :: op_config

type_synonym 'a interp_env = "'a interp_scheme env"

record exec_locals =
  max_cycles :: u64
  page_start :: u32
  eb_end :: u32
  opcode_grabber :: Grabber
  pc_real :: u64

datatype exec_type = Exec_main | Exec_until u32 | Exec_debug u32 u32

abbreviation (input) "TIMER_POLL_INTERVAL_NS \<equiv> (500000 :: u64)"

subsection \<open>Timer events\<close>

definition next_cycle :: "u64 \<Rightarrow> 'a timebase_scheme \<Rightarrow> u64 \<times> 'a timebase_scheme" where
  "next_cycle next_ns s =
     (if g_realtime s then
        let (time_now, s) = get_virt_time_ns s;
            delay_ns = (if next_ns \<noteq> 0 then if next_ns > time_now then next_ns - time_now else 0
                        else TIMER_POLL_INTERVAL_NS)
        in (g_icycles s + min delay_ns TIMER_POLL_INTERVAL_NS div icnt_period_ns s + 1, s)
      else
        let (next_ns, s) = (if next_ns = 0 then let (t, s) = get_virt_time_ns s in (t + TIMER_POLL_INTERVAL_NS, s)
                            else (next_ns, s))
        in ((next_ns - min next_ns (icnt_time_offset_ns s)) div icnt_period_ns s + 1, s))"

definition process_events :: "'a interp_env \<Rightarrow> 'a interp_scheme \<Rightarrow> (u64, 'a interp_scheme) outcome option" where
  "process_events e s =
     (case fire_timers (env_timer e) (s\<lparr>exec_timer := False\<rparr>) of
        None \<Rightarrow> None
      | Some r \<Rightarrow> Some (obind r (\<lambda>next_ns s. let (c, s) = next_cycle next_ns s in Ret c s)))"

subsection \<open>The inner loop\<close>

definition ppc_read_instruction :: "u64 \<Rightarrow> 'a mmu_scheme \<Rightarrow> u32" where
  "ppc_read_instruction ptr s = READ_DWORD_BE_A (hmem_of s) ptr"

text \<open>The boundaries of the next execution block, when the program counter has left the current one.\<close>

definition define_block :: "exec_locals \<Rightarrow> 'a mmu_scheme \<Rightarrow> (exec_locals, 'a mmu_scheme) outcome" where
  "define_block l s =
     (if pc s \<ge> eb_end l then
        let eb_start = pc s; ps = page_tag eb_start
        in obind (mmu_translate_imem eb_start (s\<lparr>exec_flags := 0\<rparr>)) (\<lambda>(p, _) s.
             Ret (l\<lparr>page_start := ps, eb_end := ps + 0x1000 - 1, pc_real := p\<rparr>) s)
      else Ret l s)"

text \<open>\<open>MSR[POW]\<close>: wait for a timer to end the sleep.\<close>

partial_function (option) sleep_loop :: "'a interp_env \<Rightarrow> u64 \<Rightarrow> 'a interp_scheme \<Rightarrow> (u64, 'a interp_scheme) outcome option" where
  "sleep_loop e cycles s =
     (if power_on s \<and> tst (exec_flags s) EXEF_SLEEP then
        case process_events e s of
          None \<Rightarrow> None
        | Some (Ret cycles s) \<Rightarrow>
            if \<not> tst (exec_flags s) EXEF_SLEEP then Some (Ret cycles s)
            else sleep_loop e cycles (s\<lparr>g_icycles := if cycles > g_icycles s then cycles else g_icycles s + 1\<rparr>)
        | Some r \<Rightarrow> Some r
      else Some (Ret cycles s))"

text \<open>The jump after an instruction that set \<open>exec_flags\<close>.\<close>

definition next_block :: "exec_locals \<Rightarrow> 'a mmu_scheme \<Rightarrow> (exec_locals, 'a mmu_scheme) outcome" where
  "next_block l s =
     (let l = (if tst (exec_flags s) EXEF_OPC_DECODER then l\<lparr>opcode_grabber := ppc_opcode_grabber s\<rparr> else l);
          eb_start = ppc_next_instruction_address s;
          finish = (\<lambda>l s. Ret l (s\<lparr>pc := eb_start, exec_flags := 0\<rparr>))
      in if \<not> tst (exec_flags s) EXEF_RFI \<and> page_tag eb_start = page_start l
         then finish (l\<lparr>pc_real := pc_real l + scast (eb_start - pc s)\<rparr>) s
         else
           let ps = page_tag eb_start; l = l\<lparr>page_start := ps, eb_end := ps + 0x1000 - 1\<rparr>
           in obind (mmu_translate_imem eb_start s) (\<lambda>(p, _) s. finish (l\<lparr>pc_real := p\<rparr>) s))"

text \<open>The part of an iteration after the instruction and its timer events.\<close>

definition exec_advance :: "'a interp_env \<Rightarrow> exec_locals \<Rightarrow> 'a interp_scheme \<Rightarrow> (exec_locals, 'a interp_scheme) outcome option" where
  "exec_advance e l s =
     (if exec_flags s \<noteq> 0 then
        if tst (exec_flags s) EXEF_SLEEP \<and> \<not> tst (exec_flags s) EXEF_EXCEPTION then
          (case sleep_loop e (max_cycles l) s of
             None \<Rightarrow> None
           | Some r \<Rightarrow> Some (obind r (\<lambda>m s. next_block (l\<lparr>max_cycles := m\<rparr>) s)))
        else Some (next_block l s)
      else Some (Ret (l\<lparr>pc_real := pc_real l + 4\<rparr>) (s\<lparr>pc := pc s + 4\<rparr>)))"

definition exec_events :: "'a interp_env \<Rightarrow> exec_locals \<Rightarrow> 'a interp_scheme \<Rightarrow> (exec_locals, 'a interp_scheme) outcome option" where
  "exec_events e l s =
     (let due = g_icycles s \<ge> max_cycles l; s = s\<lparr>g_icycles := g_icycles s + 1\<rparr>
      in if due \<or> exec_timer s then
           (case process_events e s of
              None \<Rightarrow> None
            | Some r \<Rightarrow> Some (obind r (\<lambda>m s. Ret (l\<lparr>max_cycles := m\<rparr>) s)))
         else Some (Ret l s))"

definition exec_fetch :: "'a interp_env \<Rightarrow> exec_locals \<Rightarrow> 'a interp_scheme \<Rightarrow> (exec_locals, 'a interp_scheme) outcome" where
  "exec_fetch e l s =
     obind (define_block l s) (\<lambda>l s.
       obind (ppc_main_opcode e (optab s) (opcode_grabber l) (ppc_read_instruction (pc_real l) s) s) (\<lambda>_ s. Ret l s))"

definition exec_iter :: "'a interp_env \<Rightarrow> exec_locals \<Rightarrow> 'a interp_scheme \<Rightarrow> (exec_locals, 'a interp_scheme) outcome option" where
  "exec_iter e l s =
     (case exec_fetch e l s of
        Ret l s \<Rightarrow>
          (case exec_events e l s of
             Some (Ret l s) \<Rightarrow> exec_advance e l s
           | r \<Rightarrow> r)
      | r \<Rightarrow> Some r)"

text \<open>Where a loop of the given kind stops: the debugger's before an instruction, the other two after one.\<close>

definition stop_before :: "exec_type \<Rightarrow> u32 \<Rightarrow> bool" where
  "stop_before ty a = (case ty of Exec_debug start_addr sz \<Rightarrow> a \<ge> start_addr \<and> a < start_addr + sz | _ \<Rightarrow> False)"

definition stop_after :: "exec_type \<Rightarrow> u32 \<Rightarrow> bool" where
  "stop_after ty a = (case ty of Exec_until goal_addr \<Rightarrow> a = goal_addr | _ \<Rightarrow> False)"

partial_function (option) ppc_exec_inner :: "'a interp_env \<Rightarrow> exec_type \<Rightarrow> exec_locals \<Rightarrow> 'a interp_scheme \<Rightarrow>
    (unit, 'a interp_scheme) outcome option" where
  "ppc_exec_inner e ty l s =
     (if \<not> power_on s \<or> stop_before ty (pc s) then Some (Ret () s)
      else case exec_iter e l s of
             None \<Rightarrow> None
           | Some (Ret l s) \<Rightarrow> if stop_after ty (pc s) then Some (Ret () s) else ppc_exec_inner e ty l s
           | Some (LongJmp s) \<Rightarrow> Some (LongJmp s)
           | Some (Throw m s) \<Rightarrow> Some (Throw m s)
           | Some (Abort m) \<Rightarrow> Some (Abort m))"

definition init_locals :: "'a interp_scheme \<Rightarrow> exec_locals" where
  "init_locals s = \<lparr>max_cycles = 0, page_start = 0, eb_end = 0, opcode_grabber = ppc_opcode_grabber s, pc_real = 0\<rparr>"

subsection \<open>The outer loops\<close>

text \<open>\<open>ppc_exec\<close>, \<open>ppc_exec_until\<close> and \<open>ppc_exec_dbg\<close> differ in the loop condition and in the last check.\<close>

partial_function (option) exec_outer :: "'a interp_env \<Rightarrow> exec_type \<Rightarrow> 'a interp_scheme \<Rightarrow>
    (unit, 'a interp_scheme) outcome option" where
  "exec_outer e ty s =
     (if \<not> power_on s \<or> stop_before ty (pc s) then Some (Ret () s)
      else case ppc_exec_inner e ty (init_locals s) s of
             None \<Rightarrow> None
           | Some (Ret _ s) \<Rightarrow>
               (let s = (if \<not> power_on s \<and> power_off_reason s = po_endian_switch then s\<lparr>power_on := True\<rparr> else s)
                in if stop_after ty (pc s) then Some (Ret () s) else exec_outer e ty s)
           | Some (LongJmp s) \<Rightarrow> exec_outer e ty (s\<lparr>pc := ppc_next_instruction_address s\<rparr>)
           | Some (Throw m s) \<Rightarrow> Some (Throw m s)
           | Some (Abort m) \<Rightarrow> Some (Abort m))"

definition ppc_exec :: "'a interp_env \<Rightarrow> 'a interp_scheme \<Rightarrow> (unit, 'a interp_scheme) outcome option" where
  "ppc_exec e s = exec_outer e Exec_main s"

definition ppc_exec_until :: "'a interp_env \<Rightarrow> u32 \<Rightarrow> 'a interp_scheme \<Rightarrow> (unit, 'a interp_scheme) outcome option" where
  "ppc_exec_until e goal_addr s = exec_outer e (Exec_until goal_addr) s"

definition ppc_exec_dbg :: "'a interp_env \<Rightarrow> u32 \<Rightarrow> u32 \<Rightarrow> 'a interp_scheme \<Rightarrow> (unit, 'a interp_scheme) outcome option" where
  "ppc_exec_dbg e start_addr sz s = exec_outer e (Exec_debug start_addr sz) s"

text \<open>One instruction; the exception handler's \<open>longjmp\<close> returns to the start of the function.\<close>

definition exec_single_body :: "'a interp_env \<Rightarrow> 'a interp_scheme \<Rightarrow> (unit, 'a interp_scheme) outcome option" where
  "exec_single_body e s =
     (case obind (mmu_translate_imem (pc s) s) (\<lambda>(p, _) s.
             obind (ppc_main_opcode e (optab s) (ppc_opcode_grabber s) (ppc_read_instruction p s) s) (\<lambda>_ s.
               Ret () (s\<lparr>g_icycles := g_icycles s + 1\<rparr>))) of
        Ret _ s \<Rightarrow>
          (case process_events e s of
             None \<Rightarrow> None
           | Some r \<Rightarrow> Some (obind r (\<lambda>_ s.
               Ret () (if exec_flags s \<noteq> 0 then s\<lparr>pc := ppc_next_instruction_address s, exec_flags := 0\<rparr>
                       else s\<lparr>pc := pc s + 4\<rparr>))))
      | r \<Rightarrow> Some r)"

definition ppc_exec_single :: "'a interp_env \<Rightarrow> 'a interp_scheme \<Rightarrow> (unit, 'a interp_scheme) outcome option" where
  "ppc_exec_single e s =
     (case exec_single_body e s of
        Some (LongJmp s) \<Rightarrow> Some (Ret () (s\<lparr>pc := ppc_next_instruction_address s, exec_flags := 0\<rparr>))
      | r \<Rightarrow> r)"

subsection \<open>Initialization\<close>

definition reset_prs :: "'a SetPRS_scheme \<Rightarrow> 'a SetPRS_scheme" where
  "reset_prs s = s\<lparr>gpr := (\<lambda>_. 0), fpr := (\<lambda>_. 0), pc := 0, cr := 0, fpscr := 0, tbr := (\<lambda>_. 0), spr := (\<lambda>_. 0),
     msr := 0, sr := (\<lambda>_. 0), reserve := False\<rparr>"

text \<open>The loop that scales the frequency down to 32 bits.\<close>

function scale_freq :: "u64 \<Rightarrow> nat \<Rightarrow> u64 \<times> nat" where
  "scale_freq x shift = (if drop_bit 32 x \<noteq> 0 then scale_freq (drop_bit 1 x) (shift + 1) else (x, shift))"
  by pat_completeness auto
termination
proof (relation "measure (\<lambda>(x, _). unat x)")
  fix x :: u64 and n :: nat
  assume "drop_bit 32 x \<noteq> 0"
  then have "x \<noteq> 0" by auto
  then have "0 < unat x" by (simp add: unat_gt_0)
  then show "((drop_bit 1 x, n + 1), x, n) \<in> measure (\<lambda>(x, _). unat x)" by (simp add: unat_drop_bit)
qed simp

declare scale_freq.simps [simp del]

definition init_timebase :: "u64 \<Rightarrow> u32 \<Rightarrow> 'a timebase_scheme \<Rightarrow> 'a timebase_scheme" where
  "init_timebase tb_freq instruction_period_ns s =
     (let (now, s) = cpu_now_ns s;
          s = s\<lparr>g_nanoseconds_base := now, g_icycles := 0, icnt_factor := 4,
                icnt_default_period_ns := ucast (max 1 instruction_period_ns), icnt_time_offset_ns := 0\<rparr>;
          s = update_icnt_period s;
          s = s\<lparr>tbr_wr_timestamp := 0, rtc_timestamp := 0, tbr_wr_value := 0\<rparr>;
          tb_freq = (if is_601 s then push_bit 7 tb_freq else tb_freq);
          (x, shift) = scale_freq (push_bit 32 tb_freq div 1000000000) 0
      in s\<lparr>tbr_freq_shift := shift, tbr_freq_ghz := ucast x, tbr_period_ns := push_bit 32 1000000000 div tb_freq\<rparr>)"

text \<open>The registers, the flags of the processor version and the opcode table.\<close>

definition init_version :: "u32 \<Rightarrow> bool \<Rightarrow> 'a interp_scheme \<Rightarrow> 'a interp_scheme" where
  "init_version cpu_version do_include_601 s =
     (let s = put_spr SPR_PVR cpu_version (set_host_rounding_mode 0 (reset_prs s));
          s = s\<lparr>is_601 := drop_bit 16 cpu_version = 1,
                is_603 := cpu_version = MPC603 \<or> cpu_version = MPC603E \<or> cpu_version = MPC603EV,
                ppc_shadow_gprs := (\<lambda>_. 0)\<rparr>;
          s = s\<lparr>include_601 := \<not> is_601 s \<and> do_include_601, ppc_pow_mode := Pow_None, ppc_pow_hid0_mask := 0\<rparr>;
          s = (if cpu_version = MPC603 \<or> cpu_version = MPC603E \<or> cpu_version = MPC603EV \<or> cpu_version = MPC750
               then s\<lparr>ppc_pow_mode := Pow_HID0, ppc_pow_hid0_mask := 0x00E00000\<rparr>
               else if cpu_version = MPC604 \<or> cpu_version = MPC604E then s\<lparr>ppc_pow_mode := Pow_Unconditional\<rparr> else s)
      in s\<lparr>optab := \<lparr>cfg_601 = is_601 s, cfg_inc601 = include_601 s, cfg_970 = spr s SPR_PVR = MPC970MP\<rparr>\<rparr>)"

definition ppc_cpu_init :: "MemCtrl \<Rightarrow> u32 \<Rightarrow> bool \<Rightarrow> u64 \<Rightarrow> u32 \<Rightarrow> 'a interp_scheme \<Rightarrow> 'a interp_scheme" where
  "ppc_cpu_init mem_ctrl cpu_version do_include_601 tb_freq instruction_period_ns s =
     (let s = init_version cpu_version do_include_601 (s\<lparr>mem_ctrl_instance := mem_ctrl, int_pin := False\<rparr>);
          s = init_timebase tb_freq instruction_period_ns s;
          s = s\<lparr>exec_flags := 0, exec_timer := False, dec_wr_value := 0\<rparr>;
          new_msr_val = (if is_601 s then MSR_ME + MSR_IP else MSR_IP);
          s = (if is_601 s then s
               else ppc_change_endian (tst new_msr_val MSR_LE) (put_spr SPR_DEC_S 0xFFFFFFFF s));
          s = ppc_msr_did_change new_msr_val new_msr_val False s;
          s = ppc_mmu_init s
      in s\<lparr>pc := 0xFFF00100\<rparr>)"

end
