(* ===== verification/PpcExecExact.thy ===== *)
theory PpcExecExact
  imports PpcExec PpcMmuFetch
begin

text \<open>
  Properties of the interpreter: the inner loop with its execution blocks does what stepping one
  instruction at a time does, the cycle count for the next timer event is exact to a period, and
  the initialization of the processor.
\<close>

subsection \<open>Timers that are not due\<close>

definition no_timer_due :: "'a timebase_scheme \<Rightarrow> bool" where
  "no_timer_due s \<longleftrightarrow> (\<forall>i\<in>set (timer_queue (timers s)). icount_now s < timeout_ns (infos (timers s) i))"

lemma idle_timers:
  fixes s :: "'a timebase_scheme"
  assumes "\<not> g_realtime s" "no_timer_due s"
  shows "\<exists>n. fire_timers dev s = Some (Ret n s)"
proof (cases "next_timer s")
  case None
  then show ?thesis using assms(1) by (simp add: fire_timers_def virt_time_icount)
next
  case (Some i)
  then have "i \<in> set (timer_queue (timers s))" by (auto simp: next_timer_def dest: pq_top_mem)
  with assms(2) have "\<not> timeout_ns (infos (timers s) i) \<le> icount_now s" by (auto simp: no_timer_due_def)
  then have "fire_loop dev (icount_now s) i s = Some (Ret (timeout_ns (infos (timers s) i)) s)"
    by (subst fire_loop.simps) simp
  with Some assms(1) show ?thesis by (simp add: fire_timers_def virt_time_icount icount_now_def)
qed

lemma next_cycle_state: "\<not> g_realtime s \<Longrightarrow> \<exists>c. next_cycle n s = (c, s)"
  by (simp add: next_cycle_def virt_time_icount)

lemma idle_events:
  fixes s :: "'a interp_scheme"
  assumes "\<not> g_realtime s" "no_timer_due s" "\<not> exec_timer s"
  shows "\<exists>c. process_events e s = Some (Ret c s)"
proof -
  have s: "s\<lparr>exec_timer := False\<rparr> = s" using assms(3) by (cases s) simp
  from idle_timers[OF assms(1,2)] obtain n where "fire_timers (env_timer e) s = Some (Ret n s)" by blast
  then show ?thesis using next_cycle_state[OF assms(1), of n] by (auto simp: process_events_def s)
qed

subsection \<open>Execution blocks\<close>

text \<open>The entry of the primary instruction TLB for an address.\<close>

definition itlb_entry :: "'a mmu_scheme \<Rightarrow> u32 \<Rightarrow> TLBEntry" where
  "itlb_entry s va = tlb s (Slot ITLB 1 (cur1 ITLB s) (tlb_index va))"

definition host_pc :: "'a mmu_scheme \<Rightarrow> u64" where
  "host_pc s = host_va_offs_r (itlb_entry s (pc s)) + ucast (pc s)"

lemma translate_hit:
  assumes "tag (itlb_entry s va) = page_tag va"
  shows "\<exists>pa. mmu_translate_imem va s = Ret (host_va_offs_r (itlb_entry s va) + ucast va, pa) s"
  using assms by (simp add: mmu_translate_imem_def lookup_tlb_def itlb_entry_def Let_def)

text \<open>
  An uneventful instruction: its page is in the TLB, its handler returns, no timer is or becomes
  due before cycle \<open>m\<close>, it does not sleep or return from an interrupt, it leaves the page's TLB entry
  alone, and the next instruction is in the same page.
\<close>

definition after_instr :: "'a interp_scheme \<Rightarrow> 'a interp_scheme" where
  "after_instr s = (let s = s\<lparr>g_icycles := g_icycles s + 1\<rparr>
     in if exec_flags s \<noteq> 0 then s\<lparr>pc := ppc_next_instruction_address s, exec_flags := 0\<rparr> else s\<lparr>pc := pc s + 4\<rparr>)"

definition quiet :: "'a interp_env \<Rightarrow> u64 \<Rightarrow> 'a interp_scheme \<Rightarrow> 'a interp_scheme \<Rightarrow> bool" where
  "quiet e m s s' \<longleftrightarrow> power_on s \<and> tag (itlb_entry s (pc s)) = page_tag (pc s) \<and>
     (\<exists>s1. ppc_main_opcode e (optab s) (ppc_opcode_grabber s) (ppc_read_instruction (host_pc s) s) s = Ret () s1 \<and>
        s' = after_instr s1 \<and> pc s1 = pc s \<and> itlb_entry s1 (pc s) = itlb_entry s (pc s) \<and>
        (ppc_opcode_grabber s1 = ppc_opcode_grabber s \<or> tst (exec_flags s1) EXEF_OPC_DECODER) \<and>
        \<not> exec_timer s1 \<and> \<not> g_realtime s1 \<and> no_timer_due (s1\<lparr>g_icycles := g_icycles s1 + 1\<rparr>) \<and> g_icycles s1 < m \<and>
        \<not> tst (exec_flags s1) EXEF_SLEEP \<and> \<not> tst (exec_flags s1) EXEF_RFI \<and>
        page_tag (pc s') = page_tag (pc s) \<and> pc s' AND 3 = 0)"

text \<open>The local variables agree with the state.\<close>

definition in_block :: "u64 \<Rightarrow> exec_locals \<Rightarrow> 'a interp_scheme \<Rightarrow> bool" where
  "in_block m l s \<longleftrightarrow> max_cycles l = m \<and> page_start l = page_tag (pc s) \<and> eb_end l = page_tag (pc s) + 0x1000 - 1 \<and>
     pc s AND 3 = 0 \<and> opcode_grabber l = ppc_opcode_grabber s \<and> pc_real l = host_pc s"

lemma page_split:
  fixes p :: u32
  shows "unat p = unat (page_tag p) + unat (p AND 0xFFF)" "unat (p AND 0xFFF) < 4096"
proof -
  have "p = page_tag p OR (p AND 0xFFF)" "page_tag p AND (p AND 0xFFF) = 0"
    by (rule u32_eqI, unfold all_less_32, simp add: page_tag_def bit_simps)+
  then show "unat p = unat (page_tag p) + unat (p AND 0xFFF)" by (metis unat_or_disjoint)
  have "p AND 0xFFF \<le> 0xFFF" by (rule word_and_le1)
  then show "unat (p AND 0xFFF) < 4096" by (simp add: word_le_nat_alt)
qed

lemma below_block_end:
  fixes p :: u32
  assumes "p AND 3 = 0"
  shows "p < page_tag p + 0x1000 - 1"
proof -
  have p: "unat p = unat (page_tag p) + unat (p AND 0xFFF)" by (rule page_split)
  have low: "unat (p AND 0xFFF) < 4095"
  proof -
    have "p AND 0xFFF \<noteq> 0xFFF"
    proof
      assume "p AND 0xFFF = 0xFFF"
      from arg_cong[OF this, of "\<lambda>w. bit w 0"] arg_cong[OF assms, of "\<lambda>w. bit w 0"] show False
        by (simp add: bit_simps)
    qed
    moreover have "p AND 0xFFF \<le> 0xFFF" by (rule word_and_le1)
    ultimately have "p AND 0xFFF < 0xFFF" by simp
    then show ?thesis by (simp add: word_less_nat_alt)
  qed
  have "page_tag p + 0x1000 - 1 = page_tag p + 0xFFF" by simp
  moreover have "unat (page_tag p + 0xFFF) = unat (page_tag p) + 4095"
  proof -
    have "page_tag p + 0xFFF = page_tag p OR 0xFFF"
      by (rule disjunctive_add_eq_or, rule u32_eqI, unfold all_less_32, simp add: page_tag_def bit_simps)
    moreover have "page_tag p AND 0xFFF = 0"
      by (rule u32_eqI, unfold all_less_32, simp add: page_tag_def bit_simps)
    ultimately show ?thesis using unat_or_disjoint[of "page_tag p" "0xFFF"] by simp
  qed
  ultimately show ?thesis using p low by (simp only: word_less_nat_alt)
qed


lemma page_relative:
  fixes a b :: u32
  assumes "page_tag b = page_tag a"
  shows "ucast a + scast (b - a) = (ucast b :: u64)"
proof -
  have d: "\<bar>uint b - uint a\<bar> < 4096"
    using page_split[of a] page_split[of b] uint_nat[of a] uint_nat[of b] unfolding assms by linarith
  have "b - a = word_of_int (uint b - uint a)" by simp
  then have "sint (b - a) = uint b - uint a"
    using int_word_sint[where 'a=32, of "uint b - uint a"] d by simp
  then have "(scast (b - a) :: u64) = word_of_int (uint b - uint a)" by (simp only: scast_eq)
  moreover have "(ucast a :: u64) = word_of_int (uint a)" "(ucast b :: u64) = word_of_int (uint b)" by simp_all
  ultimately have "ucast a + scast (b - a) = (word_of_int (uint a) + word_of_int (uint b - uint a) :: u64)" by (simp only:)
  also have "\<dots> = word_of_int (uint b)" unfolding wi_hom_add by simp
  finally show ?thesis by simp
qed


lemma quiet_single:
  fixes s :: "'a interp_scheme"
  assumes "quiet e m s s'"
  shows "ppc_exec_single e s = Some (Ret () s')"
proof -
  obtain s1 where hit: "tag (itlb_entry s (pc s)) = page_tag (pc s)"
    and op: "ppc_main_opcode e (optab s) (ppc_opcode_grabber s) (ppc_read_instruction (host_pc s) s) s = Ret () s1"
    and s': "s' = after_instr s1" and idle: "\<not> exec_timer s1" "\<not> g_realtime s1" "no_timer_due (s1\<lparr>g_icycles := g_icycles s1 + 1\<rparr>)"
    using assms by (auto simp: quiet_def)
  from translate_hit[OF hit] obtain pa where tr: "mmu_translate_imem (pc s) s = Ret (host_pc s, pa) s"
    by (auto simp: host_pc_def)
  let ?s = "s1\<lparr>g_icycles := g_icycles s1 + 1\<rparr>"
  obtain c where "process_events e ?s = Some (Ret c ?s)"
    using idle_events[of ?s e] idle by auto
  then show ?thesis
    by (simp add: ppc_exec_single_def exec_single_body_def tr op s' after_instr_def Let_def)
qed

lemma quiet_iter:
  fixes s :: "'a interp_scheme"
  assumes "quiet e m s s'" "in_block m l s"
  shows "\<exists>l'. exec_iter e l s = Some (Ret l' s') \<and> in_block m l' s'"
proof -
  obtain s1 where op: "ppc_main_opcode e (optab s) (ppc_opcode_grabber s) (ppc_read_instruction (host_pc s) s) s = Ret () s1"
    and s': "s' = after_instr s1" and pc1: "pc s1 = pc s" and ent: "itlb_entry s1 (pc s) = itlb_entry s (pc s)"
    and gr: "ppc_opcode_grabber s1 = ppc_opcode_grabber s \<or> tst (exec_flags s1) EXEF_OPC_DECODER"
    and idle: "\<not> exec_timer s1" "g_icycles s1 < m"
    and fl: "\<not> tst (exec_flags s1) EXEF_SLEEP" "\<not> tst (exec_flags s1) EXEF_RFI"
    and pg: "page_tag (pc s') = page_tag (pc s)" "pc s' AND 3 = 0"
    using assms(1) by (auto simp: quiet_def)
  have l: "max_cycles l = m" "page_start l = page_tag (pc s)" "eb_end l = page_tag (pc s) + 0x1000 - 1" "pc s AND 3 = 0"
    "opcode_grabber l = ppc_opcode_grabber s" "pc_real l = host_pc s" using assms(2) by (simp_all add: in_block_def)
  have "\<not> pc s \<ge> eb_end l" unfolding l(3) using below_block_end[OF l(4)] by simp
  then have fetch: "exec_fetch e l s = Ret l s1" by (simp add: exec_fetch_def define_block_def l op)
  let ?s = "s1\<lparr>g_icycles := g_icycles s1 + 1\<rparr>"
  have ev: "exec_events e l s1 = Some (Ret l ?s)"
    using idle(1) leD[of m "g_icycles s1"] idle(2) by (auto simp: exec_events_def l Let_def)
  let ?g = "if tst (exec_flags s1) EXEF_OPC_DECODER then ppc_opcode_grabber s1 else opcode_grabber l"
  have g: "?g = ppc_opcode_grabber s'" using gr by (auto simp: l s' after_instr_def Let_def)
  define l' where "l' = l\<lparr>opcode_grabber := ?g, pc_real := pc_real l + scast (pc s' - pc s)\<rparr>"
  have adv: "exec_advance e l ?s = Some (Ret l' s')"
  proof (cases "exec_flags s1 = 0")
    case True
    then have "s' = ?s\<lparr>pc := pc s + 4\<rparr>" by (simp add: s' after_instr_def Let_def pc1)
    with True show ?thesis by (simp add: exec_advance_def l'_def pc1 tst_def)
  next
    case False
    then have n: "s' = ?s\<lparr>pc := ppc_next_instruction_address s1, exec_flags := 0\<rparr>" by (simp add: s' after_instr_def Let_def)
    then have "page_tag (ppc_next_instruction_address s1) = page_start l" using pg(1) l(2) by simp
    with False fl n show ?thesis by (simp add: exec_advance_def next_block_def l'_def pc1 Let_def)
  qed
  have it: "itlb_entry s' (pc s') = itlb_entry s (pc s)"
  proof -
    have "itlb_entry s' va = itlb_entry s1 va" for va
      by (simp add: s' after_instr_def itlb_entry_def Let_def)
    moreover have "itlb_entry s1 (pc s') = itlb_entry s1 (pc s)"
      using tlb_index_page[OF pg(1)] by (simp add: itlb_entry_def)
    ultimately show ?thesis by (simp add: ent)
  qed
  have "pc_real l' = host_pc s'"
    using page_relative[OF pg(1)] by (simp add: l'_def l host_pc_def it add.assoc)
  then have "in_block m l' s'" using l pg g by (simp add: in_block_def l'_def)
  moreover have "exec_iter e l s = Some (Ret l' s')" by (simp add: exec_iter_def fetch ev adv)
  ultimately show ?thesis by blast
qed


lemma quiet_run:
  fixes st :: "nat \<Rightarrow> 'a interp_scheme"
  assumes "\<forall>i<n. quiet e m (st i) (st (Suc i))" "in_block m l (st 0)"
  shows "\<exists>l'. ppc_exec_inner e Exec_main l (st 0) = ppc_exec_inner e Exec_main l' (st n) \<and> in_block m l' (st n)"
  using assms(1)
proof (induction n)
  case 0
  then show ?case using assms(2) by blast
next
  case (Suc n)
  then obtain l1 where l1: "ppc_exec_inner e Exec_main l (st 0) = ppc_exec_inner e Exec_main l1 (st n)" "in_block m l1 (st n)"
    by (metis less_SucI)
  have q: "quiet e m (st n) (st (Suc n))" using Suc.prems by simp
  from quiet_iter[OF q l1(2)] obtain l2 where l2: "exec_iter e l1 (st n) = Some (Ret l2 (st (Suc n)))" "in_block m l2 (st (Suc n))"
    by blast
  have "power_on (st n)" using q by (simp add: quiet_def)
  then have "ppc_exec_inner e Exec_main l1 (st n) = ppc_exec_inner e Exec_main l2 (st (Suc n))"
    by (subst ppc_exec_inner.simps) (simp add: l2(1) stop_before_def stop_after_def)
  with l1(1) l2(2) show ?case by auto
qed

text \<open>
  C4: The interpreter's inner loop, which translates the program counter once per page and then only
  moves a host pointer, executes what \<open>ppc_exec_single\<close> executes, which translates every instruction:
  over any number of uneventful instructions in a page, with branches inside the page and changes of
  the dispatch table, both go through the same states, and the loop's pointer, block bounds and table
  stay those of the state it is in.
\<close>

theorem exec_block_refines_single:
  fixes st :: "nat \<Rightarrow> 'a interp_scheme"
  assumes "\<forall>i<n. quiet e m (st i) (st (Suc i))" "in_block m l (st 0)"
  shows "(\<forall>i<n. ppc_exec_single e (st i) = Some (Ret () (st (Suc i)))) \<and>
     (\<exists>l'. ppc_exec_inner e Exec_main l (st 0) = ppc_exec_inner e Exec_main l' (st n) \<and> in_block m l' (st n))"
  using assms quiet_single quiet_run by blast

subsection \<open>The next timer event\<close>

lemma next_cycle_bounds:
  fixes s :: "'a timebase_scheme"
  assumes "\<not> g_realtime s" "icnt_period_ns s \<noteq> 0"
    and "dl = (if next_ns = 0 then icount_now s + 500000 else next_ns)"
    and "icnt_time_offset_ns s \<le> dl" "unat dl + unat (icnt_period_ns s) < 2 ^ 64"
  shows "\<exists>c. next_cycle next_ns s = (c, s) \<and>
     unat dl < unat (icount_now (s\<lparr>g_icycles := c\<rparr>)) \<and>
     unat (icount_now (s\<lparr>g_icycles := c\<rparr>)) \<le> unat dl + unat (icnt_period_ns s)"
proof -
  let ?o = "icnt_time_offset_ns s" and ?p = "icnt_period_ns s"
  let ?c = "(dl - ?o) div ?p + 1"
  have nc: "next_cycle next_ns s = (?c, s)"
  proof -
    have "next_cycle next_ns s = ((dl - min dl ?o) div ?p + 1, s)"
      using assms(1,3) by (cases "next_ns = 0") (simp_all add: next_cycle_def virt_time_icount icount_now_def)
    then show ?thesis using assms(4) by (simp only: min_absorb2)
  qed
  define d q where "d = unat dl - unat ?o" and "q = d div unat ?p"
  have p0: "0 < unat ?p" using assms(2) by (simp add: unat_gt_0)
  have od: "unat ?o + d = unat dl" using assms(4) by (simp add: d_def word_le_nat_alt)
  have dd: "unat (dl - ?o) = d" using assms(4) by (simp add: d_def unat_sub)
  have qp: "q * unat ?p \<le> d" "d < q * unat ?p + unat ?p"
    using p0 mod_less_divisor[OF p0, of d] div_mult_mod_eq[of d "unat ?p"] unfolding q_def by linarith+
  have "q \<le> q * unat ?p" using p0 by simp
  then have q: "q + 1 < 2 ^ 64" using qp(1) od assms(5) p0 by linarith
  have uc: "unat ?c = q + 1" using q by (simp add: unat_word_ariths unat_div dd q_def)
  have "(q + 1) * unat ?p = q * unat ?p + unat ?p" by simp
  then have mul: "unat (?c * ?p) = q * unat ?p + unat ?p"
    using qp(1) od assms(5) unfolding unat_word_ariths(2) uc by simp
  have "unat (icount_now (s\<lparr>g_icycles := ?c\<rparr>)) = unat ?o + (q * unat ?p + unat ?p)"
    using qp(1) od assms(5) mul by (simp add: icount_now_def unat_add_u64)
  with nc qp od show ?thesis by auto
qed


definition same_clock :: "'a timebase_scheme \<Rightarrow> 'a timebase_scheme \<Rightarrow> bool" where
  "same_clock s t \<longleftrightarrow> \<not> g_realtime t \<and> icnt_time_offset_ns t = icnt_time_offset_ns s \<and> icnt_period_ns t = icnt_period_ns s"

lemma icount_step:
  assumes "unat (icount_now (t\<lparr>g_icycles := c\<rparr>)) + unat (icnt_period_ns t) < 2 ^ 64"
  shows "unat (icount_now (t\<lparr>g_icycles := c + 1\<rparr>)) = unat (icount_now (t\<lparr>g_icycles := c\<rparr>)) + unat (icnt_period_ns t)"
proof -
  have "icount_now (t\<lparr>g_icycles := c + 1\<rparr>) = icount_now (t\<lparr>g_icycles := c\<rparr>) + icnt_period_ns t"
    by (simp add: icount_now_def algebra_simps)
  then show ?thesis using assms by (simp add: unat_add_u64)
qed

lemma icount_same_clock: "same_clock s t \<Longrightarrow> icount_now (t\<lparr>g_icycles := c\<rparr>) = icount_now (s\<lparr>g_icycles := c\<rparr>)"
  by (simp add: same_clock_def icount_now_def)

text \<open>
  C36: When the loop looks at the timers, in the mode where virtual time counts instructions. Let the next deadline (with no timer
  pending, half a millisecond from now) lie at or after the origin of the cycle counter, and let \<open>c\<close> be the limit that
  \<open>process_events\<close> computes for it. While the clock keeps its rate and no timer is added, an iteration below the limit
  only counts its instruction; the one that starts at the limit runs the timers. Virtual time is then past
  the deadline by more than one and at most two instruction periods: no timer runs early, and none later than that.
\<close>

theorem timers_polled:
  fixes s t :: "'a interp_scheme"
  assumes "\<not> g_realtime s" "icnt_period_ns s \<noteq> 0"
    and "dl = (if next_ns = 0 then icount_now s + 500000 else next_ns)"
    and "icnt_time_offset_ns s \<le> dl" "unat dl + 2 * unat (icnt_period_ns s) < 2 ^ 64"
    and "next_cycle next_ns s = (c, s')" "max_cycles l = c" "same_clock s t" "\<not> exec_timer t"
  shows "if g_icycles t < c then exec_events e l t = Some (Ret l (t\<lparr>g_icycles := g_icycles t + 1\<rparr>))
     else exec_events e l t = map_option (\<lambda>r. obind r (\<lambda>m u. Ret (l\<lparr>max_cycles := m\<rparr>) u)) (process_events e (t\<lparr>g_icycles := g_icycles t + 1\<rparr>)) \<and>
       (g_icycles t = c \<longrightarrow>
         unat dl + unat (icnt_period_ns s) < unat (fst (get_virt_time_ns (t\<lparr>g_icycles := g_icycles t + 1\<rparr>))) \<and>
         unat (fst (get_virt_time_ns (t\<lparr>g_icycles := g_icycles t + 1\<rparr>))) \<le> unat dl + 2 * unat (icnt_period_ns s))"
proof -
  have "unat dl + unat (icnt_period_ns s) < 2 ^ 64" using assms(5) by linarith
  from next_cycle_bounds[OF assms(1-4) this] assms(6)
  have b: "unat dl < unat (icount_now (s\<lparr>g_icycles := c\<rparr>))" "unat (icount_now (s\<lparr>g_icycles := c\<rparr>)) \<le> unat dl + unat (icnt_period_ns s)"
    by auto
  have p: "icnt_period_ns t = icnt_period_ns s" "\<not> g_realtime t" using assms(8) by (simp_all add: same_clock_def)
  have "unat (icount_now (t\<lparr>g_icycles := c\<rparr>)) + unat (icnt_period_ns t) < 2 ^ 64"
    unfolding icount_same_clock[OF assms(8)] p using b(2) assms(5) by linarith
  from icount_step[OF this] have "unat (icount_now (t\<lparr>g_icycles := c + 1\<rparr>)) = unat (icount_now (s\<lparr>g_icycles := c\<rparr>)) + unat (icnt_period_ns s)"
    by (simp add: icount_same_clock[OF assms(8)] p)
  moreover have "fst (get_virt_time_ns (t\<lparr>g_icycles := c + 1\<rparr>)) = icount_now (t\<lparr>g_icycles := c + 1\<rparr>)"
    using p(2) by (simp add: virt_time_icount icount_now_def)
  ultimately show ?thesis
    using b assms(7,9) by (auto simp: exec_events_def Let_def not_less split: option.splits)
qed

subsection \<open>Decoding\<close>

lemmas table_defs = opcode_entries_def ops_primary_def ops_19_def ops_31a_def ops_31b_def ops_31c_def ops_31d_def
  ops_31p_def ops_31e_def ops_59_def ops_63_def OP_def OP_fp_def OPr_def OPr_fp_def OPX_def OPX_fp_def OPXd_def OPXd_fp_def
  OPXod_def OPla_def OPXcd_fp_def

text \<open>A row of the table.\<close>

definition row_entries :: "nat \<Rightarrow> 's op_entry list \<Rightarrow> 's op_entry list" where
  "row_entries r xs = filter (\<lambda>x. fst x = r) xs"

lemma find_row: "find (fills row slot) (rev xs) = find (fills row slot) (rev (row_entries row xs))"
  unfolding row_entries_def
  by (induction xs rule: rev_induct) (auto simp: fills_def split: prod.splits)

lemma ex_row: "list_ex (\<lambda>x. fills row slot x \<and> P x) xs = list_ex (\<lambda>x. fills row slot x \<and> P x) (row_entries row xs)"
  unfolding row_entries_def by (induction xs) (auto simp: fills_def split: prod.splits)

lemma filter_if: "filter P (if b then xs else ys) = (if b then filter P xs else filter P ys)"
  by simp

lemma decode_row:
  assumes "row_entries (unat (drop_bit 26 opcode)) (opcode_entries e c) = r"
  shows "ppc_main_opcode e c g opcode =
    (if g = OpcodeGrabberNoFPU \<and> list_ex (\<lambda>x. fills (unat (drop_bit 26 opcode)) (unat (opcode AND 0x7FF)) x \<and> fst (snd (snd (snd x)))) r
     then ppc_fpu_off
     else case find (fills (unat (drop_bit 26 opcode)) (unat (opcode AND 0x7FF))) (rev r) of
            None \<Rightarrow> ppc_illegalop | Some (_, _, _, _, fn) \<Rightarrow> fn) opcode"
  unfolding ppc_main_opcode_def OpcodeGrabber_at_def OpcodeGrabberNoFPU_at_def fp_slot_def Let_def
    find_row[of "unat (drop_bit 26 opcode)" _ "opcode_entries e c"] ex_row[of "unat (drop_bit 26 opcode)" _ _ "opcode_entries e c"] assms
  by (cases g) simp_all

lemma row_addi: "row_entries 14 (opcode_entries e c) = [(14, 1, 0, False, pure (ppc_addi False))]"
  by (simp add: row_entries_def table_defs Let_def filter_if)

lemma row_b: "row_entries 18 (opcode_entries e c) =
    [(18, 4, 0, False, pure (ppc_b False False)), (18, 4, 1, False, pure (ppc_b True False)),
     (18, 4, 2, False, pure (ppc_b False True)), (18, 4, 3, False, pure (ppc_b True True))]"
  by (simp add: row_entries_def table_defs Let_def filter_if)

text \<open>A machine with a two-instruction loop, \<open>addi r3,r3,1\<close> and \<open>b -4\<close>, in a page the TLB holds.\<close>

definition loop_tlb :: TLBEntry where
  "loop_tlb = \<lparr>tag = 0x1000, flags = 0, lru_bits = 0, host_va_offs_r = 0x7F0000000000, host_va_offs_w = 0,
     rgn_desc = None, dev_base_va = 0, phys_tag = 0\<rparr>"

definition loop_mem :: hmem where
  "loop_mem a = (if a = 0x7F0000001000 then 0x38 else if a = 0x7F0000001001 then 0x63 else if a = 0x7F0000001003 then 0x01
     else if a = 0x7F0000001004 then 0x4B else if a = 0x7F0000001005 then 0xFF else if a = 0x7F0000001006 then 0xFF
     else if a = 0x7F0000001007 then 0xFC else 0)"

definition loop_state :: "u32 \<Rightarrow> u32 \<Rightarrow> u64 \<Rightarrow> u32 \<Rightarrow> u32 \<Rightarrow> interp" where
  "loop_state r p n a f = (fpu.extend (timebase.extend tb_machine \<lparr>host_round = FE_TONEAREST, host_except = no_except\<rparr>)
       \<lparr>optab = \<lparr>cfg_601 = False, cfg_inc601 = False, cfg_970 = False\<rparr>\<rparr>)
     \<lparr>gpr := (\<lambda>_. 0)(3 := r), pc := p, ppc_next_instruction_address := a, power_on := True, exec_flags := f,
      tlb := (\<lambda>_. loop_tlb), g_icycles := n, mem_ctrl_instance := \<lparr>address_map = [], mem_regions = [], host_mem = loop_mem\<rparr>\<rparr>"

definition loop_env :: "unit interp_env" where
  "loop_env = \<lparr>env_fpu = \<lparr>h_add = (\<lambda>_ _ _. (0, no_except)), h_sub = (\<lambda>_ _ _. (0, no_except)), h_mul = (\<lambda>_ _ _. (0, no_except)),
       h_div = (\<lambda>_ _ _. (0, no_except)), h_fma = (\<lambda>_ _ _ _. (0, no_except)), h_sqrt = (\<lambda>_ _. (0, no_except)),
       h_to_float = (\<lambda>_ _. (0, no_except)), h_to_double = (\<lambda>_. 0)\<rparr>,
     env_bus = \<lparr>dev_read = (\<lambda>_ _ _ _ s. Ret 0 s), dev_write = (\<lambda>_ _ _ _ _ s. Ret () s)\<rparr>, env_timer = (\<lambda>_ _ _ s. Ret () s)\<rparr>"

lemmas loop_unfold = loop_state_def fpu.defs timebase.defs tb_machine_def mmu.defs static_mmu_def

lemma loop_sel:
  "pc (loop_state r p n a f) = p" "gpr (loop_state r p n a f) = (\<lambda>_. 0)(3 := r)" "power_on (loop_state r p n a f)"
  "ppc_next_instruction_address (loop_state r p n a f) = a" "g_icycles (loop_state r p n a f) = n"
  "itlb_entry (loop_state r p n a f) va = loop_tlb" "hmem_of (loop_state r p n a f) = loop_mem"
  "exec_flags (loop_state r p n a f) = f" "exec_timer (loop_state r p n a f) = False" "g_realtime (loop_state r p n a f) = False"
  "timer_queue (timers (loop_state r p n a f)) = []" "ppc_opcode_grabber (loop_state r p n a f) = OpcodeGrabberNoFPU"
  "icnt_period_ns (loop_state r p n a f) = 16" "icnt_time_offset_ns (loop_state r p n a f) = 0"
  by (simp_all add: loop_unfold itlb_entry_def)

lemma loop_update:
  "(loop_state r p n a f)\<lparr>g_icycles := n'\<rparr> = loop_state r p n' a f" "(loop_state r p n a f)\<lparr>pc := p'\<rparr> = loop_state r p' n a f"
  "(loop_state r p n a f)\<lparr>ppc_next_instruction_address := a'\<rparr> = loop_state r p n a' f"
  "(loop_state r p n a f)\<lparr>exec_flags := f'\<rparr> = loop_state r p n a f'"
  "put_gpr 3 r' (loop_state r p n a f) = loop_state r' p n a f"
  by (simp_all add: loop_unfold put_gpr_def)

lemma loop_fetch:
  "ppc_read_instruction (host_pc (loop_state r 0x1000 n a f)) (loop_state r 0x1000 n a f) = 0x38630001"
  "ppc_read_instruction (host_pc (loop_state r 0x1004 n a f)) (loop_state r 0x1004 n a f) = 0x4BFFFFFC"
  by (simp_all add: ppc_read_instruction_def host_pc_def loop_sel loop_tlb_def loop_mem_def READ_DWORD_BE_A_def
      native_read32_def BYTESWAP_32_def)

lemma decode_addi: "ppc_main_opcode e c g 0x38630001 = pure (ppc_addi False) 0x38630001"
proof -
  have d: "unat (drop_bit 26 (0x38630001 :: u32)) = 14" "unat (0x38630001 AND 0x7FF :: u32) = 1" by simp_all
  show ?thesis
    using decode_row[where opcode = "0x38630001" and e = e and c = c and g = g, unfolded d, OF row_addi]
    by (simp add: fills_def)
qed

lemma decode_b: "ppc_main_opcode e c g 0x4BFFFFFC = pure (ppc_b False False) 0x4BFFFFFC"
proof -
  have d: "unat (drop_bit 26 (0x4BFFFFFC :: u32)) = 18" "unat (0x4BFFFFFC AND 0x7FF :: u32) = 0x7FC" by simp_all
  show ?thesis
    using decode_row[where opcode = "0x4BFFFFFC" and e = e and c = c and g = g, unfolded d, OF row_b]
    by (simp add: fills_def)
qed

lemma loop_quiet_addi: "n < 100 \<Longrightarrow> quiet loop_env 100 (loop_state r 0x1000 n a 0) (loop_state (r + 1) 0x1004 (n + 1) a 0)"
proof -
  assume n: "n < 100"
  let ?s = "loop_state r 0x1000 n a 0" and ?s1 = "loop_state (r + 1) 0x1000 n a 0"
  have op: "ppc_main_opcode loop_env (optab ?s) (ppc_opcode_grabber ?s) 0x38630001 ?s = Ret () ?s1"
    by (simp add: decode_addi pure_def ppc_addi_def Let_def reg_a_def reg_d_def simm_def loop_sel loop_update)
  have af: "after_instr ?s1 = loop_state (r + 1) 0x1004 (n + 1) a 0"
    by (simp add: after_instr_def Let_def loop_sel loop_update)
  show ?thesis
    unfolding quiet_def loop_fetch
    by (intro conjI exI[of _ ?s1] op af[symmetric]) (simp_all add: loop_sel loop_update loop_tlb_def page_tag_def tst_def no_timer_due_def n)
qed

lemma loop_quiet_b: "n < 100 \<Longrightarrow> quiet loop_env 100 (loop_state r 0x1004 n a 0) (loop_state r 0x1000 (n + 1) 0x1000 0)"
proof -
  assume n: "n < 100"
  let ?s = "loop_state r 0x1004 n a 0" and ?s1 = "loop_state r 0x1004 n 0x1000 EXEF_BRANCH"
  have op: "ppc_main_opcode loop_env (optab ?s) (ppc_opcode_grabber ?s) 0x4BFFFFFC ?s = Ret () ?s1"
    by (simp add: decode_b pure_def ppc_b_def Let_def loop_sel loop_update)
  have af: "after_instr ?s1 = loop_state r 0x1000 (n + 1) 0x1000 0"
    by (simp add: after_instr_def Let_def loop_sel loop_update)
  show ?thesis
    unfolding quiet_def loop_fetch
    by (intro conjI exI[of _ ?s1] op af[symmetric]) (simp_all add: loop_sel loop_update loop_tlb_def page_tag_def tst_def no_timer_due_def n)
qed

definition loop_states :: "nat \<Rightarrow> interp" where
  "loop_states i = (if i = 0 then loop_state 0 0x1000 0 0 0 else if i = 1 then loop_state 1 0x1004 1 0 0
     else loop_state 1 0x1000 2 0x1000 0)"

definition loop_locals :: exec_locals where
  "loop_locals = \<lparr>max_cycles = 100, page_start = 0x1000, eb_end = 0x1FFF, opcode_grabber = OpcodeGrabberNoFPU,
     pc_real = 0x7F0000001000\<rparr>"

lemma exec_block_refines_single_witness:
  "ppc_exec_single loop_env (loop_state 0 0x1000 0 0 0) = Some (Ret () (loop_state 1 0x1004 1 0 0)) \<and>
   ppc_exec_single loop_env (loop_state 1 0x1004 1 0 0) = Some (Ret () (loop_state 1 0x1000 2 0x1000 0)) \<and>
   (\<exists>l'. ppc_exec_inner loop_env Exec_main loop_locals (loop_state 0 0x1000 0 0 0) =
      ppc_exec_inner loop_env Exec_main l' (loop_state 1 0x1000 2 0x1000 0) \<and> in_block 100 l' (loop_state 1 0x1000 2 0x1000 0))"
proof -
  have less: "(\<forall>i<2. P i) \<longleftrightarrow> P 0 \<and> P (Suc 0)" for P :: "nat \<Rightarrow> bool"
    by (auto simp: numeral_2_eq_2 less_Suc_eq)
  have "quiet loop_env 100 (loop_states 0) (loop_states (Suc 0))"
    using loop_quiet_addi[of 0 0 0] by (simp add: loop_states_def)
  moreover have "quiet loop_env 100 (loop_states (Suc 0)) (loop_states (Suc (Suc 0)))"
    using loop_quiet_b[of 1 1 0] by (simp add: loop_states_def)
  ultimately have q: "\<forall>i<2. quiet loop_env 100 (loop_states i) (loop_states (Suc i))" unfolding less by simp
  have "in_block 100 loop_locals (loop_states 0)"
    by (simp add: in_block_def loop_locals_def loop_states_def loop_sel page_tag_def host_pc_def loop_tlb_def)
  from exec_block_refines_single[OF q this] show ?thesis unfolding less by (simp add: loop_states_def)
qed

text \<open>A deadline at 100 ns and instructions of 16 ns: the limit is cycle 7, and the timers run at 128 ns.\<close>

lemma timers_polled_witness:
  "exec_events loop_env (loop_locals\<lparr>max_cycles := 7\<rparr>) (loop_state 0 0x1000 6 0 0) =
     Some (Ret (loop_locals\<lparr>max_cycles := 7\<rparr>) (loop_state 0 0x1000 7 0 0)) \<and>
   unat (100 :: u64) + 16 < unat (fst (get_virt_time_ns (loop_state 0 0x1000 8 0 0)))"
proof -
  let ?s = "loop_state 0 0x1000 0 0 0" and ?l = "loop_locals\<lparr>max_cycles := 7\<rparr>"
  have n: "next_cycle 100 ?s = (7, ?s)" by (simp add: next_cycle_def loop_sel)
  have c: "same_clock ?s (loop_state 0 0x1000 k 0 0)" for k by (simp add: same_clock_def loop_sel)
  note th = timers_polled[where s = ?s and next_ns = 100 and dl = 100 and c = 7 and s' = ?s and l = ?l and e = loop_env, OF _ _ _ _ _ n _ c]
  from th[of 6] th[of 7] show ?thesis by (simp add: loop_sel loop_update)
qed

subsection \<open>Initialization\<close>

lemma scale_freq_exact:
  "scale_freq x n = (y, k) \<Longrightarrow> n \<le> k \<and> y = drop_bit (k - n) x \<and> drop_bit 32 y = 0"
proof (induction x n arbitrary: y k rule: scale_freq.induct)
  case (1 x n)
  show ?case
  proof (cases "drop_bit 32 x = 0")
    case True
    then show ?thesis using "1.prems" by (subst (asm) scale_freq.simps) auto
  next
    case False
    then have "scale_freq (drop_bit 1 x) (n + 1) = (y, k)" using "1.prems" by (subst (asm) scale_freq.simps) simp
    note ih = "1.IH"[OF False this]
    then have "k - n = k - (n + 1) + 1" by linarith
    then have "drop_bit (k - n) x = drop_bit (k - (n + 1)) (drop_bit 1 x)" by (simp only: drop_bit_drop_bit)
    moreover have "n \<le> k" "y = drop_bit (k - (n + 1)) (drop_bit 1 x)" "drop_bit 32 y = 0" using ih by linarith+
    ultimately show ?thesis by (simp only:)
  qed
qed

lemma drop_bit_interval:
  fixes x :: u64
  shows "unat (drop_bit k x) * 2 ^ k \<le> unat x" "unat x < (unat (drop_bit k x) + 1) * 2 ^ k"
proof -
  have p: "(0::nat) < 2 ^ k" by simp
  have "unat (drop_bit k x) = unat x div 2 ^ k" unfolding unat_drop_bit_eq by (rule drop_bit_eq_div)
  then have d: "unat (drop_bit k x) * 2 ^ k + unat x mod 2 ^ k = unat x" by (simp only: div_mult_mod_eq)
  then show "unat (drop_bit k x) * 2 ^ k \<le> unat x" by linarith
  show "unat x < (unat (drop_bit k x) + 1) * 2 ^ k"
    using d mod_less_divisor[OF p, of "unat x"] unfolding distrib_right mult_1 by linarith
qed

lemma init_timebase_freq:
  fixes f :: u64
  assumes "s' = init_timebase f p s" "f' = (if is_601 s then 128 * unat f else unat f)" "f' < 2 ^ 32"
  shows "unat (tbr_freq_ghz s') * 2 ^ tbr_freq_shift s' \<le> f' * 2 ^ 32 div 1000000000 \<and>
     f' * 2 ^ 32 div 1000000000 < (unat (tbr_freq_ghz s') + 1) * 2 ^ tbr_freq_shift s'"
proof -
  define g where "g = (if is_601 s then push_bit 7 f else f)"
  define x where "x = push_bit 32 g div 1000000000"
  have g: "unat g = f'"
  proof (cases "is_601 s")
    case True
    then have "128 * unat f < 2 ^ 64" using assms(2,3) by simp
    then show ?thesis using True assms(2) by (simp add: g_def push_bit_eq_mult unat_word_ariths mult.commute)
  qed (simp add: g_def assms(2))
  have "unat (push_bit 32 g) = f' * 2 ^ 32"
    using assms(3) by (simp add: push_bit_eq_mult unat_word_ariths g)
  then have x: "unat x = f' * 2 ^ 32 div 1000000000" by (simp add: x_def unat_div)
  obtain y k where sc: "scale_freq x 0 = (y, k)" by (cases "scale_freq x 0")
  from scale_freq_exact[OF this] have y: "y = drop_bit k x" "drop_bit 32 y = 0" unfolding diff_zero by blast+
  have "unat y < 2 ^ 32"
    using drop_bit_interval(2)[of y 32] y(2) by simp
  then have "unat (ucast y :: u32) = unat y" by (simp add: unsigned_ucast_eq unsigned_take_bit_eq take_bit_nat_eq_self)
  moreover have "tbr_freq_ghz s' = ucast y" "tbr_freq_shift s' = k"
    using sc by (simp_all add: assms(1) init_timebase_def cpu_now_ns_def update_icnt_period_def Let_def x_def g_def split: prod.splits)
  ultimately show ?thesis using drop_bit_interval[where x = x and k = k] x y(1) by simp
qed

lemma mmu_init_frame [frame]:
  "msr (ppc_mmu_init s) = msr s" "spr (ppc_mmu_init s) = spr s" "gpr (ppc_mmu_init s) = gpr s"
  "mmu.more (ppc_mmu_init s) = mmu.more s"
proof -
  have fold_inv: "(\<And>r s. g (f r s) = g s) \<Longrightarrow> g (fold f xs s) = g s"
    for g :: "'a mmu_scheme \<Rightarrow> 'x" and f :: "nat \<Rightarrow> 'a mmu_scheme \<Rightarrow> 'a mmu_scheme" and xs s
    by (induction xs arbitrary: s) auto
  have sched: "msr (schedule_tlb_invalidation ty src s) = msr s" "spr (schedule_tlb_invalidation ty src s) = spr s"
    "gpr (schedule_tlb_invalidation ty src s) = gpr s" "mmu.more (schedule_tlb_invalidation ty src s) = mmu.more s"
    for ty src and s :: "'a mmu_scheme"
    by (cases ty; simp add: schedule_tlb_invalidation_def add_ctx_sync_action_def Let_def)+
  note bats = ibat_update_def dbat_update_def mpc601_bat_update_def ppc_ibat_update_def ppc_dbat_update_def mpc601_dbat_update_def
  have ib: "msr (ibat_update r s) = msr s" "spr (ibat_update r s) = spr s" "gpr (ibat_update r s) = gpr s"
    "mmu.more (ibat_update r s) = mmu.more s" for r and s :: "'a mmu_scheme"
    by (simp_all add: bats sched Let_def)
  have db: "msr (dbat_update r s) = msr s" "spr (dbat_update r s) = spr s" "gpr (dbat_update r s) = gpr s"
    "mmu.more (dbat_update r s) = mmu.more s" for r and s :: "'a mmu_scheme"
    by (simp_all add: bats sched Let_def)
  show "msr (ppc_mmu_init s) = msr s" "spr (ppc_mmu_init s) = spr s" "gpr (ppc_mmu_init s) = gpr s"
    "mmu.more (ppc_mmu_init s) = mmu.more s"
    unfolding ppc_mmu_init_def Let_def
    by (simp_all add: frame fold_inv ib db)
qed

lemma init_version_frame [frame]:
  "is_601 (init_version ver inc s) = (drop_bit 16 ver = 1)" "gpr (init_version ver inc s) = (\<lambda>_. 0)"
  "spr (init_version ver inc s) = (\<lambda>_. 0)(SPR_PVR := ver)" "ppc_shadow_gprs (init_version ver inc s) = (\<lambda>_. 0)"
  by (simp_all add: init_version_def Let_def put_spr_def set_host_rounding_mode_def reset_prs_def)

lemma init_timebase_frame [frame]:
  "is_601 (init_timebase f p s) = is_601 s" "gpr (init_timebase f p s) = gpr s" "spr (init_timebase f p s) = spr s"
  "ppc_shadow_gprs (init_timebase f p s) = ppc_shadow_gprs s"
  by (simp_all add: init_timebase_def Let_def cpu_now_ns_def update_icnt_period_def split: prod.splits)

lemma cpu_init_frame:
  assumes "t = init_timebase f p (init_version ver inc (s\<lparr>mem_ctrl_instance := mc, int_pin := False\<rparr>))"
  shows "tbr_freq_ghz (ppc_cpu_init mc ver inc f p s) = tbr_freq_ghz t \<and>
    tbr_freq_shift (ppc_cpu_init mc ver inc f p s) = tbr_freq_shift t"
proof -
  have mmu: "tbr_freq_ghz (ppc_mmu_init u) = tbr_freq_ghz u" "tbr_freq_shift (ppc_mmu_init u) = tbr_freq_shift u"
    for u :: "'a interp_scheme"
    using mmu_init_frame(4)[of u] by (cases "ppc_mmu_init u", cases u, simp)+
  have msr: "tbr_freq_ghz (ppc_msr_did_change o1 n1 False u) = tbr_freq_ghz u"
     "tbr_freq_shift (ppc_msr_did_change o1 n1 False u) = tbr_freq_shift u" for o1 n1 and u :: "'a interp_scheme"
    by (simp_all add: ppc_msr_did_change_def swap_tgpr_def Let_def)
  show ?thesis
    by (simp add: ppc_cpu_init_def Let_def mmu msr ppc_change_endian_def put_spr_def p_power_off_def assms)
qed

text \<open>
  After \<open>ppc_cpu_init\<close> the processor is at the reset vector \<open>0xFFF00100\<close> with exceptions at high addresses
  (and machine checks enabled on a 601), its registers cleared and its version in the PVR, and the scaled
  time base frequency is exact to its last place: the frequency in units of \<open>2 ^ -32\<close> GHz lies in the
  interval \<open>tbr_freq_ghz\<close> and \<open>tbr_freq_shift\<close> denote.
\<close>

theorem cpu_reset:
  assumes "s' = ppc_cpu_init mc ver inc f p s" "f' = (if drop_bit 16 ver = 1 then 128 * unat f else unat f)" "f' < 2 ^ 32"
  shows "pc s' = 0xFFF00100 \<and> msr s' = (if drop_bit 16 ver = 1 then MSR_ME OR MSR_IP else MSR_IP) \<and>
     spr s' SPR_PVR = ver \<and> (\<forall>r. gpr s' r = 0) \<and>
     unat (tbr_freq_ghz s') * 2 ^ tbr_freq_shift s' \<le> f' * 2 ^ 32 div 1000000000 \<and>
     f' * 2 ^ 32 div 1000000000 < (unat (tbr_freq_ghz s') + 1) * 2 ^ tbr_freq_shift s'"
proof -
  let ?t = "init_timebase f p (init_version ver inc (s\<lparr>mem_ctrl_instance := mc, int_pin := False\<rparr>))"
  have fr: "unat (tbr_freq_ghz s') * 2 ^ tbr_freq_shift s' \<le> f' * 2 ^ 32 div 1000000000"
    "f' * 2 ^ 32 div 1000000000 < (unat (tbr_freq_ghz s') + 1) * 2 ^ tbr_freq_shift s'"
    using init_timebase_freq[where s' = ?t and f' = f', OF refl] cpu_init_frame[OF refl, of mc ver inc f p s] assms
    by (simp_all add: frame)
  have "msr s' = (if drop_bit 16 ver = 1 then MSR_ME OR MSR_IP else MSR_IP)" "spr s' SPR_PVR = ver" "\<forall>r. gpr s' r = 0"
    unfolding assms(1) ppc_cpu_init_def Let_def
    by (simp_all add: frame ppc_change_endian_def put_spr_def tst_def p_power_off_def)
  moreover have "pc s' = 0xFFF00100" unfolding assms(1) ppc_cpu_init_def Let_def by simp
  ultimately show ?thesis using fr by blast
qed

lemma cpu_reset_witness:
  "let s' = ppc_cpu_init \<lparr>address_map = [], mem_regions = [], host_mem = loop_mem\<rparr> 0x00080200 False 25000000 10
              (loop_state 0 0 0 0 0)
   in pc s' = 0xFFF00100 \<and> msr s' = 0x40 \<and> spr s' SPR_PVR = 0x00080200 \<and>
      unat (tbr_freq_ghz s') * 2 ^ tbr_freq_shift s' \<le> 107374182 \<and> 107374182 < (unat (tbr_freq_ghz s') + 1) * 2 ^ tbr_freq_shift s'"
  using cpu_reset[where mc = "\<lparr>address_map = [], mem_regions = [], host_mem = loop_mem\<rparr>" and ver = "0x00080200" and inc = False
      and f = 25000000 and p = 10 and s = "loop_state 0 0 0 0 0" and f' = 25000000, OF refl]
  by (simp add: Let_def)

end
