(* ===== verification/PpcFloatExact.thy ===== *)
theory PpcFloatExact
  imports PpcFloat PpcIntegerExact Complex_Main
begin

text \<open>
  What the bit-level operations of \<open>PpcFloat\<close> compute, against the real numbers the doubles stand
  for: comparisons and conversions to integers are exact. An infinity counts as \<open>2 ^ 1024\<close> here, which
  keeps its place in the order.
\<close>

subsection \<open>The value of a double\<close>

definition dbl_one :: nat where
  "dbl_one = 2 ^ 1075"

definition dbl_val :: "u64 \<Rightarrow> real" where
  "dbl_val x = real_of_int (dbl_sig x) * 2 ^ dbl_exp x / dbl_one"

lemma dbl_one_pos [simp]: "0 < dbl_one" "dbl_one = 0 \<longleftrightarrow> False"
  by (simp_all add: dbl_one_def)

text \<open>The magnitude, in units of the smallest denormal's half, of the low 63 bits.\<close>

definition dbl_mag :: "nat \<Rightarrow> nat" where
  "dbl_mag k = (if k div 2 ^ 52 = 0 then k mod 2 ^ 52 else k mod 2 ^ 52 + 2 ^ 52) * 2 ^ max 1 (k div 2 ^ 52)"

lemma dbl_mag_mono: "k < k' \<Longrightarrow> dbl_mag k < dbl_mag k'"
proof -
  assume lt: "k < k'"
  define E f E' f' where e: "E = k div 2 ^ 52" "f = k mod 2 ^ 52" "E' = k' div 2 ^ 52" "f' = k' mod 2 ^ 52"
  have fb: "f < 2 ^ 52" "f' < 2 ^ 52" by (simp_all add: e)
  have k: "k = E * 2 ^ 52 + f" "k' = E' * 2 ^ 52 + f'" by (simp_all add: e)
  have le: "E \<le> E'" using lt by (simp add: e div_le_mono)
  show ?thesis
  proof (cases "E = E'")
    case True
    then have "f < f'" using lt k by simp
    then show ?thesis using True unfolding dbl_mag_def e[symmetric] by simp
  next
    case False
    then have E': "E + 1 \<le> E'" using le by simp
    have "dbl_mag k < 2 ^ 52 * 2 ^ (E + 1)"
    proof (cases "E = 0")
      case True
      then show ?thesis using fb unfolding dbl_mag_def e[symmetric] by simp
    next
      case False
      then have m: "max 1 E = E" by simp
      have "(f + 2 ^ 52) * 2 ^ E < (2 ^ 52 + 2 ^ 52) * 2 ^ E" using fb(1) by simp
      then show ?thesis using False unfolding dbl_mag_def e[symmetric] m by (simp add: algebra_simps)
    qed
    also have "\<dots> \<le> 2 ^ 52 * 2 ^ E'" using E' by (intro mult_left_mono power_increasing) simp_all
    also have "\<dots> \<le> dbl_mag k'" using E' unfolding dbl_mag_def e[symmetric] by (simp add: max_def)
    finally show ?thesis .
  qed
qed

lemma dbl_mag_less_iff [simp]: "dbl_mag k < dbl_mag k' \<longleftrightarrow> k < k'"
  by (metis dbl_mag_mono linorder_neqE_nat order_less_asym)

definition low63 :: "u64 \<Rightarrow> nat" where
  "low63 x = unat (x AND 0x7FFFFFFFFFFFFFFF)"

lemma low63_fields:
  "unat (drop_bit 52 x AND 0x7FF) = low63 x div 2 ^ 52" "uint (x AND 0xFFFFFFFFFFFFF) = int (low63 x mod 2 ^ 52)"
proof -
  have a: "drop_bit 52 x AND 0x7FF = drop_bit 52 (x AND 0x7FFFFFFFFFFFFFFF)"
    "x AND 0xFFFFFFFFFFFFF = take_bit 52 (x AND 0x7FFFFFFFFFFFFFFF)"
  proof -
    have m: "(0x7FF :: u64) = mask 11" "(0x7FFFFFFFFFFFFFFF :: u64) = mask 63" "(0xFFFFFFFFFFFFF :: u64) = mask 52"
      by (simp_all add: mask_eq_exp_minus_1)
    show "drop_bit 52 x AND 0x7FF = drop_bit 52 (x AND 0x7FFFFFFFFFFFFFFF)"
      "x AND 0xFFFFFFFFFFFFF = take_bit 52 (x AND 0x7FFFFFFFFFFFFFFF)"
      unfolding m by (rule bit_word_eqI, auto simp: bit_simps)+
  qed
  show "unat (drop_bit 52 x AND 0x7FF) = low63 x div 2 ^ 52"
    unfolding a(1) low63_def by (rule unat_drop_bit)
  have "unat (take_bit 52 (x AND 0x7FFFFFFFFFFFFFFF)) = low63 x mod 2 ^ 52"
    unfolding low63_def unsigned_take_bit_eq by (simp only: take_bit_eq_mod)
  then show "uint (x AND 0xFFFFFFFFFFFFF) = int (low63 x mod 2 ^ 52)"
    unfolding a(2) by (metis uint_nat)
qed

lemma dbl_val_mag: "dbl_val x = (if bit x 63 then - real (dbl_mag (low63 x)) else real (dbl_mag (low63 x))) / dbl_one"
proof -
  have z: "drop_bit 52 x AND 0x7FF = 0 \<longleftrightarrow> low63 x div 2 ^ 52 = 0"
    unfolding low63_fields(1)[symmetric] by (simp only: unat_eq_0)
  show ?thesis
    unfolding dbl_val_def dbl_sig_def dbl_exp_def dbl_mag_def Let_def low63_fields z by simp
qed

lemma dbl_key_val: "dbl_key x < dbl_key y \<longleftrightarrow> dbl_val x < dbl_val y"
proof -
  have k: "dbl_key x = (if bit x 63 then - int (low63 x) else int (low63 x))" for x
    unfolding dbl_key_def low63_def uint_nat ..
  have "0 < dbl_mag n \<longleftrightarrow> 0 < n" for n using dbl_mag_less_iff[of 0 n] by (simp add: dbl_mag_def)
  then have z: "dbl_mag n = 0 \<longleftrightarrow> n = 0" for n by (metis gr_zeroI less_irrefl)
  have "dbl_val x < dbl_val y \<longleftrightarrow> (if bit x 63 then - real (dbl_mag (low63 x)) else real (dbl_mag (low63 x))) <
      (if bit y 63 then - real (dbl_mag (low63 y)) else real (dbl_mag (low63 y)))"
    unfolding dbl_val_mag divide_less_cancel by simp
  then show ?thesis unfolding k
    using z[of "low63 x"] z[of "low63 y"] by (auto simp: neq0_conv[symmetric] simp del: neq0_conv)
qed

lemma dbl_one_split: "e \<le> 1075 \<Longrightarrow> dbl_one = 2 ^ e * 2 ^ (1075 - e)"
  unfolding dbl_one_def by (metis le_add_diff_inverse power_add)

lemma dbl_val_int: "1075 \<le> dbl_exp x \<Longrightarrow> dbl_val x = of_int (dbl_sig x * 2 ^ (dbl_exp x - 1075))"
proof -
  assume "1075 \<le> dbl_exp x"
  then have "(2::real) ^ dbl_exp x = 2 ^ (dbl_exp x - 1075) * dbl_one"
    unfolding dbl_one_def of_nat_power of_nat_numeral by (simp only: power_add[symmetric] le_add_diff_inverse2 of_nat_power of_nat_numeral)
  then show ?thesis by (simp add: dbl_val_def)
qed

lemma dbl_val_frac: "dbl_exp x < 1075 \<Longrightarrow> dbl_val x = of_int (dbl_sig x) / of_int (2 ^ (1075 - dbl_exp x))"
  by (simp add: dbl_val_def dbl_one_split[of "dbl_exp x"])

lemma floor_val: "dbl_floor x = \<lfloor>dbl_val x\<rfloor>"
proof (cases "dbl_exp x < 1075")
  case True
  then show ?thesis unfolding dbl_val_frac[OF True] floor_divide_of_int_eq
    by (simp add: dbl_floor_def floor_scaled_def)
next
  case False
  then have "1075 \<le> dbl_exp x" by simp
  then show ?thesis unfolding dbl_val_int[OF \<open>1075 \<le> dbl_exp x\<close>] floor_of_int
    by (simp add: dbl_floor_def floor_scaled_def)
qed

lemma ceil_val: "dbl_ceil x = \<lceil>dbl_val x\<rceil>"
proof (cases "dbl_exp x < 1075")
  case True
  have "- dbl_val x = of_int (- dbl_sig x) / of_int (2 ^ (1075 - dbl_exp x))"
    unfolding dbl_val_frac[OF True] by simp
  then show ?thesis unfolding ceiling_def
    using True by (simp only: floor_divide_of_int_eq) (simp add: dbl_ceil_def floor_scaled_def)
next
  case False
  then have "1075 \<le> dbl_exp x" by simp
  then show ?thesis unfolding dbl_val_int[OF \<open>1075 \<le> dbl_exp x\<close>] ceiling_of_int
    by (simp add: dbl_ceil_def floor_scaled_def)
qed

lemma sig_sign: "dbl_sig x < 0 \<longleftrightarrow> dbl_val x < 0"
  by (simp add: dbl_val_def divide_less_0_iff mult_less_0_iff)

text \<open>Rounding in one of the modes of \<open>FPSCR[RN]\<close>: to the nearest with ties to even, toward zero, up, down.\<close>

definition rounds_to :: "u32 \<Rightarrow> real \<Rightarrow> int \<Rightarrow> bool" where
  "rounds_to mode x i \<longleftrightarrow>
     (if mode = 0 then \<bar>x - i\<bar> \<le> 1 / 2 \<and> (\<bar>x - i\<bar> = 1 / 2 \<longrightarrow> even i)
      else if mode = 1 then i = (if x < 0 then \<lceil>x\<rceil> else \<lfloor>x\<rfloor>)
      else if mode = 2 then i = \<lceil>x\<rceil> else i = \<lfloor>x\<rfloor>)"

lemma trunc_val: "dbl_trunc x = (if dbl_val x < 0 then \<lceil>dbl_val x\<rceil> else \<lfloor>dbl_val x\<rfloor>)"
  unfolding dbl_trunc_def sig_sign ceil_val floor_val ..

lemma nearest_frac:
  fixes n d :: int
  assumes "0 < d"
  defines "q \<equiv> n div d" and "r \<equiv> n mod d"
  shows "rounds_to 0 (of_int n / of_int d) (if 2 * r < d then q else if 2 * r > d then q + 1 else if even q then q else q + 1)"
proof -
  have n: "n = q * d + r" by (simp add: q_def r_def)
  have r: "0 \<le> r" "r < d" using assms(1) by (simp_all add: r_def)
  have d: "(0::real) < of_int d" using assms(1) by simp
  have x: "real_of_int n / of_int d = of_int q + of_int r / of_int d"
    using d unfolding n by (simp add: field_simps)
  have f: "0 \<le> real_of_int r / of_int d" "real_of_int r / of_int d < 1" using r d by simp_all
  have h: "2 * r < d \<longleftrightarrow> real_of_int r / of_int d < 1 / 2" "2 * r > d \<longleftrightarrow> real_of_int r / of_int d > 1 / 2"
    using d by (auto simp: field_simps simp flip: of_int_mult)
  show ?thesis unfolding x rounds_to_def h using f by (auto simp: abs_if)
qed

lemma nearest_val: "rounds_to 0 (dbl_val x) (dbl_nearest x)"
proof (cases "dbl_exp x < 1075")
  case True
  then have "dbl_nearest x = (let d = 2 ^ (1075 - dbl_exp x); q = dbl_sig x div d; r = dbl_sig x mod d
      in if 2 * r < d then q else if 2 * r > d then q + 1 else if even q then q else q + 1)"
    by (simp add: dbl_nearest_def dbl_floor_def floor_scaled_def)
  then show ?thesis unfolding dbl_val_frac[OF True]
    using nearest_frac[of "2 ^ (1075 - dbl_exp x)" "dbl_sig x"] by (simp only: Let_def) simp
next
  case False
  then have e: "1075 \<le> dbl_exp x" by simp
  then have "dbl_nearest x = dbl_floor x" by (simp add: dbl_nearest_def)
  then show ?thesis by (simp add: floor_val rounds_to_def dbl_val_int[OF e] del: of_int_mult of_int_power)
qed

subsection \<open>Comparison and conversion\<close>

lemma dbl_less_val: "\<not> is_nan x \<Longrightarrow> \<not> is_nan y \<Longrightarrow> dbl_less x y \<longleftrightarrow> dbl_val x < dbl_val y"
  by (simp add: dbl_less_def dbl_key_val)

lemma dbl_val_consts:
  "dbl_val 0x41DFFFFFFFC00000 = 2147483647" "dbl_val 0xC1E0000000000000 = - 2147483648" "dbl_val 0 = 0"
proof -
  have "dbl_exp 0x41DFFFFFFFC00000 = 1053" "dbl_sig 0x41DFFFFFFFC00000 = 2147483647 * 4194304"
    by (simp_all add: dbl_exp_def dbl_sig_def bit_numeral_rec)
  then show "dbl_val 0x41DFFFFFFFC00000 = 2147483647" using dbl_val_frac[of "0x41DFFFFFFFC00000"] by simp
  have "dbl_exp 0xC1E0000000000000 = 1054" "dbl_sig 0xC1E0000000000000 = - (2 ^ 52)"
    by (simp_all add: dbl_exp_def dbl_sig_def bit_numeral_rec)
  then show "dbl_val 0xC1E0000000000000 = - 2147483648" using dbl_val_frac[of "0xC1E0000000000000"] by simp
  show "dbl_val 0 = 0" by (simp add: dbl_val_def dbl_sig_def)
qed

lemma not_nan_consts: "\<not> is_nan 0x41DFFFFFFFC00000" "\<not> is_nan 0xC1E0000000000000" "\<not> is_nan 0"
  by (simp_all add: is_nan_def)

lemma rounds_to_range:
  assumes "rounds_to m x i" "-2147483648 \<le> x" "x \<le> 2147483647"
  shows "-2147483648 \<le> i \<and> i \<le> 2147483647"
proof -
  have "\<bar>x - i\<bar> < 1" using assms(1) by (auto simp: rounds_to_def split: if_splits) linarith+
  then have "-2147483649 < real_of_int i" "real_of_int i < 2147483648" using assms(2,3) by linarith+
  then show ?thesis by linarith
qed


text \<open>The low word of the target register, as a signed integer.\<close>

abbreviation (input) int_result :: "u64 \<Rightarrow> int" where
  "int_result v \<equiv> sint (ucast v :: u32)"

lemma int_result_of:
  "-2147483648 \<le> i \<Longrightarrow> i \<le> 2147483647 \<Longrightarrow> int_result (ucast (word_of_int i :: u32) OR 0xFFF8000000000000) = i"
proof -
  assume i: "-2147483648 \<le> i" "i \<le> 2147483647"
  have "ucast (ucast (word_of_int i :: u32) OR (0xFFF8000000000000 :: u64)) = (word_of_int i :: u32)"
    by (rule u32_eqI) (unfold all_less_32, simp add: bit_simps)
  moreover have "sint (word_of_int i :: u32) = i"
    using i int_word_sint[where 'a=32, of i] by simp
  ultimately show ?thesis by simp
qed

text \<open>What both conversions do with a number; the host rounds to the nearest.\<close>

lemma fp_sel [simp]:
  "fpr (record_cr1 rec s) = fpr s" "fpscr (record_cr1 rec s) = fpscr s" "fpr (put_fpr d v s) = (fpr s)(d := v)"
  "fpscr (put_fpr d v s) = fpscr s" "fpr (or_fpscr m s) = fpr s" "fpscr (or_fpscr m s) = fpscr s OR m"
  "cr (put_fpr d v s) = cr s" "cr (or_fpscr m s) = cr s"
  by (simp_all add: record_cr1_def ppc_update_cr1_def put_fpr_def or_fpscr_def)

lemma u32_less_4: "m < 4 \<Longrightarrow> m = 0 \<or> m = 1 \<or> m = 2 \<or> m = 3" for m :: u32
proof -
  assume "m < 4"
  then have "unat m < 4" by (simp add: word_less_nat_alt)
  then have "unat m = 0 \<or> unat m = 1 \<or> unat m = 2 \<or> unat m = 3" by linarith
  then show ?thesis by (auto simp: word_unat_eq_iff)
qed

lemma tst_VE: "tst f FPSCR_VE \<longleftrightarrow> bit f 7" for f :: u32
  using tst_pow2[of f 7] by simp

lemma round_to_int_exact:
  fixes s :: "'a fpu_scheme" and rec :: bool
  assumes "\<not> is_nan (fpr s (reg_b op))" "host_round s = FE_TONEAREST" "mode < 4"
  defines "x \<equiv> dbl_val (fpr s (reg_b op))" and "t \<equiv> round_to_int op mode rec s"
  shows "if - 2147483648 \<le> x \<and> x \<le> 2147483647
     then rounds_to mode x (int_result (fpr t (reg_d op))) \<and> fpscr t = fpscr s
     else fpscr t = (fpscr s AND NOT 0x60000) OR 0x20000100 OR (if tst (fpscr s) FPSCR_VE then FPSCR_FEX else 0) \<and>
       fpr t = (if tst (fpscr s) FPSCR_VE then fpr s
                else (fpr s)(reg_d op := if x < 0 then 0xFFF8000080000000 else 0xFFF800007FFFFFFF))"
proof -
  let ?v = "fpr s (reg_b op)"
  have lt: "dbl_less 0x41DFFFFFFFC00000 ?v \<longleftrightarrow> 2147483647 < x" "dbl_less ?v 0xC1E0000000000000 \<longleftrightarrow> x < - 2147483648"
    "dbl_less ?v 0 \<longleftrightarrow> x < 0"
    using assms(1) by (simp_all add: dbl_less_val not_nan_consts dbl_val_consts x_def)
  show ?thesis
  proof (cases "- 2147483648 \<le> x \<and> x \<le> 2147483647")
    case True
    let ?i = "if mode = 0 then dbl_nearest ?v else if mode = 1 then dbl_trunc ?v else if mode = 2 then dbl_ceil ?v else dbl_floor ?v"
    have r: "rounds_to mode x ?i"
      using nearest_val[of ?v] by (simp add: rounds_to_def x_def trunc_val ceil_val floor_val)
    have "mode AND 3 = mode" using u32_less_4[OF assms(3)] by auto
    then have "fpr t = (fpr s)(reg_d op := ucast (word_of_int ?i :: u32) OR 0xFFF8000000000000)" "fpscr t = fpscr s"
      using True assms(1,2) by (auto simp: t_def round_to_int_def Let_def lt nearbyint_def)
    with True r rounds_to_range[OF r] show ?thesis by (simp only: fun_upd_same int_result_of if_True) simp
  next
    case False
    then have "t = record_cr1 rec (round_invalid (reg_d op) 0 (if x < 0 then 0xFFF8000080000000 else 0xFFF800007FFFFFFF) s)"
      using assms(1) by (auto simp: t_def round_to_int_def Let_def lt)
    moreover have "bit ((fpscr s AND NOT 0x60000) OR 0x20000100) 7 = bit (fpscr s) 7"
      by (simp add: bit_simps)
    ultimately show ?thesis unfolding if_not_P[OF False]
      by (cases "bit (fpscr s) 7") (simp_all add: round_invalid_def tst_VE or.assoc)
  qed
qed


text \<open>
  C35: Conversion to a 32-bit integer. For every double that is not a NaN, \<open>fctiw\<close> gives the integer
  \<open>FPSCR[RN]\<close> asks for (the nearest with ties to even, the next toward zero, up or down) and
  \<open>fctiwz\<close> the next toward zero whenever the value lies in the range of the target, in which case the
  rounded value does too; outside it both saturate, flag an invalid conversion, and leave the
  target alone when that exception is enabled.
\<close>

theorem fctiw_exact:
  fixes s :: "'a fpu_scheme"
  assumes "\<not> is_nan (fpr s (reg_b op))" "host_round s = FE_TONEAREST"
  shows "let x = dbl_val (fpr s (reg_b op)); t = ppc_fctiw rec op s; z = ppc_fctiwz rec op s
     in if - 2147483648 \<le> x \<and> x \<le> 2147483647
        then rounds_to (fpscr s AND 3) x (sint (ucast (fpr t (reg_d op)) :: u32)) \<and>
             sint (ucast (fpr z (reg_d op)) :: u32) = (if x < 0 then \<lceil>x\<rceil> else \<lfloor>x\<rfloor>) \<and> fpscr t = fpscr s \<and> fpscr z = fpscr s
        else fpscr t = (fpscr s AND NOT 0x60000) OR 0x20000100 OR (if tst (fpscr s) FPSCR_VE then FPSCR_FEX else 0) \<and>
             fpscr z = fpscr t \<and> fpr z = fpr t \<and>
             fpr t = (if tst (fpscr s) FPSCR_VE then fpr s
                      else (fpr s)(reg_d op := if x < 0 then 0xFFF8000080000000 else 0xFFF800007FFFFFFF))"
proof -
  have "fpscr s AND 3 \<le> 3" by (rule word_and_le1)
  then have "fpscr s AND 3 < 4" by (rule order.strict_trans1) simp
  from round_to_int_exact[OF assms this, of rec] round_to_int_exact[OF assms, of 1 rec]
  show ?thesis unfolding ppc_fctiw_def ppc_fctiwz_def Let_def
    by (cases "- 2147483648 \<le> dbl_val (fpr s (reg_b op)) \<and> dbl_val (fpr s (reg_b op)) \<le> 2147483647")
      (simp_all only: if_True if_False rounds_to_def[of 1], simp_all)
qed

definition fp_machine :: fpu where
  "fp_machine = (timebase.extend tb_machine \<lparr>host_round = FE_TONEAREST, host_except = no_except\<rparr>)
     \<lparr>fpr := (\<lambda>_. 0)(2 := 0x4004000000000000, 3 := 0xC1E0000000200000), fpscr := 0\<rparr>"

theorem fctiw_exact_witness:
  "sint (ucast (fpr (ppc_fctiwz True 0xFC20101E fp_machine) 1) :: u32) = 2 \<and>
   fpr (ppc_fctiwz True 0xFC20181E fp_machine) 1 = 0xFFF8000080000000"
proof -
  have s: "fpr fp_machine = (\<lambda>_. 0)(2 := 0x4004000000000000, 3 := 0xC1E0000000200000)" "fpscr fp_machine = 0"
    "host_round fp_machine = FE_TONEAREST" by (simp_all add: fp_machine_def timebase.defs)
  have "dbl_exp 0x4004000000000000 = 1024" "dbl_sig 0x4004000000000000 = 5 * 2 ^ 50"
    by (simp_all add: dbl_exp_def dbl_sig_def bit_numeral_rec)
  then have "dbl_val 0x4004000000000000 = 5 / 2" using dbl_val_frac[of "0x4004000000000000"] by simp
  moreover from this have "\<lfloor>dbl_val 0x4004000000000000\<rfloor> = 2" by linarith
  ultimately have a: "sint (ucast (fpr (ppc_fctiwz True 0xFC20101E fp_machine) 1) :: u32) = 2"
    using fctiw_exact[of fp_machine "0xFC20101E" True] by (simp add: s is_nan_def reg_b_def reg_d_def Let_def)
  have "dbl_exp 0xC1E0000000200000 = 1054" "dbl_sig 0xC1E0000000200000 = - (2 ^ 52 + 2 ^ 21)"
    by (simp_all add: dbl_exp_def dbl_sig_def bit_numeral_rec)
  then have "dbl_val 0xC1E0000000200000 = - 2147483649" using dbl_val_frac[of "0xC1E0000000200000"] by simp
  then have "fpr (ppc_fctiwz True 0xFC20181E fp_machine) 1 = 0xFFF8000080000000"
    using fctiw_exact[of fp_machine "0xFC20181E" True] by (simp add: s is_nan_def reg_b_def reg_d_def Let_def tst_def)
  with a show ?thesis ..
qed

lemma fp_compare_val:
  "fp_compare a b = (if is_nan a \<or> is_nan b then CR_SO else if dbl_val a < dbl_val b then CR_LT
     else if dbl_val a > dbl_val b then CR_GT else CR_EQ)"
  by (auto simp: fp_compare_def dbl_less_val)

lemma put_compare_field:
  assumes "c = CR_SO \<or> c = CR_LT \<or> c = CR_GT \<or> c = CR_EQ"
  shows "field_is (crf_d op) (c = CR_LT) (c = CR_GT) (c = CR_EQ) (c = CR_SO) (cr (put_compare op c s))"
    "field_is 16 (c = CR_LT) (c = CR_GT) (c = CR_EQ) (c = CR_SO) (fpscr (put_compare op c s))"
    "cr (put_compare op c s) AND NOT (drop_bit (crf_d op) 0xF0000000) = cr s AND NOT (drop_bit (crf_d op) 0xF0000000)"
proof -
  have f: "crf_d op \<le> 28" by (rule crf_d_le)
  have b: "bit c 31 = (c = CR_LT)" "bit c 30 = (c = CR_GT)" "bit c 29 = (c = CR_EQ)" "bit c 28 = (c = CR_SO)" "c AND 0xF0000000 = c"
    using assms by auto
  have "bit (cr (put_compare op c s)) (j - crf_d op) = bit c j" if "28 \<le> j" "j < 32" for j
    using that f by (simp add: put_compare_def Let_def bit_field_insert)
  from this[of 31] this[of 30] this[of 29] this[of 28]
  show "field_is (crf_d op) (c = CR_LT) (c = CR_GT) (c = CR_EQ) (c = CR_SO) (cr (put_compare op c s))"
    by (simp add: field_is_def b)
  show "field_is 16 (c = CR_LT) (c = CR_GT) (c = CR_EQ) (c = CR_SO) (fpscr (put_compare op c s))"
    by (simp add: field_is_def put_compare_def Let_def bit_simps b)
  have "drop_bit (crf_d op) c AND NOT (drop_bit (crf_d op) 0xF0000000) =
     drop_bit (crf_d op) (c AND 0xF0000000) AND NOT (drop_bit (crf_d op) 0xF0000000)" by (simp add: b)
  also have "\<dots> = 0" by (rule bit_word_eqI) (auto simp: bit_simps)
  finally show "cr (put_compare op c s) AND NOT (drop_bit (crf_d op) 0xF0000000) = cr s AND NOT (drop_bit (crf_d op) 0xF0000000)"
    by (simp add: put_compare_def Let_def bit.conj_disj_distrib2 and.assoc)
qed

text \<open>
  Floating point comparison. \<open>fcmpu\<close> and \<open>fcmpo\<close> set, in the selected field of the condition
  register and in \<open>FPSCR[FPCC]\<close>, exactly one bit: less, greater or equal by the real values of the
  operands, unordered when one of them is a NaN; the other fields of the condition register stay.
\<close>

theorem fcmp_exact:
  "let a = fpr s (reg_a op); b = fpr s (reg_b op); nan = is_nan a \<or> is_nan b; f = crf_d op; rest = NOT (drop_bit f 0xF0000000);
       u = ppc_fcmpu op s; v = ppc_fcmpo op s;
       holds = (\<lambda>n w. field_is n (\<not> nan \<and> dbl_val a < dbl_val b) (\<not> nan \<and> dbl_val a > dbl_val b)
                 (\<not> nan \<and> dbl_val a = dbl_val b) nan w)
   in holds f (cr u) \<and> holds f (cr v) \<and> holds 16 (fpscr u) \<and> holds 16 (fpscr v) \<and>
      cr u AND rest = cr s AND rest \<and> cr v AND rest = cr s AND rest"
proof -
  let ?a = "fpr s (reg_a op)" and ?b = "fpr s (reg_b op)"
  let ?c = "fp_compare ?a ?b"
  have c: "?c = CR_SO \<or> ?c = CR_LT \<or> ?c = CR_GT \<or> ?c = CR_EQ" by (simp add: fp_compare_def)
  have v: "?c = CR_LT \<longleftrightarrow> \<not> (is_nan ?a \<or> is_nan ?b) \<and> dbl_val ?a < dbl_val ?b"
    "?c = CR_GT \<longleftrightarrow> \<not> (is_nan ?a \<or> is_nan ?b) \<and> dbl_val ?a > dbl_val ?b"
    "?c = CR_EQ \<longleftrightarrow> \<not> (is_nan ?a \<or> is_nan ?b) \<and> dbl_val ?a = dbl_val ?b"
    "?c = CR_SO \<longleftrightarrow> is_nan ?a \<or> is_nan ?b"
    by (auto simp: fp_compare_val)
  obtain su sv where "ppc_fcmpu op s = put_compare op ?c su" "ppc_fcmpo op s = put_compare op ?c sv" "cr su = cr s" "cr sv = cr s"
    by (simp add: ppc_fcmpu_def ppc_fcmpo_def Let_def)
  then show ?thesis
    unfolding Let_def using put_compare_field[OF c, of op su, unfolded v] put_compare_field[OF c, of op sv, unfolded v] by simp
qed


subsection \<open>The rounding mode\<close>

lemma finish_fpr: "fpr (fp_finish rec rs d (r, s)) = (fpr s)(d := if list_ex (\<lambda>r. check_snan (fpr s r)) rs then 0x7FFC000000000000 else r)"
  by (simp add: fp_finish_def fpresult_update_def store_fp_def snan_check_def test_and_clear_fp_exceptions_def Let_def split_def)

lemma finish_fpr': "fpr (fp_finish rec rs d x) =
    (fpr (snd x))(d := if list_ex (\<lambda>r. check_snan (fpr (snd x) r)) rs then 0x7FFC000000000000 else fst x)"
  using finish_fpr[of rec rs d "fst x" "snd x"] by simp

lemma invalid_nan_sel:
  "fst (invalid_nan c m x) = (if c \<and> is_nan (fst x) then QUIET_NAN else fst x)" "fpr (snd (invalid_nan c m x)) = fpr (snd x)"
  by (simp_all add: invalid_nan_def set_endresult_nan_def Let_def split_def)

lemma default_nan_sel: "fst (default_nan c x) = (if c then QUIET_NAN else fst x)" "snd (default_nan c x) = snd x"
  by (simp_all add: default_nan_def split_def)

lemma host_op_sel: "fst (host_op f s) = fst (f (host_round s))" "fpr (snd (host_op f s)) = fpr s"
  by (simp_all add: host_op_def Let_def split_def)

lemma max_check_sel [simp]: "fpr (max_double_check a b s) = fpr s" "host_round (max_double_check a b s) = host_round s"
  by (simp_all add: max_double_check_def or_fpscr_def)

lemmas fp_results = finish_fpr' invalid_nan_sel default_nan_sel host_op_sel

lemma fpscr_moves_keep_host:
  "host_round (ppc_mtfsf rec op s) = host_round s" "host_round (ppc_mtfsfi rec op s) = host_round s"
  "host_round (ppc_mtfsb0 rec op s) = host_round s" "host_round (ppc_mtfsb1 rec op s) = host_round s"
  "fpr (ppc_mtfsf rec op s) = fpr s" "fpr (ppc_mtfsfi rec op s) = fpr s"
  "fpr (ppc_mtfsb0 rec op s) = fpr s" "fpr (ppc_mtfsb1 rec op s) = fpr s"
  by (simp_all add: ppc_mtfsf_def ppc_mtfsfi_def ppc_mtfsb0_def ppc_mtfsb1_def fpscr_replace_def record_cr1_def
      ppc_update_cr1_def ppc_update_fex_def ppc_update_vx_def or_fpscr_def Let_def)

text \<open>
  C38: The guest's rounding mode does not reach the arithmetic. Whatever a program writes to
  \<open>FPSCR[RN]\<close> with any of the four instructions that can, the sum, the difference and the product the next
  instruction computes are the ones computed without that write; \<open>update_fpscr\<close>, which would switch
  the host's rounding mode, is not on their way.
\<close>

theorem rounding_mode_ignored:
  fixes s :: "'a fpu_scheme"
  assumes "t = ppc_mtfsf r1 mv s \<or> t = ppc_mtfsfi r1 mv s \<or> t = ppc_mtfsb0 r1 mv s \<or> t = ppc_mtfsb1 r1 mv s"
  shows "fpr (ppc_fadd h rec op t) = fpr (ppc_fadd h rec op s) \<and> fpr (ppc_fsub h rec op t) = fpr (ppc_fsub h rec op s) \<and>
     fpr (ppc_fmul h rec op t) = fpr (ppc_fmul h rec op s) \<and>
     (fpscr t AND 3 = 1 \<and> fpscr s AND 3 \<noteq> 1 \<longrightarrow> host_round (update_fpscr (fpscr t) s) = FE_TOWARDZERO)"
proof -
  have "host_round t = host_round s" "fpr t = fpr s" using assms fpscr_moves_keep_host[of r1 mv s] by auto
  then show ?thesis
    by (simp add: ppc_fadd_def ppc_fsub_def ppc_fmul_def Let_def fp_results update_fpscr_def set_host_rounding_mode_def)
qed

definition add_of_mode :: "host_rounding \<Rightarrow> u64 \<Rightarrow> u64 \<Rightarrow> u64 \<times> fexcept" where
  "add_of_mode m a b = (if m = FE_TONEAREST then 0x3FF0000000000001 else 0x3FF0000000000000, no_except)"

definition test_fpu :: host_fpu where
  "test_fpu = \<lparr>h_add = add_of_mode, h_sub = add_of_mode, h_mul = add_of_mode, h_div = add_of_mode, h_fma = (\<lambda>m a b c. add_of_mode m a b),
     h_sqrt = (\<lambda>m a. add_of_mode m a a), h_to_float = (\<lambda>m a. (0, no_except)), h_to_double = (\<lambda>f. 0)\<rparr>"

theorem rounding_mode_ignored_witness:
  "fpscr (ppc_mtfsfi False 0xFF80110C fp_machine) AND 3 = 1 \<and>
   fpr (ppc_fadd test_fpu False 0xFC22182A (ppc_mtfsfi False 0xFF80110C fp_machine)) 1 = 0x3FF0000000000001 \<and>
   host_round (update_fpscr (fpscr (ppc_mtfsfi False 0xFF80110C fp_machine)) fp_machine) = FE_TOWARDZERO"
proof -
  have s: "fpr fp_machine = (\<lambda>_. 0)(2 := 0x4004000000000000, 3 := 0xC1E0000000200000)" "fpscr fp_machine = 0"
    "host_round fp_machine = FE_TONEAREST" by (simp_all add: fp_machine_def timebase.defs)
  have m: "fpscr (ppc_mtfsfi False 0xFF80110C fp_machine) AND 3 = 1"
    by (simp add: ppc_mtfsfi_def fpscr_replace_def record_cr1_def ppc_update_fex_def ppc_update_vx_def or_fpscr_def crf_d_def s tst_def)
  have "fpr (ppc_fadd test_fpu False 0xFC22182A fp_machine) 1 = 0x3FF0000000000001"
    by (simp add: ppc_fadd_def Let_def fp_results s reg_a_def reg_b_def reg_d_def test_fpu_def add_of_mode_def check_snan_def is_nan_def)
  with m rounding_mode_ignored[of "ppc_mtfsfi False 0xFF80110C fp_machine" False "0xFF80110C" fp_machine test_fpu False "0xFC22182A"]
  show ?thesis by (simp add: s)
qed

end
