(* ===== verification/PpcVmemExact.thy ===== *)
theory PpcVmemExact
  imports PpcLoadStore
begin

text \<open>
  What a data access does to memory, byte by byte: the aligned, the unaligned and the page
  crossing path of the accessors compute the same function, and a store followed by a load gives
  the value back.
\<close>

subsection \<open>Big-endian bytes at given host addresses\<close>

fun gather :: "nat \<Rightarrow> (nat \<Rightarrow> u64) \<Rightarrow> hmem \<Rightarrow> u64 \<Rightarrow> u64" where
  "gather 0 f m acc = acc"
| "gather (Suc k) f m acc = gather k (\<lambda>i. f (Suc i)) m (push_bit 8 acc OR ucast (m (f 0)))"

fun scatter :: "nat \<Rightarrow> (nat \<Rightarrow> u64) \<Rightarrow> hmem \<Rightarrow> u64 \<Rightarrow> hmem" where
  "scatter 0 f m v = m"
| "scatter (Suc k) f m v = scatter k (\<lambda>i. f (Suc i)) (m(f 0 := ucast (drop_bit (8 * k) v))) v"

lemma scatter_other: "(\<And>i. i < k \<Longrightarrow> f i \<noteq> a) \<Longrightarrow> scatter k f m v a = m a"
proof (induction k arbitrary: f m)
  case (Suc k)
  then show ?case using Suc.IH[of "\<lambda>i. f (Suc i)" "m(f 0 := ucast (drop_bit (8 * k) v))"] Suc.prems[of 0] by force
qed simp

lemma gather_cong: "(\<And>i. i < k \<Longrightarrow> m (f i) = m' (g i)) \<Longrightarrow> gather k f m acc = gather k g m' acc"
proof (induction k arbitrary: f g acc)
  case (Suc k)
  then show ?case using Suc.IH[of "\<lambda>i. f (Suc i)" "\<lambda>i. g (Suc i)"] Suc.prems[of 0] by simp
qed simp

lemma byte_step:
  "push_bit (8 * k) (push_bit 8 acc OR ucast (ucast (drop_bit (8 * k) v) :: u8)) OR take_bit (8 * k) v =
   push_bit (8 * Suc k) acc OR take_bit (8 * Suc k) v" for acc v :: u64
  by (rule bit_word_eqI) (auto simp: bit_simps not_less less_diff_conv2 add.commute)

lemma gather_scatter:
  "inj_on f {..<k} \<Longrightarrow> gather k f (scatter k f m v) acc = push_bit (8 * k) acc OR take_bit (8 * k) v"
proof (induction k arbitrary: f m acc)
  case (Suc k)
  have i: "inj_on (\<lambda>i. f (Suc i)) {..<k}" using Suc.prems by (auto simp: inj_on_def)
  have "f (Suc i) \<noteq> f 0" if "i < k" for i using Suc.prems that by (auto simp: inj_on_def)
  then have "scatter k (\<lambda>i. f (Suc i)) (m(f 0 := ucast (drop_bit (8 * k) v))) v (f 0) = ucast (drop_bit (8 * k) v)"
    by (subst scatter_other) auto
  then show ?case using Suc.IH[OF i] byte_step[of k acc v] by simp
qed simp

definition run :: "u64 \<Rightarrow> nat \<Rightarrow> u64" where
  "run a i = a + of_nat i"

lemma run_inj: "k \<le> 2 ^ 32 \<Longrightarrow> inj_on (run a) {..<k}"
proof (rule inj_onI)
  fix i j assume k: "k \<le> 2 ^ 32" and ij: "i \<in> {..<k}" "j \<in> {..<k}" and "run a i = run a j"
  then have "unat (of_nat i :: u64) = unat (of_nat j :: u64)" by (simp add: run_def)
  moreover have "i < 2 ^ 64" "j < 2 ^ 64" using k ij by simp_all
  ultimately show "i = j" by (simp add: unsigned_of_nat take_bit_nat_eq_self)
qed

text \<open>The four sizes unrolled.\<close>

lemma sizes_Suc: "(2 :: nat) = Suc (Suc 0)" "(4 :: nat) = Suc (Suc 2)" "(8 :: nat) = Suc (Suc (Suc (Suc 4)))"
  by simp_all

lemma run_Suc: "(\<lambda>i. run a (Suc i)) = run (a + 1)"
  by (simp add: run_def fun_eq_iff)

lemma gather_run:
  "gather (Suc k) (run a) m acc = gather k (run (a + 1)) m (push_bit 8 acc OR ucast (m a))"
  "scatter (Suc k) (run a) m v = scatter k (run (a + 1)) (m(a := ucast (drop_bit (8 * k) v))) v"
  unfolding gather.simps scatter.simps run_Suc by (simp_all add: run_def)

lemma gather_1: "gather 1 (run a) m acc = push_bit 8 acc OR ucast (m a)"
  unfolding One_nat_def gather_run by simp

lemma gather_2: "gather 2 (run a) m acc = push_bit 16 acc OR push_bit 8 (ucast (m a)) OR ucast (m (a + 1))"
  unfolding sizes_Suc(1) gather_run by (simp add: push_bit_or or.assoc)

lemma gather_4: "gather 4 (run a) m acc = push_bit 32 acc OR push_bit 24 (ucast (m a)) OR push_bit 16 (ucast (m (a + 1)))
    OR push_bit 8 (ucast (m (a + 2))) OR ucast (m (a + 3))"
  unfolding sizes_Suc(2) gather_run gather_2 by (simp add: push_bit_or or.assoc add.assoc)

lemma gather_8: "gather 8 (run a) m 0 = READ_QWORD_BE_U m a"
  unfolding sizes_Suc(3) gather_run gather_4 READ_QWORD_BE_U_def by (simp add: push_bit_or or.assoc add.assoc)

lemma host_read_gather: "n \<in> {1, 2, 4, 8} \<Longrightarrow> host_read_U n m a = gather n (run a) m 0"
proof -
  have 2: "ucast (READ_WORD_BE_U m a) = gather 2 (run a) m 0" unfolding gather_2 READ_WORD_BE_U_def
    by (rule bit_word_eqI) (auto simp: bit_simps dest: bit_imp_le_length)
  have 4: "ucast (READ_DWORD_BE_U m a) = gather 4 (run a) m 0" unfolding gather_4 READ_DWORD_BE_U_def
    by (rule bit_word_eqI) (auto simp: bit_simps dest: bit_imp_le_length)
  assume "n \<in> {1, 2, 4, 8}"
  then show ?thesis using 2 4 gather_8[of a m] gather_1[of a m 0] by (auto simp: host_read_U_def)
qed

lemma scatter_1: "scatter 1 (run a) m v = m(a := ucast v)"
  unfolding One_nat_def gather_run by simp

lemma scatter_2: "scatter 2 (run a) m v = m(a := ucast (drop_bit 8 v), a + 1 := ucast v)"
  unfolding sizes_Suc(1) gather_run by simp

lemma scatter_4: "scatter 4 (run a) m v = m(a := ucast (drop_bit 24 v), a + 1 := ucast (drop_bit 16 v),
    a + 2 := ucast (drop_bit 8 v), a + 3 := ucast v)"
  unfolding sizes_Suc(2) gather_run scatter_2 by (simp add: add.assoc)

lemma scatter_8: "scatter 8 (run a) m v = WRITE_QWORD_BE_U m a v"
  unfolding sizes_Suc(3) gather_run scatter_4 WRITE_QWORD_BE_U_def by (simp add: add.assoc)

lemma ucast_drop: "ucast (drop_bit k (ucast v :: u32)) = (ucast (drop_bit k v) :: u8)" if "k \<le> 24" for v :: u64
  using that by (intro bit_word_eqI) (auto simp: bit_simps)

lemma ucast_drop16: "ucast (drop_bit k (ucast v :: u16)) = (ucast (drop_bit k v) :: u8)" if "k \<le> 8" for v :: u64
  using that by (intro bit_word_eqI) (auto simp: bit_simps)

lemma host_write_scatter: "n \<in> {1, 2, 4, 8} \<Longrightarrow> host_write_U n m a v = scatter n (run a) m v"
  using ucast_drop[of 0 v] ucast_drop16[of 0 v]
  by (auto simp: host_write_U_def scatter_2 scatter_4 scatter_8 scatter_1[simplified] WRITE_WORD_BE_U_def
      WRITE_DWORD_BE_U_def ucast_drop ucast_drop16)

text \<open>The aligned accessors swap what the unaligned ones assemble.\<close>

lemma all_less_8: "(\<forall>i<8. P i) \<longleftrightarrow> P (0::nat) \<and> P 1 \<and> P 2 \<and> P 3 \<and> P 4 \<and> P 5 \<and> P 6 \<and> P 7"
  by (simp add: eval_nat_numeral All_less_Suc) blast

lemma u8_eqI: "(\<forall>i<8. bit x i = bit y i) \<Longrightarrow> x = y" for x y :: u8
  by (rule bit_word_eqI) simp

lemma bswap16_bytes: "ucast (BYTESWAP_16 v) = (ucast (drop_bit 8 v) :: u8)" "ucast (drop_bit 8 (BYTESWAP_16 v)) = (ucast v :: u8)"
  by (rule u8_eqI, unfold all_less_8, simp add: BYTESWAP_16_def bit_simps)+

lemma bswap32_bytes:
  "ucast (BYTESWAP_32 v) = (ucast (drop_bit 24 v) :: u8)" "ucast (drop_bit 8 (BYTESWAP_32 v)) = (ucast (drop_bit 16 v) :: u8)"
  "ucast (drop_bit 16 (BYTESWAP_32 v)) = (ucast (drop_bit 8 v) :: u8)" "ucast (drop_bit 24 (BYTESWAP_32 v)) = (ucast v :: u8)"
  by (rule u8_eqI, unfold all_less_8, simp add: BYTESWAP_32_def bit_simps)+

lemma bswap64_bytes:
  "ucast (BYTESWAP_64 v) = (ucast (drop_bit 56 v) :: u8)" "ucast (drop_bit 8 (BYTESWAP_64 v)) = (ucast (drop_bit 48 v) :: u8)"
  "ucast (drop_bit 16 (BYTESWAP_64 v)) = (ucast (drop_bit 40 v) :: u8)" "ucast (drop_bit 24 (BYTESWAP_64 v)) = (ucast (drop_bit 32 v) :: u8)"
  "ucast (drop_bit 32 (BYTESWAP_64 v)) = (ucast (drop_bit 24 v) :: u8)" "ucast (drop_bit 40 (BYTESWAP_64 v)) = (ucast (drop_bit 16 v) :: u8)"
  "ucast (drop_bit 48 (BYTESWAP_64 v)) = (ucast (drop_bit 8 v) :: u8)" "ucast (drop_bit 56 (BYTESWAP_64 v)) = (ucast v :: u8)"
  by (rule u8_eqI, unfold all_less_8, simp add: BYTESWAP_64_def bit_simps)+

lemma write_A_U: "WRITE_WORD_BE_A m a v = WRITE_WORD_BE_U m a v" "WRITE_DWORD_BE_A m a w = WRITE_DWORD_BE_U m a w"
  "WRITE_QWORD_BE_A m a x = WRITE_QWORD_BE_U m a x"
  by (simp_all add: WRITE_WORD_BE_A_def WRITE_WORD_BE_U_def WRITE_DWORD_BE_A_def WRITE_DWORD_BE_U_def WRITE_QWORD_BE_A_def
      WRITE_QWORD_BE_U_def native_write16_def native_write32_def native_write64_def bswap16_bytes bswap32_bytes bswap64_bytes)

lemma native_bytes64:
  "ucast (native_read64 m a) = m a" "ucast (drop_bit 8 (native_read64 m a)) = m (a + 1)"
  "ucast (drop_bit 16 (native_read64 m a)) = m (a + 2)" "ucast (drop_bit 24 (native_read64 m a)) = m (a + 3)"
  "ucast (drop_bit 32 (native_read64 m a)) = m (a + 4)" "ucast (drop_bit 40 (native_read64 m a)) = m (a + 5)"
  "ucast (drop_bit 48 (native_read64 m a)) = m (a + 6)" "ucast (drop_bit 56 (native_read64 m a)) = m (a + 7)"
  by (rule u8_eqI, unfold all_less_8, simp add: native_read64_def bit_simps bits)+

lemma u64_of_bytes: "x = push_bit 56 (ucast (ucast (drop_bit 56 x) :: u8)) OR push_bit 48 (ucast (ucast (drop_bit 48 x) :: u8))
    OR push_bit 40 (ucast (ucast (drop_bit 40 x) :: u8)) OR push_bit 32 (ucast (ucast (drop_bit 32 x) :: u8))
    OR push_bit 24 (ucast (ucast (drop_bit 24 x) :: u8)) OR push_bit 16 (ucast (ucast (drop_bit 16 x) :: u8))
    OR push_bit 8 (ucast (ucast (drop_bit 8 x) :: u8)) OR ucast (ucast x :: u8)" for x :: u64
proof -
  have "READ_QWORD_BE_U (WRITE_QWORD_BE_U (\<lambda>_. 0) 0 x) 0 = x"
    using gather_scatter[OF run_inj, of 8 0 "\<lambda>_. 0" x 0] unfolding gather_8 scatter_8 by (simp add: take_bit_word_eq_self)
  then show ?thesis by (simp add: READ_QWORD_BE_U_def WRITE_QWORD_BE_U_def)
qed

lemma read_A_U: "READ_WORD_BE_A m a = READ_WORD_BE_U m a" "READ_QWORD_BE_A m a = READ_QWORD_BE_U m a"
proof -
  show "READ_WORD_BE_A m a = READ_WORD_BE_U m a"
    by (rule u16_eqI) (unfold READ_WORD_BE_A_def READ_WORD_BE_U_def, auto simp: BYTESWAP_16_def native_read16_def bit_simps bits)
  have "BYTESWAP_64 (native_read64 m a) = READ_QWORD_BE_U m a"
    by (subst u64_of_bytes[of "BYTESWAP_64 (native_read64 m a)"]) (simp only: bswap64_bytes native_bytes64 READ_QWORD_BE_U_def)
  then show "READ_QWORD_BE_A m a = READ_QWORD_BE_U m a" by (simp add: READ_QWORD_BE_A_def)
qed

lemma host_A_U: "n \<in> {1, 2, 4, 8} \<Longrightarrow> host_read_A n m a = host_read_U n m a"
  "n \<in> {1, 2, 4, 8} \<Longrightarrow> host_write_A n m a v = host_write_U n m a v"
  by (auto simp: host_read_A_def host_read_U_def host_write_A_def host_write_U_def read_A_U READ_DWORD_BE_A_U write_A_U)


subsection \<open>Pages in the primary TLB\<close>

definition dslot :: "u32 \<Rightarrow> 'a mmu_scheme \<Rightarrow> slot" where
  "dslot va s = Slot DTLB 1 (pCurDTLB1 s) (tlb_index va)"

text \<open>The host address of a byte whose page is in the primary TLB, and what makes it readable and writable there.\<close>

definition haddr :: "'a mmu_scheme \<Rightarrow> u32 \<Rightarrow> u64" where
  "haddr s va = host_va_offs_r (tlb s (dslot va s)) + ucast va"

definition rw :: "'a mmu_scheme \<Rightarrow> u32 \<Rightarrow> bool" where
  "rw s va \<longleftrightarrow> tag (tlb s (dslot va s)) = page_tag va \<and>
     host_va_offs_w (tlb s (dslot va s)) = host_va_offs_r (tlb s (dslot va s)) \<and>
     tst (flags (tlb s (dslot va s))) PAGE_WRITABLE \<and> tst (flags (tlb s (dslot va s))) PTE_SET_C"

lemma put_hmem_sel [simp]:
  "tlb (put_hmem m s) = tlb s" "pCurDTLB1 (put_hmem m s) = pCurDTLB1 s" "hmem_of (put_hmem m s) = m"
  "gpr (put_hmem m s) = gpr s" "put_hmem m' (put_hmem m s) = put_hmem m' s" "put_hmem (hmem_of s) s = s"
  by (simp_all add: put_hmem_def)

lemma rw_frame [simp]: "rw (put_hmem m s) = rw s" "haddr (put_hmem m s) = haddr s"
  "rw (put_gpr r v s) = rw s" "haddr (put_gpr r v s) = haddr s" "hmem_of (put_gpr r v s) = hmem_of s"
  by (simp_all add: rw_def haddr_def dslot_def fun_eq_iff put_gpr_def)

lemma rw_targets:
  assumes "rw s va"
  shows "read_target va s = Ret (HostVa (haddr s va)) s" "write_target va s = Ret (HostVa (haddr s va)) s"
proof -
  have l: "lookup_tlb DTLB va (page_tag va) s = ((dslot va s, Some (dslot va s), True), s)"
    using assms lookup_primary[of s DTLB va "page_tag va"] by (simp add: rw_def dslot_def)
  show "read_target va s = Ret (HostVa (haddr s va)) s"
    using assms by (simp add: read_target_def l rw_def haddr_def)
  show "write_target va s = Ret (HostVa (haddr s va)) s"
    using assms by (simp add: write_target_def l rw_def haddr_def prepare_dtlb_write_def)
qed

lemma ucast_take8: "(ucast (take_bit 8 v) :: u8) = ucast v" for v :: u64
  by (rule bit_word_eqI) (auto simp: bit_simps)

lemma ucast_byte: "(ucast (v AND 0xFF) :: u8) = ucast v" for v :: u64
  using ucast_take8[of v] by (simp add: take_bit_eq_mask mask_eq_exp_minus_1)

lemma rw_byte:
  assumes "rw s va"
  shows "read_byte b opcode va s = Ret (ucast (hmem_of s (haddr s va))) s"
    "write_byte b opcode va v s = Ret () (put_hmem ((hmem_of s)(haddr s va := ucast v)) s)"
  using assms
  by (simp_all add: read_byte_def write_byte_def read_vmem_with_def write_vmem_with_def rw_targets host_read_A_def
      host_write_A_def to_T_def ucast_take8)

lemma rw_range_Suc:
  "(\<forall>i < Suc k. rw s (va + of_nat i)) \<longleftrightarrow> rw s va \<and> (\<forall>i < k. rw s (va + 1 + of_nat i))"
  by (subst All_less_Suc2) (simp add: add.assoc)

lemma rw_read_bytes:
  "\<forall>i < k. rw s (va + of_nat i) \<Longrightarrow>
   read_bytes b k opcode va acc s = Ret (gather k (\<lambda>i. haddr s (va + of_nat i)) (hmem_of s) acc) s"
proof (induction k arbitrary: va acc)
  case (Suc k)
  then have r: "rw s va" "\<forall>i < k. rw s (va + 1 + of_nat i)" unfolding rw_range_Suc by simp_all
  show ?case using Suc.IH[OF r(2)] r(1) by (simp add: rw_byte add.assoc)
qed simp

lemma rw_write_bytes:
  "\<forall>i < k. rw s (va + of_nat i) \<Longrightarrow>
   write_bytes b k opcode va v s = Ret () (put_hmem (scatter k (\<lambda>i. haddr s (va + of_nat i)) (hmem_of s) v) s)"
proof (induction k arbitrary: va s)
  case (Suc k)
  let ?m = "(hmem_of s)(haddr s va := ucast (drop_bit (8 * k) v))"
  have r: "rw s va" "\<forall>i < k. rw (put_hmem ?m s) (va + 1 + of_nat i)" using Suc.prems unfolding rw_range_Suc by simp_all
  show ?case using Suc.IH[OF r(2)] r(1) by (simp add: rw_byte add.assoc ucast_byte fun_upd_def)
qed simp

subsection \<open>Accesses inside a page\<close>

lemma mask_12: "(0xFFF :: u32) = mask 12"
  by (simp add: mask_eq_exp_minus_1)

lemma unat_page_tag: "unat (page_tag va) = unat va div 4096 * 4096"
proof -
  have "(va AND mask 12) AND (va AND NOT (mask 12)) = 0" by (simp add: bit_eq_iff bit_simps)
  then have "unat ((va AND mask 12) OR (va AND NOT (mask 12))) = unat va mod 2 ^ 12 + unat (page_tag va)"
    unfolding page_tag_def mask_12 by (subst unat_or_disjoint) (simp_all add: and_mask_unat)
  moreover have "(va AND mask 12) OR (va AND NOT (mask 12)) = va" by (simp add: bit_eq_iff bit_simps) blast
  ultimately have "unat va = unat va mod 4096 + unat (page_tag va)" by simp
  then have "unat (page_tag va) = unat va - unat va mod 4096" by linarith
  then show ?thesis by (simp only: minus_mod_eq_div_mult)
qed

lemma unat_low12: "unat (va AND 0xFFF :: u32) = unat va mod 4096"
  using and_mask_unat[of va 12] by (simp add: mask_eq_exp_minus_1)

lemma same_block: "(x :: nat) mod 4096 + i < 4096 \<Longrightarrow> (x + i) div 4096 = x div 4096"
proof -
  assume i: "x mod 4096 + i < 4096"
  have "x + i = (x mod 4096 + i) + x div 4096 * 4096" by (simp add: mult.commute)
  then have "(x + i) div 4096 = (x mod 4096 + i) div 4096 + x div 4096" by (simp only: div_mult_self1)
  then show ?thesis using i by simp
qed

lemma page_run:
  assumes "unat (va AND 0xFFF) + n \<le> 0x1000" "i < n"
  shows "page_tag (va + of_nat i) = page_tag va" "(ucast (va + of_nat i) :: u64) = ucast va + of_nat i"
proof -
  have r: "unat va mod 4096 + n \<le> 4096" using assms(1) by (simp add: unat_low12)
  have "unat va div 4096 < 1048576" "unat va = unat va div 4096 * 4096 + unat va mod 4096"
    using unat_u32_less[of va] by (simp_all only: div_less_iff_less_mult div_mult_mod_eq)
  then have "unat va + i < 4294967296" using r assms(2) by linarith
  then have lt: "unat va + i < 2 ^ 32" by simp
  have i: "unat (of_nat i :: u32) = i" using lt by (simp add: unsigned_of_nat take_bit_nat_eq_self)
  have u: "unat (va + of_nat i) = unat va + i" using lt i by (simp add: unat_add_lem[THEN iffD1])
  have "(unat va + i) div 4096 = unat va div 4096" using r assms(2) by (intro same_block) linarith
  then show "page_tag (va + of_nat i) = page_tag va" by (simp add: word_unat_eq_iff unat_page_tag u)
  have "unat (ucast va + of_nat i :: u64) = unat va + i"
    using lt by (simp add: unat_add_u64 unsigned_of_nat take_bit_nat_eq_self unat_ucast_u32_u64)
  then show "(ucast (va + of_nat i) :: u64) = ucast va + of_nat i"
    by (simp add: word_unat_eq_iff u unat_ucast_u32_u64)
qed

lemma haddr_run:
  assumes "unat (va AND 0xFFF) + n \<le> 0x1000" "i < n"
  shows "haddr s (va + of_nat i) = run (haddr s va) i"
  using page_run[OF assms] tlb_index_page[OF page_run(1)[OF assms]] by (simp add: haddr_def dslot_def run_def)

lemma aligned_in_page:
  fixes va :: u32
  assumes "n \<in> {1, 2, 4, 8}" "\<not> (n > 1 \<and> tst va (of_nat n - 1))"
  shows "unat (va AND 0xFFF) + n \<le> 0x1000"
proof -
  have "n = 1 \<or> n = 2 \<and> va AND 1 = 0 \<or> n = 4 \<and> va AND 3 = 0 \<or> n = 8 \<and> va AND 7 = 0"
    using assms by (auto simp: tst_def)
  then have "n = 1 \<or> n = 2 \<and> va AND mask 1 = 0 \<or> n = 4 \<and> va AND mask 2 = 0 \<or> n = 8 \<and> va AND mask 3 = 0"
    by (elim disjE) (simp_all add: mask_eq_exp_minus_1)
  then have "n = 1 \<or> n = 2 \<and> unat (va AND mask 1) = 0 \<or> n = 4 \<and> unat (va AND mask 2) = 0 \<or> n = 8 \<and> unat (va AND mask 3) = 0"
    by (elim disjE) simp_all
  then have "unat va mod n = 0" "n = 1 \<or> n = 2 \<or> n = 4 \<or> n = 8" unfolding and_mask_unat by auto
  then have "n dvd unat va" "n dvd 4096" by auto
  then have "n dvd 4096 - unat va mod 4096" by (intro dvd_diff_nat dvd_mod)
  moreover have "0 < 4096 - unat va mod 4096" by simp
  ultimately have "n \<le> 4096 - unat va mod 4096" by (rule dvd_imp_le)
  then show ?thesis by (simp add: unat_low12 le_diff_conv2)
qed

lemma scatter_trunc: "scatter k f m (take_bit (8 * k) v) = scatter k f m v"
proof -
  have "k \<le> l \<Longrightarrow> scatter k f m (take_bit (8 * l) v) = scatter k f m v" for l
  proof (induction k arbitrary: f m)
    case (Suc k)
    have "(ucast (drop_bit (8 * k) (take_bit (8 * l) v)) :: u8) = ucast (drop_bit (8 * k) v)"
      using Suc.prems by (intro bit_word_eqI) (auto simp: bit_simps)
    then show ?case using Suc by simp
  qed simp
  then show ?thesis by simp
qed

lemma gather_haddr: "unat (va AND 0xFFF) + n \<le> 0x1000 \<Longrightarrow> gather n (run (haddr s va)) m acc = gather n (\<lambda>i. haddr s (va + of_nat i)) m acc"
  by (rule gather_cong) (simp add: haddr_run)

lemma scatter_cong: "(\<And>i. i < k \<Longrightarrow> f i = g i) \<Longrightarrow> scatter k f m v = scatter k g m v"
proof (induction k arbitrary: f g m)
  case (Suc k)
  have "scatter k (\<lambda>i. f (Suc i)) m' v = scatter k (\<lambda>i. g (Suc i)) m' v" for m'
    by (rule Suc.IH) (rule Suc.prems, simp)
  moreover have "f 0 = g 0" by (rule Suc.prems) simp
  ultimately show ?case by simp
qed simp

lemma scatter_haddr: "unat (va AND 0xFFF) + n \<le> 0x1000 \<Longrightarrow> scatter n (run (haddr s va)) m v = scatter n (\<lambda>i. haddr s (va + of_nat i)) m v"
  by (rule scatter_cong) (simp add: haddr_run)


subsection \<open>Accesses byte by byte\<close>

lemma to_T_eq [simp]: "to_T n v = take_bit (8 * n) v"
  by (simp add: to_T_def)

lemma access_bytes:
  assumes "n \<in> {1, 2, 4, 8}" "\<forall>i < n. rw s (va + of_nat i)" "n = 8 \<longrightarrow> \<not> tst va 3"
  shows "mmu_read_vmem b n opcode va s = Ret (gather n (\<lambda>i. haddr s (va + of_nat i)) (hmem_of s) 0) s \<and>
    mmu_write_vmem b n opcode va v s = Ret () (put_hmem (scatter n (\<lambda>i. haddr s (va + of_nat i)) (hmem_of s) v) s)"
proof -
  have "0 < n" using assms(1) by auto
  then have r: "rw s va" using assms(2)[rule_format, of 0] by simp
  have na: "(n = 8 \<and> tst va 3) = False" using assms(3) by simp
  show ?thesis
  proof (cases "n > 1 \<and> unat (va AND 0xFFF) + n > 0x1000")
    case True
    then have "tst va (of_nat n - 1)" using aligned_in_page[OF assms(1), of va] by linarith
    then show ?thesis
      using True
      by (simp add: mmu_read_vmem_def mmu_write_vmem_def read_vmem_with_def write_vmem_with_def Let_def rw_targets[OF r]
          read_unaligned_def write_unaligned_def scatter_trunc na rw_read_bytes[OF assms(2)] rw_write_bytes[OF assms(2)])
  next
    case False
    then have p: "unat (va AND 0xFFF) + n \<le> 0x1000" using aligned_in_page[OF assms(1), of va] by linarith
    show ?thesis
      using False
      by (simp add: mmu_read_vmem_def mmu_write_vmem_def read_vmem_with_def write_vmem_with_def Let_def rw_targets[OF r]
          read_unaligned_def write_unaligned_def scatter_trunc host_A_U[OF assms(1)] host_read_gather[OF assms(1)]
          host_write_scatter[OF assms(1)] na gather_haddr[OF p] scatter_haddr[OF p])
  qed
qed

text \<open>
  C14: One meaning for every data access. When the bytes of an access lie on pages that the
  primary TLB holds readable and writable, the aligned, the unaligned and the page crossing
  paths all read the big-endian value of those bytes, each at its own host address, and all
  write exactly those bytes.
\<close>

theorem vmem_access_bytes:
  assumes "n \<in> {1, 2, 4, 8}" "\<forall>i < n. rw s (va + of_nat i)" "n = 8 \<longrightarrow> \<not> tst va 3"
  shows "mmu_read_vmem b n opcode va s = Ret (gather n (\<lambda>i. haddr s (va + of_nat i)) (hmem_of s) 0) s \<and>
    mmu_write_vmem b n opcode va v s = Ret () (put_hmem (scatter n (\<lambda>i. haddr s (va + of_nat i)) (hmem_of s) v) s)"
  by (rule access_bytes[OF assms])

text \<open>
  C15: What is stored is what is loaded. A load of the bytes a store has just written, whatever
  their alignment and also across a page boundary, gives the stored value truncated to the
  access size, provided no two of the bytes share a host address; no other byte changes.
\<close>

theorem store_load_roundtrip:
  assumes "n \<in> {1, 2, 4, 8}" "\<forall>i < n. rw s (va + of_nat i)" "n = 8 \<longrightarrow> \<not> tst va 3"
    "inj_on (\<lambda>i. haddr s (va + of_nat i)) {..<n}"
  shows "\<exists>t. mmu_write_vmem b n opcode va v s = Ret () t \<and>
     mmu_read_vmem b n opcode va t = Ret (take_bit (8 * n) v) t \<and>
     (\<forall>a. a \<notin> (\<lambda>i. haddr s (va + of_nat i)) ` {..<n} \<longrightarrow> hmem_of t a = hmem_of s a)"
proof -
  let ?f = "\<lambda>i. haddr s (va + of_nat i)"
  let ?t = "put_hmem (scatter n ?f (hmem_of s) v) s"
  have "\<forall>i < n. rw ?t (va + of_nat i)" using assms(2) by simp
  note acc = access_bytes[OF assms(1-3), of b opcode v] access_bytes[OF assms(1) this assms(3), of b opcode v]
  have "scatter n ?f (hmem_of s) v a = hmem_of s a" if "a \<notin> ?f ` {..<n}" for a
    using that by (intro scatter_other) auto
  then show ?thesis using acc gather_scatter[OF assms(4)] by (intro exI[of _ ?t]) simp
qed

subsection \<open>Multiple loads and stores\<close>

fun store_words :: "(nat \<Rightarrow> u32) \<Rightarrow> nat list \<Rightarrow> (nat \<Rightarrow> u64) \<Rightarrow> hmem \<Rightarrow> hmem" where
  "store_words g [] f m = m"
| "store_words g (r # rs) f m = store_words g rs (\<lambda>i. f (i + 4)) (scatter 4 f m (ucast (g r)))"

fun load_words :: "nat list \<Rightarrow> (nat \<Rightarrow> u64) \<Rightarrow> hmem \<Rightarrow> (nat \<Rightarrow> u32) \<Rightarrow> (nat \<Rightarrow> u32)" where
  "load_words [] f m g = g"
| "load_words (r # rs) f m g = load_words rs (\<lambda>i. f (i + 4)) m (g(r := ucast (gather 4 f m 0)))"

lemma store_words_other: "(\<And>i. i < 4 * length rs \<Longrightarrow> f i \<noteq> a) \<Longrightarrow> store_words g rs f m a = m a"
proof (induction rs arbitrary: f m)
  case (Cons r rs)
  have "store_words g rs (\<lambda>i. f (i + 4)) m' a = m' a" for m' by (rule Cons.IH) (rule Cons.prems, simp)
  moreover have "scatter 4 f m (ucast (g r)) a = m a" by (rule scatter_other) (rule Cons.prems, simp)
  ultimately show ?case by simp
qed simp

lemma load_store_words:
  "inj_on f {..<4 * length rs} \<Longrightarrow> distinct rs \<Longrightarrow>
   load_words rs f (store_words g rs f m) g' k = (if k \<in> set rs then g k else g' k)"
proof (induction rs arbitrary: f m g')
  case (Cons r rs)
  let ?m = "scatter 4 f m (ucast (g r))"
  have i: "inj_on (\<lambda>i. f (i + 4)) {..<4 * length rs}" "inj_on f {..<4}"
    using inj_onD[OF Cons.prems(1), of "_ + 4" "_ + 4"] inj_on_subset[OF Cons.prems(1), of "{..<4}"]
    by (auto intro!: inj_onI)
  have "store_words g rs (\<lambda>i. f (i + 4)) ?m (f j) = ?m (f j)" if "j < 4" for j
  proof (rule store_words_other)
    fix i assume "i < 4 * length rs"
    then show "f (i + 4) \<noteq> f j" using inj_onD[OF Cons.prems(1), of "i + 4" j] that by auto
  qed
  then have "gather 4 f (store_words g rs (\<lambda>i. f (i + 4)) ?m) 0 = gather 4 f ?m 0" by (intro gather_cong) simp
  also have "\<dots> = take_bit 32 (ucast (g r))" using gather_scatter[OF i(2)] by simp
  finally have "ucast (gather 4 f (store_words g rs (\<lambda>i. f (i + 4)) ?m) 0) = g r"
    by (simp add: bit_eq_iff bit_simps)
  then show ?case using Cons.IH[OF i(1)] Cons.prems(2) by simp
qed simp

lemma rw_range_words:
  "\<forall>i < 4 * length (r # rs). rw s (va + of_nat i) \<Longrightarrow>
   (\<forall>i < 4. rw s (va + of_nat i)) \<and> (\<forall>i < 4 * length rs. rw s (va + 4 + of_nat i))"
proof (intro conjI allI impI)
  fix i :: nat assume a: "\<forall>i < 4 * length (r # rs). rw s (va + of_nat i)"
  { assume "i < 4 * length rs"
    moreover have "va + 4 + of_nat i = va + of_nat (i + 4)" by simp
    moreover have "rw s (va + of_nat (i + 4))" using a[rule_format, of "i + 4"] \<open>i < 4 * length rs\<close> by simp
    ultimately show "rw s (va + 4 + of_nat i)" by (simp only:) }
  assume "i < 4" then show "rw s (va + of_nat i)" using a by simp
qed

lemma stmw_loop_words:
  "\<forall>i < 4 * length rs. rw s (va + of_nat i) \<Longrightarrow>
   stmw_loop b opcode rs va s = Ret () (put_hmem (store_words (gpr s) rs (\<lambda>i. haddr s (va + of_nat i)) (hmem_of s)) s)"
proof (induction rs arbitrary: va s)
  case (Cons r rs)
  note w = rw_range_words[OF Cons.prems]
  let ?s = "put_hmem (scatter 4 (\<lambda>i. haddr s (va + of_nat i)) (hmem_of s) (ucast (gpr s r))) s"
  have "\<forall>i < 4 * length rs. rw ?s (va + 4 + of_nat i)" using w by simp
  from Cons.IH[OF this] show ?case
    using access_bytes[of 4 s va b opcode "ucast (gpr s r)"] w by (simp add: add.assoc add.commute[of 4])
qed simp

lemma put_gpr_upd: "(put_gpr r v s)\<lparr>gpr := g\<rparr> = s\<lparr>gpr := g\<rparr>"
  by (simp add: put_gpr_def)

lemma lmw_loop_words:
  "\<forall>i < 4 * length rs. rw s (va + of_nat i) \<Longrightarrow>
   lmw_loop b opcode rs va s = Ret () (s\<lparr>gpr := load_words rs (\<lambda>i. haddr s (va + of_nat i)) (hmem_of s) (gpr s)\<rparr>)"
proof (induction rs arbitrary: va s)
  case (Cons r rs)
  note w = rw_range_words[OF Cons.prems]
  let ?s = "put_gpr r (ucast (gather 4 (\<lambda>i. haddr s (va + of_nat i)) (hmem_of s) 0)) s"
  have "\<forall>i < 4 * length rs. rw ?s (va + 4 + of_nat i)" using w by simp
  from Cons.IH[OF this] show ?case
    using access_bytes[of 4 s va b opcode 0] w by (simp add: load_gpr_def add.assoc add.commute[of 4] put_gpr_upd fun_upd_def)
qed simp


text \<open>
  Saving and restoring registers. \<open>stmw\<close> stores the registers from \<open>rS\<close> up; an \<open>lmw\<close> with the
  same operands gives them back after any of them has been overwritten (but for the base
  register), and leaves the lower registers alone.
\<close>

theorem stmw_lmw_roundtrip:
  assumes "\<not> tst (ea_imm op1 s) 3" "\<forall>i < 4 * (32 - reg_s op1). rw s (ea_imm op1 s + of_nat i)"
    "inj_on (\<lambda>i. haddr s (ea_imm op1 s + of_nat i)) {..<4 * (32 - reg_s op1)}"
    "reg_d op2 = reg_s op1" "reg_a op2 = reg_a op1" "simm op2 = simm op1"
    "g (reg_a op1) = gpr s (reg_a op1)"
  shows "\<exists>t u. ppc_stmw b op1 s = Ret () t \<and> ppc_lmw b op2 (t\<lparr>gpr := g\<rparr>) = Ret () u \<and>
     (\<forall>k < 32. gpr u k = (if reg_s op1 \<le> k then gpr s k else g k))"
proof -
  let ?ea = "ea_imm op1 s" and ?rs = "[reg_s op1..<32]"
  let ?f = "\<lambda>i. haddr s (?ea + of_nat i)"
  let ?m = "store_words (gpr s) ?rs ?f (hmem_of s)"
  let ?t = "put_hmem ?m s"
  have rs: "\<forall>i < 4 * length ?rs. rw s (?ea + of_nat i)" using assms(2) by simp
  have st: "ppc_stmw b op1 s = Ret () ?t"
    using assms(1) stmw_loop_words[OF rs, of b op1] by (simp add: ppc_stmw_def)
  have h: "rw (?t\<lparr>gpr := g\<rparr>) = rw s" "haddr (?t\<lparr>gpr := g\<rparr>) = haddr s" "hmem_of (?t\<lparr>gpr := g\<rparr>) = ?m"
    by (simp_all add: rw_def haddr_def dslot_def fun_eq_iff)
  have ea: "ea_imm op2 (?t\<lparr>gpr := g\<rparr>) = ?ea" using assms(5-7) by (simp add: ea_imm_def ra_or_0_def)
  have "\<forall>i < 4 * length ?rs. rw (?t\<lparr>gpr := g\<rparr>) (?ea + of_nat i)" using rs unfolding h .
  note ld = lmw_loop_words[OF this, of b op2]
  have "ppc_lmw b op2 (?t\<lparr>gpr := g\<rparr>) = Ret () (?t\<lparr>gpr := load_words ?rs ?f ?m g\<rparr>)"
    using ld unfolding ppc_lmw_def ea assms(4) h by simp
  moreover have "load_words ?rs ?f ?m g k = (if k \<in> set ?rs then gpr s k else g k)" for k
    using assms(3) by (intro load_store_words) simp_all
  ultimately show ?thesis using st by auto
qed

subsection \<open>The debugger's accessors\<close>

lemma exc_state_dbg: "mmu_exception_handler_dbg (exc_state e b r s) = mmu_exception_handler_dbg s"
proof -
  have c: "mmu_exception_handler_dbg (do_ctx_sync s) = mmu_exception_handler_dbg s" for s :: "'a mmu_scheme"
    using do_ctx_sync_frame[of s] by auto
  have m: "mmu_exception_handler_dbg (mmu_change_mode s) = mmu_exception_handler_dbg s" for s :: "'a mmu_scheme"
    by (simp add: mmu_change_mode_def Let_def)
  have "cpu.more (exc_enter e b r s) = cpu.more s" by (simp add: frame)
  then have "mmu_exception_handler_dbg (exc_enter e b r s) = mmu_exception_handler_dbg s"
    by (cases s; cases "exc_enter e b r s") simp
  then show ?thesis by (simp add: exc_state_def c m)
qed

text \<open>
  A return or a throw restores the guest's exception registers and handler, whatever happened in
  between; but a misaligned doubleword read raises the alignment exception of the guest directly
  and leaves the accessor by \<open>longjmp\<close>, with the debugger's handler still installed.
\<close>

lemma dbg_access_restores:
  assumes "mem_read_dbg b va n s = Ret v t \<or> mem_read_dbg b va n s = Throw msg t"
  shows "\<not> mmu_exception_handler_dbg t \<and> spr t SPR_DSISR = spr s SPR_DSISR \<and> spr t SPR_DAR = spr s SPR_DAR"
  using assms by (auto simp: mem_read_dbg_def with_dbg_handler_def Let_def put_spr_def split: outcome.splits)

lemma dbg_read_escapes:
  assumes "rw s va" "tst va 3"
  shows "\<exists>t. mem_read_dbg b va 8 s = LongJmp t \<and> mmu_exception_handler_dbg t \<and>
     ppc_next_instruction_address t = (if tst (msr s) MSR_IP then 0xFFF00000 else 0) OR 0x600"
proof -
  let ?s = "s\<lparr>mmu_exception_handler_dbg := True\<rparr>"
  let ?u = "put_spr SPR_DAR va (put_spr SPR_DSISR (alignment_dsisr 0) ?s)"
  have r: "rw ?s va" using assms(1) by (simp add: rw_def dslot_def)
  have "va AND 3 \<noteq> 0" using assms(2) by (simp add: tst_def)
  then have "va AND (7 AND 3) \<noteq> 0" by simp
  then have t: "tst va 7" unfolding and.assoc[symmetric] tst_def by auto
  have x: "exc_srr0 EXC_ALIGNMENT ?u = Some (pc s AND 0xFFFFFFFC)" by simp
  have d: "mmu_exception_handler_dbg ?u" by (simp add: put_spr_def)
  have "mmu_read_vmem b 8 0 va ?s = LongJmp (if \<not> power_on (exc_state EXC_ALIGNMENT 0 (pc s AND 0xFFFFFFFC) ?u) \<and>
      power_off_reason (exc_state EXC_ALIGNMENT 0 (pc s AND 0xFFFFFFFC) ?u) = po_endian_switch
      then (exc_state EXC_ALIGNMENT 0 (pc s AND 0xFFFFFFFC) ?u)\<lparr>power_on := True\<rparr>
      else exc_state EXC_ALIGNMENT 0 (pc s AND 0xFFFFFFFC) ?u)"
    using assms(2) t
    by (simp add: mmu_read_vmem_def read_vmem_with_def rw_targets[OF r] read_unaligned_def ppc_alignment_exception_def
        handler_eq[OF x] Let_def)
  then show ?thesis
    using d by (auto simp: mem_read_dbg_def dbg_size_def with_dbg_handler_def exc_state_dbg frame exc_vector_def
        exc_msr_bits tst_bits or.commute)
qed

subsection \<open>The properties at concrete inputs\<close>

text \<open>No devices, and a machine whose primary TLB holds the pages at 0x1000 and 0x2000.\<close>

definition no_bus :: "mmu bus" where
  "no_bus = \<lparr>dev_read = (\<lambda>_ _ _ _ _. Abort ''no device''), dev_write = (\<lambda>_ _ _ _ _ _. Abort ''no device'')\<rparr>"

definition rw_entry :: "u32 \<Rightarrow> TLBEntry" where
  "rw_entry tg = \<lparr>tag = tg, flags = 0x61, lru_bits = 0, host_va_offs_r = 0x7F0000000000, host_va_offs_w = 0x7F0000000000,
     rgn_desc = None, dev_base_va = 0, phys_tag = tg\<rparr>"

definition rw_mmu :: mmu where
  "rw_mmu = ram_mmu\<lparr>tlb := (\<lambda>_. UnmappedMem)(Slot DTLB 1 1 1 := rw_entry 0x1000, Slot DTLB 1 1 2 := rw_entry 0x2000)\<rparr>"

lemma rw_mmu_pages:
  assumes "page_tag va = 0x1000 \<or> page_tag va = 0x2000"
  shows "rw rw_mmu va" "haddr rw_mmu va = 0x7F0000000000 + ucast va"
proof -
  have t: "page_tag 0x1000 = 0x1000" "page_tag 0x2000 = 0x2000" by (simp_all add: page_tag_def)
  have "tlb_index va = tlb_index 0x1000 \<and> page_tag va = 0x1000 \<or> tlb_index va = tlb_index 0x2000 \<and> page_tag va = 0x2000"
    using assms tlb_index_page[of va "0x1000"] tlb_index_page[of va "0x2000"] unfolding t by blast
  then have e: "tlb rw_mmu (dslot va rw_mmu) = rw_entry (page_tag va)"
    by (auto simp: rw_mmu_def dslot_def ram_mmu_def tlb_index_def)
  show "rw rw_mmu va" "haddr rw_mmu va = 0x7F0000000000 + ucast va"
    by (simp_all add: rw_def haddr_def e rw_entry_def tst_def)
qed

lemma less_4: "i < 4 \<longleftrightarrow> i = 0 \<or> i = 1 \<or> i = 2 \<or> i = (3 :: nat)"
  by auto

lemma rw_mmu_cross:
  "\<forall>i < 4. rw rw_mmu (0x1FFE + of_nat i)" "inj_on (\<lambda>i. haddr rw_mmu (0x1FFE + of_nat i)) {..<4}"
proof -
  have p: "page_tag (0x1FFE + of_nat i) = 0x1000 \<or> page_tag (0x1FFE + of_nat i) = 0x2000" if "i < 4" for i
    using that unfolding less_4 by (elim disjE) (simp_all add: page_tag_def)
  then show "\<forall>i < 4. rw rw_mmu (0x1FFE + of_nat i)" by (blast intro: rw_mmu_pages)
  have "haddr rw_mmu (0x1FFE + of_nat i) = run 0x7F0000001FFE i" if "i < 4" for i
    using rw_mmu_pages(2)[OF p[OF that]] that unfolding less_4 by (elim disjE) (simp_all add: run_def)
  then show "inj_on (\<lambda>i. haddr rw_mmu (0x1FFE + of_nat i)) {..<4}"
    using run_inj[of 4 "0x7F0000001FFE"] by (subst inj_on_cong[where g = "run 0x7F0000001FFE"]) auto
qed

theorem vmem_access_bytes_witness: "mmu_read_vmem no_bus 4 0 0x1FFE rw_mmu = Ret 0 rw_mmu"
proof -
  have "hmem_of rw_mmu = (\<lambda>_. 0)" by (simp add: rw_mmu_def ram_mmu_def)
  then have "gather 4 f (hmem_of rw_mmu) 0 = 0" for f by (simp add: numeral_eq_Suc)
  then show ?thesis using vmem_access_bytes[of 4 rw_mmu "0x1FFE" no_bus 0 0] rw_mmu_cross(1) by simp
qed

theorem store_load_roundtrip_witness:
  "\<exists>t. mmu_write_vmem no_bus 4 0 0x1FFE 0xDEADBEEF rw_mmu = Ret () t \<and> mmu_read_vmem no_bus 4 0 0x1FFE t = Ret 0xDEADBEEF t"
  using store_load_roundtrip[of 4 rw_mmu "0x1FFE" no_bus 0 "0xDEADBEEF"] rw_mmu_cross by auto

text \<open>\<open>stmw r31,0x1800(0)\<close> and \<open>lmw r31,0x1800(0)\<close>.\<close>

theorem stmw_lmw_roundtrip_witness:
  "\<exists>t u. ppc_stmw no_bus 0xBFE01800 rw_mmu = Ret () t \<and> ppc_lmw no_bus 0xBBE01800 (t\<lparr>gpr := (\<lambda>i. if i = 0 then gpr rw_mmu 0 else 7)\<rparr>) = Ret () u \<and>
     gpr u 31 = gpr rw_mmu 31"
proof -
  have f: "reg_s 0xBFE01800 = 31" "reg_a 0xBFE01800 = 0" "simm 0xBFE01800 = 0x1800"
    "reg_d 0xBBE01800 = 31" "reg_a 0xBBE01800 = 0" "simm 0xBBE01800 = 0x1800"
    by (simp_all add: reg_d_def reg_a_def simm_def)
  have ea: "ea_imm 0xBFE01800 rw_mmu = 0x1800" by (simp add: ea_imm_def ra_or_0_def f)
  have p: "page_tag (0x1800 + of_nat i) = 0x1000" if "i < 4" for i
    using that unfolding less_4 by (elim disjE) (simp_all add: page_tag_def)
  then have r: "\<forall>i < 4. rw rw_mmu (0x1800 + of_nat i)" by (blast intro: rw_mmu_pages)
  have "haddr rw_mmu (0x1800 + of_nat i) = run 0x7F0000001800 i" if "i < 4" for i
    using rw_mmu_pages(2)[OF disjI1, OF p[OF that]] that unfolding less_4 by (elim disjE) (simp_all add: run_def)
  then have j: "inj_on (\<lambda>i. haddr rw_mmu (0x1800 + of_nat i)) {..<4}"
    using run_inj[of 4 "0x7F0000001800"] by (subst inj_on_cong[where g = "run 0x7F0000001800"]) auto
  show ?thesis
    using stmw_lmw_roundtrip[of "0xBFE01800" rw_mmu "0xBBE01800" "\<lambda>i. if i = 0 then gpr rw_mmu 0 else 7" no_bus] r j
    by (auto simp: f ea tst_def)
qed

end
