(* ===== verification/MachineId.thy ===== *)
theory MachineId
  imports PpcLoadStore
begin

text \<open>
  The machine identification registers of \<open>src/devices/common/machineid.h\<close>, the contract of a
  memory-mapped device towards the processor, and that all integer loads and stores keep the invariant of
  the software TLBs whatever devices obeying the contract they reach.
\<close>

subsection \<open>The registers\<close>

record NubusMacID =
  nubus_id :: "u8 list"

definition new_NubusMacID :: "u16 \<Rightarrow> NubusMacID" where
  "new_NubusMacID i = \<lparr>nubus_id = [0xA5, 0x5A, ucast (drop_bit 8 i AND 0xFF), ucast (i AND 0xFF)]\<rparr>"

text \<open>The word access is a native one of a little-endian host. \<open>None\<close> is \<open>ABORT_F\<close>.\<close>

definition NubusMacID_read :: "NubusMacID \<Rightarrow> u32 \<Rightarrow> nat \<Rightarrow> u32 option" where
  "NubusMacID_read d offset sz =
     (let b = (\<lambda>k. ucast (nubus_id d ! k) :: u32); o' = unat offset
      in if sz = 4 \<and> offset = 0 then Some (b 0 OR push_bit 8 (b 1) OR push_bit 16 (b 2) OR push_bit 24 (b 3))
         else if sz = 2 \<and> offset \<le> 2 then Some (push_bit 8 (b o') OR b (o' + 1))
         else if sz = 1 \<and> offset < 4 then Some (b o')
         else None)"

record BoardRegister =
  board_data :: u16

definition BoardRegister_iodev_read :: "BoardRegister \<Rightarrow> u32 \<Rightarrow> u16" where
  "BoardRegister_iodev_read d address = board_data d"

definition BoardRegister_update_bits :: "u16 \<Rightarrow> u16 \<Rightarrow> BoardRegister \<Rightarrow> BoardRegister" where
  "BoardRegister_update_bits val m d = d\<lparr>board_data := (board_data d AND NOT m) OR (val AND m)\<rparr>"

record GossamerID =
  gossamer_id :: u16

definition GossamerID_read :: "GossamerID \<Rightarrow> u32 \<Rightarrow> nat \<Rightarrow> u32" where
  "GossamerID_read d offset sz = (if offset = 4 \<and> sz = 2 then ucast (gossamer_id d) else 0)"

datatype id_device = Nubus NubusMacID | Gossamer GossamerID

definition id_bus :: "(dev \<Rightarrow> id_device option) \<Rightarrow> 'a mmu_scheme bus" where
  "id_bus devs =
     \<lparr>dev_read = (\<lambda>d start offset sz s.
        case devs d of
          Some (Nubus x) \<Rightarrow> (case NubusMacID_read x offset sz of Some v \<Rightarrow> Ret v s | None \<Rightarrow> Abort ''NubusMacID: invalid read'')
        | Some (Gossamer x) \<Rightarrow> Ret (GossamerID_read x offset sz) s
        | None \<Rightarrow> Abort ''null pointer''),
      dev_write = (\<lambda>d start offset v sz s. if devs d = None then Abort ''null pointer'' else Ret () s)\<rparr>"

subsection \<open>The invariant through the translation of a data access\<close>

lemma lookup_ok:
  assumes "lookup_tlb ty va tg s = ((p1, m, ph), t)" "mmu_ok s"
  shows "mmu_ok t" "slot_type p1 = ty"
  using assms(2) lookup_tlb_inv[of s ty va tg] assms(1)
  by (auto simp: mmu_ok_def lookup_tlb_def lookup_secondary_tlb_def Let_def split: if_splits prod.splits)

lemma lookup_secondary_ok: "lookup_secondary_tlb ty va tg s = (m, t) \<Longrightarrow> mmu_ok s \<Longrightarrow> mmu_ok t"
  by (auto simp: mmu_ok_def lookup_secondary_tlb_def Let_def touch_inv split: if_splits)

lemma set_c_ok: "mmu_ok s \<Longrightarrow> mmu_ok (set_c_flag p s)"
proof -
  have f: "tst (f OR 0x40) 0x80 = tst f 0x80" "tst (f OR 0x40) 0x18 = tst f 0x18" for f :: u16
    by (simp_all add: tst_def bit.conj_disj_distrib2)
  show "mmu_ok s \<Longrightarrow> ?thesis"
    by (auto simp: set_c_flag_def mmu_ok_def mode_ok_tlb tlb_inv_def slot_ok_def f)
qed

lemma keeps_read_target: "mmu_ok s \<Longrightarrow> keeps mmu_ok (read_target va s)"
proof -
  assume ok: "mmu_ok s"
  obtain p1 m ph t where l: "lookup_tlb DTLB va (page_tag va) s = ((p1, m, ph), t)" by (metis surj_pair)
  show ?thesis
    unfolding read_target_def Let_def l prod.case
    using lookup_ok[OF l ok] by (intro keeps_if keeps_obind keeps_option keeps_refill) (simp_all add: promote_ok)
qed

lemma keeps_write_target: "mmu_ok s \<Longrightarrow> keeps mmu_ok (write_target va s)"
proof -
  assume ok: "mmu_ok s"
  obtain p1 m ph t where l: "lookup_tlb DTLB va (page_tag va) s = ((p1, m, ph), t)" by (metis surj_pair)
  have sec: "mmu_ok (case lookup_secondary_tlb DTLB va (page_tag va) u of (None, s) \<Rightarrow> s | (Some p2, s) \<Rightarrow> set_c_flag p2 s)"
    if "mmu_ok u" for u :: "'a mmu_scheme"
    using that by (auto split: prod.split option.split dest: lookup_secondary_ok intro: set_c_ok)
  show ?thesis
    unfolding write_target_def Let_def l prod.case
    using lookup_ok[OF l ok]
    by (intro keeps_if keeps_obind keeps_option keeps_refill keeps_prepare) (simp_all add: promote_ok sec)
qed

lemma put_hmem_ok [simp]: "mmu_ok (put_hmem m s) = mmu_ok s"
  by (simp add: put_hmem_def)

lemma mmu_ok_put [simp]:
  "mmu_ok (put_gpr r v s) = mmu_ok s" "mmu_ok (s\<lparr>reserve := x\<rparr>) = mmu_ok s" "mmu_ok (s\<lparr>cr := c\<rparr>) = mmu_ok s"
  "mmu_ok (s\<lparr>reserve := x, cr := c\<rparr>) = mmu_ok s"
  by (rule mmu_ok_more; simp add: put_gpr_def)+

lemma keeps_load: "keeps mmu_ok m \<Longrightarrow> keeps mmu_ok (load_gpr r f m)"
  unfolding load_gpr_def by (intro keeps_obind) simp_all

lemma keeps_target:
  "(t = NoPhys \<Longrightarrow> keeps P x) \<Longrightarrow> (\<And>a. t = HostVa a \<Longrightarrow> keeps P (f a)) \<Longrightarrow> (\<And>p. t = Device p \<Longrightarrow> keeps P (g p)) \<Longrightarrow>
   keeps P (case t of NoPhys \<Rightarrow> x | HostVa a \<Rightarrow> f a | Device p \<Rightarrow> g p)"
  by (cases t) simp_all

lemma alignment_ok: "mmu_ok s \<Longrightarrow> keeps mmu_ok (ppc_alignment_exception opcode va s)"
  by (simp add: ppc_alignment_exception_def keeps_exception)

subsection \<open>The contract of a memory-mapped device\<close>

text \<open>A device may change any state, but leaves the software TLBs consistent.\<close>

locale mmio_bus =
  fixes b :: "'a mmu_scheme bus"
  assumes dev_read_ok: "mmu_ok s \<Longrightarrow> keeps mmu_ok (dev_read b d st offs n s)"
    and dev_write_ok: "mmu_ok s \<Longrightarrow> keeps mmu_ok (dev_write b d st offs v n s)"
begin

lemma entry_ok:
  "mmu_ok s \<Longrightarrow> keeps mmu_ok (entry_read b p va n s)" "mmu_ok s \<Longrightarrow> keeps mmu_ok (entry_write b p va v n s)"
  unfolding entry_read_def entry_write_def by (auto intro: dev_read_ok dev_write_ok split: option.split)

lemma mmio_ok:
  "mmu_ok s \<Longrightarrow> keeps mmu_ok (mmio_read b n opcode va p s)" "mmu_ok s \<Longrightarrow> keeps mmu_ok (mmio_write b n opcode va v p s)"
  unfolding mmio_read_def mmio_write_def by (intro keeps_if keeps_obind entry_ok alignment_ok; simp)+

lemma read_with_ok:
  "mmu_ok s \<Longrightarrow> (\<And>va a s. mmu_ok s \<Longrightarrow> keeps mmu_ok (u va a s)) \<Longrightarrow> keeps mmu_ok (read_vmem_with b u n opcode va s)"
  unfolding read_vmem_with_def by (intro keeps_obind keeps_read_target keeps_target keeps_if mmio_ok) simp_all

lemma write_with_ok:
  "mmu_ok s \<Longrightarrow> (\<And>va a v s. mmu_ok s \<Longrightarrow> keeps mmu_ok (u va a v s)) \<Longrightarrow> keeps mmu_ok (write_vmem_with b u n opcode va v s)"
  unfolding write_vmem_with_def Let_def by (intro keeps_obind keeps_write_target keeps_target keeps_if mmio_ok) simp_all

lemma bytes_ok:
  "mmu_ok s \<Longrightarrow> keeps mmu_ok (read_bytes b k opcode va acc s)" "mmu_ok s \<Longrightarrow> keeps mmu_ok (write_bytes b k opcode va v s)"
  by (induction k arbitrary: va acc s) (auto simp: read_byte_def write_byte_def intro!: keeps_obind read_with_ok write_with_ok)

lemma read_ok: "mmu_ok s \<Longrightarrow> keeps mmu_ok (mmu_read_vmem b n opcode va s)"
  unfolding mmu_read_vmem_def read_unaligned_def
  by (intro read_with_ok keeps_obind keeps_if alignment_ok bytes_ok) simp_all

lemma write_ok: "mmu_ok s \<Longrightarrow> keeps mmu_ok (mmu_write_vmem b n opcode va v s)"
  unfolding mmu_write_vmem_def write_unaligned_def
  by (intro write_with_ok keeps_obind keeps_if alignment_ok bytes_ok) simp_all

lemma multiple_ok:
  "mmu_ok s \<Longrightarrow> keeps mmu_ok (stmw_loop b opcode rs ea s)" "mmu_ok s \<Longrightarrow> keeps mmu_ok (lmw_loop b opcode rs ea s)"
  by (induction rs arbitrary: ea s) (auto intro!: keeps_obind keeps_load read_ok write_ok)

lemma lswi_ok: "mmu_ok s \<Longrightarrow> keeps mmu_ok (lswi_loop b opcode r ea n s)"
proof (induction n arbitrary: r ea s rule: less_induct)
  case (less n)
  then show ?case
    by (subst lswi_loop.simps) (auto simp: lsw_tail_def intro!: keeps_obind keeps_load read_ok)
qed

lemma lswx_ok: "mmu_ok s \<Longrightarrow> keeps mmu_ok (lswx_loop b opcode r ea n s)"
proof (induction n arbitrary: r ea s rule: less_induct)
  case (less n)
  then show ?case
    by (subst lswx_loop.simps) (auto intro!: keeps_obind keeps_load read_ok)
qed

lemma stsw_ok: "mmu_ok s \<Longrightarrow> keeps mmu_ok (stsw_loop b opcode r ea n s)"
proof (induction n arbitrary: r ea s rule: less_induct)
  case (less n)
  then show ?case
    by (subst stsw_loop.simps) (auto intro!: keeps_obind write_ok)
qed

lemma dcbz_ok: "mmu_ok s \<Longrightarrow> keeps mmu_ok (mmu_dcbz b opcode va s)"
proof -
  assume ok: "mmu_ok s"
  obtain p1 m ph t where l: "lookup_tlb DTLB va (page_tag va) s = ((p1, m, ph), t)" by (metis surj_pair)
  show ?thesis
    unfolding mmu_dcbz_def Let_def l prod.case using lookup_ok[OF l ok]
    by (intro keeps_if keeps_obind keeps_option keeps_refill keeps_prepare write_ok) simp_all
qed

text \<open>Every load and store instruction.\<close>

lemma instr_ok:
  assumes "mmu_ok s"
  shows "keeps mmu_ok (ppc_st b n opcode s)" "keeps mmu_ok (ppc_stx b n opcode s)" "keeps mmu_ok (ppc_stu b n opcode s)"
    "keeps mmu_ok (ppc_stux b n opcode s)" "keeps mmu_ok (ppc_sthbrx b opcode s)" "keeps mmu_ok (ppc_stwbrx b opcode s)"
    "keeps mmu_ok (ppc_stwcx b opcode s)" "keeps mmu_ok (ppc_stmw b opcode s)" "keeps mmu_ok (ppc_stswi b opcode s)"
    "keeps mmu_ok (ppc_stswx b opcode s)" "keeps mmu_ok (ppc_dcbz b opcode s)"
    "keeps mmu_ok (ppc_lz b n opcode s)" "keeps mmu_ok (ppc_lzx b n opcode s)" "keeps mmu_ok (ppc_lzu b n opcode s)"
    "keeps mmu_ok (ppc_lzux b n opcode s)" "keeps mmu_ok (ppc_lha b opcode s)" "keeps mmu_ok (ppc_lhau b opcode s)"
    "keeps mmu_ok (ppc_lhaux b opcode s)" "keeps mmu_ok (ppc_lhax b opcode s)" "keeps mmu_ok (ppc_lhbrx b opcode s)"
    "keeps mmu_ok (ppc_lwbrx b opcode s)" "keeps mmu_ok (ppc_lwarx b opcode s)" "keeps mmu_ok (ppc_lmw b opcode s)"
    "keeps mmu_ok (ppc_lswi b opcode s)" "keeps mmu_ok (ppc_lswx b opcode s)"
  unfolding ppc_st_def ppc_stx_def ppc_stu_def ppc_stux_def ppc_sthbrx_def ppc_stwbrx_def ppc_stwcx_def ppc_stmw_def
    ppc_stswi_def ppc_stswx_def ppc_dcbz_def ppc_lz_def ppc_lzx_def ppc_lzu_def ppc_lzux_def ppc_lha_def ppc_lhau_def
    ppc_lhaux_def ppc_lhax_def ppc_lhbrx_def ppc_lwbrx_def ppc_lwarx_def ppc_lmw_def ppc_lswi_def ppc_lswx_def
    store_update_def load_update_def ppc_illegalop_def Let_def
  by (intro keeps_if keeps_obind keeps_load keeps_exception alignment_ok read_ok write_ok dcbz_ok multiple_ok lswi_ok lswx_ok
      stsw_ok; (simp add: assms)?)+

end

interpretation ids: mmio_bus "id_bus devs" for devs
  by unfold_locales (auto simp: id_bus_def split: option.splits id_device.splits)

subsection \<open>The registers as the guest sees them\<close>

text \<open>
  Byte and halfword reads of the NuBus register give its big-endian contents; a word read on a
  little-endian host gives them byte-swapped.
\<close>

lemma nubus_reads:
  "NubusMacID_read (new_NubusMacID i) 0 2 = Some 0xA55A" "NubusMacID_read (new_NubusMacID i) 2 2 = Some (ucast i)"
  "NubusMacID_read (new_NubusMacID i) 0 4 = Some (BYTESWAP_32 (0xA55A0000 OR ucast i))"
proof -
  show "NubusMacID_read (new_NubusMacID i) 0 2 = Some 0xA55A" by (simp add: NubusMacID_read_def new_NubusMacID_def)
  have "push_bit 8 (ucast (ucast (drop_bit 8 i AND 0xFF) :: u8)) OR ucast (ucast (i AND 0xFF) :: u8) = (ucast i :: u32)"
    by (rule u32_eqI) (unfold all_less_32, simp add: bit_simps bits)
  then show "NubusMacID_read (new_NubusMacID i) 2 2 = Some (ucast i)"
    by (simp add: NubusMacID_read_def new_NubusMacID_def numeral_3_eq_3)
  have "0xA5 OR push_bit 8 0x5A OR push_bit 16 (ucast (ucast (drop_bit 8 i AND 0xFF) :: u8)) OR
      push_bit 24 (ucast (ucast (i AND 0xFF) :: u8)) = BYTESWAP_32 (0xA55A0000 OR ucast i)"
    by (rule u32_eqI) (unfold all_less_32, simp add: BYTESWAP_32_def bit_simps bits)
  then show "NubusMacID_read (new_NubusMacID i) 0 4 = Some (BYTESWAP_32 (0xA55A0000 OR ucast i))"
    by (simp add: NubusMacID_read_def new_NubusMacID_def numeral_3_eq_3)
qed

end
