(* ===== verification/Dbdma.thy ===== *)
theory Dbdma
  imports PpcExec
begin

text \<open>
  The descriptor-based DMA engine of \<open>src/devices/common/dbdma.cpp\<close>. A channel interprets a program of
  16-byte commands in guest memory, moves data between memory and its device, raises interrupts
  through an immediate timer and is controlled by a block of registers. The channel's state extends the
  machine's; the device (\<open>DmaDevice\<close>), the callbacks, the interrupt controller and the bus are parameters.
\<close>

subsection \<open>State\<close>

abbreviation (input) "CH_STAT_BT \<equiv> (0x0100 :: u16)"
abbreviation (input) "CH_STAT_ACTIVE \<equiv> (0x0400 :: u16)"
abbreviation (input) "CH_STAT_DEAD \<equiv> (0x0800 :: u16)"
abbreviation (input) "CH_STAT_WAKE \<equiv> (0x1000 :: u16)"
abbreviation (input) "CH_STAT_FLUSH \<equiv> (0x2000 :: u16)"
abbreviation (input) "CH_STAT_PAUSE \<equiv> (0x4000 :: u16)"
abbreviation (input) "CH_STAT_RUN \<equiv> (0x8000 :: u16)"

abbreviation (input) "DBDMA_INPUT_MORE \<equiv> (2 :: u8)"
abbreviation (input) "DBDMA_NOP \<equiv> (6 :: u8)"
abbreviation (input) "DBDMA_STOP \<equiv> (7 :: u8)"

datatype XferDir = DMA_DIR_UNDEF | DMA_DIR_TO_DEV | DMA_DIR_FROM_DEV

datatype DmaMsg = DMA_MSG_START | DMA_MSG_STOP | DMA_MSG_FLUSH | DMA_MSG_DATA_AVAIL

record dbdma = timebase +
  ch_stat :: u16
  cmd_ptr :: u32
  queue_len :: u32
  queue_data :: u64
  res_count :: u32
  int_select :: u32
  branch_select :: u32
  wait_select :: u32
  cmd_in_progress :: bool
  is_paused :: bool
  in_interpret_loop :: bool
  interpret_again :: bool
  xfer_ended :: bool
  end_dev_stat :: u8
  cur_cmd :: u8
  cur_host :: u64
  cur_is_writable :: bool
  xfer_dir :: XferDir

text \<open>The virtual functions of \<open>DmaDevice\<close>: they may move data, change their own state and call \<open>end_xfer\<close>.\<close>

record 's DmaDevice =
  dev_notify :: "DmaMsg \<Rightarrow> 's \<Rightarrow> (unit, 's) outcome"
  xfer_from :: "u64 \<Rightarrow> u32 \<Rightarrow> 's \<Rightarrow> (u32, 's) outcome"
  xfer_to :: "u64 \<Rightarrow> u32 \<Rightarrow> 's \<Rightarrow> (u32, 's) outcome"

text \<open>What a channel is connected to; \<open>int_ctrl\<close> is the number of the timer callback that calls \<open>ack_dma_int\<close>.\<close>

record 's dma_env =
  dma_dev :: "'s DmaDevice option"
  start_cb :: "('s \<Rightarrow> (unit, 's) outcome) option"
  stop_cb :: "('s \<Rightarrow> (unit, 's) outcome) option"
  int_ctrl :: "nat option"
  interrupt_timer :: tid
  dma_bus :: "'s bus"

type_synonym 'a channel_env = "'a dbdma_scheme dma_env"
type_synonym ('v, 'a) channel_result = "('v, 'a dbdma_scheme) outcome"

definition set_stat :: "u8 \<Rightarrow> 'a dbdma_scheme \<Rightarrow> 'a dbdma_scheme" where
  "set_stat new_stat s = s\<lparr>ch_stat := ch_stat s AND 0xFF00 OR ucast new_stat\<rparr>"

definition update_ch_stat :: "u8 \<Rightarrow> u8 \<Rightarrow> 'a dbdma_scheme \<Rightarrow> 'a dbdma_scheme" where
  "update_ch_stat bits new_val s = s\<lparr>ch_stat := ch_stat s AND NOT (ucast bits) OR ucast new_val\<rparr>"

definition end_xfer :: "u8 \<Rightarrow> 'a dbdma_scheme \<Rightarrow> 'a dbdma_scheme" where
  "end_xfer dev_stat s = s\<lparr>end_dev_stat := dev_stat, xfer_ended := True\<rparr>"

definition is_last_xfer :: "'a dbdma_scheme \<Rightarrow> bool" where
  "is_last_xfer s \<longleftrightarrow> cur_cmd s = 1 \<or> cur_cmd s = 3"

definition is_active :: "'a dbdma_scheme \<Rightarrow> bool" where
  "is_active s \<longleftrightarrow> \<not> (tst (ch_stat s) CH_STAT_DEAD \<or> \<not> tst (ch_stat s) CH_STAT_ACTIVE)"

definition dma_is_ready :: "'a dbdma_scheme \<Rightarrow> bool" where
  "dma_is_ready s \<longleftrightarrow> \<not> (\<not> is_active s \<or> xfer_dir s = DMA_DIR_UNDEF \<or> cur_cmd s \<ge> DBDMA_NOP)"

subsection \<open>Commands in memory\<close>

record DMACmd =
  cmd_req_count :: u16
  cmd_bits :: u8
  cmd_key :: u8
  cmd_address :: u32
  cmd_arg :: u32
  cmd_res_count :: u16
  cmd_xfer_stat :: u16

definition read_DMACmd :: "hmem \<Rightarrow> u64 \<Rightarrow> DMACmd" where
  "read_DMACmd m a = \<lparr>cmd_req_count = native_read16 m a, cmd_bits = m (a + 2), cmd_key = m (a + 3),
     cmd_address = native_read32 m (a + 4), cmd_arg = native_read32 m (a + 8),
     cmd_res_count = native_read16 m (a + 12), cmd_xfer_stat = native_read16 m (a + 14)\<rparr>"

definition fetch_cmd :: "u32 \<Rightarrow> 'a mmu_scheme \<Rightarrow> (u64 \<times> DMACmd \<times> bool, 'a mmu_scheme) outcome" where
  "fetch_cmd cmd_addr s =
     obind (mmu_map_dma_mem cmd_addr 16 False False False s) (\<lambda>res s.
       Ret (host_va res, read_DMACmd (hmem_of s) (host_va res), is_writable res) s)"

definition update_cmd :: "'a dbdma_scheme \<Rightarrow> 'a dbdma_scheme" where
  "update_cmd s =
     (let s = (if cur_is_writable s then
                 let s = (if cur_cmd s < DBDMA_STOP
                          then put_hmem (native_write16 (hmem_of s) (cur_host s + 14) (ch_stat s OR CH_STAT_ACTIVE)) s else s)
                 in if cur_cmd s < DBDMA_NOP
                    then put_hmem (native_write16 (hmem_of s) (cur_host s + 12) (ucast (res_count s))) s else s
               else s)
      in s\<lparr>ch_stat := ch_stat s AND NOT (CH_STAT_FLUSH OR CH_STAT_BT)\<rparr>)"

text \<open>
  The conditional actions of a command: never, if the selected status bits match, if they do not, always. \<open>bits\<close> is
  the two-bit field of the command, \<open>sel\<close> one of the three select registers.
\<close>

definition cond_met :: "u8 \<Rightarrow> u32 \<Rightarrow> u16 \<Rightarrow> bool" where
  "cond_met bits sel stat =
     (if bits \<noteq> 0 then
        if bits \<noteq> 3 then
          let m = ucast (drop_bit 16 sel); c = (stat AND m = ucast sel AND m)
          in if bits = 2 then \<not> c else c
        else True
      else False)"

definition update_irq :: "'a channel_env \<Rightarrow> u8 \<Rightarrow> 'a dbdma_scheme \<Rightarrow> 'a dbdma_scheme" where
  "update_irq e bits s =
     (if cur_cmd s < DBDMA_STOP then
        if cond_met (drop_bit 4 (bits AND 0x30)) (int_select s) (ch_stat s) then
          (case int_ctrl e of
             Some irq \<Rightarrow>
               if \<not> active (infos (timers s) (interrupt_timer e))
               then with_timers (add_immediate_timer (interrupt_timer e) (Device_cb irq)) s else s
           | None \<Rightarrow> s)
        else s
      else s)"

text \<open>The part of \<open>finish_cmd\<close> after the wait condition.\<close>

definition complete_cmd :: "'a channel_env \<Rightarrow> u8 \<Rightarrow> 'a dbdma_scheme \<Rightarrow> 'a dbdma_scheme" where
  "complete_cmd e bits s =
     (let (branch_taken, s) =
        (if cur_cmd s < DBDMA_STOP then
           let s = s\<lparr>ch_stat := ch_stat s AND NOT CH_STAT_BT\<rparr>
           in if cond_met (drop_bit 2 (bits AND 0xC)) (branch_select s) (ch_stat s)
              then (True, s\<lparr>cmd_ptr := native_read32 (hmem_of s) (cur_host s + 8), ch_stat := ch_stat s OR CH_STAT_BT\<rparr>)
              else (False, s)
         else (False, s));
          s = update_cmd s;
          s = (if cur_cmd s < DBDMA_STOP \<and> \<not> branch_taken then s\<lparr>cmd_ptr := cmd_ptr s + 16\<rparr> else s);
          s = (if cur_cmd s < DBDMA_STOP then update_irq e bits s else s)
      in s\<lparr>cmd_in_progress := False\<rparr>)"

definition finish_cmd :: "'a channel_env \<Rightarrow> 'a dbdma_scheme \<Rightarrow> 'a dbdma_scheme" where
  "finish_cmd e s =
     (let bits = hmem_of s (cur_host s + 2)
      in if cur_cmd s < DBDMA_STOP \<and> cond_met (bits AND 3) (wait_select s) (ch_stat s) then s
         else complete_cmd e bits s)"

definition finish_ended_cmd :: "'a channel_env \<Rightarrow> 'a dbdma_scheme \<Rightarrow> 'a dbdma_scheme" where
  "finish_ended_cmd e s =
     (if \<not> xfer_ended s then finish_cmd e s
      else let dev_stat = ucast (end_dev_stat s);
               s = finish_cmd e (s\<lparr>xfer_ended := False, end_dev_stat := 0, ch_stat := ch_stat s OR dev_stat\<rparr>)
           in s\<lparr>ch_stat := ch_stat s AND NOT dev_stat\<rparr>)"

subsection \<open>Data movement\<close>

definition quad_size :: "u16 \<Rightarrow> nat" where
  "quad_size req_count = (if tst (req_count AND 7) 4 then 4 else if tst (req_count AND 7) 2 then 2 else 1)"

definition BYTESWAP_SIZED :: "u32 \<Rightarrow> nat \<Rightarrow> u32" where
  "BYTESWAP_SIZED val sz = (if sz = 2 then ucast (BYTESWAP_16 (ucast val)) else if sz = 4 then BYTESWAP_32 val else val)"


definition quad_write :: "hmem \<Rightarrow> u64 \<Rightarrow> u32 \<Rightarrow> nat \<Rightarrow> hmem" where
  "quad_write m a v sz = (if sz = 1 then m(a := ucast v) else if sz = 2 then native_write16 m a (ucast v) else native_write32 m a v)"

definition quad_read :: "hmem \<Rightarrow> u64 \<Rightarrow> nat \<Rightarrow> u32" where
  "quad_read m a sz = (if sz = 1 then ucast (m a) else if sz = 2 then ucast (native_read16 m a) else native_read32 m a)"

definition on_device :: "MapDmaResult \<Rightarrow> (dev \<Rightarrow> ('v, 's) outcome) \<Rightarrow> ('v, 's) outcome" where
  "on_device res f = (case dev_obj res of None \<Rightarrow> Abort ''null device'' | Some d \<Rightarrow> f d)"

definition quad_move :: "'a channel_env \<Rightarrow> bool \<Rightarrow> MapDmaResult \<Rightarrow> u32 \<Rightarrow> u32 \<Rightarrow> nat \<Rightarrow> 'a dbdma_scheme \<Rightarrow> (unit, 'a) channel_result" where
  "quad_move e is_store res addr arg sz s =
     (if is_store then
           if tst (dma_type res) RT_MMIO then
             on_device res (\<lambda>d. dev_write (dma_bus e) d (dev_base res) (addr - dev_base res) (BYTESWAP_SIZED arg sz) sz s)
           else if is_writable res then Ret () (put_hmem (quad_write (hmem_of s) (host_va res) arg sz) s)
           else Ret () s
         else
           obind (if tst (dma_type res) RT_MMIO
                  then on_device res (\<lambda>d. dev_read (dma_bus e) d (dev_base res) (addr - dev_base res) sz s)
                  else Ret (quad_read (hmem_of s) (host_va res) sz) s) (\<lambda>v s.
             if \<not> cur_is_writable s then Ret () s
             else Ret () (put_hmem (native_write32 (hmem_of s) (cur_host s + 8) v) s)))"

definition xfer_quad :: "'a channel_env \<Rightarrow> bool \<Rightarrow> 'a dbdma_scheme \<Rightarrow> (unit, 'a) channel_result" where
  "xfer_quad e is_store s =
     (let addr = native_read32 (hmem_of s) (cur_host s + 4);
          req_count = native_read16 (hmem_of s) (cur_host s);
          arg = native_read32 (hmem_of s) (cur_host s + 8);
          sz = quad_size req_count;
          s = s\<lparr>res_count := ucast req_count\<rparr>;
          addr = (if tst addr (of_nat sz - 1) then addr AND NOT (of_nat sz - 1) else addr)
      in obind (mmu_map_dma_mem addr (of_nat sz) True False False s) (\<lambda>res s.
         obind (quad_move e is_store res addr arg sz s) (\<lambda>_ s.
           if tst (hmem_of s (cur_host s + 2)) 0xC then Abort ''cmd_bits.b should be zero for LOAD/STORE_QUAD!''
           else Ret () (finish_cmd e s))))"

text \<open>
  The transfers of \<open>xfer_from_device\<close> and \<open>xfer_to_device\<close>, without the call of \<open>interpret_until_blocked\<close> at
  their end. The number of bytes moved is an \<open>int\<close>; the pointer moves by its sign extension.
\<close>

definition move_data :: "'a channel_env \<Rightarrow> XferDir \<Rightarrow> (u64 \<Rightarrow> u32 \<Rightarrow> 'a dbdma_scheme \<Rightarrow> (u32, 'a dbdma_scheme) outcome) \<Rightarrow>
    'a dbdma_scheme \<Rightarrow> (unit, 'a) channel_result" where
  "move_data e dir f s =
     (let s = s\<lparr>xfer_dir := dir\<rparr>
      in obind (f (queue_data s) (queue_len s) s) (\<lambda>got_bytes s.
           let s = s\<lparr>queue_data := queue_data s + scast got_bytes, res_count := res_count s - got_bytes,
                     queue_len := queue_len s - got_bytes\<rparr>
           in Ret () (if queue_len s = 0 \<or> xfer_ended s then finish_ended_cmd e s else s)))"

text \<open>
  Inside the interpreter's loop \<open>in_interpret_loop\<close> is set and \<open>interpret_until_blocked\<close>, called again, only asks for
  another pass.
\<close>

definition ask_again :: "'a dbdma_scheme \<Rightarrow> 'a dbdma_scheme" where
  "ask_again s = s\<lparr>interpret_again := True\<rparr>"

definition nested_xfer :: "'a channel_env \<Rightarrow> bool \<Rightarrow> 'a dbdma_scheme \<Rightarrow> (unit, 'a) channel_result" where
  "nested_xfer e to_dev s =
     (case dma_dev e of
        None \<Rightarrow> Ret () s
      | Some d \<Rightarrow>
          obind (if to_dev then move_data e DMA_DIR_TO_DEV (xfer_to d) s else move_data e DMA_DIR_FROM_DEV (xfer_from d) s)
            (\<lambda>_ s. Ret () (ask_again s)))"

subsection \<open>The interpreter\<close>

definition start_transfer :: "'a channel_env \<Rightarrow> DMACmd \<Rightarrow> 'a dbdma_scheme \<Rightarrow> (unit, 'a) channel_result" where
  "start_transfer e c s =
     (if tst (cmd_key c) 7 then Ret () s
      else if cmd_req_count c \<noteq> 0 then
        obind (mmu_map_dma_mem (cmd_address c) (ucast (cmd_req_count c)) False False False s) (\<lambda>res s.
          nested_xfer e (cur_cmd s < DBDMA_INPUT_MORE)
            (s\<lparr>queue_data := host_va res, res_count := ucast (cmd_req_count c), queue_len := ucast (cmd_req_count c),
               cmd_in_progress := True\<rparr>))
      else Ret () (finish_cmd e (s\<lparr>queue_len := 0, res_count := 0\<rparr>)))"

definition execute_cmd :: "'a channel_env \<Rightarrow> DMACmd \<Rightarrow> 'a dbdma_scheme \<Rightarrow> (unit, 'a) channel_result" where
  "execute_cmd e c s =
     (if cur_cmd s < 4 then start_transfer e c s
      else if cur_cmd s = 4 then xfer_quad e True s
      else if cur_cmd s = 5 then xfer_quad e False s
      else if cur_cmd s = DBDMA_NOP then Ret () (finish_cmd e s)
      else if cur_cmd s = DBDMA_STOP then
        Ret () (finish_cmd e (s\<lparr>ch_stat := ch_stat s AND NOT CH_STAT_ACTIVE, cmd_in_progress := False\<rparr>))
      else Ret () (s\<lparr>ch_stat := (ch_stat s OR CH_STAT_DEAD) AND NOT CH_STAT_ACTIVE\<rparr>))"

definition interpret_cmd :: "'a channel_env \<Rightarrow> 'a dbdma_scheme \<Rightarrow> (unit, 'a) channel_result" where
  "interpret_cmd e s =
     (if cmd_in_progress s \<and> queue_len s \<noteq> 0 then Ret () s
      else
        let s = (if cmd_in_progress s then finish_cmd e s else s)
        in obind (fetch_cmd (cmd_ptr s) s) (\<lambda>(h, c, w) s.
             execute_cmd e c (s\<lparr>cur_host := h, cur_is_writable := w, ch_stat := ch_stat s AND NOT CH_STAT_WAKE,
                               cur_cmd := drop_bit 4 (cmd_key c)\<rparr>)))"

abbreviation (input) "MAX_CMDS_PER_RUN \<equiv> (65536 :: nat)"

text \<open>The inner loop with the number of commands that may still run.\<close>

fun run_cmds :: "'a channel_env \<Rightarrow> nat \<Rightarrow> 'a dbdma_scheme \<Rightarrow> (unit, 'a) channel_result" where
  "run_cmds e n s =
     (if \<not> is_active s then Ret () s
      else case n of
        0 \<Rightarrow> Ret () (s\<lparr>ch_stat := (ch_stat s OR CH_STAT_DEAD) AND NOT CH_STAT_ACTIVE, interpret_again := False\<rparr>)
      | Suc n \<Rightarrow> obind (interpret_cmd e s) (\<lambda>_ s. if cmd_in_progress s then Ret () s else run_cmds e n s))"

declare run_cmds.simps [simp del]

partial_function (option) interpret_passes :: "'a channel_env \<Rightarrow> 'a dbdma_scheme \<Rightarrow> (unit, 'a) channel_result option" where
  "interpret_passes e s =
     (case run_cmds e MAX_CMDS_PER_RUN (s\<lparr>interpret_again := False\<rparr>) of
        Ret _ s \<Rightarrow> if interpret_again s then interpret_passes e s else Some (Ret () s)
      | LongJmp s \<Rightarrow> Some (LongJmp s)
      | Throw m s \<Rightarrow> Some (Throw m s)
      | Abort m \<Rightarrow> Some (Abort m))"

definition interpret_until_blocked :: "'a channel_env \<Rightarrow> 'a dbdma_scheme \<Rightarrow> (unit, 'a) channel_result option" where
  "interpret_until_blocked e s =
     (if in_interpret_loop s then Some (Ret () (ask_again s))
      else map_option (\<lambda>r. obind r (\<lambda>_ s. Ret () (s\<lparr>in_interpret_loop := False\<rparr>)))
             (interpret_passes e (s\<lparr>in_interpret_loop := True\<rparr>)))"

text \<open>A result followed by \<open>interpret_until_blocked\<close>.\<close>

definition then_interpret :: "'a channel_env \<Rightarrow> (unit, 'a) channel_result \<Rightarrow> (unit, 'a) channel_result option" where
  "then_interpret e r =
     (case r of Ret _ s \<Rightarrow> interpret_until_blocked e s | LongJmp s \<Rightarrow> Some (LongJmp s) | Throw m s \<Rightarrow> Some (Throw m s)
      | Abort m \<Rightarrow> Some (Abort m))"

definition xfer_from_device :: "'a channel_env \<Rightarrow> 'a dbdma_scheme \<Rightarrow> (unit, 'a) channel_result option" where
  "xfer_from_device e s =
     (case dma_dev e of None \<Rightarrow> Some (Ret () s)
      | Some d \<Rightarrow> then_interpret e (move_data e DMA_DIR_FROM_DEV (xfer_from d) s))"

definition xfer_to_device :: "'a channel_env \<Rightarrow> 'a dbdma_scheme \<Rightarrow> (unit, 'a) channel_result option" where
  "xfer_to_device e s =
     (case dma_dev e of None \<Rightarrow> Some (Ret () s)
      | Some d \<Rightarrow> then_interpret e (move_data e DMA_DIR_TO_DEV (xfer_to d) s))"

definition xfer_retry :: "'a channel_env \<Rightarrow> 'a dbdma_scheme \<Rightarrow> (unit, 'a) channel_result option" where
  "xfer_retry e s =
     (case xfer_dir s of DMA_DIR_UNDEF \<Rightarrow> Some (Ret () s) | DMA_DIR_FROM_DEV \<Rightarrow> xfer_from_device e s
      | DMA_DIR_TO_DEV \<Rightarrow> xfer_to_device e s)"

subsection \<open>Access by old-style devices\<close>

text \<open>Result, pointer to the data and their length.\<close>

definition pull_data :: "'a channel_env \<Rightarrow> u32 \<Rightarrow> 'a dbdma_scheme \<Rightarrow> (bool \<times> u64 \<times> u32, 'a) channel_result option" where
  "pull_data e req_len s =
     (if \<not> is_active s then Some (Ret (False, 0, 0) s)
      else map_option (\<lambda>r. obind r (\<lambda>_ s.
        if queue_len s \<noteq> 0 then
          if queue_len s \<ge> req_len then
            Ret (True, queue_data s, req_len)
              (s\<lparr>queue_len := queue_len s - req_len, res_count := res_count s - req_len, queue_data := queue_data s + ucast req_len\<rparr>)
          else Ret (True, queue_data s, queue_len s) (s\<lparr>res_count := res_count s - queue_len s, queue_len := 0\<rparr>)
        else Ret (False, 0, 0) s)) (interpret_until_blocked e s))"

text \<open>\<open>memcpy\<close> of a list of bytes.\<close>

fun push_bytes :: "u64 \<Rightarrow> u8 list \<Rightarrow> hmem \<Rightarrow> hmem" where
  "push_bytes a [] m = m"
| "push_bytes a (b # bs) m = push_bytes (a + 1) bs (m(a := b))"

definition push_data :: "'a channel_env \<Rightarrow> u8 list \<Rightarrow> 'a dbdma_scheme \<Rightarrow> (bool, 'a) channel_result option" where
  "push_data e src s =
     (if \<not> is_active s then Some (Ret False s)
      else case interpret_until_blocked e s of
        None \<Rightarrow> None
      | Some (Ret _ s) \<Rightarrow>
          (let n = min (unat (queue_len s)) (length src);
               s = (if queue_len s \<noteq> 0 then
                      (put_hmem (push_bytes (queue_data s) (take n src) (hmem_of s)) s)
                        \<lparr>queue_data := queue_data s + of_nat n, res_count := res_count s - of_nat n, queue_len := queue_len s - of_nat n\<rparr>
                    else s)
           in map_option (\<lambda>r. obind r (\<lambda>_ s. Ret True s))
                (if queue_len s = 0 then interpret_until_blocked e s else Some (Ret () s)))
      | Some (LongJmp s) \<Rightarrow> Some (LongJmp s)
      | Some (Throw m s) \<Rightarrow> Some (Throw m s)
      | Some (Abort m) \<Rightarrow> Some (Abort m))"

subsection \<open>Registers\<close>

definition notify_device :: "'a channel_env \<Rightarrow> DmaMsg \<Rightarrow> 'a dbdma_scheme \<Rightarrow> (unit, 'a) channel_result" where
  "notify_device e msg s = (case dma_dev e of None \<Rightarrow> Ret () s | Some d \<Rightarrow> dev_notify d msg s)"

definition call_back :: "('s \<Rightarrow> (unit, 's) outcome) option \<Rightarrow> 's \<Rightarrow> (unit, 's) outcome" where
  "call_back f s = (case f of None \<Rightarrow> Ret () s | Some g \<Rightarrow> g s)"

definition dma_start :: "'a channel_env \<Rightarrow> 'a dbdma_scheme \<Rightarrow> (unit, 'a) channel_result option" where
  "dma_start e s =
     (if tst (ch_stat s) CH_STAT_PAUSE then Some (Ret () (s\<lparr>ch_stat := ch_stat s AND NOT CH_STAT_ACTIVE\<rparr>))
      else then_interpret e (obind (notify_device e DMA_MSG_START (s\<lparr>queue_len := 0, cmd_in_progress := False\<rparr>))
             (\<lambda>_. call_back (start_cb e))))"

definition dma_resume :: "'a channel_env \<Rightarrow> 'a dbdma_scheme \<Rightarrow> (unit, 'a) channel_result option" where
  "dma_resume e s = (if tst (ch_stat s) CH_STAT_PAUSE then Some (Ret () s) else interpret_until_blocked e s)"

definition dma_abort :: "'a channel_env \<Rightarrow> 'a dbdma_scheme \<Rightarrow> (unit, 'a) channel_result" where
  "dma_abort e s = obind (notify_device e DMA_MSG_STOP s) (\<lambda>_. call_back (stop_cb e))"

definition dma_pause :: "'a channel_env \<Rightarrow> 'a dbdma_scheme \<Rightarrow> (unit, 'a) channel_result" where
  "dma_pause e s = obind (dma_abort e s) (\<lambda>_ s. Ret () (s\<lparr>is_paused := True\<rparr>))"

definition dma_reg :: "'a dbdma_scheme \<Rightarrow> u32 \<Rightarrow> u32" where
  "dma_reg s r = (if r = 4 then ucast (ch_stat s) else if r = 12 then cmd_ptr s else if r = 16 then int_select s
     else if r = 20 then branch_select s else if r = 24 then wait_select s else 0)"

definition reg_read :: "u32 \<Rightarrow> nat \<Rightarrow> 'a dbdma_scheme \<Rightarrow> u32" where
  "reg_read offset sz s =
     (let result = dma_reg s (offset AND NOT 3)
      in if offset AND 3 \<noteq> 0 \<or> sz \<noteq> 4 then BYTESWAP_SIZED (drop_bit (unat (offset AND 3) * 8) result) sz
         else BYTESWAP_32 result)"

text \<open>The steps of a write to \<open>ChannelControl\<close>: general purpose bits, flush, and one of run, pause and wake.\<close>

definition ctrl_general :: "u16 \<Rightarrow> u16 \<Rightarrow> 'a dbdma_scheme \<Rightarrow> 'a dbdma_scheme" where
  "ctrl_general m data s =
     (if tst m 0xFF then s\<lparr>ch_stat := ch_stat s AND NOT (m AND 0xFF) OR data AND m AND 0xFF\<rparr> else s)"

definition ctrl_flush :: "'a channel_env \<Rightarrow> u16 \<Rightarrow> u16 \<Rightarrow> 'a dbdma_scheme \<Rightarrow> (unit, 'a) channel_result" where
  "ctrl_flush e m data s =
     (if tst m CH_STAT_FLUSH then
        obind (if tst data CH_STAT_FLUSH \<and> (cur_cmd s = 2 \<or> cur_cmd s = 3) \<and> is_active s
               then obind (notify_device e DMA_MSG_FLUSH (s\<lparr>ch_stat := ch_stat s OR CH_STAT_FLUSH\<rparr>)) (\<lambda>_ s. Ret () (update_cmd s))
               else Ret () s)
          (\<lambda>_ s. Ret () (s\<lparr>ch_stat := ch_stat s AND NOT CH_STAT_FLUSH\<rparr>))
      else Ret () s)"

definition ctrl_run :: "'a channel_env \<Rightarrow> u16 \<Rightarrow> u16 \<Rightarrow> 'a dbdma_scheme \<Rightarrow> (unit, 'a) channel_result option" where
  "ctrl_run e m data s =
     (if tst data CH_STAT_RUN then
        if tst m CH_STAT_PAUSE \<and> tst data CH_STAT_PAUSE
        then Some (Abort ''Attempt to set both run and pause bits at the same time'')
        else
          let s = (if tst m CH_STAT_PAUSE then s\<lparr>ch_stat := ch_stat s AND NOT CH_STAT_PAUSE\<rparr> else s)
          in if \<not> tst (ch_stat s) CH_STAT_ACTIVE
             then dma_start e (s\<lparr>ch_stat := ch_stat s OR (CH_STAT_ACTIVE OR CH_STAT_RUN)\<rparr>)
             else Some (Ret () s)
      else
        Some (obind (if tst (ch_stat s) CH_STAT_ACTIVE then
                       obind (dma_abort e s) (\<lambda>_ s.
                         Ret () ((update_irq e (hmem_of s (cur_host s + 2)) s)\<lparr>cmd_in_progress := False\<rparr>))
                     else Ret () s)
               (\<lambda>_ s. Ret () (s\<lparr>ch_stat := ch_stat s AND NOT (CH_STAT_RUN OR CH_STAT_ACTIVE OR CH_STAT_DEAD)\<rparr>))))"

definition ctrl_pause :: "'a channel_env \<Rightarrow> u16 \<Rightarrow> 'a dbdma_scheme \<Rightarrow> (unit, 'a) channel_result option" where
  "ctrl_pause e data s =
     (if tst data CH_STAT_PAUSE then
        Some (obind (if tst (ch_stat s) CH_STAT_ACTIVE then dma_pause e s else Ret () s)
               (\<lambda>_ s. Ret () (s\<lparr>ch_stat := (ch_stat s OR CH_STAT_PAUSE) AND NOT CH_STAT_ACTIVE\<rparr>)))
      else
        let s = s\<lparr>ch_stat := ch_stat s AND NOT CH_STAT_PAUSE\<rparr>
        in if \<not> tst (ch_stat s) CH_STAT_ACTIVE \<and> is_paused s
           then dma_resume e (s\<lparr>is_paused := False, ch_stat := ch_stat s OR CH_STAT_ACTIVE\<rparr>)
           else Some (Ret () s))"

definition ctrl_wake :: "'a channel_env \<Rightarrow> u16 \<Rightarrow> 'a dbdma_scheme \<Rightarrow> (unit, 'a) channel_result option" where
  "ctrl_wake e data s =
     (if tst data CH_STAT_WAKE \<and> \<not> tst (ch_stat s) CH_STAT_ACTIVE
      then dma_resume e (s\<lparr>ch_stat := ch_stat s OR CH_STAT_ACTIVE\<rparr>) else Some (Ret () s))"

definition write_control :: "'a channel_env \<Rightarrow> u32 \<Rightarrow> 'a dbdma_scheme \<Rightarrow> (unit, 'a) channel_result option" where
  "write_control e v s =
     (let m = ucast (drop_bit 16 v); data = ucast v
      in case ctrl_flush e m data (ctrl_general m data s) of
           Ret _ s \<Rightarrow>
             if tst m CH_STAT_RUN then ctrl_run e m data s
             else if tst m CH_STAT_PAUSE then ctrl_pause e data s
             else if tst m CH_STAT_WAKE then ctrl_wake e data s
             else Some (Ret () s)
         | r \<Rightarrow> Some r)"

definition reg_write :: "'a channel_env \<Rightarrow> u32 \<Rightarrow> u32 \<Rightarrow> nat \<Rightarrow> 'a dbdma_scheme \<Rightarrow> (unit, 'a) channel_result option" where
  "reg_write e offset v sz s =
     (if sz \<noteq> 4 then Some (Abort ''non-DWORD writes to a DMA channel not supported'')
      else
        let v = BYTESWAP_32 v
        in if offset = 0 then write_control e v s
           else Some (Ret ()
             (if offset = 12 then if \<not> tst (ch_stat s) CH_STAT_ACTIVE then s\<lparr>cmd_ptr := v\<rparr> else s
              else if offset = 16 then s\<lparr>int_select := v AND 0xFF00FF\<rparr>
              else if offset = 20 then s\<lparr>branch_select := v AND 0xFF00FF\<rparr>
              else if offset = 24 then s\<lparr>wait_select := v AND 0xFF00FF\<rparr>
              else s)))"

end
