(* ===== verification/Nvram.thy ===== *)
theory Nvram
  imports CoreUtils
begin

text \<open>
  Non-volatile RAM (\<open>src/devices/common/nvram.cpp\<close>): the storage, its backing file and the two IOBus devices through
  which the I/O controllers reach it (\<open>src/devices/ioctrl/macio.h\<close>). A file is the list of its bytes; a C++
  string is the list of its bytes too. An access outside the storage is an error, here \<open>None\<close>.
\<close>

type_synonym bytes = "u8 list"

definition bytes_of :: "string \<Rightarrow> bytes" where
  "bytes_of = map of_char"

definition NVRAM_FILE_ID :: bytes where
  "NVRAM_FILE_ID = bytes_of ''CHUNGUSPPCNVRAM'' @ [0]"

record NVram =
  ram_size :: u16
  storage :: bytes
  of_nvram_offset :: nat

definition nvram_read_byte :: "NVram \<Rightarrow> nat \<Rightarrow> u8 option" where
  "nvram_read_byte n offset = (if offset < length (storage n) then Some (storage n ! offset) else None)"

definition nvram_write_byte :: "nat \<Rightarrow> u8 \<Rightarrow> NVram \<Rightarrow> NVram option" where
  "nvram_write_byte offset val n =
     (if offset < length (storage n) then Some (n\<lparr>storage := (storage n)[offset := val]\<rparr>) else None)"

text \<open>The content of the file after \<open>save\<close>; the size is written in the byte order of the host.\<close>

definition save :: "NVram \<Rightarrow> bytes" where
  "save n = NVRAM_FILE_ID @ [ucast (ram_size n), ucast (drop_bit 8 (ram_size n))] @ take (unat (ram_size n)) (storage n)"

text \<open>\<open>init\<close>: each \<open>read\<close> fails when the file is too short. A missing file is \<open>None\<close>.\<close>

definition restore :: "bytes option \<Rightarrow> NVram \<Rightarrow> NVram" where
  "restore file n =
     (let k = length NVRAM_FILE_ID; sz = unat (ram_size n); zeroes = n\<lparr>storage := replicate sz 0\<rparr>
      in case file of
           None \<Rightarrow> zeroes
         | Some f \<Rightarrow>
             if length f < k \<or> length f < k + 2 \<or> take k f \<noteq> NVRAM_FILE_ID \<or>
                ucast (f ! k) OR push_bit 8 (ucast (f ! (k + 1))) \<noteq> ram_size n \<or> length f < k + 2 + sz
             then zeroes
             else n\<lparr>storage := take sz (drop (k + 2) f)\<rparr>)"

definition new_NVram :: "nat \<Rightarrow> bytes option \<Rightarrow> NVram" where
  "new_NVram sz file =
     restore file \<lparr>ram_size = of_nat sz, storage = replicate sz 0, of_nvram_offset = if sz = 8192 then 0x1800 else 0\<rparr>"

subsection \<open>IOBus devices\<close>

record nvram_dev =
  nvram_addr_hi :: u16
  nvram :: NVram

definition addr_hi_write :: "u16 \<Rightarrow> nvram_dev \<Rightarrow> nvram_dev" where
  "addr_hi_write v d = d\<lparr>nvram_addr_hi := v\<rparr>"

definition nvram_address :: "nvram_dev \<Rightarrow> u32 \<Rightarrow> nat" where
  "nvram_address d address = unat (push_bit 5 (ucast (nvram_addr_hi d)) + address)"

definition nvram_dev_read :: "u32 \<Rightarrow> nvram_dev \<Rightarrow> u16 option" where
  "nvram_dev_read address d = map_option ucast (nvram_read_byte (nvram d) (nvram_address d address))"

definition nvram_dev_write :: "u32 \<Rightarrow> u16 \<Rightarrow> nvram_dev \<Rightarrow> nvram_dev option" where
  "nvram_dev_write address v d =
     map_option (\<lambda>n. d\<lparr>nvram := n\<rparr>) (nvram_write_byte (nvram_address d address) (ucast v) (nvram d))"

subsection \<open>Properties\<close>

text \<open>The storage has the size the object was made with.\<close>

definition nvram_ok :: "NVram \<Rightarrow> bool" where
  "nvram_ok n \<longleftrightarrow> length (storage n) = unat (ram_size n)"

lemma nvram_write_ok: "nvram_ok n \<Longrightarrow> nvram_write_byte i v n = Some n' \<Longrightarrow> nvram_ok n'"
  by (auto simp: nvram_ok_def nvram_write_byte_def split: if_splits)

lemma size_bytes: "ucast (ucast x :: u8) OR push_bit 8 (ucast (ucast (drop_bit 8 x) :: u8)) = (x :: u16)"
  by (rule bit_word_eqI) (auto simp: bit_simps)

lemma restore_save: "nvram_ok n \<Longrightarrow> ram_size m = ram_size n \<Longrightarrow> restore (Some (save n)) m = m\<lparr>storage := storage n\<rparr>"
  by (simp add: restore_def save_def Let_def nvram_ok_def nth_append size_bytes)

fun nvram_writes :: "(u16 \<times> u32 \<times> u16) list \<Rightarrow> nvram_dev \<Rightarrow> nvram_dev option" where
  "nvram_writes [] d = Some d"
| "nvram_writes ((hi, a, v) # ws) d =
     (case nvram_dev_write a v (addr_hi_write hi d) of None \<Rightarrow> None | Some d \<Rightarrow> nvram_writes ws d)"

lemma nvram_writes_ok:
  "nvram_writes ws d = Some d' \<Longrightarrow> nvram_ok (nvram d) \<Longrightarrow> nvram_ok (nvram d') \<and> ram_size (nvram d') = ram_size (nvram d) \<and>
     of_nvram_offset (nvram d') = of_nvram_offset (nvram d)"
proof (induction ws arbitrary: d)
  case (Cons w ws)
  obtain hi a v where w: "w = (hi, a, v)" by (cases w)
  obtain d1 where d1: "nvram_dev_write a v (addr_hi_write hi d) = Some d1" "nvram_writes ws d1 = Some d'"
    using Cons.prems(1) by (auto simp: w split: option.splits)
  then have "nvram_ok (nvram d1)" "ram_size (nvram d1) = ram_size (nvram d)" "of_nvram_offset (nvram d1) = of_nvram_offset (nvram d)"
    using Cons.prems(2) nvram_write_ok by (auto simp: nvram_dev_write_def addr_hi_write_def nvram_write_byte_def nvram_ok_def split: if_splits)
  with Cons.IH[OF d1(2)] show ?case by simp
qed simp

lemma new_NVram_ok:
  assumes "sz < 2 ^ 16"
  shows "nvram_ok (new_NVram sz file)" "ram_size (new_NVram sz file) = of_nat sz"
    "of_nvram_offset (new_NVram sz file) = (if sz = 8192 then 0x1800 else 0)"
proof -
  have "unat (of_nat sz :: u16) = sz" using assms by (simp add: unat_of_nat)
  then show "nvram_ok (new_NVram sz file)" "ram_size (new_NVram sz file) = of_nat sz"
    "of_nvram_offset (new_NVram sz file) = (if sz = 8192 then 0x1800 else 0)"
    by (auto simp: new_NVram_def restore_def nvram_ok_def Let_def split: option.splits)
qed

lemma nvram_writes_append:
  "nvram_writes (xs @ ys) d = (case nvram_writes xs d of None \<Rightarrow> None | Some d \<Rightarrow> nvram_writes ys d)"
  by (induction xs arbitrary: d) (auto split: option.splits)

text \<open>
  What is written to the NVRAM survives a restart. Any sequence of writes through the two IOBus devices leaves a
  backing file from which a new object of the same size starts with the same content; in particular the
  last byte written reads back, through the address devices, as its low eight bits.
\<close>

theorem nvram_survives_restart:
  assumes "nvram_writes (ws @ [(hi, a, v)]) d = Some d'" "nvram d = new_NVram sz file" "sz < 2 ^ 16"
  shows "new_NVram sz (Some (save (nvram d'))) = nvram d' \<and>
    nvram_dev_read a (addr_hi_write hi \<lparr>nvram_addr_hi = 0, nvram = new_NVram sz (Some (save (nvram d')))\<rparr>) = Some (v AND 0xFF)"
proof -
  note new = new_NVram_ok[OF assms(3), of "file"]
  have d': "nvram_ok (nvram d')" "ram_size (nvram d') = of_nat sz" "of_nvram_offset (nvram d') = (if sz = 8192 then 0x1800 else 0)"
    using nvram_writes_ok[OF assms(1)] new assms(2) by simp_all
  have eq: "new_NVram sz (Some (save (nvram d'))) = nvram d'"
    using restore_save[OF d'(1)] d' by (cases "nvram d'") (auto simp: new_NVram_def)
  obtain d1 where "nvram_dev_write a v (addr_hi_write hi d1) = Some d'"
    using assms(1) by (auto simp: nvram_writes_append split: option.splits)
  then have "nvram_dev_read a (addr_hi_write hi \<lparr>nvram_addr_hi = 0, nvram = nvram d'\<rparr>) = Some (ucast (ucast v :: u8))"
    by (auto simp: nvram_dev_write_def nvram_dev_read_def addr_hi_write_def nvram_address_def nvram_write_byte_def nvram_read_byte_def split: if_splits)
  moreover have "ucast (ucast v :: u8) = v AND 0xFF"
  proof -
    have "ucast (ucast v :: u8) = v AND mask 8" by (rule bit_word_eqI) (auto simp: bit_simps)
    then show ?thesis by (simp add: mask_eq_exp_minus_1)
  qed
  ultimately show ?thesis using eq by simp
qed

lemma nvram_survives_restart_witness:
  "\<exists>d'. nvram_writes [(0, 3, 0x11), (0, 3, 0x1FF)] \<lparr>nvram_addr_hi = 0, nvram = new_NVram 32 None\<rparr> = Some d' \<and>
     nvram_dev_read 3 (addr_hi_write 0 \<lparr>nvram_addr_hi = 0, nvram = new_NVram 32 (Some (save (nvram d')))\<rparr>) = Some 0xFF"
proof -
  let ?d = "\<lparr>nvram_addr_hi = 0, nvram = new_NVram 32 None\<rparr>"
  have "length (storage (new_NVram 32 None)) = 32" by (simp add: new_NVram_def restore_def Let_def)
  then obtain d' where d': "nvram_writes ([(0, 3, 0x11)] @ [(0, 3, 0x1FF)]) ?d = Some d'"
    by (simp add: nvram_dev_write_def addr_hi_write_def nvram_write_byte_def nvram_address_def)
  from nvram_survives_restart[OF this, of 32 None]
  have "nvram_dev_read 3 (addr_hi_write 0 \<lparr>nvram_addr_hi = 0, nvram = new_NVram 32 (Some (save (nvram d')))\<rparr>) = Some 0xFF" by auto
  with d' show ?thesis by (intro exI[of _ d']) (simp only: append_Cons append_Nil simp_thms)
qed

end
