(* ===== verification/GrandCentral.thy ===== *)
theory GrandCentral
  imports Dbdma Nvram
begin

text \<open>
  The Grand Central I/O controller (\<open>src/devices/ioctrl/grandcentral.cpp\<close>): its interrupt controller, the decoding of its
  register space and the IOBus. The other devices behind it and the DMA channels are parameters that act
  on the whole machine state, since they may raise interrupts while they are accessed; a device access
  that does not return is \<open>None\<close>.
\<close>

subsection \<open>State\<close>

datatype iobus_slot = Iobus_addr_hi | Iobus_nvram | Iobus_other nat

record gcentral = timebase +
  int_mask :: u32
  int_levels :: u32
  int_events :: u32
  cpu_int_latch :: bool
  iobus_devs :: "iobus_slot option list"
  gc_nvram :: nvram_dev

datatype gc_dev = Curio | Mace | Escc | Awacs | Swim3 | ViaCuda | Mesh

record 's gc_env =
  sub_read :: "gc_dev \<Rightarrow> u32 \<Rightarrow> nat \<Rightarrow> 's \<Rightarrow> (u32, 's) outcome option"
  sub_write :: "gc_dev \<Rightarrow> u32 \<Rightarrow> u32 \<Rightarrow> nat \<Rightarrow> 's \<Rightarrow> (unit, 's) outcome option"
  dma_reg_read :: "nat \<Rightarrow> u32 \<Rightarrow> nat \<Rightarrow> 's \<Rightarrow> (u32, 's) outcome option"
  dma_reg_write :: "nat \<Rightarrow> u32 \<Rightarrow> u32 \<Rightarrow> nat \<Rightarrow> 's \<Rightarrow> (unit, 's) outcome option"
  iodev_read :: "nat \<Rightarrow> u32 \<Rightarrow> 's \<Rightarrow> (u16, 's) outcome option"
  iodev_write :: "nat \<Rightarrow> u32 \<Rightarrow> u16 \<Rightarrow> 's \<Rightarrow> (unit, 's) outcome option"
  has_mesh_dma :: bool

abbreviation (input) "MACIO_INT_CLR \<equiv> (0x80000000 :: u32)"
abbreviation (input) "MACIO_INT_MODE \<equiv> (0x80000000 :: u32)"

abbreviation (input) "MIO_INT_EVENTS1 \<equiv> (0x20 :: u32)"
abbreviation (input) "MIO_INT_MASK1 \<equiv> (0x24 :: u32)"
abbreviation (input) "MIO_INT_CLEAR1 \<equiv> (0x28 :: u32)"
abbreviation (input) "MIO_INT_LEVELS1 \<equiv> (0x2C :: u32)"

subsection \<open>The interrupt controller\<close>

definition signal_cpu_int :: "'a gcentral_scheme \<Rightarrow> (unit, 'a gcentral_scheme) outcome" where
  "signal_cpu_int s =
     (if tst (int_events s) (int_mask s) \<and> \<not> cpu_int_latch s then ppc_assert_int (s\<lparr>cpu_int_latch := True\<rparr>) else Ret () s)"

definition clear_cpu_int :: "'a gcentral_scheme \<Rightarrow> 'a gcentral_scheme" where
  "clear_cpu_int s =
     (if \<not> tst (int_events s) (int_mask s) \<and> cpu_int_latch s then ppc_release_int (s\<lparr>cpu_int_latch := False\<rparr>) else s)"

definition ack_int_common :: "u64 \<Rightarrow> u8 \<Rightarrow> 'a gcentral_scheme \<Rightarrow> (unit, 'a gcentral_scheme) outcome" where
  "ack_int_common irq_id irq_line_state s =
     (let old_levels = int_levels s; old_events = int_events s; irq = ucast irq_id :: u32;
          s = s\<lparr>int_levels := (if irq_line_state \<noteq> 0 then old_levels OR irq else old_levels AND NOT irq)\<rparr>
      in if irq_line_state \<noteq> of_bool (tst old_levels irq) \<and> (irq_line_state \<noteq> 0 \<or> tst (int_mask s) MACIO_INT_MODE) then
           let s = s\<lparr>int_events := old_events OR irq\<rparr>
           in if old_events \<noteq> int_events s then signal_cpu_int s else Ret () s
         else Ret () s)"

definition ack_int :: "u64 \<Rightarrow> u8 \<Rightarrow> 'a gcentral_scheme \<Rightarrow> (unit, 'a gcentral_scheme) outcome" where
  "ack_int irq_id irq_line_state s = ack_int_common irq_id irq_line_state s"

definition ack_dma_int :: "u64 \<Rightarrow> u8 \<Rightarrow> 'a gcentral_scheme \<Rightarrow> (unit, 'a gcentral_scheme) outcome" where
  "ack_dma_int irq_id irq_line_state s = ack_int_common irq_id irq_line_state s"

definition clear_dma_int :: "u32 \<Rightarrow> 'a gcentral_scheme \<Rightarrow> (unit, 'a gcentral_scheme) outcome" where
  "clear_dma_int clear_flags s =
     (let clear_flags = clear_flags AND 0x7FF
      in if clear_flags = 0 then Ret () s
         else if tst (int_mask s) MACIO_INT_MODE then
           signal_cpu_int (s\<lparr>int_events := int_events s OR (int_levels s AND clear_flags),
                             int_levels := int_levels s AND NOT clear_flags\<rparr>)
         else Ret () (s\<lparr>int_levels := int_levels s AND NOT clear_flags\<rparr>))"

text \<open>The numbers of the interrupt lines; \<open>None\<close> is the fatal error for an unknown source.\<close>

datatype IntSrc = INT_UNKNOWN | VIA_CUDA | VIA2 | SCSI_MESH | SCSI_CURIO | SWIM3 | ESCC | SCCA | SCCB | ETHERNET | NMI | EXT1
  | IDE0 | IDE1 | DAVBUS | PERCH1 | PERCH2 | PCI_A | PCI_B | PCI_C | PCI_D | PCI_E | PCI_F | PCI_GPU | PCI_PERCH | BANDIT1
  | BANDIT2 | CONTROL | SIXTY6 | PLANB | VCI | PLATINUM | DMA_ALL | DMA_SCSI_MESH | DMA_SCSI_CURIO | DMA_SWIM3 | DMA_IDE0
  | DMA_IDE1 | DMA_SCCA_Tx | DMA_SCCA_Rx | DMA_SCCB_Tx | DMA_SCCB_Rx | DMA_DAVBUS_Tx | DMA_DAVBUS_Rx | DMA_ETHERNET_Tx
  | DMA_ETHERNET_Rx | FIREWIRE | PCI_J12 | PCI_J11 | PCI_J10 | PCI_J9 | ATA | USB | PIPPIN_E | PIPPIN_F | ZIVA | PCI_CARDBUS
  | MEDIA_BAY | SLOT_ALL | SLOT_0 | SLOT_1 | SLOT_2 | SLOT_PDS | SLOT_VDS | VBL | VALKYRIE | SCSI_CURIO2

definition dev_lines :: "(IntSrc \<times> nat) list" where
  "dev_lines = [(SCSI_CURIO, 0x0C), (SCSI_MESH, 0x0D), (ETHERNET, 0x0E), (SCCA, 0x0F), (SCCB, 0x10), (DAVBUS, 0x11),
     (VIA_CUDA, 0x12), (SWIM3, 0x13), (NMI, 0x14), (EXT1, 0x15), (BANDIT1, 0x16), (PCI_A, 0x17), (PCI_B, 0x18),
     (PCI_C, 0x19), (BANDIT2, 0x1A), (PCI_D, 0x1B), (PCI_E, 0x1C), (PCI_F, 0x1D), (CONTROL, 0x1A), (SIXTY6, 0x1B),
     (PLANB, 0x1C), (VCI, 0x1D), (PLATINUM, 0x1E), (PIPPIN_F, 0x1D), (PIPPIN_E, 0x1E)]"

definition register_dev_int :: "IntSrc \<Rightarrow> u64 option" where
  "register_dev_int src_id = map_option (\<lambda>n. push_bit n 1) (map_of dev_lines src_id)"

definition dma_lines :: "(IntSrc \<times> nat) list" where
  "dma_lines = [(DMA_SCSI_CURIO, 0), (DMA_SWIM3, 1), (DMA_ETHERNET_Tx, 2), (DMA_ETHERNET_Rx, 3), (DMA_SCCA_Tx, 4),
     (DMA_SCCA_Rx, 5), (DMA_SCCB_Tx, 6), (DMA_SCCB_Rx, 7), (DMA_DAVBUS_Tx, 8), (DMA_DAVBUS_Rx, 9), (DMA_SCSI_MESH, 0xA)]"

definition register_dma_int :: "IntSrc \<Rightarrow> u64 option" where
  "register_dma_int src_id = map_option (\<lambda>n. push_bit n 1) (map_of dma_lines src_id)"

subsection \<open>The Ethernet address ROM\<close>

definition mac_address :: "u8 list" where
  "mac_address = [0x08, 0x00, 0x07, 0x44, 0x55, 0x66, 0x00, 0x00]"

definition flip_bits :: "u8 \<Rightarrow> u8" where
  "flip_bits v = of_nat (unat ((ucast v * 0x0202020202 AND 0x010884422010) :: u64) mod 1023)"

definition enet_rom :: "u32 \<Rightarrow> u8" where
  "enet_rom offset =
     (let i = unat (drop_bit 4 offset AND 7) in if i < 6 then flip_bits (mac_address ! i) else mac_address ! i)"

subsection \<open>The IOBus\<close>

definition attach_iodevice :: "int \<Rightarrow> iobus_slot \<Rightarrow> 'a gcentral_scheme \<Rightarrow> 'a gcentral_scheme" where
  "attach_iodevice dev_num d s =
     (if 0 \<le> dev_num \<and> dev_num < 6 then s\<lparr>iobus_devs := (iobus_devs s)[nat dev_num := Some d]\<rparr> else s)"

definition slot_read :: "'a gcentral_scheme gc_env \<Rightarrow> iobus_slot \<Rightarrow> u32 \<Rightarrow> 'a gcentral_scheme \<Rightarrow> (u16, 'a gcentral_scheme) outcome option" where
  "slot_read e d a s =
     (case d of
        Iobus_addr_hi \<Rightarrow> Some (Ret (nvram_addr_hi (gc_nvram s)) s)
      | Iobus_nvram \<Rightarrow> Some (case nvram_dev_read a (gc_nvram s) of None \<Rightarrow> Abort ''NVRAM address out of range'' | Some v \<Rightarrow> Ret v s)
      | Iobus_other n \<Rightarrow> iodev_read e n a s)"

definition slot_write :: "'a gcentral_scheme gc_env \<Rightarrow> iobus_slot \<Rightarrow> u32 \<Rightarrow> u16 \<Rightarrow> 'a gcentral_scheme \<Rightarrow> (unit, 'a gcentral_scheme) outcome option" where
  "slot_write e d a v s =
     (case d of
        Iobus_addr_hi \<Rightarrow> Some (Ret () (s\<lparr>gc_nvram := addr_hi_write v (gc_nvram s)\<rparr>))
      | Iobus_nvram \<Rightarrow> Some (case nvram_dev_write a v (gc_nvram s) of None \<Rightarrow> Abort ''NVRAM address out of range''
                             | Some n \<Rightarrow> Ret () (s\<lparr>gc_nvram := n\<rparr>))
      | Iobus_other n \<Rightarrow> iodev_write e n a v s)"

text \<open>The value of an IOBus register as a read of \<open>size\<close> bytes at its byte \<open>offset AND 3\<close>.\<close>

definition iobus_value :: "u16 \<Rightarrow> u32 \<Rightarrow> nat \<Rightarrow> u32" where
  "iobus_value v offset sz =
     (let value = ucast v :: u64; value = value OR push_bit 32 value; value = drop_bit (unat (offset AND 3) * 8) value
      in if sz = 1 then ucast (ucast value :: u8)
         else if sz = 2 then ucast (BYTESWAP_16 (ucast value))
         else if sz = 4 then BYTESWAP_32 (ucast value) else 0)"

definition iobus_in :: "u32 \<Rightarrow> nat \<Rightarrow> u16" where
  "iobus_in value sz =
     (if sz = 1 then ucast (ucast value :: u8) else if sz = 2 then BYTESWAP_16 (ucast value)
      else if sz = 4 then ucast (BYTESWAP_32 value) else 0)"

subsection \<open>Register access\<close>

definition compat_to_macrisc :: "u32 list" where
  "compat_to_macrisc = [0, 2, 1, 3, 4, 5]"

text \<open>The device and register that an offset in the device space selects, for the devices that are not on the IOBus.\<close>

datatype gc_target = Gc_dev gc_dev u32 | Gc_enet_rom | Gc_iobus nat | Gc_none

definition gc_decode :: "u32 \<Rightarrow> gc_target" where
  "gc_decode offset =
     (let n = unat (drop_bit 12 offset AND 0xF); r = drop_bit 4 offset AND 0xF
      in if n = 0 then Gc_dev Curio r
         else if n = 1 then Gc_dev Mace (drop_bit 4 offset AND 0x1F)
         else if n = 2 \<and> offset AND 0xFF < 0x0C then Gc_dev Escc (compat_to_macrisc ! unat (drop_bit 1 offset AND 0xF))
         else if n = 2 \<and> offset AND 0xFF < 0x60 then Gc_none
         else if n = 2 \<or> n = 3 then Gc_dev Escc r
         else if n = 4 then Gc_dev Awacs (offset AND 0xFF)
         else if n = 5 then Gc_dev Swim3 r
         else if n = 6 \<or> n = 7 then Gc_dev ViaCuda (drop_bit 9 offset AND 0xF)
         else if n = 8 then Gc_dev Mesh r
         else if n = 9 then Gc_enet_rom
         else Gc_iobus (n - 10))"

definition gc_dma_channel :: "bool \<Rightarrow> u32 \<Rightarrow> nat option" where
  "gc_dma_channel mesh offset =
     (let ch = unat (drop_bit 8 offset AND 0x7F)
      in if ch \<in> {0, 1, 2, 3, 8, 9} \<or> ch = 0xA \<and> mesh then Some ch else None)"

definition gc_int_read :: "u32 \<Rightarrow> 'a gcentral_scheme \<Rightarrow> u32" where
  "gc_int_read offset s =
     (if offset = MIO_INT_EVENTS1 then BYTESWAP_32 (int_events s AND int_mask s)
      else if offset = MIO_INT_MASK1 then BYTESWAP_32 (int_mask s)
      else if offset = MIO_INT_LEVELS1 then BYTESWAP_32 (int_levels s OR 0x800)
      else 0)"

definition gc_read :: "'a gcentral_scheme gc_env \<Rightarrow> u32 \<Rightarrow> nat \<Rightarrow> 'a gcentral_scheme \<Rightarrow> (u32, 'a gcentral_scheme) outcome option" where
  "gc_read e offset sz s =
     (if tst offset 0x10000 then
        (case gc_decode offset of
           Gc_dev d r \<Rightarrow> sub_read e d r sz s
         | Gc_enet_rom \<Rightarrow> Some (Ret (ucast (enet_rom offset)) s)
         | Gc_none \<Rightarrow> Some (Ret 0 s)
         | Gc_iobus n \<Rightarrow>
             (case iobus_devs s ! n of
                None \<Rightarrow> Some (Ret 0 s)
              | Some d \<Rightarrow> map_option (\<lambda>r. obind r (\<lambda>v s. Ret (iobus_value v offset sz) s)) (slot_read e d (drop_bit 4 offset AND 0x1F) s)))
      else if tst offset 0x8000 then
        (case gc_dma_channel (has_mesh_dma e) offset of
           None \<Rightarrow> Some (Ret 0 s) | Some ch \<Rightarrow> dma_reg_read e ch (offset AND 0xFF) sz s)
      else Some (Ret (gc_int_read offset s) s))"

definition gc_int_write :: "u32 \<Rightarrow> u32 \<Rightarrow> 'a gcentral_scheme \<Rightarrow> (unit, 'a gcentral_scheme) outcome" where
  "gc_int_write offset value s =
     (if offset = MIO_INT_MASK1 then signal_cpu_int (clear_cpu_int (s\<lparr>int_mask := BYTESWAP_32 value\<rparr>))
      else if offset = MIO_INT_CLEAR1 then
        let value = BYTESWAP_32 value
        in if tst (int_mask s) MACIO_INT_MODE \<and> tst value MACIO_INT_CLR then Ret () (clear_cpu_int (s\<lparr>int_events := 0\<rparr>))
           else clear_dma_int value (clear_cpu_int (s\<lparr>int_events := int_events s AND NOT (value AND 0x7FFFFFFF)\<rparr>))
      else Ret () s)"

definition gc_write :: "'a gcentral_scheme gc_env \<Rightarrow> u32 \<Rightarrow> u32 \<Rightarrow> nat \<Rightarrow> 'a gcentral_scheme \<Rightarrow> (unit, 'a gcentral_scheme) outcome option" where
  "gc_write e offset value sz s =
     (if tst offset 0x10000 then
        (case gc_decode offset of
           Gc_dev d r \<Rightarrow> sub_write e d r value sz s
         | Gc_enet_rom \<Rightarrow> Some (Ret () s)
         | Gc_none \<Rightarrow> Some (Ret () s)
         | Gc_iobus n \<Rightarrow>
             (case iobus_devs s ! n of
                None \<Rightarrow> Some (Ret () s)
              | Some d \<Rightarrow> slot_write e d (drop_bit 4 offset AND 0x1F) (iobus_in value sz) s))
      else if tst offset 0x8000 then
        (case gc_dma_channel (has_mesh_dma e) offset of
           None \<Rightarrow> Some (Ret () s) | Some ch \<Rightarrow> dma_reg_write e ch (offset AND 0xFF) value sz s)
      else Some (gc_int_write offset value s))"

end
