(* ===== verification/GrandCentralExact.thy ===== *)
theory GrandCentralExact
  imports GrandCentral
begin

text \<open>
  Properties of Grand Central: its interrupt registers implement an abstract controller with one latch per line and drive
  the processor's interrupt pin; an interrupt is delivered and acknowledged; the NVRAM is reached
  through the IOBus; the Ethernet address ROM gives its bytes with their bits reversed.
\<close>

subsection \<open>The interrupt pin\<close>

text \<open>
  The contract of the two operations that drive the pin of the processor: \<open>signal\<close> raises it when an enabled event
  is there and it has not been raised, \<open>clear\<close> lowers it when no enabled event is left.
\<close>

locale irq_pin =
  fixes pend latch pin :: "'s \<Rightarrow> bool" and signal :: "'s \<Rightarrow> (unit, 's) outcome" and clear :: "'s \<Rightarrow> 's"
  assumes signal_law: "\<exists>t. signal s = Ret () t \<and> pend t = pend s \<and> latch t = (latch s \<or> pend s) \<and> pin t = (pin s \<or> pend s \<and> \<not> latch s)"
    and clear_law: "pend (clear s) = pend s" "latch (clear s) = (latch s \<and> pend s)" "pin (clear s) = (pin s \<and> (pend s \<or> \<not> latch s))"
begin

lemma raise_ok: "pin s = latch s \<Longrightarrow> (latch s \<Longrightarrow> pend s) \<Longrightarrow> \<exists>t. signal s = Ret () t \<and> latch t = pend t \<and> pin t = latch t"
  using signal_law[of s] by auto

lemma lower_ok: "pin s = latch s \<Longrightarrow> (pend s \<Longrightarrow> latch s) \<Longrightarrow> latch (clear s) = pend (clear s) \<and> pin (clear s) = latch (clear s)"
  using clear_law[of s] by auto

lemma settle_ok: "pin s = latch s \<Longrightarrow> \<exists>t. signal (clear s) = Ret () t \<and> latch t = pend t \<and> pin t = latch t"
  using raise_ok[of "clear s"] clear_law[of s] by auto

end

definition gc_pend :: "'a gcentral_scheme \<Rightarrow> bool" where
  "gc_pend s \<longleftrightarrow> tst (int_events s) (int_mask s)"

lemma gc_more: "mmu.more s = mmu.more t \<Longrightarrow> int_mask s = int_mask t \<and> int_levels s = int_levels t \<and> int_events s = int_events t \<and>
    cpu_int_latch s = cpu_int_latch t \<and> iobus_devs s = iobus_devs t \<and> gc_nvram s = gc_nvram t" for s t :: "'a gcentral_scheme"
  by (cases s; cases t; simp)

lemma assert_int:
  fixes s :: "'a mmu_scheme"
  obtains t where "ppc_assert_int s = Ret () t" "mmu.more t = mmu.more s" "int_pin t"
    "t = (if tst (msr s) MSR_EE then exc_state EXC_EXT_INT 0 (pc_or_next 4 (s\<lparr>int_pin := True\<rparr>)) (s\<lparr>int_pin := True\<rparr>) else s\<lparr>int_pin := True\<rparr>)"
proof -
  let ?t = "if tst (msr s) MSR_EE then exc_state EXC_EXT_INT 0 (pc_or_next 4 (s\<lparr>int_pin := True\<rparr>)) (s\<lparr>int_pin := True\<rparr>) else s\<lparr>int_pin := True\<rparr>"
  have "ppc_assert_int s = Ret () ?t"
    using handler_eq[of EXC_EXT_INT "s\<lparr>int_pin := True\<rparr>"] by (simp add: ppc_assert_int_def Let_def)
  moreover have "mmu.more ?t = mmu.more s" by (simp add: frame) 
  moreover have "int_pin ?t" by (simp add: frame)
  ultimately show thesis using that by blast
qed

lemma signal_eq:
  fixes s :: "'a gcentral_scheme"
  obtains t where "signal_cpu_int s = Ret () t" "int_mask t = int_mask s" "int_levels t = int_levels s" "int_events t = int_events s"
    "cpu_int_latch t = (cpu_int_latch s \<or> gc_pend s)" "int_pin t = (int_pin s \<or> gc_pend s \<and> \<not> cpu_int_latch s)"
    "iobus_devs t = iobus_devs s" "gc_nvram t = gc_nvram s"
proof (cases "gc_pend s \<and> \<not> cpu_int_latch s")
  case True
  obtain t where t: "ppc_assert_int (s\<lparr>cpu_int_latch := True\<rparr>) = Ret () t" "mmu.more t = mmu.more (s\<lparr>cpu_int_latch := True\<rparr>)" "int_pin t"
    by (rule assert_int)
  then show thesis using that[of t] gc_more[OF t(2)] True by (simp add: signal_cpu_int_def gc_pend_def)
next
  case False
  then show thesis using that[of s] by (auto simp: signal_cpu_int_def gc_pend_def)
qed

interpretation gc: irq_pin "gc_pend :: 'a gcentral_scheme \<Rightarrow> bool" cpu_int_latch int_pin signal_cpu_int clear_cpu_int
proof
  fix s :: "'a gcentral_scheme"
  obtain t where "signal_cpu_int s = Ret () t" "int_mask t = int_mask s" "int_events t = int_events s"
    "cpu_int_latch t = (cpu_int_latch s \<or> gc_pend s)" "int_pin t = (int_pin s \<or> gc_pend s \<and> \<not> cpu_int_latch s)"
    by (rule signal_eq)
  then show "\<exists>t. signal_cpu_int s = Ret () t \<and> gc_pend t = gc_pend s \<and> cpu_int_latch t = (cpu_int_latch s \<or> gc_pend s) \<and>
      int_pin t = (int_pin s \<or> gc_pend s \<and> \<not> cpu_int_latch s)"
    by (simp add: gc_pend_def)
qed (auto simp: clear_cpu_int_def ppc_release_int_def gc_pend_def)


subsection \<open>The abstract controller\<close>

text \<open>
  Sets of line numbers: the enabled ones (31 selects the mode), those that are high, those with a latched event. What happens is
  a change of a line or a write of a register of the interrupt block.
\<close>

record irq =
  en :: "nat set"
  lev :: "nat set"
  evt :: "nat set"

datatype gc_event = Line nat bool | Reg u32 u32 nat

definition bits_of :: "'a::len word \<Rightarrow> nat set" where
  "bits_of w = {i. bit w i}"

fun irq_step :: "gc_event \<Rightarrow> irq \<Rightarrow> irq" where
  "irq_step (Line i b) q =
     q\<lparr>lev := (if b then insert i (lev q) else lev q - {i}),
       evt := (if b \<noteq> (i \<in> lev q) \<and> (b \<or> 31 \<in> en q) then insert i (evt q) else evt q)\<rparr>"
| "irq_step (Reg off v sz) q =
     (let c = bits_of (BYTESWAP_32 v)
      in if off = MIO_INT_MASK1 then q\<lparr>en := c\<rparr>
         else if off = MIO_INT_CLEAR1 then
           if 31 \<in> en q \<and> 31 \<in> c then q\<lparr>evt := {}\<rparr>
           else q\<lparr>lev := lev q - (c \<inter> {..10}), evt := (evt q - (c - {31})) \<union> (if 31 \<in> en q then lev q \<inter> c \<inter> {..10} else {})\<rparr>
         else q)"

fun gc_event_ok :: "gc_event \<Rightarrow> bool" where
  "gc_event_ok (Line i b) \<longleftrightarrow> i < 32"
| "gc_event_ok (Reg off v sz) \<longleftrightarrow> off < 0x8000"

fun gc_do :: "'a gcentral_scheme gc_env \<Rightarrow> gc_event \<Rightarrow> 'a gcentral_scheme \<Rightarrow> (unit, 'a gcentral_scheme) outcome option" where
  "gc_do e (Line i b) s = Some (ack_int (push_bit i 1) (of_bool b) s)"
| "gc_do e (Reg off v sz) s = gc_write e off v sz s"

fun gc_run :: "'a gcentral_scheme gc_env \<Rightarrow> gc_event list \<Rightarrow> 'a gcentral_scheme \<Rightarrow> (unit, 'a gcentral_scheme) outcome option" where
  "gc_run e [] s = Some (Ret () s)"
| "gc_run e (ev # evs) s = (case gc_do e ev s of Some (Ret _ t) \<Rightarrow> gc_run e evs t | r \<Rightarrow> r)"

definition irq_abs :: "'a gcentral_scheme \<Rightarrow> irq" where
  "irq_abs s = \<lparr>en = bits_of (int_mask s), lev = bits_of (int_levels s), evt = bits_of (int_events s)\<rparr>"

definition gc_inv :: "'a gcentral_scheme \<Rightarrow> bool" where
  "gc_inv s \<longleftrightarrow> cpu_int_latch s = gc_pend s \<and> int_pin s = cpu_int_latch s"

lemma bits_of_simps:
  "bits_of (a OR b) = bits_of a \<union> bits_of b" "bits_of (a AND b) = bits_of a \<inter> bits_of b" "bits_of 0 = {}"
  by (auto simp: bits_of_def bit_simps)

lemma bits_of_andnot: "bits_of (a AND NOT b) = bits_of a - bits_of b"
  by (auto simp: bits_of_def bit_simps dest: bit_imp_le_length)

lemma bits_of_push: "i < LENGTH('a) \<Longrightarrow> bits_of (2 ^ i :: 'a::len word) = {i}"
  by (auto simp: bits_of_def bit_simps)

lemma bits_of_mask: "bits_of (v AND mask n) = bits_of v \<inter> {..<n}"
  by (auto simp: bits_of_def bit_simps dest: bit_imp_le_length)

lemma bits_of_dma: "bits_of (v AND 0x7FF) = bits_of v \<inter> {..10}"
  using bits_of_mask[of v 11] by (simp add: mask_eq_exp_minus_1 flip: lessThan_Suc_atMost)

lemma bits_of_low: "bits_of (v AND 0x7FFFFFFF) = bits_of v - {31}" for v :: u32
proof -
  have "bit v i \<Longrightarrow> i < 32" for i using bit_imp_le_length[of v i] by simp
  then have "bits_of v \<inter> {..<31} = bits_of v - {31}" unfolding bits_of_def by (force simp: less_Suc_eq)
  then show ?thesis using bits_of_mask[of v 31] by (simp add: mask_eq_exp_minus_1)
qed

lemma mode_bit: "tst m MACIO_INT_MODE \<longleftrightarrow> 31 \<in> bits_of m"
  using tst_pow2[of m 31] by (simp add: bits_of_def)

lemma tst_sets: "tst a b \<longleftrightarrow> bits_of b \<inter> bits_of a \<noteq> {}"
  by (auto simp: tst_def bits_of_def bit_eq_iff bit_simps dest: bit_imp_le_length)

lemma gc_pend_sets: "gc_pend s \<longleftrightarrow> en (irq_abs s) \<inter> evt (irq_abs s) \<noteq> {}"
  by (simp add: gc_pend_def irq_abs_def tst_sets)

lemma signal_abs: "signal_cpu_int s = Ret () t \<Longrightarrow> irq_abs t = irq_abs s"
  by (rule signal_eq[of s]) (simp add: irq_abs_def)

lemma clear_abs [simp]: "irq_abs (clear_cpu_int s) = irq_abs s"
  by (simp add: irq_abs_def clear_cpu_int_def ppc_release_int_def)


lemma ucast_line: "i < 32 \<Longrightarrow> (ucast (2 ^ i :: u64) :: u32) = 2 ^ i"
  by (rule bit_word_eqI) (auto simp: bit_simps)

lemma tst_line: "i < LENGTH('a) \<Longrightarrow> tst w (2 ^ i) \<longleftrightarrow> i \<in> bits_of w" for w :: "'a::len word"
  by (simp add: tst_sets bits_of_push)

text \<open>Raising events, then signalling; lowering events or the mask.\<close>

lemma raise_step:
  assumes "gc_inv s" "bits_of (int_events s) \<subseteq> bits_of ev"
  shows "\<exists>t. signal_cpu_int (s\<lparr>int_levels := l, int_events := ev\<rparr>) = Ret () t \<and> gc_inv t \<and>
    irq_abs t = (irq_abs s)\<lparr>lev := bits_of l, evt := bits_of ev\<rparr>"
proof -
  let ?s = "s\<lparr>int_levels := l, int_events := ev\<rparr>"
  have "cpu_int_latch ?s \<Longrightarrow> gc_pend ?s" "int_pin ?s = cpu_int_latch ?s" using assms by (auto simp: gc_inv_def gc_pend_def tst_sets)
  then obtain t where t: "signal_cpu_int ?s = Ret () t" "cpu_int_latch t = gc_pend t" "int_pin t = cpu_int_latch t"
    using gc.raise_ok[of ?s] by blast
  then show ?thesis using signal_abs[OF t(1)] by (auto simp: gc_inv_def irq_abs_def)
qed

lemma line_step:
  assumes "gc_inv s" "i < 32"
  shows "\<exists>t. ack_int (push_bit i 1) (of_bool b) s = Ret () t \<and> gc_inv t \<and> irq_abs t = irq_step (Line i b) (irq_abs s)"
proof -
  let ?q = "2 ^ i :: u32" let ?l = "if b then int_levels s OR ?q else int_levels s AND NOT ?q" and ?e = "int_events s OR ?q"
  have l: "bits_of ?l = (if b then insert i (lev (irq_abs s)) else lev (irq_abs s) - {i})"
    using assms(2) by (simp add: bits_of_simps(1) bits_of_andnot bits_of_push irq_abs_def)
  have e: "bits_of ?e = insert i (evt (irq_abs s))" using assms(2) by (simp add: bits_of_simps bits_of_push irq_abs_def)
  have t: "tst (int_levels s) ?q \<longleftrightarrow> i \<in> lev (irq_abs s)" using assms(2) by (simp add: tst_line irq_abs_def)
  have m: "tst (int_mask s) MACIO_INT_MODE \<longleftrightarrow> 31 \<in> en (irq_abs s)" by (simp add: mode_bit irq_abs_def)
  have same: "gc_inv (s\<lparr>int_levels := ?l\<rparr>)" using assms(1) by (simp add: gc_inv_def gc_pend_def)
  show ?thesis
  proof (cases "b \<noteq> (i \<in> lev (irq_abs s)) \<and> (b \<or> 31 \<in> en (irq_abs s)) \<and> int_events s \<noteq> ?e")
    case True
    then have "ack_int (push_bit i 1) (of_bool b) s = signal_cpu_int (s\<lparr>int_levels := ?l, int_events := ?e\<rparr>)"
      using assms(2) by (auto simp: ack_int_def ack_int_common_def ucast_line t m Let_def)
    moreover have "bits_of (int_events s) \<subseteq> bits_of ?e" by (auto simp: bits_of_simps)
    ultimately show ?thesis using raise_step[OF assms(1), of ?e ?l] True l e by auto
  next
    case False
    then have r: "ack_int (push_bit i 1) (of_bool b) s = Ret () (s\<lparr>int_levels := ?l\<rparr>)"
      using assms(2) by (auto simp: ack_int_def ack_int_common_def ucast_line t m Let_def)
    have "insert i (evt (irq_abs s)) = evt (irq_abs s)" if "b \<noteq> (i \<in> lev (irq_abs s)) \<and> (b \<or> 31 \<in> en (irq_abs s))"
    proof -
      have "?e = int_events s" using False that by auto
      then show ?thesis unfolding e[symmetric] by (simp only: irq_abs_def irq.select_convs)
    qed
    then show ?thesis using r same l by (auto simp: irq_abs_def)
  qed
qed

lemma clear_dma_step:
  assumes "gc_inv s"
  shows "\<exists>t. clear_dma_int v s = Ret () t \<and> gc_inv t \<and> irq_abs t = (irq_abs s)\<lparr>lev := lev (irq_abs s) - (bits_of v \<inter> {..10}),
    evt := evt (irq_abs s) \<union> (if 31 \<in> en (irq_abs s) then lev (irq_abs s) \<inter> bits_of v \<inter> {..10} else {})\<rparr>"
proof -
  let ?f = "v AND 0x7FF" let ?l = "int_levels s AND NOT ?f" and ?e = "int_events s OR (int_levels s AND ?f)"
  have m: "tst (int_mask s) MACIO_INT_MODE \<longleftrightarrow> 31 \<in> en (irq_abs s)" by (simp add: mode_bit irq_abs_def)
  have f: "bits_of ?f = bits_of v \<inter> {..10}" by (rule bits_of_dma)
  consider "?f = 0" | "?f \<noteq> 0" "31 \<in> en (irq_abs s)" | "?f \<noteq> 0" "31 \<notin> en (irq_abs s)" by blast
  then show ?thesis
  proof cases
    case 1
    then have "bits_of v \<inter> {..10} = {}" using f by (simp add: bits_of_simps)
    then have "(irq_abs s)\<lparr>lev := lev (irq_abs s) - (bits_of v \<inter> {..10}),
      evt := evt (irq_abs s) \<union> (if 31 \<in> en (irq_abs s) then lev (irq_abs s) \<inter> bits_of v \<inter> {..10} else {})\<rparr> = irq_abs s"
      by (simp add: Int_assoc irq_abs_def)
    then show ?thesis using 1 assms by (simp add: clear_dma_int_def)
  next
    case 2
    then have "clear_dma_int v s = signal_cpu_int (s\<lparr>int_levels := ?l, int_events := ?e\<rparr>)"
      using m unfolding clear_dma_int_def Let_def by (simp only: if_False if_True) (cases s; simp)
    moreover have "bits_of (int_events s) \<subseteq> bits_of ?e" by (auto simp: bits_of_simps)
    moreover have "bits_of ?l = lev (irq_abs s) - (bits_of v \<inter> {..10})" "bits_of ?e = evt (irq_abs s) \<union> lev (irq_abs s) \<inter> bits_of v \<inter> {..10}"
      by (simp_all only: bits_of_andnot bits_of_simps(1) bits_of_simps(2)[of "int_levels s"] bits_of_dma) (simp_all add: irq_abs_def Int_assoc)
    ultimately show ?thesis using raise_step[OF assms, of ?e ?l] 2 by auto
  next
    case 3
    then have "clear_dma_int v s = Ret () (s\<lparr>int_levels := ?l\<rparr>)" using m by (simp add: clear_dma_int_def Let_def)
    moreover have "gc_inv (s\<lparr>int_levels := ?l\<rparr>)" using assms by (simp add: gc_inv_def gc_pend_def)
    moreover have "bits_of ?l = lev (irq_abs s) - (bits_of v \<inter> {..10})"
      unfolding bits_of_andnot bits_of_dma by (simp add: irq_abs_def)
    ultimately show ?thesis using 3 by (auto simp: irq_abs_def)
  qed
qed

lemma lower_step:
  assumes "gc_inv s" "bits_of ev \<subseteq> bits_of (int_events s)"
  shows "gc_inv (clear_cpu_int (s\<lparr>int_events := ev\<rparr>)) \<and> irq_abs (clear_cpu_int (s\<lparr>int_events := ev\<rparr>)) = (irq_abs s)\<lparr>evt := bits_of ev\<rparr>"
proof -
  let ?s = "s\<lparr>int_events := ev\<rparr>"
  have "gc_pend ?s \<Longrightarrow> cpu_int_latch ?s" "int_pin ?s = cpu_int_latch ?s" using assms by (auto simp: gc_inv_def gc_pend_def tst_sets)
  then show ?thesis using gc.lower_ok[of ?s] by (simp add: gc_inv_def) (simp add: irq_abs_def)
qed


lemma low_offset: "off < 0x8000 \<Longrightarrow> 15 \<le> k \<Longrightarrow> \<not> tst off (2 ^ k)" for off :: u32
proof -
  assume "off < 0x8000" "15 \<le> k"
  have "unat off < 2 ^ 15" using \<open>off < 0x8000\<close> by (simp add: word_less_nat_alt)
  also have "\<dots> \<le> 2 ^ k" using \<open>15 \<le> k\<close> by (intro power_increasing) simp_all
  finally have "\<not> bit (unat off) k" by (simp add: bit_iff_odd)
  then show ?thesis by (simp add: tst_pow2 bit_unsigned_iff)
qed

lemma reg_step:
  assumes "gc_inv s" "off < 0x8000"
  shows "\<exists>t. gc_write e off v sz s = Some (Ret () t) \<and> gc_inv t \<and> irq_abs t = irq_step (Reg off v sz) (irq_abs s)"
proof -
  have "\<not> tst off 0x10000" "\<not> tst off 0x8000"
    using low_offset[OF assms(2), of 16] low_offset[OF assms(2), of 15] by simp_all
  then have w: "gc_write e off v sz s = Some (gc_int_write off v s)" by (simp add: gc_write_def)
  let ?v = "BYTESWAP_32 v"
  have m: "tst x MACIO_INT_MODE \<longleftrightarrow> 31 \<in> bits_of x" for x by (rule mode_bit)
  consider (mask) "off = MIO_INT_MASK1" | (all) "off = MIO_INT_CLEAR1" "31 \<in> en (irq_abs s)" "31 \<in> bits_of ?v"
    | (clear) "off = MIO_INT_CLEAR1" "\<not> (31 \<in> en (irq_abs s) \<and> 31 \<in> bits_of ?v)" | (other) "off \<noteq> MIO_INT_MASK1" "off \<noteq> MIO_INT_CLEAR1" by blast
  then show ?thesis
  proof cases
    case mask
    let ?s = "s\<lparr>int_mask := ?v\<rparr>"
    have "int_pin ?s = cpu_int_latch ?s" using assms(1) by (simp add: gc_inv_def)
    then obtain t where t: "signal_cpu_int (clear_cpu_int ?s) = Ret () t" "cpu_int_latch t = gc_pend t" "int_pin t = cpu_int_latch t"
      using gc.settle_ok[of ?s] by blast
    have "irq_abs t = irq_abs ?s" using signal_abs[OF t(1)] by simp
    then have "irq_abs t = (irq_abs s)\<lparr>en := bits_of ?v\<rparr>" by (simp add: irq_abs_def)
    then show ?thesis using w t mask by (simp add: gc_int_write_def gc_inv_def Let_def)
  next
    case all
    then have "gc_int_write off v s = Ret () (clear_cpu_int (s\<lparr>int_events := 0\<rparr>))" by (simp add: gc_int_write_def m irq_abs_def)
    then show ?thesis using w all lower_step[OF assms(1), of 0] by (simp add: bits_of_simps Let_def)
  next
    case clear
    let ?e = "int_events s AND NOT (?v AND 0x7FFFFFFF)" let ?s = "clear_cpu_int (s\<lparr>int_events := ?e\<rparr>)"
    have "gc_int_write off v s = clear_dma_int ?v ?s" using clear unfolding gc_int_write_def Let_def m by (auto simp: irq_abs_def)
    moreover have e: "bits_of ?e = evt (irq_abs s) - (bits_of ?v - {31})" by (simp only: bits_of_andnot bits_of_low) (simp add: irq_abs_def)
    moreover have l: "gc_inv ?s \<and> irq_abs ?s = (irq_abs s)\<lparr>evt := bits_of ?e\<rparr>"
      by (rule lower_step[OF assms(1)]) (simp only: bits_of_andnot Diff_subset)
    ultimately show ?thesis using w clear clear_dma_step[of ?s ?v] by (auto simp: Let_def)
  next
    case other
    then show ?thesis using w assms(1) by (simp add: gc_int_write_def Let_def)
  qed
qed

lemma gc_run_refines:
  "gc_inv s \<Longrightarrow> list_all gc_event_ok evs \<Longrightarrow> \<exists>t. gc_run e evs s = Some (Ret () t) \<and> gc_inv t \<and> irq_abs t = fold irq_step evs (irq_abs s)"
proof (induction evs arbitrary: s)
  case (Cons ev evs)
  have "\<exists>t. gc_do e ev s = Some (Ret () t) \<and> gc_inv t \<and> irq_abs t = irq_step ev (irq_abs s)"
    using Cons.prems line_step[of s] reg_step[of s] by (cases ev) auto
  then show ?case using Cons by fastforce
qed simp

text \<open>
  C9: The interrupt controller of Grand Central implements the abstract one. From any state in which the latch and the
  processor's pin agree with the enabled events, every sequence of line changes and of writes to the
  interrupt registers returns and goes through the abstract states: in native mode a line latches an event when it
  goes high, in 68k mode on both edges; the clear register takes events away, lowers DMA lines, and in 68k mode
  latches those again that were high, or clears everything. Throughout, the pin is high exactly when an enabled event is there.
\<close>

theorem gc_interrupts_refine:
  assumes "cpu_int_latch s = tst (int_events s) (int_mask s)" "int_pin s = cpu_int_latch s" "list_all gc_event_ok evs"
  shows "\<exists>t. gc_run e evs s = Some (Ret () t) \<and> irq_abs t = fold irq_step evs (irq_abs s) \<and>
    int_pin t = (en (irq_abs t) \<inter> evt (irq_abs t) \<noteq> {}) \<and> cpu_int_latch t = int_pin t"
  using gc_run_refines[of s evs e] assms gc_pend_sets by (fastforce simp: gc_inv_def gc_pend_def)


subsection \<open>Delivery\<close>

lemma line_masks:
  fixes i :: nat
  assumes "i < 31"
  shows "(2 ^ i :: u32) AND 0x7FFFFFFF = 2 ^ i" "(2 ^ i :: u32) AND 0x7FF = (if i \<le> 10 then 2 ^ i else 0)" "\<not> tst (2 ^ i :: u32) 0x80000000"
proof -
  have m: "(0x7FFFFFFF :: u32) = mask 31" "(0x7FF :: u32) = mask 11" by (simp_all add: mask_eq_exp_minus_1)
  show "(2 ^ i :: u32) AND 0x7FFFFFFF = 2 ^ i" unfolding m by (rule bit_word_eqI) (use assms in \<open>auto simp: bit_simps\<close>)
  show "(2 ^ i :: u32) AND 0x7FF = (if i \<le> 10 then 2 ^ i else 0)" unfolding m by (rule bit_word_eqI) (use assms in \<open>auto simp: bit_simps\<close>)
  show "\<not> tst (2 ^ i :: u32) 0x80000000" using assms by (auto simp: mode_bit bits_of_push)
qed

lemma set_reset_line:
  fixes a :: "'a::len word"
  shows "(a OR 2 ^ i) AND NOT (2 ^ i) = a AND NOT (2 ^ i)" "\<not> bit a i \<Longrightarrow> a AND NOT (2 ^ i) = a"
    "a AND m = 0 \<Longrightarrow> bit m i \<Longrightarrow> (a OR 2 ^ i) AND m = 2 ^ i"
proof -
  show "(a OR 2 ^ i) AND NOT (2 ^ i) = a AND NOT (2 ^ i)" by (rule bit_word_eqI) (auto simp: bit_simps)
  show "\<not> bit a i \<Longrightarrow> a AND NOT (2 ^ i) = a" by (rule bit_word_eqI) (auto simp: bit_simps)
  assume "a AND m = 0" "bit m i"
  then have "\<not> (bit a n \<and> bit m n)" for n by (metis bit_and_iff bit_0_eq bot_apply bot_bool_def)
  with \<open>bit m i\<close> show "(a OR 2 ^ i) AND m = 2 ^ i" by (intro bit_word_eqI) (auto simp: bit_simps)
qed

text \<open>
  C10: An interrupt is delivered and acknowledged. Let interrupts be enabled in the processor, line \<open>i\<close> be enabled and low and no
  other enabled event latched; in 68k mode let it be a device's line (acknowledging a DMA line latches that one again there). When the line goes high, the processor is at the external interrupt vector with the
  return address saved and interrupts off, and the events register shows the line. Writing the line's bit
  to the clear register then lowers the pin and the event, and the processor's state does not change otherwise.
\<close>

theorem gc_interrupt_service:
  assumes "cpu_int_latch s = tst (int_events s) (int_mask s)" "int_pin s = cpu_int_latch s"
    and "i < 31" "bit (int_mask s) i" "\<not> bit (int_levels s) i" "int_events s AND int_mask s = 0" "\<not> bit (int_mask s) 31 \<or> 10 < i" "tst (msr s) MSR_EE"
  shows "\<exists>t u. ack_int (push_bit i 1) 1 s = Ret () t \<and>
    ppc_next_instruction_address t = (if tst (msr s) MSR_IP then 0xFFF00500 else 0x500) \<and> spr t SPR_SRR0 = pc_or_next 4 s \<and>
    \<not> tst (msr t) MSR_EE \<and> exec_flags t = EXEF_EXCEPTION \<and> int_pin t \<and> gc_int_read MIO_INT_EVENTS1 t = BYTESWAP_32 (push_bit i 1) \<and>
    gc_write e MIO_INT_CLEAR1 (BYTESWAP_32 (push_bit i 1)) 4 t = Some (Ret () u) \<and>
    \<not> int_pin u \<and> gc_int_read MIO_INT_EVENTS1 u = 0 \<and>
    u = t\<lparr>int_pin := False, cpu_int_latch := False, int_events := int_events s AND NOT (push_bit i 1),
          int_levels := (if i \<le> 10 then int_levels s else int_levels s OR push_bit i 1)\<rparr>"
proof -
  let ?q = "2 ^ i :: u32"
  let ?s = "s\<lparr>int_levels := int_levels s OR ?q, int_events := int_events s OR ?q, cpu_int_latch := True\<rparr>"
  have off: "\<not> cpu_int_latch s" "\<not> int_pin s" using assms(1,2,6) by (simp_all add: tst_def)
  have low: "\<not> tst (int_levels s) ?q" using assms(5) by (simp add: tst_pow2)
  have ev: "(int_events s OR ?q) AND int_mask s = ?q" using set_reset_line(3)[OF assms(6,4)] .
  have "int_events s \<noteq> int_events s OR ?q"
    using assms(3,6) ev by auto
  then have "ack_int (push_bit i 1) 1 s = signal_cpu_int (s\<lparr>int_levels := int_levels s OR ?q, int_events := int_events s OR ?q\<rparr>)"
    using assms(3) low by (simp add: ack_int_def ack_int_common_def ucast_line Let_def)
  also have "\<dots> = ppc_assert_int ?s" using ev off(1) assms(3) by (simp add: signal_cpu_int_def tst_def)
  finally have ack: "ack_int (push_bit i 1) 1 s = ppc_assert_int ?s" .
  obtain t where t: "ppc_assert_int ?s = Ret () t" "mmu.more t = mmu.more ?s" "int_pin t"
    "t = exc_state EXC_EXT_INT 0 (pc_or_next 4 (?s\<lparr>int_pin := True\<rparr>)) (?s\<lparr>int_pin := True\<rparr>)"
    using assms(8) by (rule_tac s = ?s in assert_int) simp
  have g: "int_mask t = int_mask s" "int_levels t = int_levels s OR ?q" "int_events t = int_events s OR ?q" "cpu_int_latch t"
    using gc_more[OF t(2)] by simp_all
  have cpu: "ppc_next_instruction_address t = (if tst (msr s) MSR_IP then 0xFFF00500 else 0x500)" "spr t SPR_SRR0 = pc_or_next 4 s"
    "\<not> tst (msr t) MSR_EE" "exec_flags t = EXEF_EXCEPTION"
    unfolding t(4) by (simp_all add: frame exc_vector_def tst_bits exc_msr_bits pc_or_next_def exc_code_def)
  let ?u = "t\<lparr>int_pin := False, cpu_int_latch := False, int_events := int_events s AND NOT ?q,
          int_levels := (if i \<le> 10 then int_levels s else int_levels s OR ?q)\<rparr>"
  have "(int_events s AND NOT ?q) AND int_mask s = (int_events s AND int_mask s) AND NOT ?q" by (simp only: ac_simps)
  then have off: "\<not> tst (int_events s AND NOT ?q) (int_mask s)" using assms(6) by (simp add: tst_def)
  then have c: "clear_cpu_int (t\<lparr>int_events := int_events s AND NOT ?q\<rparr>) = t\<lparr>int_events := int_events s AND NOT ?q, cpu_int_latch := False, int_pin := False\<rparr>"
    using g by (simp add: clear_cpu_int_def ppc_release_int_def)
  have mode: "\<not> tst (int_mask t) MACIO_INT_MODE \<or> 10 < i" using assms(7) g by (auto simp: mode_bit bits_of_def)
  have e: "int_events t AND NOT (?q AND 0x7FFFFFFF) = int_events s AND NOT ?q"
    unfolding g line_masks(1)[OF assms(3)] by (rule set_reset_line)
  have l: "int_levels t AND NOT ?q = int_levels s" unfolding g set_reset_line(1) using assms(5) by (rule set_reset_line)
  have "gc_int_write MIO_INT_CLEAR1 (BYTESWAP_32 ?q) t = clear_dma_int ?q (clear_cpu_int (t\<lparr>int_events := int_events s AND NOT ?q\<rparr>))"
    unfolding gc_int_write_def BYTESWAP_32_involution Let_def e using line_masks(3)[OF assms(3)] by simp
  also have "\<dots> = Ret () ?u"
    unfolding c clear_dma_int_def line_masks(2)[OF assms(3)] Let_def using mode l g(2) by (cases t) auto
  finally have "gc_write e MIO_INT_CLEAR1 (BYTESWAP_32 (push_bit i 1)) 4 t = Some (Ret () ?u)"
    using low_offset[of MIO_INT_CLEAR1 16] low_offset[of MIO_INT_CLEAR1 15] by (simp add: gc_write_def)
  moreover have "gc_int_read MIO_INT_EVENTS1 ?u = 0"
    using off g by (simp add: gc_int_read_def tst_def BYTESWAP_32_def)
  ultimately show ?thesis using ack t(1,3) cpu ev g by (auto simp: gc_int_read_def)
qed


subsection \<open>The Ethernet address ROM\<close>

lemma flipped_address: "map flip_bits (take 6 mac_address) = [0x10, 0, 0xE0, 0x22, 0xAA, 0x66]"
  by (simp add: mac_address_def flip_bits_def)

lemma enet_rom_bytes: "map (\<lambda>i. enet_rom (0x19000 + 16 * i)) [0, 1, 2, 3, 4, 5] = [0x10, 0, 0xE0, 0x22, 0xAA, 0x66]"
  by (simp add: enet_rom_def mac_address_def flip_bits_def drop_bit_eq_div)

subsection \<open>The NVRAM behind the IOBus\<close>

lemma nvram_decode:
  assumes "a < 32"
  defines "x \<equiv> 0x1F000 + 16 * of_nat a :: u32"
  shows "gc_decode x = Gc_iobus 5" "drop_bit 4 x AND 0x1F = of_nat a" "tst x 0x10000" "x AND 3 = 0"
proof -
  have ux: "unat x = 126976 + 16 * a" using assms by (simp add: x_def unat_word_ariths unat_of_nat)
  have d12: "drop_bit 12 x = 31" unfolding word_unat_eq_iff unat_drop_bit_eq ux using assms(1) by (simp add: drop_bit_eq_div)
  have d4: "unat (drop_bit 4 x) = 7936 + a" unfolding unat_drop_bit_eq ux using assms(1) by (simp add: drop_bit_eq_div)
  have d16: "drop_bit 16 x = 1" unfolding word_unat_eq_iff unat_drop_bit_eq ux using assms(1) by (simp add: drop_bit_eq_div)
  show "gc_decode x = Gc_iobus 5" by (simp add: gc_decode_def d12)
  have m: "(0x1F :: u32) = mask 5" "(3 :: u32) = mask 2" by (simp_all add: mask_eq_exp_minus_1)
  have "(7936 + a) mod 32 = a" using assms(1) by presburger
  then show "drop_bit 4 x AND 0x1F = of_nat a"
    unfolding m take_bit_eq_mask[symmetric] word_unat_eq_iff unsigned_take_bit_eq d4 using assms(1) by (simp add: take_bit_eq_mod unat_of_nat)
  have "bit (drop_bit 16 x) 0" by (simp add: d16 bit_0)
  then have "bit x 16" by (simp add: bit_drop_bit_eq)
  then show "tst x 0x10000" using tst_pow2[of x 16] by simp
  have "(126976 + 16 * a) mod 4 = 0" by presburger
  then show "x AND 3 = 0" unfolding m take_bit_eq_mask[symmetric] word_unat_eq_iff unsigned_take_bit_eq ux by (simp add: take_bit_eq_mod)
qed

text \<open>
  C13: The guest reaches the NVRAM through two registers of Grand Central. A byte written to the data window, after its page has
  been written to the high address register, is the one that the data window reads back, and no other byte of the NVRAM changes.
\<close>

theorem gc_nvram_access:
  assumes "iobus_devs s ! 3 = Some Iobus_addr_hi" "iobus_devs s ! 5 = Some Iobus_nvram" "a < 32"
    and "unat hi * 32 + a < length (storage (nvram (gc_nvram s)))"
  shows "\<exists>s1 s2. gc_write e 0x1D000 (ucast (hi :: u8)) 1 s = Some (Ret () s1) \<and>
    gc_write e (0x1F000 + 16 * of_nat a) (ucast (v :: u8)) 1 s1 = Some (Ret () s2) \<and>
    gc_read e (0x1F000 + 16 * of_nat a) 1 s2 = Some (Ret (ucast v) s2) \<and>
    storage (nvram (gc_nvram s2)) = (storage (nvram (gc_nvram s)))[unat hi * 32 + a := v]"
proof -
  note d = nvram_decode[OF assms(3)]
  have h: "gc_decode 0x1D000 = Gc_iobus 3" "tst (0x1D000 :: u32) 0x10000" by (simp_all add: gc_decode_def tst_def drop_bit_eq_div)
  have v8: "ucast (ucast (ucast w :: u32) :: u8) = (ucast w :: u16)" "ucast (ucast w :: u16) = w" "ucast (ucast (ucast (ucast w :: u64) :: u8) :: u32) = (ucast w :: u32)"
    for w :: u8 by (rule bit_word_eqI; auto simp: bit_simps dest: bit_imp_le_length)+
  let ?s1 = "s\<lparr>gc_nvram := addr_hi_write (ucast hi) (gc_nvram s)\<rparr>"
  have w1: "gc_write e 0x1D000 (ucast hi) 1 s = Some (Ret () ?s1)"
    using assms(1) h by (simp add: gc_write_def slot_write_def iobus_in_def v8)
  have ad: "nvram_address (gc_nvram ?s1) (of_nat a) = unat hi * 32 + a"
  proof -
    have "unat hi < 256" using unsigned_less[of hi] by simp
    then show ?thesis using assms(3) by (simp add: nvram_address_def addr_hi_write_def push_bit_eq_mult unat_word_ariths unat_of_nat unsigned_ucast_eq unsigned_take_bit_eq take_bit_eq_mod)
  qed
  let ?n = "(gc_nvram ?s1)\<lparr>nvram := (nvram (gc_nvram s))\<lparr>storage := (storage (nvram (gc_nvram s)))[unat hi * 32 + a := v]\<rparr>\<rparr>"
  let ?s2 = "?s1\<lparr>gc_nvram := ?n\<rparr>"
  have "nvram_dev_write (of_nat a) (ucast v) (gc_nvram ?s1) = Some ?n"
    unfolding nvram_dev_write_def ad using assms(4) by (simp add: nvram_write_byte_def addr_hi_write_def v8)
  then have w2: "gc_write e (0x1F000 + 16 * of_nat a) (ucast v) 1 ?s1 = Some (Ret () ?s2)"
    using assms(2) d by (simp add: gc_write_def slot_write_def iobus_in_def v8)
  have "nvram_dev_read (of_nat a) ?n = Some (ucast v)"
  proof -
    have "nvram_address ?n (of_nat a) = unat hi * 32 + a" using ad by (simp add: nvram_address_def)
    then show ?thesis using assms(4) by (simp add: nvram_dev_read_def nvram_read_byte_def)
  qed
  then have "gc_read e (0x1F000 + 16 * of_nat a) 1 ?s2 = Some (Ret (iobus_value (ucast v) (0x1F000 + 16 * of_nat a) 1) ?s2)"
    using assms(2) d by (simp add: gc_read_def slot_read_def)
  moreover have "iobus_value (ucast v) (0x1F000 + 16 * of_nat a) 1 = ucast v"
    unfolding iobus_value_def Let_def d(4) by simp (rule bit_word_eqI, auto simp: bit_simps dest: bit_imp_le_length)
  ultimately show ?thesis using w1 w2 by (intro exI[of _ ?s1] exI[of _ ?s2]) simp
qed


subsection \<open>Witnesses\<close>

text \<open>A machine in which nothing has happened yet, and devices that do nothing.\<close>

definition gc_machine :: gcentral where
  "gc_machine = timebase.extend (tb_machine\<lparr>msr := 0x8000, int_pin := False\<rparr>)
     \<lparr>int_mask = 0x40000, int_levels = 0, int_events = 0, cpu_int_latch = False,
      iobus_devs = [None, None, None, Some Iobus_addr_hi, None, Some Iobus_nvram],
      gc_nvram = \<lparr>nvram_addr_hi = 0, nvram = new_NVram 8192 None\<rparr>\<rparr>"

definition idle_env :: "gcentral gc_env" where
  "idle_env = \<lparr>sub_read = \<lambda>_ _ _ s. Some (Ret 0 s), sub_write = \<lambda>_ _ _ _ s. Some (Ret () s), dma_reg_read = \<lambda>_ _ _ s. Some (Ret 0 s),
     dma_reg_write = \<lambda>_ _ _ _ s. Some (Ret () s), iodev_read = \<lambda>_ _ s. Some (Ret 0 s), iodev_write = \<lambda>_ _ _ s. Some (Ret () s),
     has_mesh_dma = False\<rparr>"

lemma gc_machine_sel [simp]:
  "int_mask gc_machine = 0x40000" "int_levels gc_machine = 0" "int_events gc_machine = 0" "cpu_int_latch gc_machine = False"
  "iobus_devs gc_machine = [None, None, None, Some Iobus_addr_hi, None, Some Iobus_nvram]" "msr gc_machine = 0x8000" "int_pin gc_machine = False"
  "gc_nvram gc_machine = \<lparr>nvram_addr_hi = 0, nvram = new_NVram 8192 None\<rparr>"
  by (simp_all add: gc_machine_def timebase.defs)

lemma bits_18: "bits_of (0x40000 :: u32) = {18}"
  using bits_of_push[of 18, where 'a = 32] by simp

theorem gc_interrupts_refine_witness:
  "\<exists>t. gc_run idle_env [Reg 0x24 (BYTESWAP_32 0x40000) 4, Line 18 True, Line 3 True] gc_machine = Some (Ret () t) \<and>
     evt (irq_abs t) = {3, 18} \<and> lev (irq_abs t) = {3, 18} \<and> int_pin t"
proof -
  have ok: "list_all gc_event_ok [Reg 0x24 (BYTESWAP_32 0x40000) 4, Line 18 True, Line 3 True]" by simp
  have init: "cpu_int_latch gc_machine = tst (int_events gc_machine) (int_mask gc_machine)" "int_pin gc_machine = cpu_int_latch gc_machine"
    by (simp_all add: tst_def)
  have a: "irq_abs gc_machine = \<lparr>en = {18}, lev = {}, evt = {}\<rparr>" by (simp add: irq_abs_def bits_18 bits_of_simps)
  show ?thesis using gc_interrupts_refine[OF init ok, of idle_env] by (auto simp: a BYTESWAP_32_involution bits_18 Let_def)
qed

theorem gc_interrupt_service_witness:
  "\<exists>t u. ack_int 0x40000 1 gc_machine = Ret () t \<and> ppc_next_instruction_address t = 0x500 \<and> int_pin t \<and>
     gc_write idle_env 0x28 (BYTESWAP_32 0x40000) 4 t = Some (Ret () u) \<and> \<not> int_pin u"
proof -
  have b: "bit (0x40000 :: u32) 18" "\<not> bit (0x40000 :: u32) 31" using bits_18 by (auto simp: bits_of_def)
  have m: "tst (msr gc_machine) MSR_EE" "\<not> tst (msr gc_machine) MSR_IP" by (simp_all add: tst_def)
  show ?thesis
    using gc_interrupt_service[of gc_machine 18 idle_env] b m by (auto simp: tst_def)
qed

theorem gc_nvram_access_witness:
  "\<exists>s1 s2. gc_write idle_env 0x1D000 7 1 gc_machine = Some (Ret () s1) \<and> gc_write idle_env 0x1F030 0x5A 1 s1 = Some (Ret () s2) \<and>
     gc_read idle_env 0x1F030 1 s2 = Some (Ret 0x5A s2)"
proof -
  have "length (storage (new_NVram 8192 None)) = 8192" by (simp add: new_NVram_def restore_def)
  then show ?thesis using gc_nvram_access[of gc_machine 3 7 idle_env "0x5A"] by auto
qed

end
