(* ===== verification/PpcAccessInv.thy ===== *)
theory PpcAccessInv
  imports MachineId PpcOpcodeTable PpcVmemExact PpcFloatExact GrandCentralExact
begin

text \<open>
  The invariant of the software TLBs over the life of a machine: it holds after the initialization of the MMU,
  every operation of the MMU keeps it, and so do all instructions that access memory, integer and floating
  point, whatever devices they reach that obey the contract \<open>mmio_bus\<close>. The Grand Central controller is shown to obey it.
\<close>

subsection \<open>Initialization\<close>

lemma mmu_ok_parts:
  assumes "gTrackedIEntries s = []" "gTrackedDEntries s = []" "\<forall>p. flags (tlb s p) = 0" "mode_ok s"
    "gPendingIInvalidationSources s = 0" "gPendingDInvalidationSources s = 0"
  shows "mmu_ok s"
proof -
  have "tracked ty s = []" "pending ty s = 0" for ty using assms by (cases ty; simp)+
  then show ?thesis using assms by (simp add: mmu_ok_def tlb_inv_def slot_ok_def tst_def)
qed

lemma schedule_keeps [simp]:
  "tlb (schedule_tlb_invalidation ty src s) = tlb s" "gTrackedIEntries (schedule_tlb_invalidation ty src s) = gTrackedIEntries s"
  "gTrackedDEntries (schedule_tlb_invalidation ty src s) = gTrackedDEntries s"
  by (cases ty; simp add: schedule_tlb_invalidation_def add_ctx_sync_action_def Let_def)+

lemma bat_update_keeps [simp]:
  "tlb (ibat_update r s) = tlb s" "gTrackedIEntries (ibat_update r s) = gTrackedIEntries s"
  "gTrackedDEntries (ibat_update r s) = gTrackedDEntries s"
  "tlb (dbat_update r s) = tlb s" "gTrackedIEntries (dbat_update r s) = gTrackedIEntries s"
  "gTrackedDEntries (dbat_update r s) = gTrackedDEntries s"
  by (simp_all add: ibat_update_def dbat_update_def mpc601_bat_update_def mpc601_dbat_update_def ppc_ibat_update_def
      ppc_dbat_update_def Let_def)

lemma fold_keeps: "(\<And>r s. P s \<Longrightarrow> P (f r s)) \<Longrightarrow> P s \<Longrightarrow> P (fold f xs s)"
  by (induction xs arbitrary: s) simp_all

definition fresh :: "'a mmu_scheme \<Rightarrow> bool" where
  "fresh s \<longleftrightarrow> mmu_ok s \<and> gTrackedIEntries s = [] \<and> gTrackedDEntries s = [] \<and> (\<forall>p. flags (tlb s p) = 0)"

lemma change_mode_ok: "mmu_ok s \<Longrightarrow> mmu_ok (mmu_change_mode s)"
proof -
  assume ok: "mmu_ok s"
  let ?t = "mmu_change_mode s"
  have "tracked ty ?t = tracked ty s" "pending ty ?t = pending ty s" "tlb ?t = tlb s" "gCtxSyncCallbacks ?t = gCtxSyncCallbacks s" for ty
    by (cases ty; simp add: mmu_change_mode_def Let_def)+
  then show "mmu_ok ?t" using ok mode_ok_change[of s] by (simp add: mmu_ok_def tlb_inv_def slot_ok_def)
qed

lemma mmu_ok_dbg [simp]: "mmu_ok (s\<lparr>mmu_exception_handler_dbg := d\<rparr>) = mmu_ok s"
proof -
  have "tracked ty (s\<lparr>mmu_exception_handler_dbg := d\<rparr>) = tracked ty s" "pending ty (s\<lparr>mmu_exception_handler_dbg := d\<rparr>) = pending ty s" for ty
    by (cases ty; simp)+
  then show ?thesis by (simp add: mmu_ok_def tlb_inv_def slot_ok_def mode_ok_def)
qed

lemma mmu_init_ok:
  assumes "\<forall>p. flags (tlb s p) = 0" "mode_ok s"
  shows "mmu_ok (ppc_mmu_init s)"
proof -
  have f: "fresh (ibat_update r t)" "fresh (dbat_update r t)" if "fresh t" for r and t :: "'a mmu_scheme"
    using that keeps_tlb_ops(2,3)[of t r] by (simp_all add: fresh_def)
  have inval: "mmu_ok (t\<lparr>tlb := invalidate_tlb_entries (tlb t)\<rparr>)" if "fresh t" for t :: "'a mmu_scheme"
  proof -
    have "tracked ty t = []" for ty using that by (cases ty) (simp_all add: fresh_def)
    then show ?thesis
      using that by (simp add: fresh_def mmu_ok_def tlb_inv_def slot_ok_def mode_ok_tlb invalidate_tlb_entries_def tst_def)
  qed
  let ?s = "s\<lparr>gPendingIInvalidationSources := 0, gPendingDInvalidationSources := 0, gTrackedIEntries := [], gTrackedDEntries := []\<rparr>"
  have ok: "mmu_ok ?s" by (rule mmu_ok_parts) (use assms in \<open>simp_all add: mode_ok_def\<close>)
  show ?thesis
    unfolding ppc_mmu_init_def Let_def
    by (intro change_mode_ok inval fold_keeps[where P = fresh] f) (use assms(1) ok in \<open>simp_all add: fresh_def\<close>)
qed

subsection \<open>The other operations\<close>

lemma mmu_ok_truncate: "mmu.truncate s = mmu.truncate t \<Longrightarrow> mmu_ok s = mmu_ok t" for s t :: "'a mmu_scheme"
proof -
  assume e: "mmu.truncate s = mmu.truncate t"
  then have "tracked ty s = tracked ty t" "pending ty s = pending ty t" for ty
    by (cases ty; cases s; cases t; simp add: mmu.truncate_def)+
  moreover have "tlb s = tlb t" "gCtxSyncCallbacks s = gCtxSyncCallbacks t" "mode_ok s = mode_ok t"
    using e by (cases s; cases t; simp add: mmu.truncate_def mode_ok_def)+
  ultimately show ?thesis by (simp add: mmu_ok_def tlb_inv_def slot_ok_def)
qed

lemma flush_ops_ok:
  assumes "mmu_ok s"
  shows "mmu_ok (mmu_pat_ctx_changed s)" "mmu_ok (do_ctx_sync s)" "mmu_ok (tlb_flush_all_pat s)"
proof -
  have sch: "mmu_ok (schedule_tlb_invalidation ty TLBE_FROM_PAT s)" if "mmu_ok s" for ty and s :: "'a mmu_scheme"
    using that by (simp add: mmu_ok_def schedule_inv)
  show "mmu_ok (mmu_pat_ctx_changed s)" unfolding mmu_pat_ctx_changed_def by (intro sch assms)
  show "mmu_ok (tlb_flush_all_pat s)" using assms by (simp add: mmu_ok_def flush_all_pat_inv)
  have "mode_ok s \<Longrightarrow> mode_ok (do_ctx_sync s)"
  proof (induction s rule: do_ctx_sync.induct)
    case (1 s)
    have "mode_ok (tlb_invalidate_tracked_entries ty s) = mode_ok s" for ty
      by (simp add: tlb_invalidate_tracked_entries_def tlb_invalidate_tracked_def mode_ok_tlb split: prod.splits)
    then show ?case using 1 by (subst do_ctx_sync.simps) (simp add: Let_def mode_ok_tlb)
  qed
  then show "mmu_ok (do_ctx_sync s)" using assms do_ctx_sync_inv[of s] by (simp add: mmu_ok_def)
qed

lemma keeps_603_ops:
  assumes "mmu_ok s"
  shows "keeps mmu_ok (ppc_tlbld opcode s)" "keeps mmu_ok (ppc_tlbli opcode s)" "keeps mmu_ok (ppc_tlbia opcode s)"
    "keeps mmu_ok (ppc_tlbsync opcode s)"
  unfolding ppc_tlbld_def ppc_tlbli_def ppc_tlbia_def ppc_tlbsync_def
  by (intro keeps_supervisor[OF assms]; simp add: keeps_tlb_ops)+

lemma keeps_dbg_handler:
  "mmu_ok s \<Longrightarrow> (\<And>s. mmu_ok s \<Longrightarrow> keeps mmu_ok (f s)) \<Longrightarrow> keeps mmu_ok (with_dbg_handler f s)"
proof -
  assume s: "mmu_ok s" and "\<And>s. mmu_ok s \<Longrightarrow> keeps mmu_ok (f s)"
  then have "keeps mmu_ok (f (s\<lparr>mmu_exception_handler_dbg := True\<rparr>))" by simp
  then show ?thesis
    by (cases "f (s\<lparr>mmu_exception_handler_dbg := True\<rparr>)") (simp_all add: with_dbg_handler_def Let_def)
qed

lemma keeps_translate_dbg: "mmu_ok s \<Longrightarrow> keeps mmu_ok (mmu_translate_dbg va s)"
proof -
  have catch: "keeps P m \<Longrightarrow> keeps P (case m of Ret v t \<Rightarrow> Ret v t | LongJmp t \<Rightarrow> LongJmp t | Throw msg t \<Rightarrow> Ret None t | Abort msg \<Rightarrow> Abort msg)"
    for P and m :: "(u32 option, 'a mmu_scheme) outcome"
    by (cases m) simp_all
  show "mmu_ok s \<Longrightarrow> ?thesis"
    unfolding mmu_translate_dbg_def Let_def
  proof (intro catch keeps_dbg_handler, assumption, goal_cases)
    case (1 u)
    obtain p1 m ph t where l: "lookup_tlb DTLB va (page_tag va) u = ((p1, m, ph), t)" by (metis surj_pair)
    show ?case
      unfolding l prod.case using lookup_ok[OF l 1(2)]
      by (intro keeps_if keeps_obind keeps_option keeps_refill) (simp_all add: promote_ok)
  qed
qed

lemma keeps_dma: "mmu_ok s \<Longrightarrow> keeps mmu_ok (mmu_map_dma_mem a sz io part d s)"
  by (auto simp: mmu_map_dma_mem_def dma_fail_def Let_def split: option.split)

subsection \<open>The states of the MMU\<close>

text \<open>
  One operation of the MMU, or a change outside of it: \<open>registers\<close> are changes of the processor's own state (any instruction
  without a memory access), \<open>memory\<close> are changes of the memory controller and of host memory (DMA, device setup), \<open>machine\<close> are
  changes of the devices, timers and clocks.
\<close>

inductive mmu_step :: "'a mmu_scheme bus \<Rightarrow> 'a mmu_scheme \<Rightarrow> 'a mmu_scheme \<Rightarrow> bool" for b where
  fetch: "final (mmu_translate_imem va s) = Some t \<Longrightarrow> mmu_step b s t"
| refill_instr: "final (itlb2_refill va s) = Some t \<Longrightarrow> mmu_step b s t"
| refill_data: "final (dtlb2_refill va w s) = Some t \<Longrightarrow> mmu_step b s t"
| translate_page: "final (page_address_translation la i p w s) = Some t \<Longrightarrow> mmu_step b s t"
| prepare_write: "final (prepare_dtlb_write p va s) = Some t \<Longrightarrow> mmu_step b s t"
| read_data: "final (mmu_read_vmem b n opcode va s) = Some t \<Longrightarrow> mmu_step b s t"
| write_data: "final (mmu_write_vmem b n opcode va v s) = Some t \<Longrightarrow> mmu_step b s t"
| zero_block: "final (mmu_dcbz b opcode va s) = Some t \<Longrightarrow> mmu_step b s t"
| debug_read: "final (mem_read_dbg b va n s) = Some t \<Longrightarrow> mmu_step b s t"
| debug_write: "final (mem_write_dbg b va v n s) = Some t \<Longrightarrow> mmu_step b s t"
| debug_translate: "final (mmu_translate_dbg va s) = Some t \<Longrightarrow> mmu_step b s t"
| map_dma: "final (mmu_map_dma_mem a sz io part dbg s) = Some t \<Longrightarrow> mmu_step b s t"
| exception_step: "final (ppc_exception_handler e srr1 s) = Some t \<Longrightarrow> mmu_step b s t"
| tlbie: "final (ppc_tlbie opcode s) = Some t \<Longrightarrow> mmu_step b s t"
| tlbia: "final (ppc_tlbia opcode s) = Some t \<Longrightarrow> mmu_step b s t"
| tlbsync: "final (ppc_tlbsync opcode s) = Some t \<Longrightarrow> mmu_step b s t"
| tlbld: "final (ppc_tlbld opcode s) = Some t \<Longrightarrow> mmu_step b s t"
| tlbli: "final (ppc_tlbli opcode s) = Some t \<Longrightarrow> mmu_step b s t"
| load_603: "mmu_step b s (mmu_603_tlb_load ty ea s)"
| invalidate_603: "mmu_step b s (mmu_603_tlb_invalidate_set ea s)"
| flush_all: "mmu_step b s (tlb_flush_all_pat s)"
| flush_page: "mmu_step b s (tlb_flush_pat_page ty ea s)"
| bat_instr: "mmu_step b s (ibat_update r s)"
| bat_data: "mmu_step b s (dbat_update r s)"
| page_context: "mmu_step b s (mmu_pat_ctx_changed s)"
| synchronize: "mmu_step b s (do_ctx_sync s)"
| change_mode: "mmu_step b s (mmu_change_mode s)"
| registers: "cpu.more t = cpu.more s \<Longrightarrow> mmu_step b s t"
| memory: "mmu_step b s (s\<lparr>mem_ctrl_instance := m\<rparr>)"
| machine: "mmu.truncate t = mmu.truncate s \<Longrightarrow> mmu_step b s t"

text \<open>The states a machine goes through from \<open>ppc_mmu_init\<close> on; before it the TLBs are zeroed and no mode is selected, as the program loads.\<close>

inductive mmu_reach :: "'a mmu_scheme bus \<Rightarrow> 'a mmu_scheme \<Rightarrow> bool" for b where
  init: "\<forall>p. flags (tlb s p) = 0 \<Longrightarrow> CurITLBMode s = 0xFF \<Longrightarrow> CurDTLBMode s = 0xFF \<Longrightarrow> mmu_reach b (ppc_mmu_init s)"
| step: "mmu_reach b s \<Longrightarrow> mmu_step b s t \<Longrightarrow> mmu_reach b t"

context mmio_bus
begin

lemma dbg_ok:
  "mmu_ok s \<Longrightarrow> keeps mmu_ok (mem_read_dbg b va n s)" "mmu_ok s \<Longrightarrow> keeps mmu_ok (mem_write_dbg b va v n s)"
  unfolding mem_read_dbg_def mem_write_dbg_def by (intro keeps_dbg_handler read_ok write_ok; simp)+

lemma step_ok:
  assumes "mmu_step b s t" "mmu_ok s"
  shows "mmu_ok t"
proof -
  have k: "keeps mmu_ok m \<Longrightarrow> final m = Some t \<Longrightarrow> mmu_ok t" for m :: "('v, 'a mmu_scheme) outcome"
    by (simp add: keeps_def)
  from assms(1) show ?thesis
  proof cases
    case registers
    then show ?thesis using assms(2) mmu_ok_more[of t s] by simp
  next
    case machine
    then show ?thesis using assms(2) mmu_ok_truncate[of t s] by simp
  next
    case (flush_page ty ea)
    then show ?thesis using assms(2) by (simp add: mmu_ok_def flush_pat_page_inv)
  next
    case (invalidate_603 ea)
    then show ?thesis using assms(2) by (simp add: mmu_603_tlb_invalidate_set_def)
  qed (use assms(2) in \<open>simp_all add: keeps_tlb_ops flush_ops_ok change_mode_ok k[OF keeps_imem] k[OF keeps_refill(1)]
        k[OF keeps_refill(2)] k[OF keeps_page] k[OF keeps_prepare] k[OF read_ok] k[OF write_ok] k[OF dcbz_ok] k[OF dbg_ok(1)] k[OF dbg_ok(2)]
        k[OF keeps_translate_dbg] k[OF keeps_dma] k[OF keeps_exception] k[OF keeps_tlb_ops(4)] k[OF keeps_603_ops(1)]
        k[OF keeps_603_ops(2)] k[OF keeps_603_ops(3)] k[OF keeps_603_ops(4)]\<close>)
qed

lemma reach_ok: "mmu_reach b t \<Longrightarrow> mmu_ok t"
proof (induction rule: mmu_reach.induct)
  case (init s)
  then show ?case by (intro mmu_init_ok) (simp_all add: mode_ok_def)
next
  case (step s t)
  then show ?case by (blast intro: step_ok)
qed

end

subsection \<open>The Grand Central controller as a device\<close>

text \<open>An access that does not return leaves no state, as one that aborts.\<close>

definition gc_bus :: "'a gcentral_scheme gc_env \<Rightarrow> 'a gcentral_scheme bus" where
  "gc_bus e =
     \<lparr>dev_read = (\<lambda>d start offset sz s. case gc_read e offset sz s of None \<Rightarrow> Abort ''no return'' | Some r \<Rightarrow> r),
      dev_write = (\<lambda>d start offset v sz s. case gc_write e offset v sz s of None \<Rightarrow> Abort ''no return'' | Some r \<Rightarrow> r)\<rparr>"

text \<open>The contract of the devices and DMA channels behind it.\<close>

definition keeps_some :: "('s \<Rightarrow> bool) \<Rightarrow> ('v, 's) outcome option \<Rightarrow> bool" where
  "keeps_some P r \<longleftrightarrow> (\<forall>m. r = Some m \<longrightarrow> keeps P m)"

lemma keeps_some_simps [simp]: "keeps_some P None" "keeps_some P (Some m) = keeps P m"
  by (simp_all add: keeps_some_def)

lemma keeps_some_open: "keeps_some P r \<Longrightarrow> keeps P (case r of None \<Rightarrow> Abort msg | Some m \<Rightarrow> m)"
  by (cases r) simp_all

lemma keeps_some_value: "keeps_some P r \<Longrightarrow> keeps_some P (map_option (\<lambda>r. obind r (\<lambda>v. Ret (g v))) r)"
  by (cases r) (auto intro!: keeps_obind)

definition gc_env_ok :: "'a gcentral_scheme gc_env \<Rightarrow> bool" where
  "gc_env_ok e \<longleftrightarrow> (\<forall>s. mmu_ok s \<longrightarrow>
     (\<forall>d r n v. keeps_some mmu_ok (sub_read e d r n s) \<and> keeps_some mmu_ok (sub_write e d r v n s)) \<and>
     (\<forall>c r n v. keeps_some mmu_ok (dma_reg_read e c r n s) \<and> keeps_some mmu_ok (dma_reg_write e c r v n s)) \<and>
     (\<forall>k a v. keeps_some mmu_ok (iodev_read e k a s) \<and> keeps_some mmu_ok (iodev_write e k a v s)))"

lemma mmu_ok_gc [simp]:
  "mmu_ok (s\<lparr>int_mask := x\<rparr>) = mmu_ok s" "mmu_ok (s\<lparr>int_levels := x\<rparr>) = mmu_ok s" "mmu_ok (s\<lparr>int_events := x\<rparr>) = mmu_ok s"
  "mmu_ok (s\<lparr>int_events := x, int_levels := y\<rparr>) = mmu_ok s"
  "mmu_ok (s\<lparr>cpu_int_latch := l\<rparr>) = mmu_ok s" "mmu_ok (s\<lparr>gc_nvram := n\<rparr>) = mmu_ok s"
  by (rule mmu_ok_truncate; cases s; simp add: mmu.truncate_def)+

lemma mmu_ok_pin [simp]: "mmu_ok (s\<lparr>int_pin := x\<rparr>) = mmu_ok s"
  by (rule mmu_ok_more) simp

lemma assert_int_ok: "mmu_ok s \<Longrightarrow> keeps mmu_ok (ppc_assert_int s)"
  by (simp add: ppc_assert_int_def Let_def keeps_exception)

lemma gc_ints_ok:
  assumes "mmu_ok s"
  shows "keeps mmu_ok (signal_cpu_int s)" "mmu_ok (clear_cpu_int s)" "keeps mmu_ok (clear_dma_int f s)"
    "keeps mmu_ok (gc_int_write offset value s)"
proof -
  have sig: "keeps mmu_ok (signal_cpu_int s)" if "mmu_ok s" for s :: "'a gcentral_scheme"
    using that by (simp add: signal_cpu_int_def assert_int_ok)
  have clr: "mmu_ok (clear_cpu_int s)" if "mmu_ok s" for s :: "'a gcentral_scheme"
    using that by (simp add: clear_cpu_int_def ppc_release_int_def)
  have dma: "keeps mmu_ok (clear_dma_int f s)" if "mmu_ok s" for f and s :: "'a gcentral_scheme"
    using that by (simp add: clear_dma_int_def Let_def sig)
  show "keeps mmu_ok (signal_cpu_int s)" "mmu_ok (clear_cpu_int s)" "keeps mmu_ok (clear_dma_int f s)"
    using assms by (simp_all add: sig clr dma)
  show "keeps mmu_ok (gc_int_write offset value s)"
    using assms by (simp add: gc_int_write_def Let_def sig clr dma)
qed

lemma gc_bus_ok:
  assumes "gc_env_ok e"
  shows "mmio_bus (gc_bus e)"
proof
  fix s :: "'a gcentral_scheme" and d st offs v n
  assume ok: "mmu_ok s"
  note dev = assms[unfolded gc_env_ok_def, rule_format, OF ok]
  have dev_ok: "keeps_some mmu_ok (sub_read e d r n s)" "keeps_some mmu_ok (sub_write e d r v n s)"
      "keeps_some mmu_ok (dma_reg_read e c r n s)" "keeps_some mmu_ok (dma_reg_write e c r v n s)"
      "keeps_some mmu_ok (iodev_read e k r s)" "keeps_some mmu_ok (iodev_write e k r w s)" for d r n v c k w
    using dev by blast+
  have iobus: "keeps_some mmu_ok (slot_read e k a s)" "keeps_some mmu_ok (slot_write e k a w s)" for k a w
    using ok dev_ok by (cases k; simp add: slot_read_def slot_write_def split: option.split)+
  have "keeps_some mmu_ok (gc_read e offs n s)"
    using ok by (simp add: gc_read_def dev_ok iobus keeps_some_value split: gc_target.split option.split)
  then show "keeps mmu_ok (dev_read (gc_bus e) d st offs n s)" by (simp add: gc_bus_def keeps_some_open)
  have "keeps_some mmu_ok (gc_write e offs v n s)"
    using ok by (simp add: gc_write_def dev_ok iobus gc_ints_ok split: gc_target.split option.split)
  then show "keeps mmu_ok (dev_write (gc_bus e) d st offs v n s)" by (simp add: gc_bus_def keeps_some_open)
qed

interpretation gcb: mmio_bus "gc_bus idle_env"
  by (rule gc_bus_ok) (simp add: gc_env_ok_def idle_env_def keeps_some_def)

subsection \<open>The memory access instructions\<close>

text \<open>The handlers of the dispatch table that access memory (with the sizes of its entries).\<close>

definition load_store_handlers :: "host_fpu \<Rightarrow> 'a fpu_scheme bus \<Rightarrow> 'a fpu_scheme handler list" where
  "load_store_handlers h b =
     concat (map (\<lambda>n. [ppc_lz b n, ppc_lzu b n, ppc_lzx b n, ppc_lzux b n, ppc_st b n, ppc_stu b n, ppc_stx b n, ppc_stux b n]) [1, 2, 4]) @
     [ppc_lha b, ppc_lhau b, ppc_lhax b, ppc_lhaux b, ppc_lhbrx b, ppc_lwbrx b, ppc_sthbrx b, ppc_stwbrx b, ppc_lwarx b, ppc_stwcx b,
      ppc_lmw b, ppc_stmw b, ppc_lswi b, ppc_lswx b, ppc_stswi b, ppc_stswx b, ppc_eciwx b, ppc_ecowx b, ppc_dcbz b,
      power_lscbx b False, power_lscbx b True,
      ppc_lfs h b, ppc_lfsu h b, ppc_lfsx h b, ppc_lfsux h b, ppc_lfd b, ppc_lfdu b, ppc_lfdx b, ppc_lfdux b,
      ppc_stfs h b, ppc_stfsu h b, ppc_stfsx h b, ppc_stfsux h b, ppc_stfd b, ppc_stfdu b, ppc_stfdx b, ppc_stfdux b, ppc_stfiwx b]"

lemma mmu_ok_put_fpr [simp]: "mmu_ok (put_fpr r v s) = mmu_ok s"
  by (rule mmu_ok_more) (simp add: put_fpr_def)

lemma mmu_ok_host_op: "host_op f s = (r, t) \<Longrightarrow> mmu_ok t = mmu_ok s"
  by (rule mmu_ok_truncate) (auto simp: host_op_def Let_def mmu.truncate_def split: prod.splits)

lemma keeps_load_fpr: "keeps mmu_ok m \<Longrightarrow> keeps mmu_ok (load_fpr r f m)"
  unfolding load_fpr_def by (intro keeps_obind) simp_all

context mmio_bus
begin

lemma lscbx_loop_ok: "mmu_ok s \<Longrightarrow> keeps mmu_ok (lscbx_loop b opcode m n d acc sh ea s)"
  by (induction n arbitrary: d acc sh ea s) (auto simp: Let_def intro!: keeps_obind read_ok split: if_splits)

lemma other_instr_ok:
  assumes "mmu_ok s"
  shows "keeps mmu_ok (ppc_eciwx b opcode s)" "keeps mmu_ok (ppc_ecowx b opcode s)" "keeps mmu_ok (power_lscbx b r opcode s)"
    "keeps mmu_ok (ppc_lfs h b opcode s)" "keeps mmu_ok (ppc_lfsu h b opcode s)" "keeps mmu_ok (ppc_lfsx h b opcode s)"
    "keeps mmu_ok (ppc_lfsux h b opcode s)" "keeps mmu_ok (ppc_lfd b opcode s)" "keeps mmu_ok (ppc_lfdu b opcode s)"
    "keeps mmu_ok (ppc_lfdx b opcode s)" "keeps mmu_ok (ppc_lfdux b opcode s)" "keeps mmu_ok (ppc_stfd b opcode s)"
    "keeps mmu_ok (ppc_stfdu b opcode s)" "keeps mmu_ok (ppc_stfdx b opcode s)" "keeps mmu_ok (ppc_stfdux b opcode s)"
    "keeps mmu_ok (ppc_stfiwx b opcode s)"
  unfolding ppc_eciwx_def ppc_ecowx_def power_lscbx_def ppc_lfs_def ppc_lfsu_def ppc_lfsx_def ppc_lfsux_def ppc_lfd_def ppc_lfdu_def
    ppc_lfdx_def ppc_lfdux_def ppc_stfd_def ppc_stfdu_def ppc_stfdx_def ppc_stfdux_def ppc_stfiwx_def fp_load_update_def
    fp_store_double_def fp_store_update_def ppc_illegalop_def Let_def
  by (intro keeps_if keeps_obind keeps_load keeps_load_fpr keeps_exception alignment_ok read_ok write_ok lscbx_loop_ok;
      (simp add: assms split: prod.split)?)+

end

lemma store_single_ok:
  fixes s :: "'a fpu_scheme"
  assumes "mmio_bus b" "mmu_ok s"
  shows "keeps mmu_ok (ppc_stfs h b opcode s)" "keeps mmu_ok (ppc_stfsu h b opcode s)" "keeps mmu_ok (ppc_stfsx h b opcode s)"
    "keeps mmu_ok (ppc_stfsux h b opcode s)"
proof -
  have st: "keeps mmu_ok (fp_store_single h b opcode ea s)" for ea
    unfolding fp_store_single_def
    by (auto dest!: mmu_ok_host_op intro!: mmio_bus.write_ok[OF assms(1)] simp: assms(2) split: prod.split)
  show "keeps mmu_ok (ppc_stfs h b opcode s)" "keeps mmu_ok (ppc_stfsu h b opcode s)" "keeps mmu_ok (ppc_stfsx h b opcode s)"
    "keeps mmu_ok (ppc_stfsux h b opcode s)"
    unfolding ppc_stfs_def ppc_stfsu_def ppc_stfsx_def ppc_stfsux_def fp_store_update_def ppc_illegalop_def
    by (intro keeps_if keeps_obind keeps_exception st assms(2); (simp add: assms(2))?)+
qed

lemma handlers_ok:
  assumes "mmio_bus b" "mmu_ok s" "h \<in> set (load_store_handlers f b)"
  shows "keeps mmu_ok (h opcode s)"
  using assms(3) unfolding load_store_handlers_def
  by (auto simp: mmio_bus.instr_ok[OF assms(1,2)] mmio_bus.other_instr_ok[OF assms(1,2)] store_single_ok[OF assms(1,2)])

subsection \<open>Properties\<close>

text \<open>
  C22: The invariant of the software TLBs over the life of a machine. From \<open>ppc_mmu_init\<close> on, whatever sequence of operations of the MMU is
  called (fetches, refills, reads, writes, \<open>dcbz\<close>, the debugger's accesses, DMA mappings, exceptions, the TLB instructions, BAT updates, flushes,
  context changes and synchronization, mode switches), however each of them leaves, and whatever changes outside of the MMU in between, with
  devices that keep the invariant: every translated entry is tracked in the list of its TLB, a pending invalidation has its
  action registered, and the arrays in use are those of the cached mode.
\<close>

theorem mmu_reach_keeps_tlb_inv:
  assumes "mmio_bus b" "mmu_reach b t"
  shows "tlb_inv t \<and> mode_ok t"
  using mmio_bus.reach_ok[OF assms] by (simp add: mmu_ok_def)

text \<open>
  C23: Every instruction of the dispatch table that accesses memory (loads and stores of all sizes, with update, indexed, algebraic,
  byte-reversed, multiple, string, reserved, external control, \<open>dcbz\<close>, \<open>lscbx\<close> and floating point) keeps the
  invariant of the software TLBs, whether it completes, takes an exception or throws, with devices that keep it.
\<close>

theorem load_store_keeps_tlb_inv:
  assumes "mmio_bus b" "tlb_inv s" "mode_ok s" "h \<in> set (load_store_handlers f b)" "final (h opcode s) = Some t"
  shows "tlb_inv t \<and> mode_ok t"
proof -
  have "keeps mmu_ok (h opcode s)" using handlers_ok[OF assms(1) _ assms(4)] assms(2,3) by (simp add: mmu_ok_def)
  then show ?thesis using assms(5) by (simp add: keeps_def mmu_ok_def)
qed

subsection \<open>The properties at concrete inputs\<close>

text \<open>
  A machine with interrupts on and data translation by a block that maps Grand Central's registers, which have an event latched. The guest's write of the mask
  register goes through a refill to the controller, which interrupts the processor.
\<close>

definition gc_rgn :: AddressMapEntry where
  "gc_rgn = \<lparr>eid = 1, rstart = 0xF3000000, rend = 0xF301FFFF, mirror = 0, rtype = RT_MMIO, devobj = Some 0, mem_ptr = 0\<rparr>"

definition gc_start :: gcentral where
  "gc_start = gc_machine\<lparr>msr := 0x8010, spr := (\<lambda>_. 0)(536 := 0xF3000002, 537 := 0xF3000002), int_mask := 0, int_events := 0x40000,
     mem_ctrl_instance := \<lparr>address_map = [gc_rgn], mem_regions = [], host_mem = (\<lambda>_. 0)\<rparr>\<rparr>"

lemma bat_update_sel:
  "spr (ibat_update r s) = spr s" "msr (ibat_update r s) = msr s" "is_601 (ibat_update r s) = is_601 s" "mmu.more (ibat_update r s) = mmu.more s"
  "mem_ctrl_instance (ibat_update r s) = mem_ctrl_instance s" "CurDTLBMode (ibat_update r s) = CurDTLBMode s"
  "\<not> is_601 s \<Longrightarrow> dbat_array (ibat_update r s) = dbat_array s"
  "spr (dbat_update r s) = spr s" "msr (dbat_update r s) = msr s" "is_601 (dbat_update r s) = is_601 s" "mmu.more (dbat_update r s) = mmu.more s"
  "mem_ctrl_instance (dbat_update r s) = mem_ctrl_instance s" "CurDTLBMode (dbat_update r s) = CurDTLBMode s"
  by (simp_all add: ibat_update_def dbat_update_def mpc601_bat_update_def mpc601_dbat_update_def ppc_ibat_update_def
      ppc_dbat_update_def schedule_tlb_invalidation_def add_ctx_sync_action_def Let_def)

lemma gc_start_sel:
  "msr gc_start = 0x8010" "is_601 gc_start = False" "spr gc_start = (\<lambda>_. 0)(536 := 0xF3000002, 537 := 0xF3000002)" "CurDTLBMode gc_start = 0xFF" "CurITLBMode gc_start = 0xFF"
  "mem_ctrl_instance gc_start = \<lparr>address_map = [gc_rgn], mem_regions = [], host_mem = (\<lambda>_. 0)\<rparr>" "flags (tlb gc_start p) = 0"
  by (simp_all add: gc_start_def gc_machine_def tb_machine_def static_mmu_def mmu.defs timebase.defs)

lemma gc_start_init:
  "msr (ppc_mmu_init gc_start) = 0x8010" "is_601 (ppc_mmu_init gc_start) = False" "mmu.more (ppc_mmu_init gc_start) = mmu.more gc_start"
  "mem_ctrl_instance (ppc_mmu_init gc_start) = \<lparr>address_map = [gc_rgn], mem_regions = [], host_mem = (\<lambda>_. 0)\<rparr>"
  "pCurDTLB1 (ppc_mmu_init gc_start) = 2" "pCurDTLB2 (ppc_mmu_init gc_start) = 2"
  "tlb (ppc_mmu_init gc_start) = invalidate_tlb_entries (tlb gc_start)"
  "\<exists>x. dbat_array (ppc_mmu_init gc_start) 0 = bat_entry 0xF3000002 0xF3000002 x"
proof -
  let ?d = "\<lambda>s. dbat_array s 0"
  have d: "?d (dbat_update 536 s) = bat_entry (spr s 536) (spr s 537) (?d s)" "?d (dbat_update 537 s) = bat_entry (spr s 536) (spr s 537) (?d s)"
    "r \<in> {538..<544} \<Longrightarrow> ?d (dbat_update r s) = ?d s" if "\<not> is_601 s" for r and s :: gcentral
    using that by (auto simp: dbat_update_def ppc_dbat_update_def schedule_tlb_invalidation_def add_ctx_sync_action_def Let_def)
  show "msr (ppc_mmu_init gc_start) = 0x8010" "is_601 (ppc_mmu_init gc_start) = False" "mmu.more (ppc_mmu_init gc_start) = mmu.more gc_start"
  "mem_ctrl_instance (ppc_mmu_init gc_start) = \<lparr>address_map = [gc_rgn], mem_regions = [], host_mem = (\<lambda>_. 0)\<rparr>"
  "pCurDTLB1 (ppc_mmu_init gc_start) = 2" "pCurDTLB2 (ppc_mmu_init gc_start) = 2"
  "tlb (ppc_mmu_init gc_start) = invalidate_tlb_entries (tlb gc_start)"
    by (simp_all add: ppc_mmu_init_def Let_def bat_update_sel mmu_change_mode_def gc_start_sel mode_arrays_def tst_def)
  show "\<exists>x. dbat_array (ppc_mmu_init gc_start) 0 = bat_entry 0xF3000002 0xF3000002 x"
    by (simp add: ppc_mmu_init_def Let_def bat_update_sel mmu_change_mode_def gc_start_sel d)
      blast
qed

lemma gc_start_refill:
  obtains p u where "lookup_tlb DTLB 0xF3000024 (page_tag 0xF3000024) (ppc_mmu_init gc_start) =
      ((Slot DTLB 1 2 (tlb_index 0xF3000024), None, False), ppc_mmu_init gc_start)"
    "dtlb2_refill 0xF3000024 True (ppc_mmu_init gc_start) = Ret (Some p) u" "flags (tlb u p) = 0xEA" "rgn_desc (tlb u p) = Some gc_rgn"
    "dev_base_va (tlb u p) = 0xF3000000" "mmu.more u = mmu.more gc_start"
proof -
  let ?s = "ppc_mmu_init gc_start"
  have inv: "tag (tlb ?s q) = TLB_INVALID_TAG" "flags (tlb ?s q) = 0" if "in_arrays q" for q
    using that by (simp_all add: gc_start_init invalidate_tlb_entries_def)
  have l: "lookup_tlb DTLB 0xF3000024 (page_tag 0xF3000024) ?s = ((Slot DTLB 1 2 (tlb_index 0xF3000024), None, False), ?s)"
    by (simp add: lookup_tlb_def lookup_secondary_tlb_def set2_def gc_start_init(5,6) inv tlb_index_def page_tag_def Let_def)
  obtain x where d: "dbat_array ?s 0 = bat_entry 0xF3000002 0xF3000002 x" using gc_start_init(8) by blast
  have tr: "dtlb_translate 0xF3000024 True ?s = Ret (0xF3000024, 0x68) ?s"
    by (simp add: dtlb_translate_def ppc_block_address_translation_def gc_start_init(1,2) d bat_entry_def tst_def Let_def)
  have f: "find_range (mem_ctrl_instance ?s) 0xF3000024 = Some gc_rgn"
    by (simp add: gc_start_init(4) find_range_def gc_rgn_def)
  obtain p v where v: "tlb2_target_entry DTLB (page_tag 0xF3000024) ?s = (p, v)" "flags (tlb v p) = 0" "mmu.more v = mmu.more gc_start"
  proof -
    let ?p = "Slot DTLB 2 2 (tlb_index 0xF3000024 * 4)"
    have "tlb2_target_entry DTLB (page_tag 0xF3000024) ?s = (?p, tlb2_touch_way 0 ?p ?s)"
      by (simp add: tlb2_target_entry_def set2_def gc_start_init(5,6) inv tlb_index_def page_tag_def Let_def)
    moreover have "flags (tlb (tlb2_touch_way 0 ?p ?s) ?p) = 0" by (simp add: tlb2_touch_way_def put_lru_def inv tlb_index_def)
    moreover have "mmu.more (tlb2_touch_way 0 ?p ?s) = mmu.more gc_start" by (simp add: tlb2_touch_way_def put_lru_def gc_start_init(3))
    ultimately show thesis by (rule that)
  qed
  let ?e = "(tlb v p)\<lparr>tag := page_tag 0xF3000024, flags := 0x6A, rgn_desc := Some gc_rgn, dev_base_va := 0xF3000000, phys_tag := page_tag 0xF3000024\<rparr>"
  have "dtlb2_refill 0xF3000024 True ?s = Ret (Some p) (track_translated_entry DTLB p (v\<lparr>tlb := (tlb v)(p := ?e)\<rparr>))"
    by (simp add: dtlb2_refill_def tr f fill_slot_def v Let_def) (simp add: gc_rgn_def tst_def)
  then obtain u where u: "dtlb2_refill 0xF3000024 True ?s = Ret (Some p) u" "flags (tlb u p) = 0xEA" "rgn_desc (tlb u p) = Some gc_rgn"
      "dev_base_va (tlb u p) = 0xF3000000" "mmu.more u = mmu.more gc_start"
    using v(3) by (simp add: track_translated_entry_def tst_def Let_def)
  show thesis using that[OF l u] .
qed

theorem mmu_reach_keeps_tlb_inv_witness:
  "\<exists>t. mmu_write_vmem (gc_bus idle_env) 4 0 0xF3000024 0x400 (ppc_mmu_init gc_start) = Ret () t \<and> mmu_reach (gc_bus idle_env) t \<and>
     int_pin t \<and> tlb_inv t \<and> mode_ok t"
proof -
  let ?s = "ppc_mmu_init gc_start" and ?b = "gc_bus idle_env"
  obtain p u where u: "lookup_tlb DTLB 0xF3000024 (page_tag 0xF3000024) ?s = ((Slot DTLB 1 2 (tlb_index 0xF3000024), None, False), ?s)"
    "dtlb2_refill 0xF3000024 True ?s = Ret (Some p) u" "flags (tlb u p) = 0xEA" "rgn_desc (tlb u p) = Some gc_rgn"
    "dev_base_va (tlb u p) = 0xF3000000" "mmu.more u = mmu.more gc_start" by (rule gc_start_refill)
  have g: "int_events u = 0x40000" "\<not> cpu_int_latch u" using gc_more[OF u(6)] by (simp_all add: gc_start_def)
  have "write_target 0xF3000024 ?s = Ret (Device p) u"
    by (simp add: write_target_def u(1-3) prepare_dtlb_write_def tst_def)
  then have "mmu_write_vmem ?b 4 0 0xF3000024 0x400 ?s = signal_cpu_int (clear_cpu_int (u\<lparr>int_mask := 0x40000\<rparr>))"
    by (simp add: mmu_write_vmem_def write_vmem_with_def mmio_write_def entry_write_def u(4,5) gc_rgn_def gc_bus_def gc_write_def
        gc_int_write_def BYTESWAP_32_def tst_def)
  moreover have "clear_cpu_int (u\<lparr>int_mask := 0x40000\<rparr>) = u\<lparr>int_mask := 0x40000\<rparr>" by (simp add: clear_cpu_int_def g)
  moreover obtain t where t: "signal_cpu_int (u\<lparr>int_mask := 0x40000\<rparr>) = Ret () t" "int_pin t"
    by (rule signal_eq[of "u\<lparr>int_mask := 0x40000\<rparr>"]) (auto simp: gc_pend_def g tst_def)
  ultimately have w: "mmu_write_vmem ?b 4 0 0xF3000024 0x400 ?s = Ret () t" by simp
  have "mmu_reach ?b ?s" by (rule mmu_reach.init) (simp_all add: gc_start_sel)
  then have "mmu_reach ?b t" by (rule mmu_reach.step) (rule mmu_step.write_data[OF w[THEN arg_cong[where f = final], simplified]])
  then show ?thesis using mmu_reach_keeps_tlb_inv[OF gcb.mmio_bus_axioms, of t] w t(2) by blast
qed

text \<open>A device that raises the processor's interrupt line when it is written, and a machine whose secondary TLB holds a page of it.\<close>

definition irq_bus :: "'a mmu_scheme bus" where
  "irq_bus = \<lparr>dev_read = (\<lambda>_ _ _ _ s. Ret 0 s), dev_write = (\<lambda>_ _ _ _ _ s. ppc_assert_int s)\<rparr>"

interpretation irqb: mmio_bus irq_bus
  by unfold_locales (simp_all add: irq_bus_def assert_int_ok)

definition io_entry :: TLBEntry where
  "io_entry = \<lparr>tag = 0xFFFFF000, flags = 0x62, lru_bits = 0, host_va_offs_r = 0, host_va_offs_w = 0,
     rgn_desc = Some (gc_rgn\<lparr>rstart := 0xFFFFF000, rend := 0xFFFFFFFF\<rparr>), dev_base_va = 0xFFFFF000, phys_tag = 0xFFFFF000\<rparr>"

definition io_machine :: fpu where
  "io_machine = fp_machine\<lparr>tlb := (\<lambda>_. UnmappedMem)(Slot DTLB 2 1 (4095 * 4) := io_entry), pCurITLB1 := 1, pCurITLB2 := 1,
     pCurDTLB1 := 1, pCurDTLB2 := 1, CurITLBMode := 0, CurDTLBMode := 0\<rparr>"

lemma io_machine_ok: "tlb_inv io_machine" "mode_ok io_machine"
proof -
  have "tracked ty io_machine = []" "pending ty io_machine = 0" for ty
    by (cases ty; simp add: io_machine_def fp_machine_def tb_machine_def static_mmu_def mmu.defs timebase.defs)+
  then show "tlb_inv io_machine" by (simp add: tlb_inv_def slot_ok_def) (simp add: io_machine_def io_entry_def UnmappedMem_def tst_def)
  show "mode_ok io_machine" by (simp add: mode_ok_def io_machine_def mode_arrays_def)
qed

text \<open>\<open>stwx r3,0,r4\<close> to the device: the processor is interrupted in the middle of the store.\<close>

theorem load_store_keeps_tlb_inv_witness:
  "\<exists>t. ppc_stx irq_bus 4 0x7C60212E io_machine = Ret () t \<and> int_pin t \<and> exec_flags t = EXEF_EXCEPTION \<and> tlb_inv t \<and> mode_ok t"
proof -
  let ?va = "0xFFFFFFF0"
  have r: "gpr io_machine 4 = ?va" "msr io_machine = MSR_EE" by (simp_all add: io_machine_def fp_machine_def timebase.defs tb_machine_sel)
  have f: "reg_a 0x7C60212E = 0" "reg_b 0x7C60212E = 4" by (simp_all add: reg_a_def reg_b_def)
  have ea: "ea_idx 0x7C60212E io_machine = ?va" by (simp add: ea_idx_def ra_or_0_def f r)
  obtain p u where l: "lookup_tlb DTLB ?va (page_tag ?va) io_machine = ((Slot DTLB 1 1 4095, Some p, False), u)"
    and e: "flags (tlb u p) = 0x62" "rgn_desc (tlb u p) = rgn_desc io_entry" "msr u = MSR_EE"
  proof -
    let ?p = "Slot DTLB 2 1 (4095 * 4)"
    let ?u = "tlb2_touch_way 0 ?p io_machine"
    have "lookup_tlb DTLB ?va (page_tag ?va) io_machine = ((Slot DTLB 1 1 4095, Some ?p, False), ?u)"
      by (simp add: lookup_tlb_def lookup_secondary_tlb_def set2_def tlb_index_def page_tag_def Let_def)
        (simp add: io_machine_def io_entry_def UnmappedMem_def)
    moreover have "flags (tlb ?u ?p) = 0x62" "rgn_desc (tlb ?u ?p) = rgn_desc io_entry" "msr ?u = MSR_EE"
      by (simp_all add: tlb2_touch_way_def put_lru_def r(2)) (simp_all add: io_machine_def io_entry_def)
    ultimately show thesis by (rule that)
  qed
  have "write_target ?va io_machine = Ret (Device p) u" by (simp add: write_target_def l e(1) prepare_dtlb_write_def tst_def)
  then have "ppc_stx irq_bus 4 0x7C60212E io_machine = ppc_assert_int u"
    by (simp add: ppc_stx_def ea mmu_write_vmem_def write_vmem_with_def mmio_write_def entry_write_def e(2))
      (simp add: io_entry_def gc_rgn_def irq_bus_def)
  moreover obtain t where t: "ppc_assert_int u = Ret () t" "int_pin t"
      "t = exc_state EXC_EXT_INT 0 (pc_or_next 4 (u\<lparr>int_pin := True\<rparr>)) (u\<lparr>int_pin := True\<rparr>)"
    by (rule assert_int[of u]) (simp add: e(3) tst_def)
  moreover have "exec_flags t = EXEF_EXCEPTION" unfolding t(3) by (simp add: frame)
  moreover have "ppc_stx irq_bus 4 \<in> set (load_store_handlers undefined irq_bus)" by (simp add: load_store_handlers_def)
  ultimately show ?thesis
    using load_store_keeps_tlb_inv[OF irqb.mmio_bus_axioms io_machine_ok, of "ppc_stx irq_bus 4" undefined "0x7C60212E" t] by auto
qed

end
