(* ===== verification/DbdmaExact.thy ===== *)
theory DbdmaExact
  imports Dbdma
begin

text \<open>
  Properties of the DBDMA engine: a channel program of output commands runs to its end and hands its buffers to
  the device in order; a program that branches to itself is stopped; a transfer that waits is not.
\<close>

subsection \<open>Programs in memory\<close>

lemma map_dma_cong:
  fixes s :: "'a mmu_scheme" and t :: "'b mmu_scheme"
  assumes "address_map (mem_ctrl_instance t) = address_map (mem_ctrl_instance s)"
    and "mmu_map_dma_mem a n x y z s = Ret r s"
  shows "mmu_map_dma_mem a n x y z t = Ret r t"
proof -
  have f: "find_range (mem_ctrl_instance t) = find_range (mem_ctrl_instance s)"
    using assms(1) by (rule_tac ext) (simp add: find_range_def)
  show ?thesis using assms(2) unfolding mmu_map_dma_mem_def f Let_def
    by (auto simp: dma_fail_def split: option.splits if_splits)
qed

text \<open>Guest memory at an address is host memory at another, writable if asked for.\<close>

definition dma_at :: "'a mmu_scheme \<Rightarrow> u32 \<Rightarrow> u32 \<Rightarrow> bool \<Rightarrow> u64 \<Rightarrow> bool" where
  "dma_at s a n w h \<longleftrightarrow> (\<exists>r. mmu_map_dma_mem a n False False False s = Ret r s \<and> host_va r = h \<and> (w \<longrightarrow> is_writable r))"

text \<open>One output command of a program: the guest address and the length of its buffer, and the buffer's host address.\<close>

type_synonym out_cmd = "u32 \<times> u16 \<times> u64"

definition output_cmd :: "hmem \<Rightarrow> u64 \<Rightarrow> out_cmd \<Rightarrow> bool" where
  "output_cmd m h = (\<lambda>(a, n, b). m (h + 2) = 0 \<and> (m (h + 3) = 0 \<or> m (h + 3) = 0x10) \<and> native_read16 m h = n \<and> n \<noteq> 0 \<and>
     native_read32 m (h + 4) = a)"

text \<open>Byte \<open>k\<close> from a host address.\<close>

definition host_off :: "u64 \<Rightarrow> nat \<Rightarrow> u64" where
  "host_off h k = h + of_nat k"

lemma host_off_eq: "i < 2 ^ 63 \<Longrightarrow> j < 2 ^ 63 \<Longrightarrow> host_off h i = host_off h j \<longleftrightarrow> i = j"
proof -
  assume "i < 2 ^ 63" "j < 2 ^ 63"
  then have "unat (of_nat i :: u64) = i" "unat (of_nat j :: u64) = j" by (simp_all add: unat_of_nat)
  then show ?thesis unfolding host_off_def by (metis add_left_cancel)
qed

lemma host_off_add:
  "host_off h k + numeral n = host_off h (k + numeral n)" "host_off h 0 = h"
  "host_off h (k + 14) + 1 = host_off h (k + 15)" "host_off h (k + 12) + 1 = host_off h (k + 13)"
  by (simp_all add: host_off_def)

text \<open>The status and the residual count of the first commands are written.\<close>

fun status_written :: "u16 \<Rightarrow> u64 \<Rightarrow> nat \<Rightarrow> hmem \<Rightarrow> hmem" where
  "status_written st h 0 m = m"
| "status_written st h (Suc i) m =
     (let m = status_written st h i m; a = host_off h (16 * i)
      in native_write16 (native_write16 m (a + 14) st) (a + 12) 0)"

lemma status_step:
  "status_written st h (Suc i) m = (status_written st h i m)
     (host_off h (16 * i + 14) := ucast st, host_off h (16 * i + 15) := ucast (drop_bit 8 st),
      host_off h (16 * i + 12) := 0, host_off h (16 * i + 13) := 0)"
  unfolding status_written.simps Let_def native_write16_def host_off_add by simp

declare status_written.simps(2) [simp del]

lemma status_other:
  "\<forall>j<i. k < 16 * j + 12 \<or> 16 * j + 16 \<le> k \<Longrightarrow> k < 2 ^ 62 \<Longrightarrow> 16 * i < 2 ^ 62 \<Longrightarrow>
   status_written st h i m (host_off h k) = m (host_off h k)"
proof (induction i)
  case (Suc i)
  then have k: "k < 16 * i + 12 \<or> 16 * i + 16 \<le> k" by simp
  have "status_written st h (Suc i) m (host_off h k) = status_written st h i m (host_off h k)"
    unfolding status_step fun_upd_apply using k Suc.prems(2,3) by (auto simp: host_off_eq)
  then show ?case using Suc by simp
qed simp

lemma status_bytes:
  assumes "j < i" "16 * i < 2 ^ 62"
  shows "status_written st h i m (host_off h (16 * j + 14)) = ucast st"
    "status_written st h i m (host_off h (16 * j + 15)) = ucast (drop_bit 8 st)"
    "status_written st h i m (host_off h (16 * j + 12)) = 0" "status_written st h i m (host_off h (16 * j + 13)) = 0"
proof -
  have keep: "j < i \<Longrightarrow> 16 * i < 2 ^ 62 \<Longrightarrow> c < 16 \<Longrightarrow> status_written st h i m (host_off h (16 * j + c)) =
      status_written st h (Suc j) m (host_off h (16 * j + c))" for c i
  proof (induction i)
    case (Suc i)
    show ?case
    proof (cases "j = i")
      case False
      then have "status_written st h (Suc i) m (host_off h (16 * j + c)) = status_written st h i m (host_off h (16 * j + c))"
        unfolding status_step[of st h i] fun_upd_apply using Suc.prems by (auto simp: host_off_eq)
      with Suc False show ?thesis by simp
    qed simp
  qed simp
  show "status_written st h i m (host_off h (16 * j + 14)) = ucast st"
    "status_written st h i m (host_off h (16 * j + 15)) = ucast (drop_bit 8 st)"
    "status_written st h i m (host_off h (16 * j + 12)) = 0" "status_written st h i m (host_off h (16 * j + 13)) = 0"
    using keep[OF assms, of 14] keep[OF assms, of 15] keep[OF assms, of 12] keep[OF assms, of 13] assms
    by (simp_all add: status_step host_off_eq)
qed

lemma status_read:
  assumes "j < i" "16 * i < 2 ^ 62"
  shows "native_read16 (status_written st h i m) (host_off h (16 * j + 14)) = st"
    "native_read16 (status_written st h i m) (host_off h (16 * j + 12)) = 0"
proof -
  have "ucast (ucast st :: u8) OR push_bit 8 (ucast (ucast (drop_bit 8 st) :: u8)) = st"
    by (rule bit_word_eqI) (auto simp: bit_simps)
  then show "native_read16 (status_written st h i m) (host_off h (16 * j + 14)) = st"
    "native_read16 (status_written st h i m) (host_off h (16 * j + 12)) = 0"
    unfolding native_read16_def host_off_add status_bytes[OF assms] by simp_all
qed

lemma output_cmd_cong:
  assumes "\<And>k. k < 16 \<Longrightarrow> m (host_off a k) = m' (host_off a k)"
  shows "output_cmd m a = output_cmd m' a"
proof -
  have n: "m (a + numeral k) = m' (a + numeral k)" if "numeral k < (16 :: nat)" for k
    using assms[OF that] by (simp add: host_off_def)
  have "m a = m' a" "m (a + 1) = m' (a + 1)" using assms[of 0] assms[of 1] by (simp_all add: host_off_def)
  then show ?thesis by (simp add: output_cmd_def native_read16_def native_read32_def add.assoc n)
qed

subsection \<open>A program of output commands\<close>

text \<open>A device that takes all data it is given and keeps its own state behind the channel's.\<close>

definition takes_all :: "'a channel_env \<Rightarrow> (u64 \<Rightarrow> u32 \<Rightarrow> 'a \<Rightarrow> 'a) \<Rightarrow> bool" where
  "takes_all e g \<longleftrightarrow> (\<exists>d. dma_dev e = Some d \<and> (\<forall>b n s. xfer_to d b n s = Ret n (dbdma.more_update (g b n) s)) \<and>
     (\<forall>m s. dev_notify d m s = Ret () s)) \<and> start_cb e = None"

definition deliver :: "(u64 \<Rightarrow> u32 \<Rightarrow> 'a \<Rightarrow> 'a) \<Rightarrow> out_cmd list \<Rightarrow> 'a \<Rightarrow> 'a" where
  "deliver g cs = fold (\<lambda>(a, n, b). g b (ucast n)) cs"

text \<open>The program at the command pointer: output commands and a final \<open>STOP\<close>, consecutive in host memory from \<open>h\<close>.\<close>

definition program_at :: "'a dbdma_scheme \<Rightarrow> u64 \<Rightarrow> out_cmd list \<Rightarrow> bool" where
  "program_at s h cs \<longleftrightarrow>
     (\<forall>i\<le>length cs. dma_at s (cmd_ptr s + of_nat (16 * i)) 16 True (host_off h (16 * i))) \<and>
     (\<forall>i<length cs. output_cmd (hmem_of s) (host_off h (16 * i)) (cs ! i) \<and>
        (case cs ! i of (a, n, b) \<Rightarrow> dma_at s a (ucast n) False b)) \<and>
     hmem_of s (host_off h (16 * length cs + 3)) = 0x70 \<and> length cs < MAX_CMDS_PER_RUN"

definition at_cmd :: "'a dbdma_scheme \<Rightarrow> u16 \<Rightarrow> u64 \<Rightarrow> (u64 \<Rightarrow> u32 \<Rightarrow> 'a \<Rightarrow> 'a) \<Rightarrow> out_cmd list \<Rightarrow> nat \<Rightarrow> 'a dbdma_scheme \<Rightarrow> bool" where
  "at_cmd s0 st h g cs i s \<longleftrightarrow> cmd_ptr s = cmd_ptr s0 + of_nat (16 * i) \<and> \<not> cmd_in_progress s \<and> \<not> xfer_ended s \<and>
     ch_stat s = st \<and> in_interpret_loop s \<and> address_map (mem_ctrl_instance s) = address_map (mem_ctrl_instance s0) \<and>
     hmem_of s = status_written st h i (hmem_of s0) \<and> dbdma.more s = deliver g (take i cs) (dbdma.more s0)"

lemma dma_at_fetch:
  assumes "dma_at s0 a n w h" "address_map (mem_ctrl_instance s) = address_map (mem_ctrl_instance s0)"
  shows "\<exists>r. mmu_map_dma_mem a n False False False s = Ret r s \<and> host_va r = h \<and> (w \<longrightarrow> is_writable r)"
  using assms map_dma_cong[OF assms(2)] unfolding dma_at_def by blast

lemma dma_at_cong:
  "dma_at s0 a n w h \<Longrightarrow> address_map (mem_ctrl_instance s) = address_map (mem_ctrl_instance s0) \<Longrightarrow> dma_at s a n w h"
  using dma_at_fetch unfolding dma_at_def by blast

lemma program_at_cong:
  assumes "program_at s h cs" "mem_ctrl_instance t = mem_ctrl_instance s" "cmd_ptr t = cmd_ptr s"
  shows "program_at t h cs"
proof -
  have d: "dma_at t a n w b" if "dma_at s a n w b" for a n w b
    using dma_at_cong[OF that, of t] assms(2) by simp
  have "case c of (a, n, b) \<Rightarrow> dma_at t a (ucast n) False b" if "case c of (a, n, b) \<Rightarrow> dma_at s a (ucast n) False b" for c :: out_cmd
    using that d by (cases c) simp
  with assms d show ?thesis by (simp add: program_at_def)
qed

lemma fetch_at:
  fixes s0 :: "'a dbdma_scheme"
  assumes "program_at s0 h cs" "at_cmd s0 st h g cs i s" "i \<le> length cs"
  shows "fetch_cmd (cmd_ptr s) s = Ret (host_off h (16 * i), read_DMACmd (hmem_of s) (host_off h (16 * i)), True) s"
proof -
  have "dma_at s0 (cmd_ptr s) 16 True (host_off h (16 * i))" "address_map (mem_ctrl_instance s) = address_map (mem_ctrl_instance s0)"
    using assms by (simp_all add: program_at_def at_cmd_def)
  from dma_at_fetch[OF this] show ?thesis by (auto simp: fetch_cmd_def)
qed

lemma cmd_bytes:
  assumes "at_cmd s0 st h g cs i s" "i \<le> length cs" "length cs < MAX_CMDS_PER_RUN" "k < 16"
  shows "hmem_of s (host_off h (16 * i + k)) = hmem_of s0 (host_off h (16 * i + k))"
  using assms status_other[of i "16 * i + k"] by (simp add: at_cmd_def)

lemma host_off_off: "host_off (host_off h i) k = host_off h (i + k)"
  by (simp add: host_off_def add.assoc)

lemma output_at:
  assumes "program_at s0 h cs" "at_cmd s0 st h g cs i s" "i < length cs"
  shows "output_cmd (hmem_of s) (host_off h (16 * i)) (cs ! i)"
proof -
  have "output_cmd (hmem_of s) (host_off h (16 * i)) = output_cmd (hmem_of s0) (host_off h (16 * i))"
    using assms cmd_bytes[OF assms(2)] by (intro output_cmd_cong) (simp add: host_off_off program_at_def)
  then show ?thesis using assms by (simp add: program_at_def)
qed

text \<open>A channel status with \<open>ACTIVE\<close> set and \<open>BT\<close>, \<open>DEAD\<close>, \<open>WAKE\<close> and \<open>FLUSH\<close> clear.\<close>

definition steady :: "u16 \<Rightarrow> bool" where
  "steady st \<longleftrightarrow> st AND 0x3D00 = 0x0400"

lemma steady_bits: "steady st \<Longrightarrow> \<not> bit st 8 \<and> bit st 10 \<and> \<not> bit st 11 \<and> \<not> bit st 12 \<and> \<not> bit st 13"
proof -
  assume "steady st"
  then have "bit (st AND 0x3D00) n = bit (0x0400 :: u16) n" for n by (simp add: steady_def)
  from this[of 8] this[of 10] this[of 11] this[of 12] this[of 13] show ?thesis by (simp add: bit_simps)
qed

lemma all_less_16: "(\<forall>n<16. P n) \<longleftrightarrow> P 0 \<and> P 1 \<and> P 2 \<and> P 3 \<and> P 4 \<and> P 5 \<and> P 6 \<and> P 7 \<and> P 8 \<and> P 9 \<and> P 10 \<and> P 11 \<and>
    P 12 \<and> P 13 \<and> P 14 \<and> P (15 :: nat)"
  by (simp add: eval_nat_numeral All_less_Suc) blast

lemma steady_simps:
  assumes "steady st"
  shows "st AND - 4097 = st" "st AND - 257 = st" "st AND - 8449 = st" "st OR 0x400 = st" "st AND 0x400 \<noteq> 0" "st AND 0x800 = 0"
  using steady_bits[OF assms]
proof -
  note b = steady_bits[OF assms]
  show "st AND - 4097 = st" "st AND - 257 = st" "st AND - 8449 = st" "st OR 0x400 = st" "st AND 0x800 = 0"
    using b by - (rule u16_eqI, unfold all_less_16, simp add: bit_simps)+
  show "st AND 0x400 \<noteq> 0"
  proof
    assume "st AND 0x400 = 0"
    then have "bit (st AND 0x400) 10 = bit (0 :: u16) 10" by simp
    then show False using b by (simp add: bit_simps)
  qed
qed

lemma irq_none [simp]: "update_irq e 0 s = s"
  by (simp add: update_irq_def cond_met_def)

text \<open>The end of a command with no wait, branch or interrupt bits.\<close>

lemma finish_plain:
  assumes "hmem_of s (cur_host s + 2) = 0" "cur_cmd s < DBDMA_NOP" "cur_is_writable s" "steady (ch_stat s)"
  shows "finish_cmd e s = (put_hmem (native_write16 (native_write16 (hmem_of s) (cur_host s + 14) (ch_stat s))
       (cur_host s + 12) (ucast (res_count s))) s)\<lparr>cmd_ptr := cmd_ptr s + 16, cmd_in_progress := False\<rparr>"
proof -
  note st = steady_simps[OF assms(4)]
  have k: "cur_cmd s < DBDMA_STOP" using assms(2) by (rule less_trans) simp
  have z: "cond_met 0 sel x = False" for sel x by (simp add: cond_met_def)
  show ?thesis
    unfolding finish_cmd_def complete_cmd_def Let_def assms(1)
    by (simp add: z k assms update_cmd_def put_hmem_def st Let_def)
qed

text \<open>The channel after the device has taken the whole buffer of an output command, before the command is finished.\<close>

definition moved :: "(u64 \<Rightarrow> u32 \<Rightarrow> 'a \<Rightarrow> 'a) \<Rightarrow> u64 \<Rightarrow> bool \<Rightarrow> u8 \<Rightarrow> u16 \<Rightarrow> u64 \<Rightarrow> 'a dbdma_scheme \<Rightarrow> 'a dbdma_scheme" where
  "moved g h w k n b s = (dbdma.more_update (g b (ucast n))
       (s\<lparr>cur_host := h, cur_is_writable := w, ch_stat := ch_stat s AND NOT CH_STAT_WAKE, cur_cmd := k, cmd_in_progress := True,
          xfer_dir := DMA_DIR_TO_DEV\<rparr>))
     \<lparr>queue_data := b + scast (ucast n :: u32), res_count := 0, queue_len := 0\<rparr>"

lemma output_moves:
  fixes s :: "'a dbdma_scheme"
  assumes "fetch_cmd (cmd_ptr s) s = Ret (h, read_DMACmd m h, w) s" "takes_all e g"
    and "m (h + 3) = 0 \<or> m (h + 3) = 0x10" "n = native_read16 m h" "n \<noteq> 0"
    and "dma_at s (native_read32 m (h + 4)) (ucast n) False b" "\<not> xfer_ended s"
    and "cmd_in_progress s \<Longrightarrow> queue_len s = 0" "(if cmd_in_progress s then finish_cmd e s else s) = s"
  shows "interpret_cmd e s = Ret () (ask_again (finish_cmd e (moved g h w (drop_bit 4 (m (h + 3))) n b s)))"
proof -
  obtain d where d: "dma_dev e = Some d" "\<And>b n s. xfer_to d b n s = Ret n (dbdma.more_update (g b n) s)"
    using assms(2) by (auto simp: takes_all_def)
  let ?k = "drop_bit 4 (m (h + 3))"
  have k: "?k < 2" "?k < 4" "m (h + 3) AND 7 = 0" using assms(3) by auto
  define s1 where "s1 = s\<lparr>cur_host := h, cur_is_writable := w, ch_stat := ch_stat s AND NOT CH_STAT_WAKE, cur_cmd := ?k\<rparr>"
  obtain r where r: "mmu_map_dma_mem (native_read32 m (h + 4)) (ucast n) False False False s1 = Ret r s1" "host_va r = b"
    using dma_at_fetch[OF assms(6), of s1] by (auto simp: s1_def)
  have "interpret_cmd e s = execute_cmd e (read_DMACmd m h) s1"
    using assms(1,8,9) by (auto simp: interpret_cmd_def s1_def read_DMACmd_def Let_def)
  also have "\<dots> = Ret () (ask_again (finish_cmd e (moved g h w ?k n b s)))"
  proof -
    have "cur_cmd s1 = ?k" by (simp add: s1_def)
    then show ?thesis
      using k assms(4,5,7) r
      by (simp add: execute_cmd_def start_transfer_def read_DMACmd_def nested_xfer_def d move_data_def finish_ended_cmd_def
          tst_def moved_def Let_def) (simp add: s1_def)
  qed
  finally show ?thesis .
qed

lemma output_step:
  fixes s0 :: "'a dbdma_scheme"
  assumes "program_at s0 h cs" "at_cmd s0 st h g cs i s" "i < length cs" "takes_all e g" "steady st"
  shows "\<exists>s'. interpret_cmd e s = Ret () s' \<and> at_cmd s0 st h g cs (Suc i) s'"
proof -
  obtain a n b where c: "cs ! i = (a, n, b)" by (cases "cs ! i")
  let ?h = "host_off h (16 * i)" and ?m = "hmem_of s"
  have o: "?m (?h + 2) = 0" "?m (?h + 3) = 0 \<or> ?m (?h + 3) = 0x10" "native_read16 ?m ?h = n" "n \<noteq> 0" "native_read32 ?m (?h + 4) = a"
    using output_at[OF assms(1-3)] by (simp_all add: output_cmd_def c)
  have s: "\<not> cmd_in_progress s" "\<not> xfer_ended s" "ch_stat s = st" "address_map (mem_ctrl_instance s) = address_map (mem_ctrl_instance s0)"
    using assms(2) by (simp_all add: at_cmd_def)
  have "dma_at s0 a (ucast n) False b" using assms(1,3) c by (auto simp: program_at_def)
  then have "dma_at s a (ucast n) False b" using dma_at_cong s(4) by blast
  then have "interpret_cmd e s = Ret () (ask_again (finish_cmd e (moved g ?h True (drop_bit 4 (?m (?h + 3))) n b s)))"
    using output_moves[OF fetch_at[OF assms(1,2)], of e g n b] assms(3,4) o s by simp
  moreover have "at_cmd s0 st h g cs (Suc i) (ask_again (finish_cmd e (moved g ?h True (drop_bit 4 (?m (?h + 3))) n b s)))"
  proof -
    let ?s = "moved g ?h True (drop_bit 4 (?m (?h + 3))) n b s"
    have "drop_bit 4 (?m (?h + 3)) < DBDMA_NOP" using o(2) by auto
    then have f: "finish_cmd e ?s = (put_hmem (native_write16 (native_write16 ?m (?h + 14) st) (?h + 12) 0) ?s)
        \<lparr>cmd_ptr := cmd_ptr s + 16, cmd_in_progress := False\<rparr>"
      using finish_plain[of ?s e] o(1) assms(5) steady_simps(1)[OF assms(5)] s(3) by (simp add: moved_def)
    have "16 + of_nat (16 * i) = (of_nat (16 * Suc i) :: u32)" by simp
    then show ?thesis
      using assms(2,3) c unfolding f
      by (simp add: at_cmd_def ask_again_def put_hmem_def moved_def steady_simps(1)[OF assms(5)] status_written.simps(2)
          take_Suc_conv_app_nth deliver_def Let_def)
  qed
  ultimately show ?thesis by blast
qed

text \<open>The channel after its \<open>STOP\<close>.\<close>

definition ended :: "'a dbdma_scheme \<Rightarrow> u16 \<Rightarrow> u64 \<Rightarrow> (u64 \<Rightarrow> u32 \<Rightarrow> 'a \<Rightarrow> 'a) \<Rightarrow> out_cmd list \<Rightarrow> 'a dbdma_scheme \<Rightarrow> bool" where
  "ended s0 st h g cs t \<longleftrightarrow> cmd_ptr t = cmd_ptr s0 + of_nat (16 * length cs) \<and> \<not> cmd_in_progress t \<and>
     ch_stat t = st AND NOT CH_STAT_ACTIVE \<and> hmem_of t = status_written st h (length cs) (hmem_of s0) \<and>
     dbdma.more t = deliver g cs (dbdma.more s0)"

lemma not_active_cleared: "((x :: u16) AND - 1025) AND 1024 = 0"
  by (rule u16_eqI, unfold all_less_16, simp add: bit_simps)

lemma ended_inactive: "ended s0 st h g cs t \<Longrightarrow> \<not> is_active t"
  by (simp add: ended_def is_active_def tst_def not_active_cleared)

lemma stop_step:
  fixes s0 :: "'a dbdma_scheme"
  assumes "program_at s0 h cs" "at_cmd s0 st h g cs (length cs) s" "steady st"
  shows "\<exists>t. interpret_cmd e s = Ret () t \<and> ended s0 st h g cs t"
proof -
  let ?h = "host_off h (16 * length cs)"
  have key: "hmem_of s (?h + 3) = 0x70"
    using cmd_bytes[OF assms(2), of 3] assms(1) by (simp add: program_at_def host_off_add)
  have s: "\<not> cmd_in_progress s" "ch_stat s = st" using assms(2) by (simp_all add: at_cmd_def)
  have nb: "((st AND - 4097) AND - 1025) AND - 8449 = st AND - 1025"
    using steady_bits[OF assms(3)] by - (rule u16_eqI, unfold all_less_16, simp add: bit_simps)
  show ?thesis
    using assms(2) s fetch_at[OF assms(1,2) order_refl] key nb
    by (simp add: interpret_cmd_def read_DMACmd_def execute_cmd_def finish_cmd_def complete_cmd_def update_cmd_def Let_def
        ended_def at_cmd_def)
qed

lemma run_program:
  fixes s0 :: "'a dbdma_scheme"
  assumes "program_at s0 h cs" "takes_all e g" "steady st"
  shows "at_cmd s0 st h g cs i s \<Longrightarrow> i \<le> length cs \<Longrightarrow> length cs - i < k \<Longrightarrow>
    \<exists>t. run_cmds e k s = Ret () t \<and> ended s0 st h g cs t"
proof (induction k arbitrary: i s)
  case (Suc k)
  have act: "is_active s" using Suc.prems(1) steady_simps[OF assms(3)] by (simp add: is_active_def at_cmd_def tst_def)
  show ?case
  proof (cases "i = length cs")
    case True
    with stop_step[OF assms(1) _ assms(3)] Suc.prems(1) obtain t where t: "interpret_cmd e s = Ret () t" "ended s0 st h g cs t" by blast
    have na: "\<not> is_active t" using t(2) by (rule ended_inactive)
    have "run_cmds e k t = Ret () t" by (subst run_cmds.simps) (simp add: na)
    with act t show ?thesis by (subst run_cmds.simps) (simp add: ended_def)
  next
    case False
    with output_step[OF assms(1) Suc.prems(1) _ assms(2,3)] Suc.prems(2)
    obtain s' where s': "interpret_cmd e s = Ret () s'" "at_cmd s0 st h g cs (Suc i) s'" by fastforce
    from Suc.IH[OF s'(2)] False Suc.prems obtain t where "run_cmds e k s' = Ret () t" "ended s0 st h g cs t" by fastforce
    with act s' show ?thesis by (subst run_cmds.simps) (simp add: at_cmd_def)
  qed
qed simp

lemma passes_program:
  fixes s0 :: "'a dbdma_scheme"
  assumes "program_at s0 h cs" "takes_all e g" "steady st" "at_cmd s0 st h g cs 0 s"
  shows "\<exists>t. interpret_passes e s = Some (Ret () t) \<and> ended s0 st h g cs t"
proof -
  have "at_cmd s0 st h g cs 0 (s\<lparr>interpret_again := False\<rparr>)" using assms(4) by (simp add: at_cmd_def)
  from run_program[OF assms(1-3) this, of MAX_CMDS_PER_RUN] assms(1)
  obtain t where t: "run_cmds e MAX_CMDS_PER_RUN (s\<lparr>interpret_again := False\<rparr>) = Ret () t" "ended s0 st h g cs t"
    by (auto simp: program_at_def)
  show ?thesis
  proof (cases "interpret_again t")
    case False
    with t show ?thesis by (subst interpret_passes.simps) simp
  next
    case True
    let ?t = "t\<lparr>interpret_again := False\<rparr>"
    have e: "ended s0 st h g cs ?t" using t(2) by (simp add: ended_def)
    then have "\<not> is_active ?t" by (rule ended_inactive)
    then have "run_cmds e MAX_CMDS_PER_RUN ?t = Ret () ?t" by (subst run_cmds.simps) simp
    then have "interpret_passes e t = Some (Ret () ?t)" by (subst interpret_passes.simps) simp
    with t True e show ?thesis by (subst interpret_passes.simps) simp
  qed
qed

lemma start_status:
  fixes x :: u16
  assumes "x AND 0x7D00 = 0"
  shows "steady (x OR 0x8400)" "x AND 0x400 = 0" "(x OR 0x8400) AND 0x4000 = 0" "((x OR 0x8400) AND - 1025) AND 0x800 = 0"
    "((x OR 0x8400) AND - 1025) AND 0x8000 = 0x8000"
proof -
  have b: "\<not> bit x n" if "n \<in> {8, 10, 11, 12, 13, 14}" for n
  proof -
    have "bit (x AND 0x7D00) n = bit (0 :: u16) n" by (simp only: assms)
    then show ?thesis using that by (auto simp: bit_simps)
  qed
  note nb = b[of 8, simplified] b[of 10, simplified] b[of 11, simplified] b[of 12, simplified] b[of 13, simplified] b[of 14, simplified]
  show "steady (x OR 0x8400)" unfolding steady_def
    using nb by - (rule u16_eqI, unfold all_less_16, simp add: bit_simps)
  show "x AND 0x400 = 0" "(x OR 0x8400) AND 0x4000 = 0" "((x OR 0x8400) AND - 1025) AND 0x800 = 0"
    "((x OR 0x8400) AND - 1025) AND 0x8000 = 0x8000"
    using nb by - (rule u16_eqI, unfold all_less_16, simp add: bit_simps)+
qed

text \<open>Setting the run bit of a stopped channel starts the interpreter.\<close>

definition started :: "'a dbdma_scheme \<Rightarrow> 'a dbdma_scheme" where
  "started s = s\<lparr>ch_stat := ch_stat s OR 0x8400, queue_len := 0, cmd_in_progress := False, in_interpret_loop := True\<rparr>"

definition quiet_start :: "'a channel_env \<Rightarrow> bool" where
  "quiet_start e \<longleftrightarrow> (\<forall>s. notify_device e DMA_MSG_START s = Ret () s) \<and> start_cb e = None"

lemma takes_all_quiet: "takes_all e g \<Longrightarrow> quiet_start e"
  by (auto simp: takes_all_def quiet_start_def notify_device_def)

lemma run_starts:
  assumes "quiet_start e" "ch_stat s AND 0x7D00 = 0" "\<not> in_interpret_loop s"
  shows "reg_write e 0 (BYTESWAP_32 0x80008000) 4 s =
    map_option (\<lambda>r. obind r (\<lambda>_ s. Ret () (s\<lparr>in_interpret_loop := False\<rparr>))) (interpret_passes e (started s))"
proof -
  note off = start_status[OF assms(2)]
  have "reg_write e 0 (BYTESWAP_32 0x80008000) 4 s = write_control e 0x80008000 s"
    by (simp add: reg_write_def BYTESWAP_32_involution)
  also have "\<dots> = ctrl_run e 0x8000 0x8000 s"
  proof -
    have "ucast (0x80008000 :: u32) = (0x8000 :: u16)" "ucast (drop_bit 16 (0x80008000 :: u32)) = (0x8000 :: u16)" by simp_all
    then show ?thesis unfolding write_control_def by (simp only: Let_def) (simp add: ctrl_general_def ctrl_flush_def tst_def)
  qed
  also have "\<dots> = interpret_until_blocked e (s\<lparr>ch_stat := ch_stat s OR 0x8400, queue_len := 0, cmd_in_progress := False\<rparr>)"
    using assms(1) off by (simp add: ctrl_run_def tst_def dma_start_def quiet_start_def call_back_def then_interpret_def)
  finally show ?thesis using assms(3) by (simp add: interpret_until_blocked_def started_def)
qed

text \<open>
  C6: A channel program runs. Setting the run bit of a stopped channel whose command pointer names any
  number (below 65536) of output commands and a final \<open>STOP\<close> returns, with a device that takes all
  data: the device has been given every buffer, in order and with its length; the channel is
  idle, still in the run state and not dead, its pointer at the \<open>STOP\<close>; each command records that nothing
  is left to transfer and the channel's status while it ran; no other byte of the program changes.
\<close>

theorem dbdma_program_runs:
  fixes s :: "'a dbdma_scheme"
  assumes "program_at s h cs" "takes_all e g" "ch_stat s AND 0x7D00 = 0" "\<not> in_interpret_loop s" "\<not> xfer_ended s"
  shows "\<exists>t. reg_write e 0 (BYTESWAP_32 0x80008000) 4 s = Some (Ret () t) \<and>
     dbdma.more t = fold (\<lambda>(a, n, b). g b (ucast n)) cs (dbdma.more s) \<and>
     \<not> is_active t \<and> tst (ch_stat t) CH_STAT_RUN \<and> \<not> tst (ch_stat t) CH_STAT_DEAD \<and>
     cmd_ptr t = cmd_ptr s + of_nat (16 * length cs) \<and>
     (\<forall>i<length cs. native_read16 (hmem_of t) (host_off h (16 * i + 12)) = 0 \<and>
        native_read16 (hmem_of t) (host_off h (16 * i + 14)) = ch_stat s OR (CH_STAT_RUN OR CH_STAT_ACTIVE)) \<and>
     (\<forall>i\<le>length cs. \<forall>k<12. hmem_of t (host_off h (16 * i + k)) = hmem_of s (host_off h (16 * i + k)))"
proof -
  let ?st = "ch_stat s OR 0x8400" and ?s = "started s"
  note st = start_status[OF assms(3)]
  have "program_at ?s h cs" by (rule program_at_cong[OF assms(1)]) (simp_all add: started_def)
  moreover have "at_cmd ?s ?st h g cs 0 ?s" using assms(5) by (simp add: at_cmd_def started_def deliver_def)
  ultimately obtain t where t: "interpret_passes e ?s = Some (Ret () t)" "ended ?s ?st h g cs t"
    using passes_program[OF _ assms(2) st(1)] by blast
  have "reg_write e 0 (BYTESWAP_32 0x80008000) 4 s = Some (Ret () (t\<lparr>in_interpret_loop := False\<rparr>))"
    using run_starts[OF takes_all_quiet[OF assms(2)] assms(3,4)] t(1) by simp
  moreover have "\<not> is_active (t\<lparr>in_interpret_loop := False\<rparr>)" using ended_inactive[OF t(2)] by (simp add: is_active_def)
  moreover have "length cs < MAX_CMDS_PER_RUN" using assms(1) by (simp add: program_at_def)
  moreover have "status_written ?st h (length cs) (hmem_of s) (host_off h (16 * i + k)) = hmem_of s (host_off h (16 * i + k))"
    if "i \<le> length cs" "k < 12" "length cs < MAX_CMDS_PER_RUN" for i k
  proof (rule status_other)
    show "\<forall>j<length cs. 16 * i + k < 16 * j + 12 \<or> 16 * j + 16 \<le> 16 * i + k"
      using that by presburger
  qed (use that in simp_all)
  ultimately show ?thesis
    using t(2) st status_read[of _ "length cs" ?st h "hmem_of s"]
    by (intro exI[of _ "t\<lparr>in_interpret_loop := False\<rparr>"]) (simp add: ended_def started_def deliver_def tst_def)
qed

subsection \<open>Waiting transfers\<close>

definition waits_at :: "'a dbdma_scheme \<Rightarrow> u64 \<Rightarrow> u16 \<Rightarrow> 'a dbdma_scheme \<Rightarrow> bool" where
  "waits_at s0 h st s \<longleftrightarrow> cmd_ptr s = cmd_ptr s0 \<and> mem_ctrl_instance s = mem_ctrl_instance s0 \<and> wait_select s = wait_select s0 \<and>
     ch_stat s = st \<and> \<not> xfer_ended s \<and> (cmd_in_progress s \<longrightarrow> queue_len s = 0 \<and> cur_host s = h \<and> cur_cmd s < DBDMA_STOP)"

lemma waiting_step:
  fixes s0 :: "'a dbdma_scheme"
  assumes "dma_at s0 (cmd_ptr s0) 16 False h" "takes_all e g" "steady st"
    and "hmem_of s0 (h + 3) = 0 \<or> hmem_of s0 (h + 3) = 0x10"
    and "cond_met (hmem_of s0 (h + 2) AND 3) (wait_select s0) st"
    and "n = native_read16 (hmem_of s0) h" "n \<noteq> 0" "dma_at s0 (native_read32 (hmem_of s0) (h + 4)) (ucast n) False b"
    and "waits_at s0 h st s"
  shows "\<exists>t. interpret_cmd e s = Ret () t \<and> waits_at s0 h st t \<and> cmd_in_progress t \<and> interpret_again t"
proof -
  let ?m = "hmem_of s0"
  have s: "cmd_ptr s = cmd_ptr s0" "mem_ctrl_instance s = mem_ctrl_instance s0" "wait_select s = wait_select s0" "ch_stat s = st"
    "\<not> xfer_ended s" "cmd_in_progress s \<Longrightarrow> queue_len s = 0 \<and> cur_host s = h \<and> cur_cmd s < DBDMA_STOP"
    using assms(9) by (simp_all add: waits_at_def)
  have wait: "finish_cmd e u = u" if "waits_at s0 h st u" "cmd_in_progress u" for u :: "'a dbdma_scheme"
    using that assms(5) by (simp add: finish_cmd_def waits_at_def)
  obtain w where f: "fetch_cmd (cmd_ptr s) s = Ret (h, read_DMACmd ?m h, w) s"
    using dma_at_fetch[OF assms(1), of s] s(1,2) by (auto simp: fetch_cmd_def)
  have "dma_at s (native_read32 ?m (h + 4)) (ucast n) False b"
    using dma_at_cong[OF assms(8), of s] s(2) by simp
  from output_moves[OF f assms(2,4,6,7) this s(5)] s(6) wait[OF assms(9)]
  have i: "interpret_cmd e s = Ret () (ask_again (finish_cmd e (moved g h w (drop_bit 4 (?m (h + 3))) n b s)))" by simp
  have "drop_bit 4 (?m (h + 3)) < DBDMA_STOP" using assms(4) by auto
  then have "waits_at s0 h st (moved g h w (drop_bit 4 (?m (h + 3))) n b s)" "cmd_in_progress (moved g h w (drop_bit 4 (?m (h + 3))) n b s)"
    using s steady_simps(1)[OF assms(3)] by (simp_all add: moved_def waits_at_def)
  with i wait show ?thesis by (auto simp: ask_again_def waits_at_def)
qed

lemma waiting_forever:
  fixes s0 :: "'a dbdma_scheme"
  assumes step: "\<And>s. waits_at s0 h st s \<Longrightarrow> \<exists>t. interpret_cmd e s = Ret () t \<and> waits_at s0 h st t \<and> cmd_in_progress t \<and> interpret_again t"
    and "steady st" "waits_at s0 h st s"
  shows "interpret_passes e s = None"
proof (rule ccontr)
  assume "interpret_passes e s \<noteq> None"
  then obtain y where y: "interpret_passes e s = Some y" by blast
  have "e = e \<longrightarrow> \<not> waits_at s0 h st s"
  proof (rule interpret_passes.raw_induct[where P = "\<lambda>e' s y. e' = e \<longrightarrow> \<not> waits_at s0 h st s", OF _ y])
    fix f e' s y
    assume ih: "\<And>e' s y. f e' s = Some y \<Longrightarrow> e' = e \<longrightarrow> \<not> waits_at s0 h st s"
      and body: "(case run_cmds e' MAX_CMDS_PER_RUN (s\<lparr>interpret_again := False\<rparr>) of
        Ret _ s \<Rightarrow> if interpret_again s then f e' s else Some (Ret () s)
      | LongJmp s \<Rightarrow> Some (LongJmp s) | Throw m s \<Rightarrow> Some (Throw m s) | Abort m \<Rightarrow> Some (Abort m)) = Some y"
    show "e' = e \<longrightarrow> \<not> waits_at s0 h st s"
    proof (rule impI, rule notI)
      assume e: "e' = e" and w: "waits_at s0 h st s"
      let ?s = "s\<lparr>interpret_again := False\<rparr>"
      have w': "waits_at s0 h st ?s" using w by (simp add: waits_at_def)
      from step[OF this] obtain t where t: "interpret_cmd e ?s = Ret () t" "waits_at s0 h st t" "cmd_in_progress t" "interpret_again t" by blast
      have "is_active ?s" using w steady_simps[OF assms(2)] by (simp add: is_active_def waits_at_def tst_def)
      then have "run_cmds e MAX_CMDS_PER_RUN ?s = Ret () t"
        by (subst run_cmds.simps) (simp add: t split: nat.split)
      then have "f e t = Some y" using body e t(4) by simp
      with ih t(2) show False by blast
    qed
  qed
  then show False using assms(3) by simp
qed

text \<open>
  C24: A transfer with a wait condition never lets the emulator go. When the first command of a started channel is an output
  command whose wait condition holds, with a device that takes all its data (as the default one
  does), \<open>reg_write\<close> does not return: the command is fetched and its data moved again on every pass, and the
  bound on the commands of a run does not apply, because it counts anew in each pass.
\<close>

theorem dbdma_wait_hangs:
  fixes s :: "'a dbdma_scheme"
  assumes "dma_at s (cmd_ptr s) 16 False h" "takes_all e g"
    and "hmem_of s (h + 3) = 0 \<or> hmem_of s (h + 3) = 0x10"
    and "cond_met (hmem_of s (h + 2) AND 3) (wait_select s) (ch_stat s OR 0x8400)"
    and "n = native_read16 (hmem_of s) h" "n \<noteq> 0" "dma_at s (native_read32 (hmem_of s) (h + 4)) (ucast n) False b"
    and "ch_stat s AND 0x7D00 = 0" "\<not> in_interpret_loop s" "\<not> xfer_ended s"
  shows "reg_write e 0 (BYTESWAP_32 0x80008000) 4 s = None"
proof -
  let ?s = "started s" and ?st = "ch_stat s OR 0x8400"
  note st = start_status(1)[OF assms(8)]
  have d: "dma_at ?s a k w b" if "dma_at s a k w b" for a k w b
    using dma_at_cong[OF that, of ?s] by (simp add: started_def)
  have m: "mem_ctrl_instance ?s = mem_ctrl_instance s" "cmd_ptr ?s = cmd_ptr s" "wait_select ?s = wait_select s"
    by (simp_all add: started_def)
  have "waits_at ?s h ?st ?s" using assms(10) by (simp add: waits_at_def started_def)
  from waiting_forever[OF waiting_step[OF _ assms(2) st] st this]
  have "interpret_passes e ?s = None" using d[OF assms(1)] d[OF assms(7)] assms(3-6) m by simp
  then show ?thesis using run_starts[OF takes_all_quiet[OF assms(2)] assms(8,9)] by simp
qed

subsection \<open>Programs that branch to themselves\<close>

text \<open>A \<open>NOP\<close> that always branches to its own address.\<close>

definition self_branch :: "hmem \<Rightarrow> u64 \<Rightarrow> u32 \<Rightarrow> bool" where
  "self_branch m h p \<longleftrightarrow> m (h + 2) = 0x0C \<and> m (h + 3) = 0x60 \<and> native_read32 m (h + 8) = p"

definition loops_at :: "'a dbdma_scheme \<Rightarrow> u64 \<Rightarrow> u16 \<Rightarrow> 'a dbdma_scheme \<Rightarrow> bool" where
  "loops_at s0 h st s \<longleftrightarrow> cmd_ptr s = cmd_ptr s0 \<and> address_map (mem_ctrl_instance s) = address_map (mem_ctrl_instance s0) \<and>
     self_branch (hmem_of s) h (cmd_ptr s0) \<and> ch_stat s = st \<and> \<not> cmd_in_progress s"

lemma self_branch_status: "self_branch (native_write16 m (h + 14) v) h p = self_branch m h p"
proof -
  have "native_write16 m (host_off h 14) v (host_off h k) = m (host_off h k)" if "k < 12" for k
    using that by (simp add: native_write16_def host_off_add(1)[of h 14 "num.One", simplified] host_off_eq)
  from this[of 2] this[of 3] this[of 8] this[of 9] this[of 10] this[of 11] show ?thesis
    by (simp add: self_branch_def native_read32_def host_off_def add.assoc)
qed

lemma loops_step:
  assumes "dma_at s0 (cmd_ptr s0) 16 False h" "steady st" "loops_at s0 h st s"
  shows "\<exists>t. interpret_cmd e s = Ret () t \<and> loops_at s0 h st t"
proof -
  have s: "cmd_ptr s = cmd_ptr s0" "address_map (mem_ctrl_instance s) = address_map (mem_ctrl_instance s0)"
    "hmem_of s (h + 2) = 0x0C" "hmem_of s (h + 3) = 0x60" "native_read32 (hmem_of s) (h + 8) = cmd_ptr s0" "ch_stat s = st"
    "\<not> cmd_in_progress s" "self_branch (hmem_of s) h (cmd_ptr s0)"
    using assms(3) by (simp_all add: loops_at_def self_branch_def)
  obtain w where f: "fetch_cmd (cmd_ptr s) s = Ret (h, read_DMACmd (hmem_of s) h, w) s"
    using dma_at_fetch[OF assms(1), of s] s(1,2) by (auto simp: fetch_cmd_def)
  have bt: "(st OR 0x100) AND - 8449 = st" "(st OR 0x100) OR 0x400 = st OR 0x100"
    using steady_bits[OF assms(2)] by - (rule u16_eqI, unfold all_less_16, simp add: bit_simps)+
  show ?thesis
    using s f steady_simps[OF assms(2)]
    by (simp add: interpret_cmd_def read_DMACmd_def execute_cmd_def finish_cmd_def complete_cmd_def cond_met_def update_cmd_def
        update_irq_def put_hmem_def bt loops_at_def self_branch_status Let_def)
qed

lemma loops_run:
  assumes "dma_at s0 (cmd_ptr s0) 16 False h" "steady st"
  shows "loops_at s0 h st s \<Longrightarrow> \<exists>t. run_cmds e n s = Ret () t \<and> cmd_ptr t = cmd_ptr s0 \<and> \<not> interpret_again t \<and>
    ch_stat t = (st OR CH_STAT_DEAD) AND NOT CH_STAT_ACTIVE"
proof (induction n arbitrary: s)
  case 0
  then have "is_active s" using steady_simps[OF assms(2)] by (simp add: is_active_def loops_at_def tst_def)
  with 0 show ?case by (subst run_cmds.simps) (simp add: loops_at_def)
next
  case (Suc n)
  then have a: "is_active s" using steady_simps[OF assms(2)] by (simp add: is_active_def loops_at_def tst_def)
  from loops_step[OF assms Suc.prems] obtain u where u: "interpret_cmd e s = Ret () u" "loops_at s0 h st u" by blast
  with Suc.IH[OF u(2)] a show ?case by (subst run_cmds.simps) (simp add: loops_at_def)
qed

text \<open>
  A channel program that branches to itself is stopped. Starting a channel on a \<open>NOP\<close> that always branches to
  its own address returns, whatever the device (as long as it takes the start message in silence), and leaves the channel dead and inactive at
  that command.
\<close>

theorem dbdma_runaway_stopped:
  fixes s :: "'a dbdma_scheme"
  assumes "dma_at s (cmd_ptr s) 16 False h" "quiet_start e" "self_branch (hmem_of s) h (cmd_ptr s)"
    and "ch_stat s AND 0x7D00 = 0" "\<not> in_interpret_loop s"
  shows "\<exists>t. reg_write e 0 (BYTESWAP_32 0x80008000) 4 s = Some (Ret () t) \<and> cmd_ptr t = cmd_ptr s \<and>
     tst (ch_stat t) CH_STAT_DEAD \<and> \<not> tst (ch_stat t) CH_STAT_ACTIVE \<and> \<not> in_interpret_loop t"
proof -
  let ?s = "(started s)\<lparr>interpret_again := False\<rparr>" and ?st = "ch_stat s OR 0x8400"
  note st = start_status(1)[OF assms(4)]
  have d: "dma_at ?s (cmd_ptr ?s) 16 False h" using dma_at_cong[OF assms(1), of ?s] by (simp add: started_def)
  have "loops_at ?s h ?st ?s" using assms(3) by (simp add: loops_at_def started_def)
  from loops_run[OF d st this, of e MAX_CMDS_PER_RUN] obtain t where
    t: "run_cmds e MAX_CMDS_PER_RUN ?s = Ret () t" "cmd_ptr t = cmd_ptr s" "\<not> interpret_again t"
      "ch_stat t = (?st OR CH_STAT_DEAD) AND NOT CH_STAT_ACTIVE"
    by (auto simp: started_def)
  have dead: "((x OR 0x800) AND - 1025) AND 0x800 = (0x800 :: u16)" for x :: u16
    by (rule u16_eqI, unfold all_less_16, simp add: bit_simps)
  have "interpret_passes e (started s) = Some (Ret () t)" using t(1,3) by (subst interpret_passes.simps) simp
  then show ?thesis using run_starts[OF assms(2,4,5)] t by (simp add: tst_def dead not_active_cleared)
qed

subsection \<open>Witnesses\<close>

text \<open>
  A machine with RAM at 0 and programs in it: two output commands and a \<open>STOP\<close> at \<open>0x1000\<close>, a \<open>NOP\<close> that branches to
  itself at \<open>0x1100\<close>, an output command that waits at \<open>0x1200\<close>. The device keeps the list of what it has been given.
\<close>

definition dma_mem :: hmem where
  "dma_mem = (\<lambda>_. 0)(0x7F0000001000 := 4, 0x7F0000001005 := 0x20,
     0x7F0000001010 := 8, 0x7F0000001013 := 0x10, 0x7F0000001015 := 0x30, 0x7F0000001023 := 0x70,
     0x7F0000001102 := 0x0C, 0x7F0000001103 := 0x60, 0x7F0000001109 := 0x11,
     0x7F0000001200 := 4, 0x7F0000001202 := 3, 0x7F0000001205 := 0x20)"

definition dma_machine :: "u32 \<Rightarrow> (u64 \<times> u32) list dbdma_scheme" where
  "dma_machine p = (timebase.extend tb_machine
     \<lparr>ch_stat = 0, cmd_ptr = p, queue_len = 0, queue_data = 0, res_count = 0, int_select = 0, branch_select = 0, wait_select = 0,
      cmd_in_progress = False, is_paused = False, in_interpret_loop = False, interpret_again = False, xfer_ended = False,
      end_dev_stat = 0, cur_cmd = 0, cur_host = 0, cur_is_writable = False, xfer_dir = DMA_DIR_UNDEF, \<dots> = []\<rparr>)
     \<lparr>mem_ctrl_instance := \<lparr>address_map = [\<lparr>eid = 1, rstart = 0, rend = 0xFFFFFF, mirror = 0, rtype = RT_RAM,
        devobj = None, mem_ptr = 0x7F0000000000\<rparr>], mem_regions = [0x7F0000000000], host_mem = dma_mem\<rparr>\<rparr>"

definition dma_log_env :: "(u64 \<times> u32) list channel_env" where
  "dma_log_env = \<lparr>dma_dev = Some \<lparr>dev_notify = (\<lambda>_ s. Ret () s), xfer_from = (\<lambda>_ n s. Ret n s),
       xfer_to = (\<lambda>b n s. Ret n (dbdma.more_update (\<lambda>l. l @ [(b, n)]) s))\<rparr>, start_cb = None, stop_cb = None, int_ctrl = None,
     interrupt_timer = 3, dma_bus = \<lparr>dev_read = (\<lambda>_ _ _ _ s. Ret 0 s), dev_write = (\<lambda>_ _ _ _ _ s. Ret () s)\<rparr>\<rparr>"

lemma dma_log_env_takes: "takes_all dma_log_env (\<lambda>b n l. l @ [(b, n)])"
  by (simp add: takes_all_def dma_log_env_def)

lemma dma_machine_sel:
  "ch_stat (dma_machine p) = 0" "cmd_ptr (dma_machine p) = p" "wait_select (dma_machine p) = 0" "in_interpret_loop (dma_machine p) = False"
  "xfer_ended (dma_machine p) = False" "dbdma.more (dma_machine p) = []" "hmem_of (dma_machine p) = dma_mem"
  "address_map (mem_ctrl_instance (dma_machine p)) = [\<lparr>eid = 1, rstart = 0, rend = 0xFFFFFF, mirror = 0, rtype = RT_RAM,
        devobj = None, mem_ptr = 0x7F0000000000\<rparr>]"
  by (simp_all add: dma_machine_def timebase.defs)

lemma dma_machine_at: "a \<le> 0xFFFFFF \<Longrightarrow> a + n - 1 \<le> 0xFFFFFF \<Longrightarrow> dma_at (dma_machine p) a n w (0x7F0000000000 + ucast a)"
  using leD by (auto simp: dma_at_def mmu_map_dma_mem_def find_range_def dma_machine_sel tst_def Let_def)

lemma dbdma_program_runs_witness:
  "\<exists>t. reg_write dma_log_env 0 (BYTESWAP_32 0x80008000) 4 (dma_machine 0x1000) = Some (Ret () t) \<and>
     dbdma.more t = [(0x7F0000002000, 4), (0x7F0000003000, 8)] \<and> cmd_ptr t = 0x1020 \<and> \<not> is_active t"
proof -
  let ?cs = "[(0x2000, 4, 0x7F0000002000), (0x3000, 8, 0x7F0000003000)] :: out_cmd list"
  have le: "(\<forall>i\<le>length ?cs. P i) \<longleftrightarrow> P 0 \<and> P 1 \<and> P 2" and less: "(\<forall>i<length ?cs. P i) \<longleftrightarrow> P 0 \<and> P 1" for P :: "nat \<Rightarrow> bool"
    by (auto simp: numeral_2_eq_2 le_Suc_eq less_Suc_eq)
  have "program_at (dma_machine 0x1000) 0x7F0000001000 ?cs"
    unfolding program_at_def le less
    using dma_machine_at[of "0x1000" 16 "0x1000" True] dma_machine_at[of "0x1010" 16 "0x1000" True] dma_machine_at[of "0x1020" 16 "0x1000" True]
      dma_machine_at[of "0x2000" 4 "0x1000" False] dma_machine_at[of "0x3000" 8 "0x1000" False]
    by (simp add: dma_machine_sel host_off_def output_cmd_def dma_mem_def native_read16_def native_read32_def)
  from dbdma_program_runs[OF this dma_log_env_takes] show ?thesis by (auto simp: dma_machine_sel)
qed

lemma dbdma_wait_hangs_witness: "reg_write dma_log_env 0 (BYTESWAP_32 0x80008000) 4 (dma_machine 0x1200) = None"
  using dbdma_wait_hangs[where s = "dma_machine 0x1200" and h = "0x7F0000001200" and b = "0x7F0000002000", OF _ dma_log_env_takes]
    dma_machine_at[of "0x1200" 16] dma_machine_at[of "0x2000" 4]
  by (simp add: dma_machine_sel dma_mem_def cond_met_def native_read16_def native_read32_def)

lemma dbdma_runaway_stopped_witness:
  "\<exists>t. reg_write dma_log_env 0 (BYTESWAP_32 0x80008000) 4 (dma_machine 0x1100) = Some (Ret () t) \<and> tst (ch_stat t) CH_STAT_DEAD"
  using dbdma_runaway_stopped[where s = "dma_machine 0x1100" and h = "0x7F0000001100", OF _ takes_all_quiet[OF dma_log_env_takes]]
    dma_machine_at[of "0x1100" 16]
  by (auto simp: dma_machine_sel self_branch_def dma_mem_def native_read32_def)

end
