(* ===== verification/OfNvram.thy ===== *)
theory OfNvram
  imports Nvram
begin

text \<open>
  Open Firmware configuration variables in the NVRAM (\<open>src/devices/common/ofnvram.cpp\<close>): the partition of Apple's Open
  Firmware 1.x and 2.x, with its checksum and its heap of strings, and the CHRP partition with its list
  of \<open>name=value\<close> strings. An access outside the NVRAM or a buffer is \<open>Inl\<close>; a loop that does not end is \<open>None\<close>.
\<close>

type_synonym 'a checked = "string + 'a"

definition cbind :: "'a checked \<Rightarrow> ('a \<Rightarrow> 'b checked) \<Rightarrow> 'b checked" where
  "cbind r f = (case r of Inl e \<Rightarrow> Inl e | Inr v \<Rightarrow> f v)"

definition rd :: "NVram \<Rightarrow> nat \<Rightarrow> u8 checked" where
  "rd n i = (case nvram_read_byte n i of None \<Rightarrow> Inl ''out of bounds'' | Some b \<Rightarrow> Inr b)"

text \<open>Consecutive bytes.\<close>

definition rd_block :: "NVram \<Rightarrow> nat \<Rightarrow> nat \<Rightarrow> bytes checked" where
  "rd_block n pos len =
     (if len = 0 \<or> pos + len \<le> length (storage n) then Inr (take len (drop pos (storage n))) else Inl ''out of bounds'')"

definition wr_block :: "nat \<Rightarrow> bytes \<Rightarrow> NVram \<Rightarrow> NVram checked" where
  "wr_block pos bs n =
     (if bs = [] \<or> pos + length bs \<le> length (storage n)
      then Inr (n\<lparr>storage := take pos (storage n) @ bs @ drop (pos + length bs) (storage n)\<rparr>) else Inl ''out of bounds'')"

definition be16 :: "bytes \<Rightarrow> nat \<Rightarrow> nat" where
  "be16 b i = unat (b ! i) * 256 + unat (b ! (i + 1))"

definition put_be16 :: "nat \<Rightarrow> nat \<Rightarrow> bytes \<Rightarrow> bytes" where
  "put_be16 i v b = b[i := of_nat (v div 256), i + 1 := of_nat v]"

definition be32 :: "bytes \<Rightarrow> nat \<Rightarrow> u32" where
  "be32 b i = of_nat (be16 b i * 65536 + be16 b (i + 2))"

definition put_be32 :: "nat \<Rightarrow> u32 \<Rightarrow> bytes \<Rightarrow> bytes" where
  "put_be32 i v b = put_be16 (i + 2) (unat v mod 65536) (put_be16 i (unat v div 65536) b)"

subsection \<open>The CHRP partition\<close>

record OfConfigChrp =
  chrp_nvram :: NVram
  chrp_buf :: bytes
  data_offset :: nat
  data_length :: nat
  config_vars :: "(bytes \<times> bytes) list"

definition skipped_sigs :: "u8 list" where
  "skipped_sigs = [0x52, 0x5F, 0x50, 0xA0, 0x72]"

text \<open>
  The search for the partition. A known partition of length zero, or longer than the NVRAM, is not skipped, and
  the loop looks at it again.
\<close>

definition search_next :: "nat \<Rightarrow> nat \<Rightarrow> nat" where
  "search_next pos len = (if len = 0 \<or> len * 16 \<ge> 8192 then pos else pos + len * 16)"

partial_function (option) chrp_search :: "NVram \<Rightarrow> nat \<Rightarrow> (bool \<times> nat) checked option" where
  "chrp_search n pos =
     (if pos \<ge> 8192 then Some (Inr (False, pos))
      else case rd n pos of
        Inl e \<Rightarrow> Some (Inl e)
      | Inr sig \<Rightarrow>
          if sig = 0x70 then Some (Inr (True, pos))
          else if sig \<in> set skipped_sigs then
            (case rd_block n (pos + 2) 2 of
               Inl e \<Rightarrow> Some (Inl e)
             | Inr b \<Rightarrow> chrp_search n (search_next pos (be16 b 0)))
          else Some (Inr (False, pos)))"

definition checksum_add :: "u8 \<Rightarrow> u16 \<Rightarrow> u16" where
  "checksum_add d acc = (let acc = acc + ucast d in if acc \<ge> 256 then (acc + 1) AND 0xFF else acc)"

definition checksum_hdr :: "bytes \<Rightarrow> u8" where
  "checksum_hdr data = ucast (fold checksum_add (take 14 (drop 2 data)) (ucast (data ! 0)))"

definition chrp_load :: "nat \<Rightarrow> OfConfigChrp \<Rightarrow> (bool \<times> OfConfigChrp) checked" where
  "chrp_load pos st =
     cbind (rd_block (chrp_nvram st) pos 16) (\<lambda>hdr.
       let len = be16 hdr 2 * 16
       in if hdr ! 0 \<noteq> 0x70 \<or> len < 16 \<or> len > 4096 + 16 then Inr (False, st)
          else if checksum_hdr hdr \<noteq> hdr ! 1 then Inr (False, st)
          else let st = st\<lparr>data_offset := pos + 16\<rparr>
               in cbind (rd_block (chrp_nvram st) (pos + 16) (len - 16)) (\<lambda>bs.
                    Inr (True, st\<lparr>chrp_buf := bs @ drop (length bs) (chrp_buf st)\<rparr>)))"

definition chrp_validate :: "OfConfigChrp \<Rightarrow> (bool \<times> OfConfigChrp) checked option" where
  "chrp_validate st =
     (case chrp_search (chrp_nvram st) 0 of
        None \<Rightarrow> None
      | Some (Inl e) \<Rightarrow> Some (Inl e)
      | Some (Inr (found, pos)) \<Rightarrow> Some (if found then chrp_load pos st else Inr (False, st)))"

text \<open>The length of a name that ends in an equals sign.\<close>

function scan_name :: "bytes \<Rightarrow> nat \<Rightarrow> nat \<Rightarrow> nat option" where
  "scan_name buf pos len =
     (if len \<ge> 32 then None
      else if pos \<ge> 4096 then None
      else if buf ! pos = 0x3D then if len \<noteq> 0 then Some len else None
      else if buf ! pos = 0 then None
      else scan_name buf (pos + 1) (len + 1))"
  by pat_completeness auto
termination by (relation "measure (\<lambda>(_, _, len). 32 - len)") auto

function scan_value :: "bytes \<Rightarrow> nat \<Rightarrow> nat" where
  "scan_value buf pos = (if pos \<ge> 4096 then pos else if buf ! pos = 0 then pos else scan_value buf (pos + 1))"
  by pat_completeness auto
termination by (relation "measure (\<lambda>(_, pos). 4096 - pos)") auto

declare scan_name.simps [simp del] scan_value.simps [simp del]

lemma scan_value_le: "pos \<le> scan_value buf pos"
proof (induction buf pos rule: scan_value.induct)
  case (1 buf pos)
  then show ?case by (subst scan_value.simps) (auto dest: Suc_leD)
qed

text \<open>The variables and \<open>data_length\<close>.\<close>

function parse_vars :: "bytes \<Rightarrow> nat \<Rightarrow> nat \<Rightarrow> (bytes \<times> bytes) list \<times> nat" where
  "parse_vars buf pos dlen =
     (if pos \<ge> 4096 then ([], dlen)
      else case scan_name buf pos 0 of
        None \<Rightarrow> ([], dlen)
      | Some len \<Rightarrow>
          let vpos = pos + len + 1; e = scan_value buf vpos
          in if e \<ge> 4096 then ([], dlen)
             else let (vs, d) = parse_vars buf (e + 1) (e + 1)
                  in ((take len (drop pos buf), take (e - vpos) (drop vpos buf)) # vs, d))"
  by pat_completeness auto
termination
proof (relation "measure (\<lambda>(_, pos, _). 4096 - pos)")
  fix buf pos x2 vpos e
  assume "vpos = pos + x2 + 1" "e = scan_value buf vpos" "\<not> 4096 \<le> e"
  moreover have "vpos \<le> scan_value buf vpos" by (rule scan_value_le)
  ultimately show "((buf, e + 1, e + 1), buf, pos, d) \<in> measure (\<lambda>(_, pos, _). 4096 - pos)" for d by simp
qed simp

declare parse_vars.simps [simp del]

definition chrp_get_config_vars :: "OfConfigChrp \<Rightarrow> OfConfigChrp checked option" where
  "chrp_get_config_vars st =
     (case chrp_validate (st\<lparr>config_vars := [], data_length := 0\<rparr>) of
        None \<Rightarrow> None
      | Some (Inl e) \<Rightarrow> Some (Inl e)
      | Some (Inr (ok, st)) \<Rightarrow>
          Some (Inr (if ok then let (vs, d) = parse_vars (chrp_buf st) 0 0 in st\<lparr>config_vars := vs, data_length := d\<rparr> else st)))"

text \<open>The loop that fills the buffer; the last component tells whether everything fitted.\<close>

fun fill_vars :: "(bytes \<times> bytes) list \<Rightarrow> nat \<Rightarrow> bytes \<Rightarrow> bytes \<times> bool" where
  "fill_vars [] pos buf = (buf, True)"
| "fill_vars ((n, v) # vs) pos buf =
     (if pos + length n + length v + 2 > 4096 then (buf, False)
      else let s = n @ [0x3D] @ v @ [0]
           in fill_vars vs (pos + length s) (take pos buf @ s @ drop (pos + length s) buf))"

definition chrp_update_partition :: "OfConfigChrp \<Rightarrow> (bool \<times> OfConfigChrp) checked" where
  "chrp_update_partition st =
     (let (buf, ok) = fill_vars (config_vars st) 0 (replicate 4096 0); st = st\<lparr>chrp_buf := buf\<rparr>
      in if \<not> ok then Inr (False, st)
         else cbind (wr_block (data_offset st) buf (chrp_nvram st)) (\<lambda>n. Inr (True, st\<lparr>chrp_nvram := n\<rparr>)))"

definition replace_first :: "bytes \<Rightarrow> bytes \<Rightarrow> (bytes \<times> bytes) list \<Rightarrow> (bytes \<times> bytes) list" where
  "replace_first name v vs =
     (case List.extract (\<lambda>x. fst x = name) vs of None \<Rightarrow> vs | Some (xs, _, ys) \<Rightarrow> xs @ (name, v) # ys)"

definition chrp_set_var :: "bytes \<Rightarrow> bytes \<Rightarrow> OfConfigChrp \<Rightarrow> (bool \<times> OfConfigChrp) checked option" where
  "chrp_set_var name v st =
     (case chrp_validate st of
        None \<Rightarrow> None
      | Some (Inl e) \<Rightarrow> Some (Inl e)
      | Some (Inr (ok, st)) \<Rightarrow> Some (
          if \<not> ok then Inr (False, st)
          else if name = [] then Inl ''back of an empty string''
          else if last name = 0x3F \<and> v \<noteq> bytes_of ''true'' \<and> v \<noteq> bytes_of ''false'' then Inr (False, st)
          else
            let free_space = 4096 - data_length st
            in case find (\<lambda>x. fst x = name) (config_vars st) of
                 Some (_, old) \<Rightarrow>
                   if length v > length old \<and> length v - length old > free_space then Inr (False, st)
                   else chrp_update_partition (st\<lparr>config_vars := replace_first name v (config_vars st)\<rparr>)
               | None \<Rightarrow>
                   if length name + length v + 2 > free_space then Inr (False, st)
                   else chrp_update_partition (st\<lparr>config_vars := config_vars st @ [(name, v)]\<rparr>)))"

subsection \<open>Apple's partition\<close>

record OfConfigAppl =
  appl_nvram :: NVram
  appl_buf :: bytes
  appl_size :: nat

datatype of_type = OF_VAR_TYPE_INT | OF_VAR_TYPE_STR

definition flag_names :: "bytes list" where
  "flag_names = map bytes_of [''little-endian?'', ''real-mode?'', ''auto-boot?'', ''diag-switch?'', ''fcode-debug?'',
     ''oem-banner?'', ''oem-logo?'', ''use-nvramrc?'', ''f-segment?'']"

text \<open>The map in the order of its keys.\<close>

definition of_vars :: "(bytes \<times> of_type \<times> nat) list" where
  "of_vars = map (\<lambda>(n, ty, i). (bytes_of n, ty, i))
    [(''boot-command'', OF_VAR_TYPE_STR, 0x58), (''boot-device'', OF_VAR_TYPE_STR, 0x34), (''boot-file'', OF_VAR_TYPE_STR, 0x38),
     (''diag-device'', OF_VAR_TYPE_STR, 0x3C), (''diag-file'', OF_VAR_TYPE_STR, 0x40), (''input-device'', OF_VAR_TYPE_STR, 0x44),
     (''load-base'', OF_VAR_TYPE_INT, 0x20), (''nvramrc'', OF_VAR_TYPE_STR, 0x54), (''oem-banner'', OF_VAR_TYPE_STR, 0x4C),
     (''oem-logo'', OF_VAR_TYPE_STR, 0x50), (''output-device'', OF_VAR_TYPE_STR, 0x48), (''pci-probe-list'', OF_VAR_TYPE_INT, 0x24),
     (''real-base'', OF_VAR_TYPE_INT, 0x10), (''real-size'', OF_VAR_TYPE_INT, 0x14), (''screen-#columns'', OF_VAR_TYPE_INT, 0x28),
     (''screen-#rows'', OF_VAR_TYPE_INT, 0x2C), (''selftest-#megs'', OF_VAR_TYPE_INT, 0x30), (''virt-base'', OF_VAR_TYPE_INT, 0x18),
     (''virt-size'', OF_VAR_TYPE_INT, 0x1C)]"

text \<open>The sum of the big-endian words of a partition, and the checksum: the sum with its carries added once.\<close>

fun word_sum :: "bytes \<Rightarrow> nat" where
  "word_sum (a # b # xs) = unat a * 256 + unat b + word_sum xs"
| "word_sum _ = 0"

definition checksum_partition :: "bytes \<Rightarrow> u16" where
  "checksum_partition buf = (let acc = of_nat (word_sum buf) :: u32 in ucast (acc + drop_bit 16 acc))"

definition appl_validate :: "OfConfigAppl \<Rightarrow> (bool \<times> OfConfigAppl) checked" where
  "appl_validate st =
     (let n = appl_nvram st; o0 = of_nvram_offset n
      in cbind (rd_block n o0 10) (\<lambda>hdr.
           if be16 hdr 0 \<noteq> 0x1275 \<or> hdr ! 2 \<noteq> 5 then Inr (False, st)
           else let st = st\<lparr>appl_size := unat (hdr ! 3) * 256\<rparr>
                in if appl_size st \<noteq> 0x800 then Inr (False, st)
                   else cbind (rd_block n o0 0x800) (\<lambda>bs.
                          Inr (checksum_partition bs = 0xFFFF, st\<lparr>appl_buf := bs\<rparr>))))"

definition update_checksum :: "bytes \<Rightarrow> bytes" where
  "update_checksum buf =
     (let buf = buf[4 := 0, 5 := 0] in put_be16 4 (unat (NOT (checksum_partition buf))) buf)"

definition appl_update_partition :: "OfConfigAppl \<Rightarrow> OfConfigAppl checked" where
  "appl_update_partition st =
     (let st = st\<lparr>appl_buf := update_checksum (appl_buf st)\<rparr>
      in cbind (wr_block (of_nvram_offset (appl_nvram st)) (take (appl_size st) (appl_buf st)) (appl_nvram st)) (\<lambda>n.
           Inr (st\<lparr>appl_nvram := n\<rparr>)))"

text \<open>The value of a string variable; \<open>None\<close> is one that is skipped. The offset is computed in 16 bits.\<close>

definition appl_string :: "nat \<Rightarrow> bytes \<Rightarrow> nat \<Rightarrow> bytes option" where
  "appl_string o0 buf offset =
     (let str_offset = (be16 buf offset + 65536 - o0) mod 65536; str_len = be16 buf (offset + 2)
      in if str_offset + str_len > 0x800 then None
         else Some (takeWhile (\<lambda>c. c \<noteq> 0) (take str_len (drop str_offset buf))))"

definition hex_digit :: "nat \<Rightarrow> u8" where
  "hex_digit d = (if d < 10 then of_nat (0x30 + d) else of_nat (0x61 + d - 10))"

definition hex2str :: "u32 \<Rightarrow> bytes" where
  "hex2str n = map (\<lambda>i. hex_digit (unat n div 16 ^ i mod 16)) [7, 6, 5, 4, 3, 2, 1, 0]"

definition appl_var :: "nat \<Rightarrow> bytes \<Rightarrow> bytes \<times> of_type \<times> nat \<Rightarrow> (bytes \<times> bytes) list" where
  "appl_var o0 buf = (\<lambda>(name, ty, offset).
     case ty of OF_VAR_TYPE_INT \<Rightarrow> [(name, hex2str (be32 buf offset))]
     | OF_VAR_TYPE_STR \<Rightarrow> (case appl_string o0 buf offset of None \<Rightarrow> [] | Some v \<Rightarrow> [(name, v)]))"

definition appl_get_config_vars :: "OfConfigAppl \<Rightarrow> ((bytes \<times> bytes) list \<times> OfConfigAppl) checked" where
  "appl_get_config_vars st =
     cbind (appl_validate st) (\<lambda>(ok, st).
       if \<not> ok then Inr ([], st)
       else
         let of_flags = be32 (appl_buf st) 12
         in Inr (map (\<lambda>i. (flag_names ! i, bytes_of (if bit of_flags (31 - i) then ''true'' else ''false''))) [0..<9] @
                 concat (map (appl_var (of_nvram_offset (appl_nvram st)) (appl_buf st)) of_vars), st))"

subsubsection \<open>Numbers\<close>

datatype stoul_result = Stoul_invalid | Stoul_range | Stoul_value nat

definition digit_value :: "u8 \<Rightarrow> nat" where
  "digit_value c = (let n = unat c in
     if 0x30 \<le> n \<and> n \<le> 0x39 then n - 0x30 else if 0x61 \<le> n \<and> n \<le> 0x7A then n - 0x61 + 10
     else if 0x41 \<le> n \<and> n \<le> 0x5A then n - 0x41 + 10 else 99)"

definition is_digit :: "nat \<Rightarrow> u8 \<Rightarrow> bool" where
  "is_digit base c \<longleftrightarrow> digit_value c < base"

definition digits_value :: "nat \<Rightarrow> bytes \<Rightarrow> nat" where
  "digits_value base ds = foldl (\<lambda>a c. a * base + digit_value c) 0 ds"

definition is_space :: "u8 \<Rightarrow> bool" where
  "is_space c \<longleftrightarrow> c = 0x20 \<or> 9 \<le> c \<and> c \<le> 13"

text \<open>\<open>std::stoul\<close> with base 0: the base is 16 after \<open>0x\<close> and a digit, 8 after \<open>0\<close>, 10 otherwise.\<close>

definition stoul :: "bytes \<Rightarrow> stoul_result" where
  "stoul s0 =
     (let s = dropWhile is_space s0;
          neg = (s \<noteq> [] \<and> hd s = 0x2D);
          s = (if s \<noteq> [] \<and> (hd s = 0x2D \<or> hd s = 0x2B) then tl s else s);
          hex = (length s \<ge> 3 \<and> s ! 0 = 0x30 \<and> (s ! 1 = 0x78 \<or> s ! 1 = 0x58) \<and> is_digit 16 (s ! 2));
          base = (if hex then 16 else if s \<noteq> [] \<and> hd s = 0x30 then 8 else 10);
          ds = takeWhile (is_digit base) (if hex then drop 2 s else s);
          v = digits_value base ds
      in if ds = [] then Stoul_invalid else if v \<ge> 2 ^ 64 then Stoul_range
         else Stoul_value (if neg then (2 ^ 64 - v) mod 2 ^ 64 else v))"

definition str2env :: "bytes \<Rightarrow> stoul_result" where
  "str2env s =
     (case stoul s of
        Stoul_invalid \<Rightarrow> (case stoul (bytes_of ''0x'' @ s) of Stoul_value v \<Rightarrow> Stoul_value (v mod 2 ^ 32) | r \<Rightarrow> r)
      | Stoul_range \<Rightarrow> Stoul_range
      | Stoul_value v \<Rightarrow> Stoul_value (v mod 2 ^ 32))"

subsubsection \<open>Strings\<close>

definition str_slots :: "nat list" where
  "str_slots = map (\<lambda>(_, _, i). i) (filter (\<lambda>(_, ty, _). ty = OF_VAR_TYPE_STR) of_vars)"

text \<open>\<open>memmove\<close> of \<open>n\<close> bytes inside the buffer; a negative \<open>n\<close> is a huge one.\<close>

definition memmove :: "nat \<Rightarrow> nat \<Rightarrow> int \<Rightarrow> bytes \<Rightarrow> bytes checked" where
  "memmove dst src n buf =
     (if n = 0 then Inr buf
      else if n < 0 \<or> dst + nat n > length buf \<or> src + nat n > length buf then Inl ''memory overrun''
      else Inr (take dst buf @ take (nat n) (drop src buf) @ drop (dst + nat n) buf))"

definition shift_slot :: "nat \<Rightarrow> nat \<Rightarrow> nat \<Rightarrow> bytes \<Rightarrow> bytes" where
  "shift_slot str_offset str_len i buf =
     (if be16 buf i < str_offset then put_be16 i ((be16 buf i + str_len) mod 65536) buf else buf)"

definition store_chars :: "nat \<Rightarrow> bytes \<Rightarrow> bytes \<Rightarrow> bytes checked" where
  "store_chars pos v buf =
     (if v = [] then Inr buf else if pos + length v > length buf then Inl ''memory overrun''
      else Inr (take pos buf @ map (\<lambda>c. if c = 0x0A then 0x0D else c) v @ drop (pos + length v) buf))"

text \<open>
  The string branch of \<open>set_var\<close> up to the update of the partition; \<open>None\<close> is no room. Offsets are differences to the offset of
  the partition; an access at a negative one is outside the buffer.
\<close>

definition set_string :: "nat \<Rightarrow> nat \<Rightarrow> bytes \<Rightarrow> bytes \<Rightarrow> bytes option checked" where
  "set_string o0 slot v buf =
     (let str_offset = be16 buf slot; str_len = be16 buf (slot + 2); here = be16 buf 6; top = be16 buf 8;
          new_top = nat ((int top + int str_len - int (length v)) mod 65536)
      in if new_top < here then Inr None
         else if top < o0 \<and> str_offset \<noteq> top \<or> new_top < o0 \<and> v \<noteq> [] then Inl ''memory overrun''
         else cbind (memmove (top + str_len - o0) (top - o0) (int str_offset - int top) buf) (\<lambda>buf.
           let buf = fold (shift_slot str_offset str_len) str_slots buf
           in cbind (store_chars (new_top - o0) v buf) (\<lambda>buf.
                Inr (Some (put_be16 8 new_top (put_be16 (slot + 2) (length v mod 65536) (put_be16 slot new_top buf)))))))"

definition set_flag :: "nat \<Rightarrow> bool \<Rightarrow> bytes \<Rightarrow> bytes" where
  "set_flag i b buf =
     (let flag_bit = drop_bit i 0x80000000; of_flags = be32 buf 12
      in put_be32 12 (if b then of_flags OR flag_bit else of_flags AND NOT flag_bit) buf)"

definition appl_store :: "bytes \<Rightarrow> OfConfigAppl \<Rightarrow> (bool \<times> OfConfigAppl) checked" where
  "appl_store buf st = cbind (appl_update_partition (st\<lparr>appl_buf := buf\<rparr>)) (\<lambda>st. Inr (True, st))"

definition index_of :: "bytes \<Rightarrow> bytes list \<Rightarrow> nat option" where
  "index_of x xs = find (\<lambda>i. xs ! i = x) [0..<length xs]"

definition appl_set_var :: "bytes \<Rightarrow> bytes \<Rightarrow> OfConfigAppl \<Rightarrow> (bool \<times> OfConfigAppl) checked" where
  "appl_set_var name v st =
     cbind (appl_validate st) (\<lambda>(ok, st).
       if \<not> ok then Inr (False, st)
       else case index_of name flag_names of
         Some i \<Rightarrow>
           if v = bytes_of ''true'' then appl_store (set_flag i True (appl_buf st)) st
           else if v = bytes_of ''false'' then appl_store (set_flag i False (appl_buf st)) st
           else Inr (False, st)
       | None \<Rightarrow>
           (case map_of of_vars name of
              None \<Rightarrow> Inr (False, st)
            | Some (OF_VAR_TYPE_INT, offset) \<Rightarrow>
                (case str2env v of
                   Stoul_invalid \<Rightarrow> Inr (False, st)
                 | Stoul_range \<Rightarrow> Inl ''out_of_range''
                 | Stoul_value num \<Rightarrow> appl_store (put_be32 offset (of_nat num) (appl_buf st)) st)
            | Some (OF_VAR_TYPE_STR, offset) \<Rightarrow>
                cbind (set_string (of_nvram_offset (appl_nvram st)) offset v (appl_buf st)) (\<lambda>r.
                  case r of None \<Rightarrow> Inr (False, st) | Some buf \<Rightarrow> appl_store buf st)))"

subsection \<open>Both partitions\<close>

text \<open>
  \<open>OfConfigUtils\<close> keeps the implementation it has found; the NVRAM is shared with the guest, so each call starts from its
  current content. The buffers of a new object are not initialized: \<open>junk\<close> is what they happen to hold.
\<close>

datatype OfConfigImpl = Cfg_Appl OfConfigAppl | Cfg_Chrp OfConfigChrp

fun cfg_attach :: "NVram \<Rightarrow> OfConfigImpl \<Rightarrow> OfConfigImpl" where
  "cfg_attach n (Cfg_Appl st) = Cfg_Appl (st\<lparr>appl_nvram := n\<rparr>)"
| "cfg_attach n (Cfg_Chrp st) = Cfg_Chrp (st\<lparr>chrp_nvram := n\<rparr>)"

fun cfg_nvram :: "OfConfigImpl \<Rightarrow> NVram" where
  "cfg_nvram (Cfg_Appl st) = appl_nvram st"
| "cfg_nvram (Cfg_Chrp st) = chrp_nvram st"

definition lift_appl :: "(bool \<times> OfConfigAppl) checked \<Rightarrow> (bool \<times> OfConfigImpl) checked" where
  "lift_appl r = cbind r (\<lambda>(ok, st). Inr (ok, Cfg_Appl st))"

definition lift_chrp :: "(bool \<times> OfConfigChrp) checked \<Rightarrow> (bool \<times> OfConfigImpl) checked" where
  "lift_chrp r = cbind r (\<lambda>(ok, st). Inr (ok, Cfg_Chrp st))"

fun cfg_validate :: "OfConfigImpl \<Rightarrow> (bool \<times> OfConfigImpl) checked option" where
  "cfg_validate (Cfg_Appl st) = Some (lift_appl (appl_validate st))"
| "cfg_validate (Cfg_Chrp st) = map_option lift_chrp (chrp_validate st)"

definition new_appl :: "bytes \<Rightarrow> NVram \<Rightarrow> OfConfigImpl" where
  "new_appl junk n = Cfg_Appl \<lparr>appl_nvram = n, appl_buf = take 0x800 junk, appl_size = 0\<rparr>"

definition new_chrp :: "bytes \<Rightarrow> NVram \<Rightarrow> OfConfigImpl" where
  "new_chrp junk n = Cfg_Chrp \<lparr>chrp_nvram = n, chrp_buf = take 4096 junk, data_offset = 0, data_length = 0, config_vars = []\<rparr>"

definition open_container :: "bytes \<Rightarrow> NVram \<Rightarrow> OfConfigImpl option \<Rightarrow> (bool \<times> OfConfigImpl option) checked option" where
  "open_container junk n cfg =
     (case cfg of
        Some c \<Rightarrow> map_option (\<lambda>r. cbind r (\<lambda>(ok, c). Inr (ok, Some c))) (cfg_validate (cfg_attach n c))
      | None \<Rightarrow>
          (case cfg_validate (new_appl junk n) of
             None \<Rightarrow> None
           | Some (Inl e) \<Rightarrow> Some (Inl e)
           | Some (Inr (True, c)) \<Rightarrow> Some (Inr (True, Some c))
           | Some (Inr (False, _)) \<Rightarrow>
               map_option (\<lambda>r. cbind r (\<lambda>(ok, c). Inr (ok, if ok then Some c else None))) (cfg_validate (new_chrp junk n))))"

fun cfg_get_set :: "bytes \<Rightarrow> bytes \<Rightarrow> OfConfigImpl \<Rightarrow> (bool \<times> OfConfigImpl) checked option" where
  "cfg_get_set name v (Cfg_Appl st) =
     Some (cbind (appl_get_config_vars st) (\<lambda>(_, st). lift_appl (appl_set_var name v st)))"
| "cfg_get_set name v (Cfg_Chrp st) =
     (case chrp_get_config_vars st of
        None \<Rightarrow> None
      | Some (Inl e) \<Rightarrow> Some (Inl e)
      | Some (Inr st) \<Rightarrow> map_option lift_chrp (chrp_set_var name v st))"

definition setenv :: "bytes \<Rightarrow> bytes \<Rightarrow> bytes \<Rightarrow> NVram \<Rightarrow> OfConfigImpl option \<Rightarrow> (bool \<times> OfConfigImpl option) checked option" where
  "setenv junk name v n cfg =
     (case open_container junk n cfg of
        None \<Rightarrow> None
      | Some (Inl e) \<Rightarrow> Some (Inl e)
      | Some (Inr (ok, c)) \<Rightarrow>
          (case c of
             Some c \<Rightarrow> if ok then map_option (\<lambda>r. cbind r (\<lambda>(ok, c). Inr (ok, Some c))) (cfg_get_set name v c)
                        else Some (Inr (False, Some c))
           | None \<Rightarrow> Some (Inr (False, None))))"

end
