(* ===== verification/OfNvramHeap.thy ===== *)
theory OfNvramHeap
  imports OfNvram
begin

text \<open>
  Apple's Open Firmware partition: the checksum of an updated partition, and the heap of strings that \<open>set_var\<close> compacts.
\<close>

subsection \<open>The checksum\<close>

lemma unat_u8: "unat (w :: u8) < 256"
  using unsigned_less[of w] by simp

lemma unat_u16: "unat (w :: u16) < 65536"
  using unsigned_less[of w] by simp

lemma unat_not_u16: "unat (NOT w :: u16) = 65535 - unat w"
proof -
  have "NOT w = - 1 - w" by (simp add: not_eq_complement)
  moreover have "w \<le> - 1" by simp
  ultimately have "unat (NOT w) = unat (- 1 :: u16) - unat w" by (simp add: unat_sub)
  then show ?thesis by (simp add: unsigned_minus_1_eq_mask mask_eq_exp_minus_1)
qed

lemma word_sum_le: "word_sum xs \<le> 65535 * (length xs div 2)"
proof (induction xs rule: word_sum.induct)
  case (1 a b xs)
  have "unat a * 256 + unat b \<le> 65535" using unat_u8[of a] unat_u8[of b] by simp
  with 1 show ?case by simp
qed simp_all

lemma checksum_value:
  assumes "length buf \<le> 0x800"
  shows "unat (checksum_partition buf) = (word_sum buf + word_sum buf div 65536) mod 65536"
proof -
  let ?s = "word_sum buf"
  have "?s \<le> 65535 * 1024" using word_sum_le[of buf] assms div_le_mono[of "length buf" 2048 2] by simp
  then have s: "?s < 2 ^ 26" by simp
  have u: "unat (of_nat ?s :: u32) = ?s" using s by (simp add: unat_of_nat)
  have "?s div 65536 < 2 ^ 10" using s by (simp add: less_mult_imp_div_less)
  then have "unat (of_nat ?s + drop_bit 16 (of_nat ?s) :: u32) = ?s + ?s div 65536"
    using s u by (simp add: unat_word_ariths unat_drop_bit_eq drop_bit_eq_div)
  then show ?thesis
    by (simp add: checksum_partition_def Let_def unsigned_ucast_eq unsigned_take_bit_eq take_bit_eq_mod)
qed

text \<open>A partition with its checksum taken out.\<close>

definition summed :: "bytes \<Rightarrow> nat" where
  "summed buf = word_sum (buf[4 := 0, 5 := 0])"

lemma six_bytes: "6 \<le> length (buf :: bytes) \<Longrightarrow> \<exists>a b c d e f xs. buf = a # b # c # d # e # f # xs"
  by (auto simp: numeral_eq_Suc Suc_le_length_iff)

lemma update_sum:
  assumes "6 \<le> length buf" "v < 65536"
  shows "word_sum (put_be16 4 v (buf[4 := 0, 5 := 0])) = summed buf + v"
proof -
  obtain a b c d e f xs where buf: "buf = a # b # c # d # e # f # xs" using six_bytes[OF assms(1)] by blast
  have "unat (of_nat (v div 256) :: u8) = v div 256" "unat (of_nat v :: u8) = v mod 256"
    using assms(2) by (simp_all add: unat_of_nat less_mult_imp_div_less)
  then show ?thesis by (simp add: buf put_be16_def summed_def)
qed

lemma fold_once: "(a * 65536 + b + (65535 - (b + a) mod 65536) + (a * 65536 + b + (65535 - (b + a) mod 65536)) div 65536) mod 65536 = 65535
    \<longleftrightarrow> b + a < 65536" if "b < 65536" "a < 65535" for a b :: nat
proof (cases "b + a < 65536")
  case True
  then have "a * 65536 + b + (65535 - (b + a) mod 65536) = a * 65536 + (65535 - a)" by simp
  moreover have "(a * 65536 + (65535 - a)) div 65536 = a" by simp
  ultimately show ?thesis using True that by simp
next
  case False
  then have m: "(b + a) mod 65536 = b + a - 65536" using that by (simp add: mod_if)
  then have "a * 65536 + b + (65535 - (b + a) mod 65536) = (a + 1) * 65536 + (65535 - a)" using that False by simp
  moreover have "((a + 1) * 65536 + (65535 - a)) div 65536 = a + 1" by simp
  ultimately show ?thesis using False that by simp
qed

lemma checksum_updated:
  assumes "length buf = 0x800"
  shows "checksum_partition (update_checksum buf) = 0xFFFF \<longleftrightarrow> summed buf mod 65536 + summed buf div 65536 < 65536"
proof -
  let ?b = "buf[4 := 0, 5 := 0]" and ?s = "summed buf"
  let ?c = "unat (NOT (checksum_partition ?b))"
  have "?s \<le> 65535 * 1024" using word_sum_le[of ?b] assms by (simp add: summed_def)
  then have s: "?s div 65536 < 65535" by (simp add: less_mult_imp_div_less)
  have "?c = 65535 - unat (checksum_partition ?b)" by (simp add: unat_not_u16)
  then have c: "?c = 65535 - (?s mod 65536 + ?s div 65536) mod 65536"
    using checksum_value[of ?b] assms by (simp add: summed_def) (metis mod_add_left_eq)
  have "word_sum (update_checksum buf) = ?s + ?c"
    using update_sum[of buf ?c] assms unat_u16[of "NOT (checksum_partition ?b)"] by (simp add: update_checksum_def Let_def)
  then have "unat (checksum_partition (update_checksum buf)) = (?s + ?c + (?s + ?c) div 65536) mod 65536"
    using checksum_value[of "update_checksum buf"] assms by (simp add: update_checksum_def put_be16_def Let_def)
  then have "unat (checksum_partition (update_checksum buf)) = 65535 \<longleftrightarrow> ?s mod 65536 + ?s div 65536 < 65536"
    using fold_once[of "?s mod 65536" "?s div 65536", OF _ s] unfolding c div_mult_mod_eq by (simp only: mod_less_divisor zero_less_numeral)
  moreover have "checksum_partition (update_checksum buf) = 0xFFFF \<longleftrightarrow> unat (checksum_partition (update_checksum buf)) = 65535"
    by (simp add: word_unat_eq_iff)
  ultimately show ?thesis by simp
qed


subsection \<open>The heap of strings\<close>

definition heap_str :: "nat \<Rightarrow> bytes \<Rightarrow> nat \<Rightarrow> bytes" where
  "heap_str o0 buf s = take (be16 buf (s + 2)) (drop (be16 buf s - o0) buf)"

definition str_apart :: "bytes \<Rightarrow> nat \<Rightarrow> nat \<Rightarrow> bool" where
  "str_apart buf s t \<longleftrightarrow> be16 buf s < be16 buf t \<and> be16 buf s + be16 buf (s + 2) \<le> be16 buf t"

definition heap_in :: "nat \<Rightarrow> bytes \<Rightarrow> bool" where
  "heap_in o0 buf \<longleftrightarrow> length buf = 0x800 \<and> o0 + 0x800 < 65536 \<and> o0 + 0x5C \<le> be16 buf 6 \<and> be16 buf 6 \<le> be16 buf 8 \<and>
     (\<forall>s\<in>set str_slots. be16 buf 8 \<le> be16 buf s \<and> be16 buf s + be16 buf (s + 2) \<le> o0 + 0x800)"

definition heap_ok :: "nat \<Rightarrow> bytes \<Rightarrow> bool" where
  "heap_ok o0 buf \<longleftrightarrow> heap_in o0 buf \<and>
     (\<forall>s\<in>set str_slots. \<forall>t\<in>set str_slots. s \<noteq> t \<longrightarrow> str_apart buf s t \<or> str_apart buf t s)"

lemma str_slots_eq: "str_slots = [0x58, 0x34, 0x38, 0x3C, 0x40, 0x44, 0x54, 0x4C, 0x50, 0x48]"
  by (simp add: str_slots_def of_vars_def)

lemma slot_simps: "s \<in> set str_slots \<Longrightarrow> 0x34 \<le> s \<and> s \<le> 0x58 \<and> s mod 4 = 0"
  by (auto simp: str_slots_eq)

lemma slot_away:
  assumes "i < 0x34 \<or> 0x5C \<le> i \<or> 2 \<le> i mod 4" "x \<in> set str_slots"
  shows "i \<noteq> x \<and> i \<noteq> x + 1"
  using slot_simps[OF assms(2)] assms(1) by presburger

lemma distinct_slots: "distinct str_slots"
  by (simp add: str_slots_eq)

lemma length_put_be16 [simp]: "length (put_be16 i v b) = length b"
  by (simp add: put_be16_def)

lemma put_be16_nth: "k \<noteq> i \<Longrightarrow> k \<noteq> i + 1 \<Longrightarrow> put_be16 i v b ! k = b ! k"
  by (simp add: put_be16_def)

lemma be16_put_same: "i + 1 < length b \<Longrightarrow> v < 65536 \<Longrightarrow> be16 (put_be16 i v b) i = v"
  by (simp add: be16_def put_be16_def unat_of_nat less_mult_imp_div_less)

lemma be16_put_other: "i + 2 \<le> j \<or> j + 2 \<le> i \<Longrightarrow> be16 (put_be16 i v b) j = be16 b j"
  by (auto simp: be16_def put_be16_nth)

lemma be16_less: "be16 b i < 65536"
  using unat_u8[of "b ! i"] unat_u8[of "b ! (i + 1)"] by (simp add: be16_def)

lemma length_shift [simp]: "length (shift_slot so sl i b) = length b" "length (fold (shift_slot so sl) xs b) = length b"
  by (simp add: shift_slot_def) (induction xs arbitrary: b, simp_all add: shift_slot_def)

lemma fold_shift_nth: "\<forall>x\<in>set xs. k \<noteq> x \<and> k \<noteq> x + 1 \<Longrightarrow> fold (shift_slot so sl) xs b ! k = b ! k"
  by (induction xs arbitrary: b) (auto simp: shift_slot_def put_be16_nth)

lemma be16_shift_slot:
  "i + 1 < length b \<Longrightarrow> i mod 4 = 0 \<Longrightarrow> j mod 4 = 0 \<Longrightarrow>
    be16 (shift_slot so sl i b) j = (if j = i \<and> be16 b i < so then (be16 b i + sl) mod 65536 else be16 b j)"
proof (cases "j = i")
  case False
  moreover assume "i mod 4 = 0" "j mod 4 = 0"
  ultimately have "i + 2 \<le> j \<or> j + 2 \<le> i" by presburger
  with False show ?thesis by (simp add: shift_slot_def be16_put_other)
qed (simp add: shift_slot_def be16_put_same)

lemma be16_fold_shift:
  "\<forall>x\<in>set xs. x + 1 < length b \<and> x mod 4 = 0 \<Longrightarrow> distinct xs \<Longrightarrow> j mod 4 = 0 \<Longrightarrow>
    be16 (fold (shift_slot so sl) xs b) j = (if j \<in> set xs \<and> be16 b j < so then (be16 b j + sl) mod 65536 else be16 b j)"
proof (induction xs arbitrary: b)
  case (Cons x xs)
  then show ?case by (cases "j = x") (simp_all add: be16_shift_slot)
qed simp

text \<open>What \<open>set_string\<close> does to the buffer.\<close>

definition crlf :: "bytes \<Rightarrow> bytes" where
  "crlf v = map (\<lambda>c. if c = 0x0A then 0x0D else c) v"

definition heap_moved :: "nat \<Rightarrow> nat \<Rightarrow> nat \<Rightarrow> nat \<Rightarrow> bytes \<Rightarrow> bytes \<Rightarrow> nat \<Rightarrow> u8" where
  "heap_moved N T L e v buf i =
     (if N \<le> i \<and> i < N + length v then crlf v ! (i - N) else if T + L \<le> i \<and> i < e then buf ! (i - L) else buf ! i)"

lemma memmove_nth:
  assumes "memmove dst src (int n) buf = Inr b" "dst + n \<le> length buf" "src + n \<le> length buf"
  shows "length b = length buf" "i < length buf \<Longrightarrow> b ! i = (if dst \<le> i \<and> i < dst + n then buf ! (i - dst + src) else buf ! i)"
  using assms by (auto simp: memmove_def nth_append add.commute split: if_splits)

lemma store_nth:
  assumes "pos + length v \<le> length buf"
  shows "\<exists>b. store_chars pos v buf = Inr b \<and> length b = length buf \<and>
    (\<forall>i < length buf. b ! i = (if pos \<le> i \<and> i < pos + length v then crlf v ! (i - pos) else buf ! i))"
  using assms by (auto simp: store_chars_def crlf_def nth_append)

lemma memmove_ok: "dst + n \<le> length buf \<Longrightarrow> src + n \<le> length buf \<Longrightarrow> \<exists>b. memmove dst src (int n) buf = Inr b"
  by (simp add: memmove_def)

lemma heap_inD:
  assumes "heap_in o0 buf" "s \<in> set str_slots"
  shows "length buf = 0x800" "o0 + 0x800 < 65536" "o0 + 0x5C \<le> be16 buf 6" "be16 buf 6 \<le> be16 buf 8" "be16 buf 8 \<le> be16 buf s"
    "be16 buf s + be16 buf (s + 2) \<le> o0 + 0x800"
  using assms by (simp_all add: heap_in_def)

lemma heap_ok_in: "heap_ok o0 buf \<Longrightarrow> heap_in o0 buf"
  by (simp add: heap_ok_def)

lemmas heap_okD = heap_inD[OF heap_ok_in]

lemma wrap_neg: "x < 0 \<Longrightarrow> - 65536 \<le> x \<Longrightarrow> x mod 65536 = x + 65536" for x :: int
  using mod_pos_pos_trivial[of "x + 65536" 65536] by simp

lemma set_string_full:
  assumes "heap_ok o0 buf" "slot \<in> set str_slots" "be16 buf 8 + be16 buf (slot + 2) < be16 buf 6 + length v" "length v < 65536"
  shows "set_string o0 slot v buf = (if length v \<le> be16 buf 8 + be16 buf (slot + 2) then Inr None else Inl ''memory overrun'')"
proof -
  let ?t = "be16 buf 8" and ?l = "be16 buf (slot + 2)" and ?o = "be16 buf slot"
  note h = heap_okD[OF assms(1,2)]
  show ?thesis
  proof (cases "length v \<le> ?t + ?l")
    case True
    then have "(int ?t + int ?l - int (length v)) mod 65536 = int (?t + ?l - length v)" using h assms(3) by (simp add: of_nat_diff)
    then have "nat ((int ?t + int ?l - int (length v)) mod 65536) = ?t + ?l - length v" by (simp only: nat_int)
    moreover have "?t + ?l - length v < be16 buf 6" using True assms(3) by linarith
    ultimately show ?thesis using True unfolding set_string_def Let_def by (simp only: if_True)
  next
    case False
    let ?n = "?t + ?l + 65536 - length v"
    have "(int ?t + int ?l - int (length v)) mod 65536 = int ?n"
      using False assms(4) by (subst wrap_neg) (simp_all add: of_nat_diff)
    then have n: "nat ((int ?t + int ?l - int (length v)) mod 65536) = ?n" by simp
    have d: "int ?o - int ?t = int (?o - ?t)" using h by simp
    have fits: "?t + ?l - o0 + (?o - ?t) \<le> length buf" "?t - o0 + (?o - ?t) \<le> length buf" using h by simp_all
    obtain b where b: "memmove (?t + ?l - o0) (?t - o0) (int ?o - int ?t) buf = Inr b"
      using memmove_ok[OF fits] unfolding d by blast
    have lb: "length b = 0x800" using memmove_nth(1)[OF b[unfolded d] fits] h by simp
    have "\<not> ?n < be16 buf 6" "\<not> (?t < o0 \<and> ?o \<noteq> ?t \<or> ?n < o0 \<and> v \<noteq> [])" "v \<noteq> []" "?n - o0 + length v > length (fold (shift_slot ?o ?l) str_slots b)"
      using False h assms(4) lb by auto
    with False show ?thesis
      unfolding set_string_def Let_def n cbind_def store_chars_def b by (simp only: if_True if_False sum.case simp_thms)
  qed
qed

lemma set_string_result:
  assumes "heap_ok o0 buf" "slot \<in> set str_slots" "be16 buf 6 + length v \<le> be16 buf 8 + be16 buf (slot + 2)"
  defines "L \<equiv> be16 buf (slot + 2)" and "T \<equiv> be16 buf 8 - o0" and "e \<equiv> be16 buf slot + be16 buf (slot + 2) - o0"
  obtains b where "set_string o0 slot v buf = Inr (Some b)" "length b = 0x800"
    "\<And>i. 0x5C \<le> i \<Longrightarrow> i < 0x800 \<Longrightarrow> b ! i = heap_moved (T + L - length v) T L e v buf i"
    "\<And>i. i < 0x34 \<Longrightarrow> i \<noteq> 8 \<Longrightarrow> i \<noteq> 9 \<Longrightarrow> b ! i = buf ! i"
    "be16 b 8 = be16 buf 8 + L - length v" "be16 b slot = be16 buf 8 + L - length v" "be16 b (slot + 2) = length v"
    "\<And>s. s \<in> set str_slots \<Longrightarrow> s \<noteq> slot \<Longrightarrow> be16 b s = (if be16 buf s < be16 buf slot then be16 buf s + L else be16 buf s)"
    "\<And>s. s \<in> set str_slots \<Longrightarrow> s \<noteq> slot \<Longrightarrow> be16 b (s + 2) = be16 buf (s + 2)"
proof -
  let ?t = "be16 buf 8" and ?o = "be16 buf slot" and ?n = "be16 buf 8 + L - length v"
  have e: "e = be16 buf slot + L - o0" by (simp only: e_def L_def)
  note h = heap_okD[OF assms(1,2), folded L_def]
  note room = assms(3)[folded L_def]
  have n: "nat ((int ?t + int L - int (length v)) mod 65536) = ?n" "?n < 65536" "be16 buf 6 \<le> ?n" "length v < 65536"
    using h room by (simp_all add: of_nat_diff mod_pos_pos_trivial nat_mod_distrib nat_diff_distrib)
  have d: "int ?o - int ?t = int (?o - ?t)" using h by simp
  have fits: "?t + L - o0 + (?o - ?t) \<le> length buf" "?t - o0 + (?o - ?t) \<le> length buf" using h by simp_all
  obtain b1 where b1: "memmove (?t + L - o0) (?t - o0) (int ?o - int ?t) buf = Inr b1"
    using memmove_ok[OF fits] unfolding d by blast
  note m = memmove_nth[OF b1[unfolded d] fits]
  have l1: "length b1 = 0x800" using m(1) h by simp
  let ?b2 = "fold (shift_slot ?o L) str_slots b1"
  obtain b3 where b3: "store_chars (?n - o0) v ?b2 = Inr b3" "length b3 = 0x800"
    "\<And>i. i < 0x800 \<Longrightarrow> b3 ! i = (if ?n - o0 \<le> i \<and> i < ?n - o0 + length v then crlf v ! (i - (?n - o0)) else ?b2 ! i)"
  proof -
    have "?n - o0 + length v \<le> length ?b2" using h l1 room by simp
    from store_nth[OF this] show thesis using that l1 by auto
  qed
  let ?b = "put_be16 8 ?n (put_be16 (slot + 2) (length v mod 65536) (put_be16 slot ?n b3))"
  have r: "set_string o0 slot v buf = Inr (Some ?b)"
  proof -
    have "\<not> ?n < be16 buf 6" "\<not> (?t < o0 \<and> ?o \<noteq> ?t \<or> ?n < o0 \<and> v \<noteq> [])" using n h by auto
    then show ?thesis
      unfolding set_string_def Let_def cbind_def L_def[symmetric] n(1) b1 by (simp only: if_False sum.case b3(1))
  qed
  note sl = slot_simps[OF assms(2)]
  have low1: "b1 ! i = buf ! i" if "i < 0x5C" for i
  proof -
    have "\<not> ?t + L - o0 \<le> i" "i < length buf" using that h by linarith+
    then show ?thesis using m(2) by simp
  qed
  have low3: "b3 ! i = ?b2 ! i" if "i < 0x5C" for i using b3(3)[of i] that n h by auto
  have two: "?b2 ! i = b1 ! i" if "i < 0x34 \<or> 0x5C \<le> i \<or> i mod 4 \<ge> 2" for i
    using that slot_away by (intro fold_shift_nth ballI) blast
  have off: "be16 b3 s = (if be16 buf s < ?o then be16 buf s + L else be16 buf s)" if s: "s \<in> set str_slots" for s
  proof -
    have "be16 b3 s = be16 ?b2 s" using low3 slot_simps[OF s] by (simp add: be16_def)
    also have "\<dots> = (if be16 b1 s < ?o then (be16 b1 s + L) mod 65536 else be16 b1 s)"
      using s slot_simps l1 by (subst be16_fold_shift) (auto simp: distinct_slots dest: slot_simps)
    also have "be16 b1 s = be16 buf s" using low1 slot_simps[OF s] by (simp add: be16_def)
    finally show ?thesis using h by auto
  qed
  have len: "be16 b3 (s + 2) = be16 buf (s + 2)" if s: "s \<in> set str_slots" for s
  proof -
    have "2 \<le> (s + 2) mod 4" "2 \<le> (s + 2 + 1) mod 4" "s + 2 + 1 < 0x5C" "s + 2 < 0x5C" using slot_simps[OF s] by presburger+
    then show ?thesis unfolding be16_def by (simp only: low3 two low1 simp_thms)
  qed
  have gap: "s + 4 \<le> slot \<or> slot + 4 \<le> s" if "s \<in> set str_slots" "s \<noteq> slot" for s
    using slot_simps[OF that(1)] sl that(2) by presburger
  show thesis
  proof (rule that[OF r])
    show "length ?b = 0x800" using b3(2) by simp
    show "?b ! i = heap_moved (T + L - length v) T L e v buf i" if i: "0x5C \<le> i" "i < 0x800" for i
    proof -
      have "?b ! i = b3 ! i" using i sl by (simp add: put_be16_nth)
      moreover have "?b2 ! i = b1 ! i" using two i by simp
      moreover have "b1 ! i = (if T + L \<le> i \<and> i < e then buf ! (i - L) else buf ! i)"
      proof -
        have "i - (?t + L - o0) + (?t - o0) = i - L" if "T + L \<le> i" using that h unfolding T_def by linarith
        moreover have "?t + L - o0 = T + L" "?t + L - o0 + (?o - ?t) = e" using h by (simp_all add: T_def e)
        ultimately show ?thesis using m(2)[of i] i h by auto
      qed
      moreover have "?n - o0 = T + L - length v" using h by (simp add: T_def)
      ultimately show ?thesis using b3(3)[of i] i by (simp add: heap_moved_def)
    qed
    show "?b ! i = buf ! i" if "i < 0x34" "i \<noteq> 8" "i \<noteq> 9" for i
      using that sl low3 two low1 by (simp add: put_be16_nth)
    show "be16 ?b 8 = ?n" using b3(2) n by (simp add: be16_put_same)
    show "be16 ?b slot = ?n" using b3(2) n sl by (simp add: be16_put_same be16_put_other)
    show "be16 ?b (slot + 2) = length v" using b3(2) n sl by (simp add: be16_put_same be16_put_other)
    show "be16 ?b s = (if be16 buf s < ?o then be16 buf s + L else be16 buf s)" if "s \<in> set str_slots" "s \<noteq> slot" for s
      using off[OF that(1)] gap[OF that] slot_simps[OF that(1)] by (auto simp: be16_put_other)
    show "be16 ?b (s + 2) = be16 buf (s + 2)" if "s \<in> set str_slots" "s \<noteq> slot" for s
      using len[OF that(1)] gap[OF that] slot_simps[OF that(1)] by (auto simp: be16_put_other)
  qed
qed

lemma nth_part: "p + k \<le> length b \<Longrightarrow> p + k \<le> length c \<Longrightarrow> (\<And>i. i < k \<Longrightarrow> b ! (p + i) = c ! (q + i)) \<Longrightarrow> q + k \<le> length c \<Longrightarrow>
    take k (drop p b) = take k (drop q c)"
  by (intro nth_equalityI) auto

lemma set_string_ok:
  assumes "heap_ok o0 buf" "slot \<in> set str_slots" "be16 buf 6 + length v \<le> be16 buf 8 + be16 buf (slot + 2)"
  obtains b where "set_string o0 slot v buf = Inr (Some b)" "heap_in o0 b" "v \<noteq> [] \<Longrightarrow> heap_ok o0 b" "heap_str o0 b slot = crlf v"
    "\<And>s. s \<in> set str_slots \<Longrightarrow> s \<noteq> slot \<Longrightarrow> heap_str o0 b s = heap_str o0 buf s"
    "\<And>i. i < 0x34 \<Longrightarrow> i \<noteq> 8 \<Longrightarrow> i \<noteq> 9 \<Longrightarrow> b ! i = buf ! i"
proof -
  obtain b where b: "set_string o0 slot v buf = Inr (Some b)" "length b = 0x800"
    and hi: "\<And>i. 0x5C \<le> i \<Longrightarrow> i < 0x800 \<Longrightarrow> b ! i = heap_moved (be16 buf 8 - o0 + be16 buf (slot + 2) - length v) (be16 buf 8 - o0)
      (be16 buf (slot + 2)) (be16 buf slot + be16 buf (slot + 2) - o0) v buf i"
    and lo: "\<And>i. i < 0x34 \<Longrightarrow> i \<noteq> 8 \<Longrightarrow> i \<noteq> 9 \<Longrightarrow> b ! i = buf ! i"
    and top: "be16 b 8 = be16 buf 8 + be16 buf (slot + 2) - length v"
    and new: "be16 b slot = be16 buf 8 + be16 buf (slot + 2) - length v" "be16 b (slot + 2) = length v"
    and off: "\<And>s. s \<in> set str_slots \<Longrightarrow> s \<noteq> slot \<Longrightarrow>
      be16 b s = (if be16 buf s < be16 buf slot then be16 buf s + be16 buf (slot + 2) else be16 buf s)"
    and len: "\<And>s. s \<in> set str_slots \<Longrightarrow> s \<noteq> slot \<Longrightarrow> be16 b (s + 2) = be16 buf (s + 2)"
    by (rule set_string_result[OF assms(1-3)]) blast
  define L where "L = be16 buf (slot + 2)"
  note hi = hi[folded L_def] and top = top[folded L_def] and new = new(1)[folded L_def] new(2) and off = off[folded L_def]
  note room = assms(3)[folded L_def]
  note h = heap_okD[OF assms(1)] and hs = heap_okD[OF assms(1,2), folded L_def]
  have six: "be16 b 6 = be16 buf 6" using lo by (simp add: be16_def)
  have ap: "str_apart buf s t \<or> str_apart buf t s" if "s \<in> set str_slots" "t \<in> set str_slots" "s \<noteq> t" for s t
    using assms(1) that by (simp add: heap_ok_def)
  have below: "be16 buf s + be16 buf (s + 2) \<le> be16 buf slot" if "s \<in> set str_slots" "s \<noteq> slot" "be16 buf s < be16 buf slot" for s
    using ap[OF that(1) assms(2) that(2)] that(3) by (auto simp: str_apart_def)
  have above: "be16 buf slot < be16 buf s" "be16 buf slot + L \<le> be16 buf s"
    if "s \<in> set str_slots" "s \<noteq> slot" "\<not> be16 buf s < be16 buf slot" for s
    using ap[OF that(1) assms(2) that(2)] that(3) by (auto simp: str_apart_def L_def)
  have str_apart': "str_apart b s t" if "s \<in> set str_slots" "t \<in> set str_slots" "s \<noteq> slot" "t \<noteq> slot" "str_apart buf s t" for s t
    using that(5) off[OF that(1,3)] off[OF that(2,4)] len[OF that(1,3)] below[OF that(1,3)] above[OF that(2,4)]
    by (auto simp: str_apart_def)
  have apart_new: "str_apart b slot t" if "t \<in> set str_slots" "t \<noteq> slot" and v: "v \<noteq> []" for t
  proof -
    have "be16 buf 8 + L \<le> be16 b t" using off[OF that(1,2)] hs h(5)[OF that(1)] above[OF that(1,2)] by auto
    moreover have "0 < length v" using v by simp
    ultimately show ?thesis unfolding str_apart_def new using room hs(5) by linarith
  qed
  have range: "be16 b 8 \<le> be16 b s \<and> be16 b s + be16 b (s + 2) \<le> o0 + 0x800" if s: "s \<in> set str_slots" for s
  proof (cases "s = slot")
    case True
    then show ?thesis using new top room hs by simp
  next
    case False
    then show ?thesis using off[OF s False] len[OF s False] top room hs h(5,6)[OF s] below[OF s False] above[OF s False] by auto
  qed
  have inb: "heap_in o0 b" unfolding heap_in_def using b(2) hs six top room range by auto
  have ok: "heap_ok o0 b" if v: "v \<noteq> []"
    unfolding heap_ok_def
  proof (intro conjI ballI impI)
    fix s t assume st: "s \<in> set str_slots" "t \<in> set str_slots" "s \<noteq> t"
    show "str_apart b s t \<or> str_apart b t s"
      using apart_new[OF _ _ v] st ap[OF st] str_apart'[OF st(1,2)] str_apart'[OF st(2,1)] by metis
  qed (rule inb)
  define N where "N = be16 buf 8 - o0 + L - length v"
  have N: "be16 b slot - o0 = N" "0x5C \<le> N" "N + length v \<le> 0x800" using new hs room by (simp_all add: N_def)
  have "heap_str o0 b slot = crlf v"
  proof (rule nth_equalityI)
    show "length (heap_str o0 b slot) = length (crlf v)"
      using N b(2) unfolding heap_str_def crlf_def new(2) N(1) by simp
    fix i assume "i < length (heap_str o0 b slot)"
    then have i: "i < length v" unfolding heap_str_def new(2) by simp
    then have "b ! (N + i) = crlf v ! i" using hi[folded N_def, of "N + i"] N by (simp add: heap_moved_def)
    then show "heap_str o0 b slot ! i = crlf v ! i" using i N b(2) unfolding heap_str_def new(2) N(1) by simp
  qed
  moreover have "heap_str o0 b s = heap_str o0 buf s" if s: "s \<in> set str_slots" "s \<noteq> slot" for s
  proof (cases "be16 buf s < be16 buf slot")
    case True
    have "take (be16 buf (s + 2)) (drop (be16 buf s + L - o0) b) = take (be16 buf (s + 2)) (drop (be16 buf s - o0) buf)"
    proof (rule nth_part)
      fix i assume i: "i < be16 buf (s + 2)"
      show "b ! (be16 buf s + L - o0 + i) = buf ! (be16 buf s - o0 + i)"
        using i hs h(5,6)[OF s(1)] below[OF s True] room hi[of "be16 buf s + L - o0 + i"] by (auto simp: heap_moved_def)
    qed (use b(2) hs h(5,6)[OF s(1)] below[OF s True] in auto)
    then show ?thesis using off[OF s] len[OF s] True by (simp add: heap_str_def)
  next
    case False
    have "take (be16 buf (s + 2)) (drop (be16 buf s - o0) b) = take (be16 buf (s + 2)) (drop (be16 buf s - o0) buf)"
    proof (rule nth_part)
      fix i assume i: "i < be16 buf (s + 2)"
      show "b ! (be16 buf s - o0 + i) = buf ! (be16 buf s - o0 + i)"
        using i hs h(5,6)[OF s(1)] above[OF s False] room hi[of "be16 buf s - o0 + i"] by (auto simp: heap_moved_def)
    qed (use b(2) hs h(5,6)[OF s(1)] in auto)
    then show ?thesis using off[OF s] len[OF s] False by (simp add: heap_str_def)
  qed
  ultimately show thesis using that b(1) inb ok lo by blast
qed


subsection \<open>The partition in the NVRAM\<close>

lemma update_checksum_nth: "i \<noteq> 4 \<Longrightarrow> i \<noteq> 5 \<Longrightarrow> update_checksum b ! i = b ! i"
  by (simp add: update_checksum_def Let_def put_be16_nth)

lemma update_checksum_length [simp]: "length (update_checksum b) = length b"
  by (simp add: update_checksum_def Let_def)

lemma be16_update [simp]: "6 \<le> i \<Longrightarrow> be16 (update_checksum b) i = be16 b i"
  by (simp add: be16_def update_checksum_nth)

lemma drop_update: "6 \<le> i \<Longrightarrow> drop i (update_checksum b) = drop i b"
  by (intro nth_equalityI) (simp_all add: update_checksum_nth)

lemma apart_update: "s \<in> set str_slots \<Longrightarrow> t \<in> set str_slots \<Longrightarrow> str_apart (update_checksum b) s t = str_apart b s t"
  using slot_simps[of s] slot_simps[of t] by (simp add: str_apart_def)

lemma heap_ok_update [simp]:
  "heap_in o0 (update_checksum b) = heap_in o0 b" "heap_ok o0 (update_checksum b) = heap_ok o0 b"
proof -
  have "be16 (update_checksum b) s = be16 b s" "be16 (update_checksum b) (s + 2) = be16 b (s + 2)" if "s \<in> set str_slots" for s
    using slot_simps[OF that] by simp_all
  then show "heap_in o0 (update_checksum b) = heap_in o0 b" unfolding heap_in_def by (simp del: add_2_eq_Suc')
  then show "heap_ok o0 (update_checksum b) = heap_ok o0 b" unfolding heap_ok_def by (simp add: apart_update del: add_2_eq_Suc')
qed

lemma heap_str_update: "heap_in o0 b \<Longrightarrow> s \<in> set str_slots \<Longrightarrow> heap_str o0 (update_checksum b) s = heap_str o0 b s"
  using heap_inD[of o0 b s] slot_simps[of s] by (simp add: heap_str_def drop_update)

text \<open>A valid partition.\<close>

definition appl_header :: "bytes \<Rightarrow> bool" where
  "appl_header b \<longleftrightarrow> length b = 0x800 \<and> be16 b 0 = 0x1275 \<and> b ! 2 = 5 \<and> b ! 3 = 8"

lemma validate_True:
  assumes "appl_validate st = Inr (True, st1)"
  defines "n \<equiv> appl_nvram st"
  shows "st1 = st\<lparr>appl_size := 0x800, appl_buf := appl_buf st1\<rparr>" "appl_buf st1 = take 0x800 (drop (of_nvram_offset n) (storage n))"
    "of_nvram_offset n + 0x800 \<le> length (storage n)" "appl_header (appl_buf st1)"
proof -
  let ?o = "of_nvram_offset n" and ?h = "take 10 (drop (of_nvram_offset n) (storage n))"
  obtain hdr where h: "rd_block n ?o 10 = Inr hdr" using assms by (auto simp: appl_validate_def cbind_def Let_def split: sum.splits)
  then have hdr: "hdr = ?h" "?o + 10 \<le> length (storage n)" by (auto simp: rd_block_def split: if_splits)
  have c: "be16 hdr 0 = 0x1275" "hdr ! 2 = 5" "unat (hdr ! 3) * 256 = 0x800"
    using assms h by (auto simp: appl_validate_def cbind_def Let_def split: if_splits sum.splits)
  then have r: "rd_block n ?o 0x800 = Inr (appl_buf st1)" "st1 = st\<lparr>appl_size := 0x800, appl_buf := appl_buf st1\<rparr>"
    using assms h by (auto simp: appl_validate_def cbind_def Let_def split: if_splits sum.splits)
  then have bs: "appl_buf st1 = take 0x800 (drop ?o (storage n))" "?o + 0x800 \<le> length (storage n)"
    by (auto simp: rd_block_def split: if_splits)
  have "unat (hdr ! 3) = 8" using c(3) by simp
  then have "hdr ! 3 = 8" by (simp add: word_unat_eq_iff)
  with c hdr bs show "appl_header (appl_buf st1)" by (simp add: appl_header_def be16_def)
  show "st1 = st\<lparr>appl_size := 0x800, appl_buf := appl_buf st1\<rparr>" "appl_buf st1 = take 0x800 (drop ?o (storage n))"
    "?o + 0x800 \<le> length (storage n)" by fact+
qed

lemma validate_written:
  assumes "appl_header b" "of_nvram_offset (appl_nvram st) + 0x800 \<le> length (storage (appl_nvram st))" "appl_size st = 0x800"
  obtains st2 where "appl_store b st = Inr (True, st2)" "appl_buf st2 = update_checksum b"
    "of_nvram_offset (appl_nvram st2) = of_nvram_offset (appl_nvram st)"
    "appl_validate st2 = Inr (checksum_partition (update_checksum b) = 0xFFFF, st2)"
proof -
  let ?n = "appl_nvram st" and ?c = "update_checksum b" let ?o = "of_nvram_offset ?n"
  let ?n2 = "?n\<lparr>storage := take ?o (storage ?n) @ ?c @ drop (?o + 0x800) (storage ?n)\<rparr>"
  let ?st2 = "st\<lparr>appl_buf := ?c, appl_nvram := ?n2\<rparr>"
  have l: "length ?c = 0x800" using assms(1) by (simp add: appl_header_def)
  have "appl_store b st = Inr (True, ?st2)" (is ?stored)
    using assms(2,3) l by (simp add: appl_store_def appl_update_partition_def wr_block_def cbind_def Let_def)
  have r: "rd_block ?n2 ?o k = Inr (take k ?c)" if "k \<le> 0x800" for k
    using assms(2) l that by (simp add: rd_block_def)
  have "be16 (take 10 ?c) 0 = 0x1275" "?c ! 2 = 5" "unat (?c ! 3) = 8"
    using assms(1) by (simp_all add: be16_def appl_header_def update_checksum_nth)
  then have "appl_validate ?st2 = Inr (checksum_partition ?c = 0xFFFF, ?st2)"
    using r[of 10] r[of "0x800"] l assms(3) by (simp add: appl_validate_def cbind_def Let_def)
  with \<open>?stored\<close> show thesis using that by simp
qed

lemma appl_string_heap:
  assumes "heap_in o0 b" "s \<in> set str_slots"
  shows "appl_string o0 b s = Some (takeWhile (\<lambda>c. c \<noteq> 0) (heap_str o0 b s))"
proof -
  note h = heap_inD[OF assms]
  have "be16 b s + 65536 - o0 = (be16 b s - o0) + 65536" using h by simp
  then have "(be16 b s + 65536 - o0) mod 65536 = be16 b s - o0" using h by (simp only: mod_add_self2) simp
  then show ?thesis using h by (simp add: appl_string_def heap_str_def Let_def)
qed

lemma of_vars_names: "distinct (map fst of_vars)"
  by code_simp

lemma flags_not_vars: "\<forall>i < 9. flag_names ! i \<notin> fst ` set of_vars" "length flag_names = 9"
proof -
  have "list_all (\<lambda>x. x \<notin> set (map fst of_vars)) flag_names" by code_simp
  moreover show "length flag_names = 9" by (simp add: flag_names_def)
  ultimately show "\<forall>i < 9. flag_names ! i \<notin> fst ` set of_vars" by (auto simp: list_all_length)
qed

lemma of_vars_cases:
  assumes "(n, ty, i) \<in> set of_vars"
  shows "ty = OF_VAR_TYPE_STR \<and> i \<in> set str_slots \<or> ty = OF_VAR_TYPE_INT \<and> 0x10 \<le> i \<and> i \<le> 0x30"
proof -
  have "list_all (\<lambda>(n, ty, i). ty = OF_VAR_TYPE_STR \<and> i \<in> set str_slots \<or> ty = OF_VAR_TYPE_INT \<and> 0x10 \<le> i \<and> i \<le> 0x30) of_vars"
    by code_simp
  then show ?thesis using assms by (auto simp: list_all_iff)
qed

lemma of_vars_slot:
  assumes "(n, ty, i) \<in> set of_vars" "(m, ty', i) \<in> set of_vars"
  shows "n = m"
proof -
  have "list_all (\<lambda>(n, ty, i). list_all (\<lambda>(m, ty', j). i = j \<longrightarrow> n = m) of_vars) of_vars" by code_simp
  then show ?thesis using assms by (auto simp: list_all_iff)
qed

lemma index_of_None: "x \<notin> set xs \<Longrightarrow> index_of x xs = None"
  by (auto simp: index_of_def find_None_iff)

text \<open>The variables of a valid buffer.\<close>

definition var_value :: "nat \<Rightarrow> bytes \<Rightarrow> of_type \<times> nat \<Rightarrow> bytes" where
  "var_value o0 b = (\<lambda>(ty, i). case ty of OF_VAR_TYPE_INT \<Rightarrow> hex2str (be32 b i)
     | OF_VAR_TYPE_STR \<Rightarrow> takeWhile (\<lambda>c. c \<noteq> 0) (heap_str o0 b i))"

definition flag_vars :: "bytes \<Rightarrow> (bytes \<times> bytes) list" where
  "flag_vars b = map (\<lambda>i. (flag_names ! i, bytes_of (if bit (be32 b 12) (31 - i) then ''true'' else ''false''))) [0..<9]"

lemma concat_vars:
  assumes "heap_in o0 b"
  shows "concat (map (appl_var o0 b) of_vars) = map (\<lambda>(n, x). (n, var_value o0 b x)) of_vars"
proof -
  have "appl_var o0 b x = [(fst x, var_value o0 b (snd x))]" if "x \<in> set of_vars" for x
    using of_vars_cases[of "fst x" "fst (snd x)" "snd (snd x)"] that appl_string_heap[OF assms]
    by (auto simp: appl_var_def var_value_def split: prod.splits)
  then have "map (appl_var o0 b) of_vars = map (\<lambda>x. [(fst x, var_value o0 b (snd x))]) of_vars" by (intro map_cong) auto
  then show ?thesis by (simp only: case_prod_beta' concat_map_singleton)
qed

lemma get_valid:
  assumes "appl_validate st = Inr (True, st1)" "heap_in (of_nvram_offset (appl_nvram st)) (appl_buf st1)"
  shows "appl_get_config_vars st = Inr (flag_vars (appl_buf st1) @
    map (\<lambda>(n, x). (n, var_value (of_nvram_offset (appl_nvram st)) (appl_buf st1) x)) of_vars, st1)"
proof -
  have "appl_nvram st1 = appl_nvram st" by (subst validate_True(1)[OF assms(1)]) simp
  then show ?thesis using assms concat_vars[OF assms(2)] by (simp add: appl_get_config_vars_def cbind_def Let_def flag_vars_def)
qed

lemma map_of_values: "map_of (map (\<lambda>(n, x). (n, f x)) xs) k = map_option f (map_of xs k)"
  by (induction xs) auto

text \<open>A buffer in which only one string is different.\<close>

lemma vars_update:
  assumes "(name, OF_VAR_TYPE_STR, slot) \<in> set of_vars" "0 \<notin> set w" "heap_str o0 b' slot = w"
    and "\<And>s. s \<in> set str_slots \<Longrightarrow> s \<noteq> slot \<Longrightarrow> heap_str o0 b' s = heap_str o0 b s"
    and "\<And>i. 10 \<le> i \<Longrightarrow> i < 0x34 \<Longrightarrow> b' ! i = b ! i"
  shows "map_of (flag_vars b' @ map (\<lambda>(n, x). (n, var_value o0 b' x)) of_vars) =
    (map_of (flag_vars b @ map (\<lambda>(n, x). (n, var_value o0 b x)) of_vars))(name \<mapsto> w)"
proof -
  have be32: "be32 b' i = be32 b i" if "10 \<le> i" "i \<le> 0x30" for i
    using assms(5) that by (simp add: be32_def be16_def)
  have flags: "flag_vars b' = flag_vars b" using be32[of 12] by (simp add: flag_vars_def)
  have "map_of (map (\<lambda>(n, x). (n, var_value o0 b' x)) of_vars) k =
      ((map_of (map (\<lambda>(n, x). (n, var_value o0 b x)) of_vars))(name \<mapsto> w)) k" for k
  proof (cases "map_of of_vars k")
    case None
    then show ?thesis using assms(1) of_vars_names by (auto simp: map_of_values)
  next
    case (Some x)
    obtain ty i where x: "x = (ty, i)" by (cases x)
    then have mem: "(k, ty, i) \<in> set of_vars" using Some map_of_SomeD by fastforce
    have "var_value o0 b' (ty, i) = (if k = name then w else var_value o0 b (ty, i))"
    proof (cases "k = name")
      case True
      then have "(ty, i) = (OF_VAR_TYPE_STR, slot)"
        using assms(1) mem of_vars_names by (metis map_of_is_SomeI option.inject)
      moreover have "takeWhile (\<lambda>c. c \<noteq> 0) w = w" using assms(2) by (auto simp: takeWhile_eq_all_conv)
      ultimately show ?thesis using True assms(3) by (simp add: var_value_def)
    next
      case False
      then have "i \<noteq> slot" using of_vars_slot[OF mem] assms(1) by blast
      then show ?thesis using False of_vars_cases[OF mem] assms(4) be32 by (auto simp: var_value_def)
    qed
    with Some x show ?thesis by (auto simp: map_of_values)
  qed
  moreover have "map_of (flag_vars b) name = None"
    using flags_not_vars(1) assms(1) by (force simp: flag_vars_def map_of_eq_None_iff)
  ultimately show ?thesis unfolding flags map_of_append by (auto simp: fun_eq_iff map_add_def split: option.splits)
qed

text \<open>
  C25: The checksum of Apple's partition. \<open>update_checksum\<close> stores the complement of the sum of all words, with its carries added once;
  the same sum over the stored partition then passes validation exactly when adding the carries
  does not itself carry. Any other partition is written with a checksum that the code rejects at
  the next validation (and with it every variable is lost).
\<close>

theorem appl_checksum:
  assumes "appl_header b" "of_nvram_offset (appl_nvram st) + 0x800 \<le> length (storage (appl_nvram st))" "appl_size st = 0x800"
  shows "\<exists>st2. appl_update_partition (st\<lparr>appl_buf := b\<rparr>) = Inr st2 \<and>
    appl_validate st2 = Inr (summed b mod 65536 + summed b div 65536 < 65536, st2)"
proof -
  obtain st2 where "appl_store b st = Inr (True, st2)" "appl_validate st2 = Inr (checksum_partition (update_checksum b) = 0xFFFF, st2)"
    by (rule validate_written[OF assms])
  moreover have "length b = 0x800" using assms(1) by (simp add: appl_header_def)
  ultimately show ?thesis using checksum_updated[of b] by (auto simp: appl_store_def cbind_def split: sum.splits)
qed

text \<open>
  C7: Setting a string in Apple's partition. Let the partition be valid, its strings lie apart above \<open>top\<close>, and the value be
  shorter than 65536 bytes and without NUL. If the value fits in the room between \<open>here\<close> and \<open>top\<close> and the old value,
  \<open>set_var\<close> compacts the heap and stores it: the strings lie in the heap, apart again unless the value is empty, and,
  if the checksum of the result is one that validation accepts, reading the variables back gives the new value (line
  feeds as carriage returns) for that name and the old value for all others, flags and numbers included. A value that does not
  fit is refused without a change if it is no longer than \<open>top\<close> plus the old length; a longer one makes the 16-bit
  room test wrap around and is written past the buffer.
\<close>

theorem appl_setenv_string:
  assumes "appl_validate st = Inr (True, st1)" "heap_ok (of_nvram_offset (appl_nvram st)) (appl_buf st1)"
    and "(name, OF_VAR_TYPE_STR, slot) \<in> set of_vars" "0 \<notin> set v" "length v < 65536"
  shows "if be16 (appl_buf st1) 6 + length v \<le> be16 (appl_buf st1) 8 + be16 (appl_buf st1) (slot + 2)
    then \<exists>st2 ok. appl_set_var name v st = Inr (True, st2) \<and> heap_in (of_nvram_offset (appl_nvram st2)) (appl_buf st2) \<and>
      (v \<noteq> [] \<longrightarrow> heap_ok (of_nvram_offset (appl_nvram st2)) (appl_buf st2)) \<and>
      appl_validate st2 = Inr (ok, st2) \<and>
      (ok \<longrightarrow> (\<exists>vs vs'. appl_get_config_vars st = Inr (vs, st1) \<and> appl_get_config_vars st2 = Inr (vs', st2) \<and>
        map_of vs' = (map_of vs)(name \<mapsto> map (\<lambda>c. if c = 0x0A then 0x0D else c) v)))
    else if length v \<le> be16 (appl_buf st1) 8 + be16 (appl_buf st1) (slot + 2) then appl_set_var name v st = Inr (False, st1)
    else appl_set_var name v st = Inl ''memory overrun''"
proof -
  let ?o = "of_nvram_offset (appl_nvram st)" and ?b = "appl_buf st1"
  note va = validate_True[OF assms(1)]
  have same: "appl_nvram st1 = appl_nvram st" "appl_size st1 = 0x800" by (subst va(1), simp)+
  have slot: "slot \<in> set str_slots" using of_vars_cases[OF assms(3)] by simp
  have "name \<notin> set flag_names" using flags_not_vars assms(3) by (force simp: in_set_conv_nth)
  then have no_flag: "index_of name flag_names = None" by (rule index_of_None)
  have var: "map_of of_vars name = Some (OF_VAR_TYPE_STR, slot)" using assms(3) of_vars_names by (metis map_of_is_SomeI)
  have step: "appl_set_var name v st = cbind (set_string ?o slot v ?b) (\<lambda>r. case r of None \<Rightarrow> Inr (False, st1) | Some buf \<Rightarrow> appl_store buf st1)"
    using assms(1) no_flag var same by (simp add: appl_set_var_def cbind_def)
  show ?thesis
  proof (cases "be16 ?b 6 + length v \<le> be16 ?b 8 + be16 ?b (slot + 2)")
    case False
    then have "be16 ?b 8 + be16 ?b (slot + 2) < be16 ?b 6 + length v" by simp
    from set_string_full[OF assms(2) slot this assms(5)] False step show ?thesis
      by (cases "length v \<le> be16 ?b 8 + be16 ?b (slot + 2)") (simp_all add: cbind_def)
  next
    case True
    then obtain b where b: "set_string ?o slot v ?b = Inr (Some b)" "heap_in ?o b" "v \<noteq> [] \<Longrightarrow> heap_ok ?o b" "heap_str ?o b slot = crlf v"
      "\<And>s. s \<in> set str_slots \<Longrightarrow> s \<noteq> slot \<Longrightarrow> heap_str ?o b s = heap_str ?o ?b s"
      "\<And>i. i < 0x34 \<Longrightarrow> i \<noteq> 8 \<Longrightarrow> i \<noteq> 9 \<Longrightarrow> b ! i = ?b ! i"
      using set_string_ok[OF assms(2) slot] by blast
    have hd: "appl_header b" using va(4) b(2,6) heap_inD(1)[OF b(2) slot] by (simp add: appl_header_def be16_def)
    obtain st2 where st2: "appl_store b st1 = Inr (True, st2)" "appl_buf st2 = update_checksum b" "of_nvram_offset (appl_nvram st2) = ?o"
      "appl_validate st2 = Inr (checksum_partition (update_checksum b) = 0xFFFF, st2)"
      using validate_written[OF hd] va(3) same by metis
    have heap2: "heap_in ?o (appl_buf st2)" "v \<noteq> [] \<Longrightarrow> heap_ok ?o (appl_buf st2)" using b(2,3) st2(2) by simp_all
    have nz: "0 \<notin> set (crlf v)" using assms(4) by (auto simp: crlf_def)
    have "map_of (flag_vars (appl_buf st2) @ map (\<lambda>(n, x). (n, var_value ?o (appl_buf st2) x)) of_vars) =
        (map_of (flag_vars ?b @ map (\<lambda>(n, x). (n, var_value ?o ?b x)) of_vars))(name \<mapsto> crlf v)"
      by (rule vars_update[OF assms(3) nz]) (use b st2(2) slot in \<open>simp_all add: heap_str_update update_checksum_nth\<close>)
    then show ?thesis using True step b(1) st2 heap2 get_valid[OF assms(1) heap_ok_in[OF assms(2)]] get_valid[of st2 st2]
      by (auto simp: cbind_def crlf_def simp del: map_of_append)
  qed
qed

text \<open>A partition with ten strings of one character.\<close>

definition demo_head :: bytes where
  "demo_head = [0x12, 0x75, 5, 8, 0, 0, 0x18, 0x5C, 0x1F, 0xF6] @ replicate 42 0 @
     concat (map (\<lambda>k. [0x1F, of_nat (0xF6 + k), 0, 1]) [0..<10])"

definition demo_base :: bytes where
  "demo_base = demo_head @ replicate 1946 0 @ [0x61, 0x61, 0x61, 0x61, 0x61, 0x61, 0x61, 0x61, 0x61, 0x61]"

definition demo_appl :: OfConfigAppl where
  "demo_appl = \<lparr>appl_nvram = \<lparr>ram_size = 8192, storage = replicate 8192 0, of_nvram_offset = 0x1800\<rparr>, appl_buf = [], appl_size = 0x800\<rparr>"

lemma word_sum_append: "even (length xs) \<Longrightarrow> word_sum (xs @ ys) = word_sum xs + word_sum ys"
  by (induction xs rule: word_sum.induct) auto

lemma word_sum_zeros: "word_sum (replicate n 0) = 0"
proof (induction n rule: less_induct)
  case (less n)
  then show ?case by (cases n; cases "n - 1") auto
qed

lemma demo_head_eq: "demo_head = [0x12, 0x75, 5, 8, 0, 0, 0x18, 0x5C, 0x1F, 0xF6] @ replicate 42 0 @
  [0x1F, 0xF6, 0, 1, 0x1F, 0xF7, 0, 1, 0x1F, 0xF8, 0, 1, 0x1F, 0xF9, 0, 1, 0x1F, 0xFA, 0, 1,
   0x1F, 0xFB, 0, 1, 0x1F, 0xFC, 0, 1, 0x1F, 0xFD, 0, 1, 0x1F, 0xFE, 0, 1, 0x1F, 0xFF, 0, 1]"
  by (simp add: demo_head_def upt_rec)

lemma demo_head_length: "length demo_head = 92"
  by (simp add: demo_head_eq)

lemma demo_head_slots: "list_all (\<lambda>k. be16 demo_head (0x34 + 4 * k) = 0x1FF6 + k \<and> be16 demo_head (0x36 + 4 * k) = 1) [0..<10]"
  by code_simp

lemma demo_be16: "i < 91 \<Longrightarrow> be16 demo_base i = be16 demo_head i"
  by (simp add: be16_def demo_base_def nth_append demo_head_length)

lemma slot_index: "0x34 \<le> s \<Longrightarrow> s \<le> 0x58 \<Longrightarrow> s mod 4 = 0 \<Longrightarrow> \<exists>k < 10. s = 0x34 + 4 * k" for s :: nat
  by presburger

lemma demo_slot: "s \<in> set str_slots \<Longrightarrow> be16 demo_base s = 0x1FF6 + (s - 0x34) div 4 \<and> be16 demo_base (s + 2) = 1"
proof -
  assume s: "s \<in> set str_slots"
  obtain k where k: "s = 0x34 + 4 * k" "k < 10" using slot_index[of s] slot_simps[OF s] by auto
  then show ?thesis using demo_head_slots demo_be16[of s] demo_be16[of "s + 2"] by (auto simp: list_all_iff add.commute)
qed

lemma demo_bounds: "be16 demo_base 6 = 0x185C" "be16 demo_base 8 = 0x1FF6"
  by (simp_all add: demo_base_def demo_head_eq be16_def)

lemma demo_heap: "heap_ok 0x1800 demo_base"
proof -
  have "str_apart demo_base s t \<or> str_apart demo_base t s" if st: "s \<in> set str_slots" "t \<in> set str_slots" "s \<noteq> t" for s t
  proof -
    obtain k l where "s = 0x34 + 4 * k" "t = 0x34 + 4 * l"
      using slot_index slot_simps[OF st(1)] slot_simps[OF st(2)] by metis
    then have "(s - 0x34) div 4 \<noteq> (t - 0x34) div 4" using st(3) by simp
    then show ?thesis using demo_slot[OF st(1)] demo_slot[OF st(2)] by (simp add: str_apart_def) linarith
  qed
  moreover have "be16 demo_base s \<le> 0x1FFF" if "s \<in> set str_slots" for s using demo_slot[OF that] slot_simps[OF that] by auto
  ultimately show ?thesis using demo_slot by (auto simp: heap_ok_def heap_in_def demo_bounds demo_head_length demo_base_def[THEN arg_cong[of _ _ length]])
qed

lemma demo_summed: "summed demo_base = 226951"
proof -
  have "demo_base[4 := 0, 5 := 0] = demo_base" by (simp add: demo_base_def demo_head_eq)
  moreover have "word_sum demo_head = 102306" by (simp add: demo_head_eq word_sum_append word_sum_zeros)
  ultimately show ?thesis
    by (simp add: summed_def) (simp add: demo_base_def word_sum_append demo_head_length word_sum_zeros)
qed

lemma demo_appl_header: "appl_header demo_base"
  by (simp add: appl_header_def demo_base_def demo_head_eq be16_def)

theorem appl_checksum_witness:
  "\<exists>st2. appl_update_partition (demo_appl\<lparr>appl_buf := demo_base\<rparr>) = Inr st2 \<and> appl_validate st2 = Inr (True, st2)"
  using appl_checksum[OF demo_appl_header, of demo_appl] by (simp add: demo_summed demo_appl_def)

theorem appl_setenv_string_witness:
  "\<exists>st st2. appl_validate st = Inr (True, st) \<and> appl_set_var (bytes_of ''boot-file'') [0x62, 0x0A, 0x63] st = Inr (True, st2) \<and>
     heap_ok 0x1800 (appl_buf st2)"
proof -
  obtain st where st: "appl_buf st = update_checksum demo_base" "of_nvram_offset (appl_nvram st) = 0x1800"
    "appl_validate st = Inr (checksum_partition (update_checksum demo_base) = 0xFFFF, st)"
    using validate_written[OF demo_appl_header, of demo_appl] by (auto simp: demo_appl_def)
  have v: "appl_validate st = Inr (True, st)"
    using st(3) checksum_updated[of demo_base] demo_appl_header by (simp add: demo_summed appl_header_def)
  have ok: "heap_ok (of_nvram_offset (appl_nvram st)) (appl_buf st)" using demo_heap st by simp
  have var: "(bytes_of ''boot-file'', OF_VAR_TYPE_STR, 0x38) \<in> set of_vars" by (simp add: of_vars_def)
  have b: "be16 (appl_buf st) 8 = 0x1FF6" "be16 (appl_buf st) 6 = 0x185C" "be16 (appl_buf st) (0x38 + 2) = 1"
    using demo_slot[of "0x38"] by (simp_all add: st demo_bounds str_slots_eq)
  have "be16 (appl_buf st) 6 + length [0x62, 0x0A, 0x63 :: u8] \<le> be16 (appl_buf st) 8 + be16 (appl_buf st) (0x38 + 2)" unfolding b by simp
  with appl_setenv_string[OF v ok var, of "[0x62, 0x0A, 0x63]"] obtain st2 where
    st2: "appl_set_var (bytes_of ''boot-file'') [0x62, 0x0A, 0x63] st = Inr (True, st2)"
      "heap_ok (of_nvram_offset (appl_nvram st2)) (appl_buf st2)" by auto
  moreover have "of_nvram_offset (appl_nvram st2) = 0x1800"
    using st2(1) v var st(2) by (auto simp: appl_set_var_def appl_store_def appl_update_partition_def wr_block_def cbind_def Let_def
      split: sum.splits option.splits if_splits of_type.splits stoul_result.splits)
  ultimately show ?thesis using v by metis
qed

end
