(* ===== verification/MacIo.thy ===== *)
theory MacIo
  imports GrandCentralExact
begin

text \<open>
  The second generation of I/O controllers, O'Hare, Heathrow and Paddington (\<open>src/devices/ioctrl/maciobase.cpp\<close>,
  \<open>src/devices/ioctrl/maciotwo.cpp\<close>): 64 interrupt lines in two banks, control registers that are accessed in any size,
  and the decoding of their register space. Devices and DMA channels are parameters.
\<close>

subsection \<open>State\<close>

record macio = timebase +
  mio_device_id :: u16
  mio_int_mask :: u64
  mio_int_levels :: u64
  mio_int_events :: u64
  mio_cpu_int_latch :: bool
  feat_ctrl :: u32
  aux_ctrl :: u32
  cpu_id :: u8
  mb_id :: u8
  mon_id :: u8
  fp_id :: u8
  mio_nvram :: NVram

datatype mio_dev = Mio_mesh | Mio_bmac | Mio_escc | Mio_snd | Mio_swim3 | Mio_viacuda | Mio_ide0 | Mio_ide1

record 's mio_env =
  mio_sub_read :: "mio_dev \<Rightarrow> u32 \<Rightarrow> nat \<Rightarrow> 's \<Rightarrow> (u32, 's) outcome option"
  mio_sub_write :: "mio_dev \<Rightarrow> u32 \<Rightarrow> u32 \<Rightarrow> nat \<Rightarrow> 's \<Rightarrow> (unit, 's) outcome option"
  mio_dma_reg_read :: "nat \<Rightarrow> u32 \<Rightarrow> nat \<Rightarrow> 's \<Rightarrow> (u32, 's) outcome option"
  mio_dma_reg_write :: "nat \<Rightarrow> u32 \<Rightarrow> u32 \<Rightarrow> nat \<Rightarrow> 's \<Rightarrow> (unit, 's) outcome option"
  has_ide_1 :: bool

abbreviation (input) "MIO_DEV_ID_OHARE \<equiv> (0x0007 :: u16)"
abbreviation (input) "MIO_INT_EVENTS2 \<equiv> (0x10 :: u32)"
abbreviation (input) "MIO_INT_MASK2 \<equiv> (0x14 :: u32)"
abbreviation (input) "MIO_INT_CLEAR2 \<equiv> (0x18 :: u32)"
abbreviation (input) "MIO_INT_LEVELS2 \<equiv> (0x1C :: u32)"
abbreviation (input) "MIO_OHARE_ENTRY_SPT \<equiv> (0x30 :: u32)"
abbreviation (input) "MIO_OHARE_ID \<equiv> (0x34 :: u32)"
abbreviation (input) "MIO_OHARE_FEAT_CTRL \<equiv> (0x38 :: u32)"
abbreviation (input) "MIO_HEATH_AUX_CTRL \<equiv> (0x3C :: u32)"

subsection \<open>Interrupts\<close>

definition mio_signal_cpu_int :: "'a macio_scheme \<Rightarrow> (unit, 'a macio_scheme) outcome" where
  "mio_signal_cpu_int s =
     (if tst (mio_int_events s) (mio_int_mask s) \<and> \<not> mio_cpu_int_latch s
      then ppc_assert_int (s\<lparr>mio_cpu_int_latch := True\<rparr>) else Ret () s)"

definition mio_clear_cpu_int :: "'a macio_scheme \<Rightarrow> 'a macio_scheme" where
  "mio_clear_cpu_int s =
     (if \<not> tst (mio_int_events s) (mio_int_mask s) \<and> mio_cpu_int_latch s
      then ppc_release_int (s\<lparr>mio_cpu_int_latch := False\<rparr>) else s)"

definition mio_ack_int_common :: "u64 \<Rightarrow> u8 \<Rightarrow> 'a macio_scheme \<Rightarrow> (unit, 'a macio_scheme) outcome" where
  "mio_ack_int_common irq_id irq_line_state s =
     (let old_levels = mio_int_levels s; old_events = mio_int_events s;
          s = s\<lparr>mio_int_levels := (if irq_line_state \<noteq> 0 then old_levels OR irq_id else old_levels AND NOT irq_id)\<rparr>
      in if irq_line_state \<noteq> of_bool (tst old_levels irq_id) \<and> (irq_line_state \<noteq> 0 \<or> tst (mio_int_mask s) 0x80000000) then
           let s = s\<lparr>mio_int_events := old_events OR irq_id\<rparr>
           in if old_events \<noteq> mio_int_events s then mio_signal_cpu_int s else Ret () s
         else Ret () s)"

definition mio_ack_int :: "u64 \<Rightarrow> u8 \<Rightarrow> 'a macio_scheme \<Rightarrow> (unit, 'a macio_scheme) outcome" where
  "mio_ack_int irq_id irq_line_state s = mio_ack_int_common irq_id irq_line_state s"

definition mio_ack_dma_int :: "u64 \<Rightarrow> u8 \<Rightarrow> 'a macio_scheme \<Rightarrow> (unit, 'a macio_scheme) outcome" where
  "mio_ack_dma_int irq_id irq_line_state s = mio_ack_int_common irq_id irq_line_state s"

text \<open>The complement of the flags is a 32-bit one.\<close>

definition mio_clear_dma_int :: "u32 \<Rightarrow> 'a macio_scheme \<Rightarrow> (unit, 'a macio_scheme) outcome" where
  "mio_clear_dma_int clear_flags s =
     (let clear_flags = clear_flags AND 0x7FF
      in if clear_flags = 0 then Ret () s
         else if tst (mio_int_mask s) 0x80000000 then
           mio_signal_cpu_int (s\<lparr>mio_int_events := mio_int_events s OR (mio_int_levels s AND ucast clear_flags),
             mio_int_levels := mio_int_levels s AND ucast (NOT clear_flags)\<rparr>)
         else Ret () (s\<lparr>mio_int_levels := mio_int_levels s AND ucast (NOT clear_flags)\<rparr>))"

definition mio_dev_lines :: "u16 \<Rightarrow> (IntSrc \<times> nat) list" where
  "mio_dev_lines dev = (let ohare = (dev = MIO_DEV_ID_OHARE) in
     [(SCSI_MESH, 0x0C), (IDE0, 0x0D), (IDE1, 0x0E), (SCCA, 0x0F), (SCCB, 0x10), (DAVBUS, 0x11), (VIA_CUDA, 0x12), (SWIM3, 0x13),
      (NMI, 0x14), (BANDIT1, 0x16), (PCI_E, if ohare then 0x16 else 0x18), (PCI_F, 0x18), (PCI_A, 0x17),
      (PCI_B, if ohare then 0x19 else 0x18), (PCI_C, if ohare then 0x1C else 0x19), (VALKYRIE, 0x18), (PERCH2, 0x15),
      (PCI_GPU, 0x16), (PERCH1, 0x1A), (PCI_PERCH, 0x1C), (FIREWIRE, 0x15), (PCI_J12, 0x16), (PCI_J11, 0x17), (PCI_J10, 0x18),
      (PCI_J9, 0x19), (ATA, 0x1A), (USB, 0x1C)] @ (if ohare then [] else [(ETHERNET, 0x2A)]))"

definition mio_register_dev_int :: "u16 \<Rightarrow> IntSrc \<Rightarrow> u64 option" where
  "mio_register_dev_int dev src_id = map_option (\<lambda>n. push_bit n 1) (map_of (mio_dev_lines dev) src_id)"

definition base_dma_lines :: "(IntSrc \<times> nat) list" where
  "base_dma_lines = [(DMA_SWIM3, 1), (DMA_SCCA_Tx, 4), (DMA_SCCA_Rx, 5), (DMA_SCCB_Tx, 6), (DMA_SCCB_Rx, 7), (DMA_DAVBUS_Tx, 8),
     (DMA_DAVBUS_Rx, 9)]"

definition mio_dma_lines :: "u16 \<Rightarrow> (IntSrc \<times> nat) list" where
  "mio_dma_lines dev = [(DMA_SCSI_MESH, 0), (DMA_IDE0, 2), (DMA_IDE1, 3)] @
     (if dev = MIO_DEV_ID_OHARE then [] else [(DMA_ETHERNET_Tx, 0x20), (DMA_ETHERNET_Rx, 0x21)]) @ base_dma_lines"

definition mio_register_dma_int :: "u16 \<Rightarrow> IntSrc \<Rightarrow> u64 option" where
  "mio_register_dma_int dev src_id = map_option (\<lambda>n. push_bit n 1) (map_of (mio_dma_lines dev) src_id)"

subsection \<open>Control registers\<close>

definition REG_READ_HELPER :: "u32 \<Rightarrow> u32 \<Rightarrow> nat \<Rightarrow> nat \<Rightarrow> u64" where
  "REG_READ_HELPER val_hi val_lo pos sz =
     drop_bit ((8 - pos - sz) * 8) (push_bit 32 (ucast val_hi) OR ucast val_lo) AND (push_bit (sz * 8) 1 - 1)"

text \<open>The value of the register at an aligned offset.\<close>

definition mio_reg :: "u32 \<Rightarrow> 'a macio_scheme \<Rightarrow> u32" where
  "mio_reg r s =
     (if r = MIO_INT_EVENTS2 then ucast (drop_bit 32 (mio_int_events s AND mio_int_mask s))
      else if r = MIO_INT_MASK2 then ucast (drop_bit 32 (mio_int_mask s))
      else if r = MIO_INT_LEVELS2 then ucast (drop_bit 32 (mio_int_levels s))
      else if r = MIO_INT_EVENTS1 then ucast (mio_int_events s AND mio_int_mask s)
      else if r = MIO_INT_MASK1 then ucast (mio_int_mask s)
      else if r = MIO_INT_LEVELS1 then ucast (mio_int_levels s)
      else if r = MIO_OHARE_ID then
        push_bit 24 (ucast (fp_id s)) OR push_bit 16 (ucast (mon_id s)) OR push_bit 8 (ucast (mb_id s)) OR ucast (cpu_id s)
      else if r = MIO_OHARE_FEAT_CTRL then feat_ctrl s
      else 0)"

definition mio_ctrl_read :: "u32 \<Rightarrow> nat \<Rightarrow> 'a macio_scheme \<Rightarrow> u32" where
  "mio_ctrl_read offset sz s =
     (let value = mio_reg (offset AND NOT 3) s; pos = unat (offset AND 3)
      in if (offset OR of_nat sz) AND 3 = 0 then BYTESWAP_32 value
         else if pos + sz \<le> 4 then BYTESWAP_SIZED (drop_bit (pos * 8) value) sz AND ucast (push_bit (sz * 8) 1 - 1 :: u64)
         else ucast (REG_READ_HELPER (BYTESWAP_32 value) (BYTESWAP_32 (mio_reg ((offset AND NOT 3) + 4) s)) pos sz))"

text \<open>The value that \<open>mio_ctrl_write\<close> makes of its argument and the old content of the register.\<close>

definition mio_write_value :: "u32 \<Rightarrow> u32 \<Rightarrow> nat \<Rightarrow> 'a macio_scheme \<Rightarrow> u32" where
  "mio_write_value offset value sz s =
     (let mask = ucast (push_bit (sz * 8) 1 - 1 :: u64) :: u32; pos = unat (offset AND 3)
      in if (offset OR of_nat sz) AND 3 = 0 then BYTESWAP_32 value
         else let value = push_bit (pos * 8) (BYTESWAP_SIZED value sz); mask = push_bit pos mask
              in if offset \<le> MIO_OHARE_ENTRY_SPT \<or> offset \<ge> MIO_OHARE_FEAT_CTRL
                 then mio_ctrl_read (offset AND NOT 3) 4 s AND NOT mask OR value else value)"

definition feature_control :: "u32 \<Rightarrow> 'a macio_scheme \<Rightarrow> 'a macio_scheme" where
  "feature_control value s = s\<lparr>feat_ctrl := value\<rparr>"

definition mio_ctrl_write :: "u32 \<Rightarrow> u32 \<Rightarrow> nat \<Rightarrow> 'a macio_scheme \<Rightarrow> (unit, 'a macio_scheme) outcome" where
  "mio_ctrl_write offset value sz s =
     (let value = mio_write_value offset value sz s; r = offset AND NOT 3
      in if r = MIO_INT_MASK2 then
           mio_signal_cpu_int (mio_clear_cpu_int (s\<lparr>mio_int_mask :=
             mio_int_mask s AND 0x80000000FFFFFFFF OR push_bit 32 (ucast (value AND NOT MACIO_INT_MODE))\<rparr>))
         else if r = MIO_INT_CLEAR2 then
           Ret () (mio_clear_cpu_int (s\<lparr>mio_int_events := mio_int_events s AND NOT (push_bit 32 (ucast (value AND 0x7FFFFFFF)))\<rparr>))
         else if r = MIO_INT_MASK1 then
           let m = mio_int_mask s AND 0x7FFFFFFF00000000 OR ucast value
           in mio_signal_cpu_int (mio_clear_cpu_int (s\<lparr>mio_int_mask := m OR push_bit 32 (m AND 0x80000000)\<rparr>))
         else if r = MIO_INT_CLEAR1 then
           if tst (mio_int_mask s) 0x80000000 \<and> tst value MACIO_INT_CLR then Ret () (mio_clear_cpu_int (s\<lparr>mio_int_events := 0\<rparr>))
           else mio_clear_dma_int value (mio_clear_cpu_int (s\<lparr>mio_int_events := mio_int_events s AND NOT (ucast (value AND 0x7FFFFFFF))\<rparr>))
         else if r = MIO_OHARE_FEAT_CTRL then Ret () (feature_control value s)
         else if r = MIO_HEATH_AUX_CTRL then Ret () (s\<lparr>aux_ctrl := value\<rparr>)
         else Ret () s)"

subsection \<open>Register access\<close>

definition mio_dma_channels :: "nat list" where
  "mio_dma_channels = [0, 1, 2, 3, 4, 5, 6, 7, 8, 0xB, 0xC]"

text \<open>O'Hare has no Ethernet cell: its pointers are not set.\<close>

definition no_cell :: "'a macio_scheme \<Rightarrow> bool" where
  "no_cell s \<longleftrightarrow> mio_device_id s = MIO_DEV_ID_OHARE"

definition mio_dma_read :: "'a macio_scheme mio_env \<Rightarrow> u32 \<Rightarrow> nat \<Rightarrow> 'a macio_scheme \<Rightarrow> (u32, 'a macio_scheme) outcome option" where
  "mio_dma_read e offset sz s =
     (let ch = unat (drop_bit 8 offset)
      in if ch \<notin> set mio_dma_channels then Some (Ret 0 s)
         else if (ch = 2 \<or> ch = 3) \<and> no_cell s then Some (Abort ''null pointer'')
         else mio_dma_reg_read e ch (offset AND 0xFF) sz s)"

definition mio_dma_write :: "'a macio_scheme mio_env \<Rightarrow> u32 \<Rightarrow> u32 \<Rightarrow> nat \<Rightarrow> 'a macio_scheme \<Rightarrow> (unit, 'a macio_scheme) outcome option" where
  "mio_dma_write e offset value sz s =
     (let ch = unat (drop_bit 8 offset)
      in if ch \<notin> set mio_dma_channels then Some (Ret () s)
         else if (ch = 2 \<or> ch = 3) \<and> no_cell s then Some (Abort ''null pointer'')
         else mio_dma_reg_write e ch (offset AND 0xFF) value sz s)"

datatype mio_target = Mio_ctrl | Mio_dma | Mio_dev mio_dev u32 | Mio_nvram nat | Mio_none

definition mio_decode :: "u32 \<Rightarrow> mio_target" where
  "mio_decode offset =
     (let sub_addr = unat (drop_bit 12 offset AND 0x7F); r = drop_bit 4 offset AND 0xF
      in if sub_addr = 0 then Mio_ctrl
         else if sub_addr = 8 then Mio_dma
         else if sub_addr = 0x10 then Mio_dev Mio_mesh r
         else if sub_addr = 0x11 then Mio_dev Mio_bmac (offset AND 0xFFF)
         else if sub_addr = 0x12 \<and> offset AND 0xFF < 0x0C then Mio_dev Mio_escc (compat_to_macrisc ! unat (drop_bit 1 offset AND 0xF))
         else if sub_addr = 0x12 \<and> offset AND 0xFF < 0x60 then Mio_none
         else if sub_addr = 0x12 \<or> sub_addr = 0x13 then Mio_dev Mio_escc r
         else if sub_addr = 0x14 then Mio_dev Mio_snd (offset AND 0xFF)
         else if sub_addr = 0x15 then Mio_dev Mio_swim3 r
         else if sub_addr = 0x16 \<or> sub_addr = 0x17 then Mio_dev Mio_viacuda (drop_bit 9 offset AND 0xF)
         else if sub_addr = 0x20 then Mio_dev Mio_ide0 (drop_bit 4 offset AND 0xFF)
         else if sub_addr = 0x21 then Mio_dev Mio_ide1 (drop_bit 4 offset AND 0xFF)
         else if sub_addr \<ge> 0x60 then Mio_nvram (unat (drop_bit 4 offset AND 0x1FFF))
         else Mio_none)"

definition mio_read :: "'a macio_scheme mio_env \<Rightarrow> u32 \<Rightarrow> nat \<Rightarrow> 'a macio_scheme \<Rightarrow> (u32, 'a macio_scheme) outcome option" where
  "mio_read e offset sz s =
     (case mio_decode offset of
        Mio_ctrl \<Rightarrow> Some (Ret (mio_ctrl_read offset sz s) s)
      | Mio_dma \<Rightarrow> mio_dma_read e (offset AND 0x7FFF) sz s
      | Mio_dev d r \<Rightarrow>
          if d = Mio_ide1 \<and> \<not> has_ide_1 e then Some (Ret 0 s)
          else if d = Mio_bmac then
            if no_cell s then Some (Abort ''null pointer'')
            else map_option (\<lambda>o'. obind o' (\<lambda>v s. Ret (BYTESWAP_SIZED v sz) s)) (mio_sub_read e d r sz s)
          else mio_sub_read e d r sz s
      | Mio_nvram a \<Rightarrow> Some (case nvram_read_byte (mio_nvram s) a of None \<Rightarrow> Abort ''NVRAM address out of range'' | Some v \<Rightarrow> Ret (ucast v) s)
      | Mio_none \<Rightarrow> Some (Ret 0 s))"

definition mio_write :: "'a macio_scheme mio_env \<Rightarrow> u32 \<Rightarrow> u32 \<Rightarrow> nat \<Rightarrow> 'a macio_scheme \<Rightarrow> (unit, 'a macio_scheme) outcome option" where
  "mio_write e offset value sz s =
     (case mio_decode offset of
        Mio_ctrl \<Rightarrow> Some (mio_ctrl_write offset value sz s)
      | Mio_dma \<Rightarrow> mio_dma_write e (offset AND 0x7FFF) value sz s
      | Mio_dev d r \<Rightarrow>
          if d = Mio_ide1 \<and> \<not> has_ide_1 e then Some (Ret () s)
          else if d = Mio_bmac then
            if no_cell s then Some (Abort ''null pointer'') else mio_sub_write e d r (BYTESWAP_SIZED value sz) sz s
          else mio_sub_write e d r value sz s
      | Mio_nvram a \<Rightarrow>
          Some (case nvram_write_byte (unat (drop_bit 4 (offset - 0x60000))) (ucast value) (mio_nvram s) of
                  None \<Rightarrow> Abort ''NVRAM address out of range'' | Some n \<Rightarrow> Ret () (s\<lparr>mio_nvram := n\<rparr>))
      | Mio_none \<Rightarrow> Some (Ret () s))"

end
