(* ===== verification/MacIoExact.thy ===== *)
theory MacIoExact
  imports MacIo
begin

text \<open>
  Properties of the second generation I/O controllers: the interrupt pin follows the enabled events; reads of the control registers in
  any size and at any offset agree byte by byte, writes in parts do not; clearing a DMA interrupt forgets the lines of the second bank.
\<close>

subsection \<open>The interrupt pin\<close>

definition mio_pend :: "'a macio_scheme \<Rightarrow> bool" where
  "mio_pend s \<longleftrightarrow> tst (mio_int_events s) (mio_int_mask s)"

lemma mio_more: "mmu.more s = mmu.more t \<Longrightarrow> mio_int_mask s = mio_int_mask t \<and> mio_int_levels s = mio_int_levels t \<and>
    mio_int_events s = mio_int_events t \<and> mio_cpu_int_latch s = mio_cpu_int_latch t" for s t :: "'a macio_scheme"
  by (cases s; cases t; simp)

lemma mio_signal_eq:
  fixes s :: "'a macio_scheme"
  obtains t where "mio_signal_cpu_int s = Ret () t" "mio_int_mask t = mio_int_mask s" "mio_int_levels t = mio_int_levels s"
    "mio_int_events t = mio_int_events s" "mio_cpu_int_latch t = (mio_cpu_int_latch s \<or> mio_pend s)"
    "int_pin t = (int_pin s \<or> mio_pend s \<and> \<not> mio_cpu_int_latch s)"
proof (cases "mio_pend s \<and> \<not> mio_cpu_int_latch s")
  case True
  obtain t where t: "ppc_assert_int (s\<lparr>mio_cpu_int_latch := True\<rparr>) = Ret () t" "mmu.more t = mmu.more (s\<lparr>mio_cpu_int_latch := True\<rparr>)" "int_pin t"
    by (rule assert_int)
  then show thesis using that[of t] mio_more[OF t(2)] True by (simp add: mio_signal_cpu_int_def mio_pend_def)
next
  case False
  then show thesis using that[of s] by (auto simp: mio_signal_cpu_int_def mio_pend_def)
qed

lemma mio_signal_sel:
  "mio_signal_cpu_int s = Ret () t \<Longrightarrow> mio_int_mask t = mio_int_mask s \<and> mio_int_levels t = mio_int_levels s \<and> mio_int_events t = mio_int_events s"
  by (rule mio_signal_eq[of s]) simp

lemma mio_clear_sel [simp]:
  "mio_int_mask (mio_clear_cpu_int s) = mio_int_mask s" "mio_int_levels (mio_clear_cpu_int s) = mio_int_levels s"
  "mio_int_events (mio_clear_cpu_int s) = mio_int_events s"
  by (simp_all add: mio_clear_cpu_int_def ppc_release_int_def)

interpretation mio: irq_pin "mio_pend :: 'a macio_scheme \<Rightarrow> bool" mio_cpu_int_latch int_pin mio_signal_cpu_int mio_clear_cpu_int
proof
  fix s :: "'a macio_scheme"
  obtain t where "mio_signal_cpu_int s = Ret () t" "mio_int_mask t = mio_int_mask s" "mio_int_events t = mio_int_events s"
    "mio_cpu_int_latch t = (mio_cpu_int_latch s \<or> mio_pend s)" "int_pin t = (int_pin s \<or> mio_pend s \<and> \<not> mio_cpu_int_latch s)"
    by (rule mio_signal_eq)
  then show "\<exists>t. mio_signal_cpu_int s = Ret () t \<and> mio_pend t = mio_pend s \<and> mio_cpu_int_latch t = (mio_cpu_int_latch s \<or> mio_pend s) \<and>
      int_pin t = (int_pin s \<or> mio_pend s \<and> \<not> mio_cpu_int_latch s)"
    by (simp add: mio_pend_def)
qed (auto simp: mio_clear_cpu_int_def ppc_release_int_def mio_pend_def)

definition mio_inv :: "'a macio_scheme \<Rightarrow> bool" where
  "mio_inv s \<longleftrightarrow> mio_cpu_int_latch s = mio_pend s \<and> int_pin s = mio_cpu_int_latch s"

lemma mio_commute: "s\<lparr>mio_int_levels := l, mio_int_events := ev\<rparr> = s\<lparr>mio_int_events := ev, mio_int_levels := l\<rparr>"
  by (cases s) simp

lemma mio_raise:
  assumes "mio_inv s" "bits_of (mio_int_events s) \<subseteq> bits_of ev"
  shows "\<exists>t. mio_signal_cpu_int (s\<lparr>mio_int_events := ev, mio_int_levels := l\<rparr>) = Ret () t \<and> mio_inv t"
proof -
  let ?s = "s\<lparr>mio_int_events := ev, mio_int_levels := l\<rparr>"
  have "mio_cpu_int_latch ?s \<Longrightarrow> mio_pend ?s" "int_pin ?s = mio_cpu_int_latch ?s" using assms by (auto simp: mio_inv_def mio_pend_def tst_sets)
  then show ?thesis using mio.raise_ok[of ?s] by (auto simp: mio_inv_def)
qed

lemma mio_lower:
  assumes "mio_inv s" "bits_of ev \<subseteq> bits_of (mio_int_events s)"
  shows "mio_inv (mio_clear_cpu_int (s\<lparr>mio_int_events := ev\<rparr>))"
proof -
  let ?s = "s\<lparr>mio_int_events := ev\<rparr>"
  have "mio_pend ?s \<Longrightarrow> mio_cpu_int_latch ?s" "int_pin ?s = mio_cpu_int_latch ?s" using assms by (auto simp: mio_inv_def mio_pend_def tst_sets)
  then show ?thesis using mio.lower_ok[of ?s] by (simp add: mio_inv_def)
qed

lemma mio_settle: "mio_inv s \<Longrightarrow> \<exists>t. mio_signal_cpu_int (mio_clear_cpu_int (s\<lparr>mio_int_mask := m\<rparr>)) = Ret () t \<and> mio_inv t"
  using mio.settle_ok[of "s\<lparr>mio_int_mask := m\<rparr>"] by (auto simp: mio_inv_def)

lemma mio_levels_inv: "mio_inv (s\<lparr>mio_int_levels := l\<rparr>) = mio_inv s" "mio_inv (s\<lparr>feat_ctrl := f\<rparr>) = mio_inv s" "mio_inv (s\<lparr>aux_ctrl := f\<rparr>) = mio_inv s"
  by (simp_all add: mio_inv_def mio_pend_def)

lemma mio_ack_inv: "mio_inv s \<Longrightarrow> \<exists>t. mio_ack_int irq st s = Ret () t \<and> mio_inv t"
proof -
  assume inv: "mio_inv s"
  have "bits_of (mio_int_events s) \<subseteq> bits_of (mio_int_events s OR irq)" by (auto simp: bits_of_simps)
  then have "\<exists>t. mio_signal_cpu_int (s\<lparr>mio_int_levels := l, mio_int_events := mio_int_events s OR irq\<rparr>) = Ret () t \<and> mio_inv t" for l
    unfolding mio_commute by (rule mio_raise[OF inv])
  moreover have "mio_inv (s\<lparr>mio_int_levels := l, mio_int_events := mio_int_events s\<rparr>)" for l
    using inv by (simp add: mio_inv_def mio_pend_def)
  ultimately show ?thesis
    using inv by (simp add: mio_ack_int_def mio_ack_int_common_def Let_def mio_levels_inv)
qed

lemma mio_clear_dma_inv: "mio_inv s \<Longrightarrow> \<exists>t. mio_clear_dma_int v s = Ret () t \<and> mio_inv t"
proof -
  assume inv: "mio_inv s"
  have "\<exists>t. mio_signal_cpu_int (s\<lparr>mio_int_events := mio_int_events s OR x, mio_int_levels := l\<rparr>) = Ret () t \<and> mio_inv t" for x l
    by (rule mio_raise[OF inv]) (auto simp: bits_of_simps)
  then show ?thesis using inv unfolding mio_clear_dma_int_def Let_def by (auto simp: mio_levels_inv)
qed

lemma mio_write_inv: "mio_inv s \<Longrightarrow> \<exists>t. mio_ctrl_write off v sz s = Ret () t \<and> mio_inv t"
proof -
  assume inv: "mio_inv s"
  have low: "mio_inv (mio_clear_cpu_int (s\<lparr>mio_int_events := mio_int_events s AND x\<rparr>))" for x
    by (rule mio_lower[OF inv]) (auto simp: bits_of_simps)
  have zero: "mio_inv (mio_clear_cpu_int (s\<lparr>mio_int_events := 0\<rparr>))" by (rule mio_lower[OF inv]) (simp add: bits_of_simps)
  show ?thesis
    using mio_settle[OF inv] low zero mio_clear_dma_inv[OF low] inv
    unfolding mio_ctrl_write_def Let_def by (simp add: mio_levels_inv feature_control_def)
qed

text \<open>What can happen to the interrupt registers: a change of some lines, or a write of any size to a control register.\<close>

datatype mio_event = Mio_line u64 u8 | Mio_reg u32 u32 nat

fun mio_do :: "mio_event \<Rightarrow> 'a macio_scheme \<Rightarrow> (unit, 'a macio_scheme) outcome" where
  "mio_do (Mio_line irq st) s = mio_ack_int irq st s"
| "mio_do (Mio_reg off v sz) s = mio_ctrl_write off v sz s"

inductive mio_reach :: "'a macio_scheme \<Rightarrow> 'a macio_scheme \<Rightarrow> bool" where
  start: "mio_reach s s"
| step: "mio_reach s t \<Longrightarrow> mio_do ev t = Ret () u \<Longrightarrow> mio_reach s u"

lemma mio_do_inv: "mio_inv s \<Longrightarrow> \<exists>t. mio_do ev s = Ret () t \<and> mio_inv t"
  using mio_ack_inv mio_write_inv by (cases ev) auto

lemma mio_reach_inv: "mio_reach s t \<Longrightarrow> mio_inv s \<Longrightarrow> mio_inv t"
proof (induction rule: mio_reach.induct)
  case (step s t ev u)
  then show ?case using mio_do_inv[of t ev] by auto
qed

text \<open>
  C11: The interrupt pin follows the enabled events. In every state that line changes and writes of any size to the control
  registers lead to, the latch and the processor's pin are set exactly when an enabled event is there, and whatever comes next returns.
\<close>

theorem macio_pin_follows_events:
  assumes "mio_reach s t" "mio_cpu_int_latch s = tst (mio_int_events s) (mio_int_mask s)" "int_pin s = mio_cpu_int_latch s"
  shows "int_pin t = tst (mio_int_events t) (mio_int_mask t) \<and> mio_cpu_int_latch t = int_pin t \<and> (\<exists>u. mio_do ev t = Ret () u)"
  using mio_reach_inv[OF assms(1)] assms(2,3) mio_do_inv[of t ev] by (auto simp: mio_inv_def mio_pend_def)


subsection \<open>Reads of the control registers\<close>

text \<open>Byte \<open>j\<close> from the start of the register at \<open>r\<close>, little-endian, and the big-endian number of some bytes.\<close>

definition reg_byte :: "u32 \<Rightarrow> nat \<Rightarrow> 'a macio_scheme \<Rightarrow> u8" where
  "reg_byte r j s = (if j < 4 then ucast (drop_bit (8 * j) (mio_reg r s)) else ucast (drop_bit (8 * (j - 4)) (mio_reg (r + 4) s)))"

definition be_number :: "u8 list \<Rightarrow> u32" where
  "be_number bs = foldl (\<lambda>a b. push_bit 8 a OR ucast b) 0 bs"

lemma align_split:
  fixes r :: u32
  assumes "r AND 3 = 0" "p \<in> {0, 1, 2, 3}"
  shows "(r + p) AND NOT 3 = r" "(r + p) AND 3 = p"
proof -
  have three: "(3 :: u32) = mask 2" by (simp add: mask_eq_exp_minus_1)
  have p: "p AND NOT 3 = 0" "p AND 3 = p" using assms(2) by auto
  have r: "\<not> (bit r n \<and> bit (3 :: u32) n)" for n using assms(1) by (metis bit_and_iff bit_0_eq bot_apply bot_bool_def)
  have q: "bit p n \<Longrightarrow> bit (3 :: u32) n" for n using p(2) by (metis bit_and_iff)
  have "r + p = r OR p" by (rule disjunctive_add) (use r q in blast)
  moreover have "(r OR p) AND NOT 3 = r" by (rule bit_word_eqI) (use r q in \<open>auto simp: bit_simps\<close>)
  moreover have "(r OR p) AND 3 = p" by (rule bit_word_eqI) (use r q in \<open>auto simp: bit_simps\<close>)
  ultimately show "(r + p) AND NOT 3 = r" "(r + p) AND 3 = p" by simp_all
qed

lemma sized_bits:
  fixes v w :: u32
  shows "v AND 0xFF = be_number [ucast v]" 
    "BYTESWAP_SIZED v 2 AND 0xFFFF = be_number [ucast v, ucast (drop_bit 8 v)]"
    "BYTESWAP_32 v = be_number [ucast v, ucast (drop_bit 8 v), ucast (drop_bit 16 v), ucast (drop_bit 24 v)]"
  by (rule u32_eqI; unfold all_less_32; simp add: be_number_def BYTESWAP_SIZED_def BYTESWAP_16_def BYTESWAP_32_def bit_simps)+


lemma spanning_bits:
  fixes v w :: u32
  shows "ucast (REG_READ_HELPER (BYTESWAP_32 v) (BYTESWAP_32 w) 3 2) = be_number [ucast (drop_bit 24 v), ucast w]"
    "ucast (REG_READ_HELPER (BYTESWAP_32 v) (BYTESWAP_32 w) 1 4) = be_number [ucast (drop_bit 8 v), ucast (drop_bit 16 v), ucast (drop_bit 24 v), ucast w]"
    "ucast (REG_READ_HELPER (BYTESWAP_32 v) (BYTESWAP_32 w) 2 4) = be_number [ucast (drop_bit 16 v), ucast (drop_bit 24 v), ucast w, ucast (drop_bit 8 w)]"
    "ucast (REG_READ_HELPER (BYTESWAP_32 v) (BYTESWAP_32 w) 3 4) = be_number [ucast (drop_bit 24 v), ucast w, ucast (drop_bit 8 w), ucast (drop_bit 16 w)]"
  by (rule u32_eqI; unfold all_less_32; simp add: be_number_def REG_READ_HELPER_def BYTESWAP_32_def bit_simps)+

lemma ctrl_read_split:
  fixes r p :: u32
  assumes "r AND 3 = 0" "p \<in> {0, 1, 2, 3}"
  shows "mio_ctrl_read (r + p) sz s =
    (if (p OR of_nat sz) AND 3 = 0 then BYTESWAP_32 (mio_reg r s)
     else if unat p + sz \<le> 4 then BYTESWAP_SIZED (drop_bit (unat p * 8) (mio_reg r s)) sz AND ucast (push_bit (sz * 8) 1 - 1 :: u64)
     else ucast (REG_READ_HELPER (BYTESWAP_32 (mio_reg r s)) (BYTESWAP_32 (mio_reg (r + 4) s)) (unat p) sz))"
proof -
  note a = align_split[OF assms]
  have "((r + p) OR of_nat sz) AND 3 = ((r + p) AND 3) OR (of_nat sz AND 3)" by (rule bit_word_eqI) (auto simp: bit_simps)
  moreover have "(p OR of_nat sz) AND 3 = (p AND 3) OR (of_nat sz AND 3)" by (rule bit_word_eqI) (auto simp: bit_simps)
  moreover have "p AND 3 = p" using assms(2) by auto
  ultimately have "((r + p) OR of_nat sz) AND 3 = (p OR of_nat sz) AND 3" using a(2) by simp
  then show ?thesis unfolding mio_ctrl_read_def Let_def a by simp
qed

text \<open>
  C12: Reads of the control registers agree byte by byte. A read of one, two or four bytes at any offset gives the big-endian
  number of the bytes of the registers it covers, also where it is not aligned and where it reaches into the next register.
\<close>

theorem macio_reads_bytes:
  assumes "r AND 3 = 0" "p < 4" "sz \<in> {1, 2, 4}"
  shows "mio_ctrl_read (r + of_nat p) sz s = be_number (map (\<lambda>k. reg_byte r (p + k) s) [0..<sz])"
proof -
  have l: "[0..<1] = [0 :: nat]" "[0..<2] = [0, 1 :: nat]" "[0..<4] = [0, 1, 2, 3 :: nat]" by (simp_all add: upt_rec)
  note c = ctrl_read_split[OF assms(1)]
  have p: "p \<in> {0, 1, 2, 3}" using assms(2) by auto
  consider "sz = 1" | "sz = 2" | "sz = 4" using assms(3) by blast
  then show ?thesis
  proof cases
    case 1
    then show ?thesis using p c[of 0 1] c[of 1 1] c[of 2 1] c[of 3 1] by (auto simp: l reg_byte_def sized_bits(1) BYTESWAP_SIZED_def)
  next
    case 2
    then show ?thesis using p c[of 0 2] c[of 1 2] c[of 2 2] c[of 3 2] by (auto simp: l reg_byte_def sized_bits(2) spanning_bits)
  next
    case 3
    then show ?thesis
    proof (cases "p = 0")
      case True
      then show ?thesis using 3 c[of 0 4] by (simp add: l reg_byte_def sized_bits(3))
    next
      case False
      then show ?thesis using 3 p c[of 1 4] c[of 2 4] c[of 3 4] by (auto simp: l reg_byte_def spanning_bits spanning_bits(2)[unfolded One_nat_def])
    qed
  qed
qed


subsection \<open>Writes in parts\<close>

text \<open>
  C40: A byte written to a control register disturbs the other bytes. The old content is merged in byte-reversed: after a write of
  a byte to the first byte of the interrupt mask, that byte is the one written and the others are those of the
  reversed old mask, so that other interrupts are enabled and disabled.
\<close>

theorem macio_byte_write:
  assumes "mio_ctrl_write MIO_INT_MASK1 (ucast (v :: u8)) 1 s = Ret () t"
  shows "mio_reg MIO_INT_MASK1 t = BYTESWAP_32 (mio_reg MIO_INT_MASK1 s) AND NOT 0xFF OR ucast v"
proof -
  have m: "ucast (push_bit 8 1 - 1 :: u64) = (0xFF :: u32)" by simp
  have val: "mio_write_value MIO_INT_MASK1 (ucast v) 1 s = BYTESWAP_32 (mio_reg MIO_INT_MASK1 s) AND NOT 0xFF OR ucast v"
    by (simp add: mio_write_value_def mio_ctrl_read_def BYTESWAP_SIZED_def Let_def)
  let ?v = "mio_write_value MIO_INT_MASK1 (ucast v) 1 s"
  let ?m = "mio_int_mask s AND 0x7FFFFFFF00000000 OR ucast ?v" let ?m' = "?m OR push_bit 32 (?m AND 0x80000000)"
  have w: "mio_ctrl_write MIO_INT_MASK1 (ucast v) 1 s = mio_signal_cpu_int (mio_clear_cpu_int (s\<lparr>mio_int_mask := ?m'\<rparr>))"
    by (simp add: mio_ctrl_write_def Let_def)
  have "mio_int_mask t = ?m'"
    using mio_signal_sel[of "mio_clear_cpu_int (s\<lparr>mio_int_mask := ?m'\<rparr>)" t] assms unfolding w by simp
  moreover have "ucast ?m' = ?v" by (rule u32_eqI) (unfold all_less_32, simp add: bit_simps)
  moreover have "mio_reg MIO_INT_MASK1 t = ucast (mio_int_mask t)" by (simp add: mio_reg_def)
  ultimately show ?thesis by (simp only: val)
qed


subsection \<open>The second bank\<close>

lemma or_changes: "\<not> bit e i \<Longrightarrow> i < LENGTH('a) \<Longrightarrow> e \<noteq> e OR 2 ^ i" for e :: "'a::len word"
  by (auto dest!: arg_cong[of _ _ "\<lambda>w. bit w i"] simp: bit_simps)

text \<open>
  C39: Clearing a DMA interrupt forgets the lines of the second bank. In native mode, let a line of the second bank (such as
  Ethernet) be high with its event cleared. A write of any DMA flag to the first clear register lowers the stored level of that line;
  when its device then reports the unchanged high level, a new event is latched although the line has not moved.
\<close>

theorem macio_clear_forgets_lines:
  assumes "32 \<le> i" "i < 63" "bit (mio_int_levels s) i" "\<not> bit (mio_int_events s) i" "\<not> bit (mio_int_mask s) 31" "value AND 0x7FF \<noteq> 0"
    and "mio_cpu_int_latch s = tst (mio_int_events s) (mio_int_mask s)" "int_pin s = mio_cpu_int_latch s"
  shows "\<exists>t u. mio_ctrl_write MIO_INT_CLEAR1 (BYTESWAP_32 value) 4 s = Ret () t \<and> \<not> bit (mio_int_levels t) i \<and>
    mio_ack_int (push_bit i 1) 1 t = Ret () u \<and> bit (mio_int_events u) i \<and> (bit (mio_int_mask s) i \<longrightarrow> int_pin u)"
proof -
  have mode: "\<not> tst (mio_int_mask s) 0x80000000" using assms(5) tst_pow2[of "mio_int_mask s" 31] by simp
  let ?e = "mio_int_events s AND NOT (ucast (value AND 0x7FFFFFFF))" let ?s = "mio_clear_cpu_int (s\<lparr>mio_int_events := ?e\<rparr>)"
  let ?l = "mio_int_levels s AND ucast (NOT (value AND 0x7FF))" let ?t = "?s\<lparr>mio_int_levels := ?l\<rparr>"
  have inv: "mio_inv s" using assms(7,8) by (simp add: mio_inv_def mio_pend_def)
  have "mio_write_value MIO_INT_CLEAR1 (BYTESWAP_32 value) 4 s = value" by (simp add: mio_write_value_def BYTESWAP_32_involution Let_def)
  then have w: "mio_ctrl_write MIO_INT_CLEAR1 (BYTESWAP_32 value) 4 s = mio_clear_dma_int value ?s"
    using mode by (simp add: mio_ctrl_write_def Let_def)
  also have "\<dots> = Ret () ?t" using mode assms(6) unfolding mio_clear_dma_int_def Let_def by simp
  finally have t: "mio_ctrl_write MIO_INT_CLEAR1 (BYTESWAP_32 value) 4 s = Ret () ?t" .
  have inv_t: "mio_inv ?t" using mio_write_inv[OF inv] t by (metis outcome.inject(1))
  have low: "\<not> bit ?l i" using assms(1) by (auto simp: bit_simps)
  have ev: "\<not> bit (mio_int_events ?t) i" using assms(4) by (simp add: bit_simps)
  let ?u = "?t\<lparr>mio_int_levels := ?l OR 2 ^ i, mio_int_events := ?e OR 2 ^ i\<rparr>"
  have ne: "?e \<noteq> ?e OR 2 ^ i"
    by (rule or_changes) (use assms(2,4) in \<open>simp_all add: bit_simps\<close>)
  obtain u where u: "mio_ack_int (push_bit i 1) 1 ?t = Ret () u" "mio_inv u" using mio_ack_inv[OF inv_t] by blast
  have "mio_ack_int (push_bit i 1) 1 ?t = mio_signal_cpu_int ?u"
    using ne low by (simp add: mio_ack_int_def mio_ack_int_common_def Let_def tst_pow2)
  then have sel: "mio_int_events u = ?e OR 2 ^ i" "mio_int_mask u = mio_int_mask s" using mio_signal_sel[of ?u u] u(1) by simp_all
  have "bit (mio_int_events u) i" using assms(2) by (simp add: sel bit_simps)
  moreover have "int_pin u" if "bit (mio_int_mask s) i"
    using u(2) sel(2) calculation that by (auto simp: mio_inv_def mio_pend_def tst_sets bits_of_def)
  ultimately show ?thesis using t u(1) low by auto
qed


subsection \<open>Witnesses\<close>

text \<open>A Heathrow with the Ethernet line (42) high and enabled.\<close>

definition heathrow :: macio where
  "heathrow = timebase.extend (tb_machine\<lparr>msr := 0, int_pin := False\<rparr>)
     \<lparr>mio_device_id = 0x10, mio_int_mask = 2 ^ 42 OR 0x100, mio_int_levels = 2 ^ 42, mio_int_events = 0, mio_cpu_int_latch = False,
      feat_ctrl = 0, aux_ctrl = 0, cpu_id = 0xF0, mb_id = 0x70, mon_id = 0x10, fp_id = 0x70, mio_nvram = new_NVram 8192 None\<rparr>"

lemma heathrow_sel [simp]:
  "mio_int_mask heathrow = 2 ^ 42 OR 0x100" "mio_int_levels heathrow = 2 ^ 42" "mio_int_events heathrow = 0"
  "mio_cpu_int_latch heathrow = False" "int_pin heathrow = False" "cpu_id heathrow = 0xF0" "mb_id heathrow = 0x70" "mon_id heathrow = 0x10"
  "fp_id heathrow = 0x70"
  by (simp_all add: heathrow_def timebase.defs)

theorem macio_pin_follows_events_witness:
  "\<exists>t. mio_do (Mio_line (2 ^ 42) 0) heathrow = Ret () t \<and> int_pin t = tst (mio_int_events t) (mio_int_mask t)"
proof -
  have init: "mio_cpu_int_latch heathrow = tst (mio_int_events heathrow) (mio_int_mask heathrow)" "int_pin heathrow = mio_cpu_int_latch heathrow"
    by (simp_all add: tst_def)
  then obtain t where t: "mio_do (Mio_line (2 ^ 42) 0) heathrow = Ret () t"
    using macio_pin_follows_events[OF mio_reach.start, of heathrow] by blast
  then have "mio_reach heathrow t" by (rule mio_reach.step[OF mio_reach.start])
  from macio_pin_follows_events[OF this init] t show ?thesis by blast
qed

theorem macio_reads_bytes_witness: "mio_ctrl_read 0x36 4 heathrow = 0x10700000"
proof -
  have r: "mio_reg 0x34 heathrow = 0x701070F0" by (simp add: mio_reg_def push_bit_eq_mult)
  have f: "mio_reg 0x38 heathrow = 0" by (simp add: mio_reg_def heathrow_def timebase.defs)
  have l: "[0..<4] = [0, 1, 2, 3 :: nat]" by (simp add: upt_rec)
  have "mio_ctrl_read (0x34 + of_nat 2) 4 heathrow = be_number (map (\<lambda>k. reg_byte 0x34 (2 + k) heathrow) [0..<4])"
    by (rule macio_reads_bytes) simp_all
  then show ?thesis by (simp add: l reg_byte_def r f be_number_def drop_bit_eq_div push_bit_eq_mult)
qed

theorem macio_byte_write_witness:
  "\<exists>t. mio_ctrl_write 0x24 2 1 heathrow = Ret () t \<and> mio_reg 0x24 t = 0x00010002"
proof -
  have "mio_inv heathrow" by (simp add: mio_inv_def mio_pend_def tst_def)
  then obtain t where t: "mio_ctrl_write 0x24 (ucast (2 :: u8)) 1 heathrow = Ret () t" using mio_write_inv by blast
  have "mio_reg 0x24 heathrow = 0x100" by (simp add: mio_reg_def)
  then have "mio_reg 0x24 t = 0x00010002" using macio_byte_write[OF t] by (simp add: BYTESWAP_32_def push_bit_eq_mult drop_bit_eq_div)
  with t show ?thesis by auto
qed

theorem macio_clear_forgets_lines_witness:
  "\<exists>t u. mio_ctrl_write 0x28 (BYTESWAP_32 2) 4 heathrow = Ret () t \<and> mio_ack_int (2 ^ 42) 1 t = Ret () u \<and> bit (mio_int_events u) 42 \<and> int_pin u"
proof -
  have b: "bit (2 ^ 42 :: u64) 42" "bit (2 ^ 42 OR 0x100 :: u64) 42" "\<not> bit (2 ^ 42 OR 0x100 :: u64) 31"
    using bit_exp_iff[where 'a = u64, of 42 42] by (simp_all add: bit_simps)
  show ?thesis using macio_clear_forgets_lines[of 42 heathrow 2] b by (auto simp: tst_def)
qed

end
