(* ===== verification/Spec2Isabelle.thy ===== *)
theory Spec2Isabelle
  imports PpcExecExact PpcFloatExact PpcVmemExact MachineId PpcAccessInv DbdmaExact OfNvramExact OfNvramHeap MacIoExact
begin

text \<open>
  A model of ChungusPPC, an emulator of PowerPC Macintosh computers (\<open>src/\<close>), and the theorems that
  make its parts correct.

  \<^bold>\<open>The program.\<close> The emulator interprets PowerPC code. \<open>cpu/ppc/ppcexec.cpp\<close> fetches and dispatches
  instructions, \<open>ppcopcodes.cpp\<close>, \<open>poweropcodes.cpp\<close> and \<open>ppcfpopcodes.cpp\<close> hold one handler per
  instruction, \<open>ppcexceptions.cpp\<close> delivers exceptions, \<open>ppcmmu.cpp\<close> translates addresses through
  two levels of software TLBs in front of the architected block and page translation.
  \<open>devices/memctrl/memctrlbase.cpp\<close> maps physical addresses to host memory and to memory-mapped
  devices, \<open>core/timermanager.cpp\<close> runs the timers the devices and the time base are built on.

  \<^bold>\<open>How it is modelled.\<close> C++ globals and objects are records and state is passed explicitly. The
  processor state is a chain of records, each extending the one before: \<^typ>\<open>SetPRS\<close> (the
  architected registers), \<^typ>\<open>cpu\<close> (execution control), \<^typ>\<open>mmu\<close> (the software TLBs, BATs, TLBs of
  the 603 and the memory controller), \<^typ>\<open>timebase\<close> (clocks and timers), \<^typ>\<open>fpu\<close> (the host's floating
  point environment), \<^typ>\<open>interp\<close> (the opcode table). An operation is polymorphic in the part of the chain it does
  not touch. Machine integers are words of their width. A handler that may leave through
  \<open>longjmp\<close>, a C++ exception or \<open>ABORT_F\<close> gives an \<^typ>\<open>('v, 's) outcome\<close>. Host memory is a function from
  64-bit addresses to bytes, a host pointer is its address. The model follows the default build:
  big-endian guest, little-endian host, no profiling counters, no log output.

  \<^bold>\<open>The theories.\<close>

  \<^item> \<open>Prelude\<close>: word types, the \<open>outcome\<close> monad, shared word lemmas and the collections \<open>bits\<close>,
    \<open>nums\<close> and \<open>frame\<close>.
  \<^item> \<open>CoreUtils\<close>: \<open>core/bitops.h\<close>, \<open>mathutils.h\<close>, \<open>endianswap.h\<close>, \<open>memaccess.h\<close>; the 128-bit
    product is exact, byte swaps and accessors are inverse.
  \<^item> \<open>TimerManager\<close>: \<open>core/timermanager.cpp\<close>; the priority queue meets the contract \<open>min_queue\<close>, due
    timers run once and in order and are armed again in phase if they are cyclic, processing terminates.
    \<open>process_loop\<close> may run for ever when callbacks keep arming due timers, so it is a
    \<open>partial_function\<close> and that it returns is a theorem.
  \<^item> \<open>MemCtrl\<close>: the address map of \<open>memctrlbase.cpp\<close>; both kinds of regions meet the contract
    \<open>address_space\<close>: what is added is found, what was there is kept; building a map refines a partial function from
    addresses to entries.
  \<^item> \<open>PpcState\<close>: registers, enumerations, operand fields.
  \<^item> \<open>PpcInteger\<close>, \<open>PpcIntegerExact\<close>: the integer handlers of \<open>ppcopcodes.cpp\<close> against exact
    arithmetic: carry, overflow, division, products, shifts, rotates, compares.
  \<^item> \<open>PowerOpcodes\<close>: the POWER instructions of the 601, including the MQ register pairs.
  \<^item> \<open>SoftTlb\<close>: the software TLBs; tracking of translated entries, deferred invalidation (the contract
    \<open>translation_context\<close>), replacement, mode switch.
  \<^item> \<open>PpcExceptions\<close>: exception entry; \<open>PpcSystem\<close>: branches, \<open>rfi\<close>, \<open>sc\<close>, segment registers and the
    moves to and from system registers.
  \<^item> \<open>PpcMmu\<close>: block and page translation, the TLBs of the 603, refills, DMA mapping and
    initialization. \<open>PpcMmuInv\<close>: the tracking invariant through translation and refills. \<open>PpcMmuFetch\<close>: the
    fast path of instruction fetch agrees with the slow one. \<open>PpcMmuTables\<close>: BAT updates, the
    place of the page table, loads of the 603 TLBs. \<open>PpcMmuWalk\<close>: page translation refines the
    architected walk. \<open>PpcMmuDma\<close>: DMA mappings are contiguous.
  \<^item> \<open>PpcVmem\<close>, \<open>PpcLoadStore\<close>: data accesses and the load and store instructions. \<open>PpcVmemExact\<close>: all
    paths of an access have one meaning, byte by byte; stores and loads are inverse.
  \<^item> \<open>PpcSpr\<close>: \<open>mtspr\<close>, \<open>mfspr\<close>, \<open>mftb\<close>, virtual time, the decrementer and the thermal timer, on top of
    \<open>TimerManager\<close>; the time base counts, the decrementer interrupt comes when its count has run
    out. The host's clock is a stream of readings in the state.
  \<^item> \<open>PpcFloat\<close>: \<open>ppcfpopcodes.cpp\<close>. The arithmetic of the host's floating point unit is a parameter (the
    record \<open>host_fpu\<close>, by rounding mode); classification, comparison and conversion are computed on the bit
    patterns. \<open>PpcFloatExact\<close>: conversions and compares against the real numbers the patterns denote.
  \<^item> \<open>PpcOpcodeTable\<close>: \<open>initialize_ppc_opcode_table\<close> row by row, with and without FPU, and dispatch.
    \<open>PpcExec\<close>: timer events, execution blocks, the inner and outer loops, single stepping and
    \<open>ppc_cpu_init\<close>. The loops run until power goes off, so they are partial functions into \<open>option\<close>.
    \<open>PpcExecExact\<close>: the inner loop and single stepping go through the same states; the next
    timer poll comes within two instruction periods after the deadline.
  \<^item> \<open>MachineId\<close>: the machine identification registers as devices, and the contract \<open>mmio_bus\<close> under
    which loads and stores keep the MMU consistent. \<open>PpcAccessInv\<close>: the tracking invariant in every state that the
    operations of the MMU lead to from its initialization, and through every instruction that accesses memory; the
    contract \<open>mmio_bus\<close> holds of the Grand Central controller.

  \<^item> \<open>Dbdma\<close>: the channels of \<open>dbdma.cpp\<close>; the record \<^typ>\<open>dbdma\<close> extends the machine with one channel, the
    device of the channel, its interrupt and its callbacks are parameters. The interpreter may not
    return, so it gives an option. \<open>DbdmaExact\<close>: programs of transfers run to their end and write
    back their status, a program that loops is stopped, one that waits is not.
  \<^item> \<open>Nvram\<close>: \<open>nvram.cpp\<close>, its backing file, and the IOBus devices of \<open>macio.h\<close> that address it. \<open>OfNvram\<close>: the Open Firmware
    variables of \<open>ofnvram.cpp\<close> in both partition formats. \<open>OfNvramExact\<close>: the CHRP partition is
    parsed as it was printed, and setting a variable changes that variable only. \<open>OfNvramHeap\<close>: the same for
    the string heap and the checksum of Apple's partition.

  \<^item> \<open>GrandCentral\<close>: the interrupt controller, the IOBus and the register decoding of \<open>grandcentral.cpp\<close>; its devices and
    DMA channels are a record of parameters. \<open>GrandCentralExact\<close>: the contract \<open>irq_pin\<close> between latch, processor pin and
    enabled events, the refinement of an abstract interrupt controller, delivery and acknowledgement through the
    processor's exceptions, the NVRAM as the guest reaches it.
  \<^item> \<open>MacIo\<close>: the same for \<open>maciobase.cpp\<close> and \<open>maciotwo.cpp\<close> (O'Hare, Heathrow, Paddington). \<open>MacIoExact\<close>: the contract
    \<open>irq_pin\<close> again, reads of any size, and two defects of the control registers.

  \<^bold>\<open>Devices\<close> are reached through the virtual functions of \<open>MMIODevice\<close>; they are a parameter (the
  record \<open>bus\<close>) of the definitions that access memory.

  \<^bold>\<open>Not modelled.\<close> The disassembler, the debugger, the host front ends and back ends (SDL, audio,
  network, files) are input and output. The other devices (VIA and Cuda, ADB, I2C, PCI, ATA,
  SCSI, floppy, serial, video, sound, Ethernet, AMIC, the registers of the memory controllers)
  and the machine descriptions are not modelled yet.
\<close>

end
